theory Spec2Isabelle
  imports Complex_Main
begin

section \<open>Gradient reconstruction engine (cs\_gradient.cxx)\<close>

text \<open>
  Shallow embedding of the gradient kernels of \<^verbatim>\<open>src/alge/cs_gradient.cxx\<close>.
  \<^verbatim>\<open>cs_real_t\<close> is modelled by \<^typ>\<open>real\<close> (exact arithmetic), \<^verbatim>\<open>cs_lnum_t\<close>
  indices by \<^typ>\<open>nat\<close>, C arrays by lists. A fixed-size array such as
  \<^verbatim>\<open>cs_real_3_t\<close> or \<^verbatim>\<open>cs_cocg_6_t\<close> is a list of that length. Division by zero
  (undefined on the reals, infinite or NaN in floating point) only occurs on degenerate
  geometry, which the engine documents as a precondition; the theorems below state
  non-degeneracy wherever they divide.
\<close>

type_synonym cs_real_t = real
type_synonym cs_real_3_t = "real list"
type_synonym cs_cocg_6_t = "real list"
type_synonym cs_real_33_t = "real list list"

subsection \<open>Small dense kernels\<close>

text \<open>\<^verbatim>\<open>_math_6_inv_cramer_sym_in_place\<close>: in-place inverse of a symmetric 3x3 matrix
  stored as \<open>[xx, yy, zz, xy, yz, xz]\<close>.\<close>

definition math_6_inv_cramer_sym_in_place :: "cs_cocg_6_t \<Rightarrow> cs_cocg_6_t" where
  "math_6_inv_cramer_sym_in_place a =
    (let a00 = a!1 * a!2 - a!4 * a!4;
         a01 = a!4 * a!5 - a!3 * a!2;
         a02 = a!3 * a!4 - a!1 * a!5;
         a11 = a!0 * a!2 - a!5 * a!5;
         a12 = a!3 * a!5 - a!0 * a!4;
         a22 = a!0 * a!1 - a!3 * a!3;
         det_inv = 1 / (a!0 * a00 + a!3 * a01 + a!5 * a02)
     in a[0 := a00 * det_inv, 1 := a11 * det_inv, 2 := a22 * det_inv,
          3 := a01 * det_inv, 4 := a12 * det_inv, 5 := a02 * det_inv])"

text \<open>The full symmetric matrix a packed array stands for, row by row.\<close>

definition sym6_to_33 :: "cs_cocg_6_t \<Rightarrow> cs_real_33_t" where
  "sym6_to_33 a = [[a!0, a!3, a!5], [a!3, a!1, a!4], [a!5, a!4, a!2]]"

definition sym6_det :: "cs_cocg_6_t \<Rightarrow> real" where
  "sym6_det a = a!0 * (a!1 * a!2 - a!4 * a!4) + a!3 * (a!4 * a!5 - a!3 * a!2)
              + a!5 * (a!3 * a!4 - a!1 * a!5)"

definition mat33_mult :: "cs_real_33_t \<Rightarrow> cs_real_33_t \<Rightarrow> cs_real_33_t" where
  "mat33_mult p q =
     map (\<lambda>i. map (\<lambda>j. p!i!0 * q!0!j + p!i!1 * q!1!j + p!i!2 * q!2!j) [0, 1, 2]) [0, 1, 2]"

definition mat33_id :: cs_real_33_t where
  "mat33_id = [[1, 0, 0], [0, 1, 0], [0, 0, 1]]"

definition mat33_det :: "cs_real_33_t \<Rightarrow> real" where
  "mat33_det a = a!0!0 * (a!1!1 * a!2!2 - a!2!1 * a!1!2)
               - a!1!0 * (a!0!1 * a!2!2 - a!2!1 * a!0!2)
               + a!2!0 * (a!0!1 * a!1!2 - a!1!1 * a!0!2)"

text \<open>Modelled from the spec: \<^verbatim>\<open>cs_math_33_inv_cramer_in_place\<close> is defined in
  \<^verbatim>\<open>cs_math.h\<close>, which is not part of the sources at hand; the specification describes
  it as the in-place Cramer's-rule inversion of a full 3x3 matrix (cofactors over the
  determinant).\<close>

definition cs_math_33_inv_cramer_in_place :: "cs_real_33_t \<Rightarrow> cs_real_33_t" where
  "cs_math_33_inv_cramer_in_place a =
    (let a00 = a!1!1 * a!2!2 - a!2!1 * a!1!2;
         a01 = a!2!1 * a!0!2 - a!0!1 * a!2!2;
         a02 = a!0!1 * a!1!2 - a!1!1 * a!0!2;
         a10 = a!2!0 * a!1!2 - a!1!0 * a!2!2;
         a11 = a!0!0 * a!2!2 - a!2!0 * a!0!2;
         a12 = a!1!0 * a!0!2 - a!0!0 * a!1!2;
         a20 = a!1!0 * a!2!1 - a!2!0 * a!1!1;
         a21 = a!2!0 * a!0!1 - a!0!0 * a!2!1;
         a22 = a!0!0 * a!1!1 - a!1!0 * a!0!1;
         det_inv = 1 / (a!0!0 * a00 + a!1!0 * a01 + a!2!0 * a02)
     in [[a00 * det_inv, a01 * det_inv, a02 * det_inv],
         [a10 * det_inv, a11 * det_inv, a12 * det_inv],
         [a20 * det_inv, a21 * det_inv, a22 * det_inv]])"


subsection \<open>Macros and constants\<close>

text \<open>\<^verbatim>\<open>CS_ABS\<close>, \<^verbatim>\<open>CS_MIN\<close>, \<^verbatim>\<open>CS_MAX\<close> are the usual comparison macros of
  \<^verbatim>\<open>cs_defs.h\<close>.\<close>

definition CS_ABS :: "real \<Rightarrow> real" where
  "CS_ABS a = (if a < 0 then - a else a)"

definition CS_MIN :: "real \<Rightarrow> real \<Rightarrow> real" where
  "CS_MIN a b = (if a < b then a else b)"

definition CS_MAX :: "real \<Rightarrow> real \<Rightarrow> real" where
  "CS_MAX a b = (if a > b then a else b)"

text \<open>The largest finite double, \<open>(2 - 2\<^sup>-\<^sup>5\<^sup>2) \<sqdot> 2\<^sup>1\<^sup>0\<^sup>2\<^sup>3\<close>.\<close>

definition DBL_MAX :: real where
  "DBL_MAX = (2 ^ 53 - 1) * 2 ^ 971"

definition cs_math_epzero :: real where
  "cs_math_epzero = 1 / 10 ^ 12"

text \<open>\<^verbatim>\<open>cs_gradient_limit_t\<close> is declared in \<^verbatim>\<open>cs_gradient.h\<close>. The callers cast plain
  integers to it and \<^verbatim>\<open>_vector_gradient_clipping\<close> compares the mode with the literals
  \<open>0\<close> (cell-based) and \<open>1\<close> (face-based) and returns for \<open>clip_mode < 0\<close>, which fixes
  the values of the three enumerators.\<close>

definition CS_GRADIENT_LIMIT_NONE :: int where "CS_GRADIENT_LIMIT_NONE = - 1"
definition CS_GRADIENT_LIMIT_CELL :: int where "CS_GRADIENT_LIMIT_CELL = 0"
definition CS_GRADIENT_LIMIT_FACE :: int where "CS_GRADIENT_LIMIT_FACE = 1"

subsection \<open>Mesh, mesh quantities and external primitives\<close>

datatype cs_halo_type_t = CS_HALO_STANDARD | CS_HALO_EXTENDED

text \<open>The halo exchange is an external primitive (\<^verbatim>\<open>cs_halo.h\<close>, \<^verbatim>\<open>cs_halo_perio.h\<close>); a
  halo is modelled by the functions it applies to the arrays handed to it.\<close>

record cs_halo_t =
  cs_halo_sync_var :: "cs_halo_type_t \<Rightarrow> real list \<Rightarrow> real list"
  cs_halo_sync_var_strided :: "cs_halo_type_t \<Rightarrow> real list list \<Rightarrow> real list list"
  cs_halo_perio_sync_var_vect :: "cs_halo_type_t \<Rightarrow> real list list \<Rightarrow> real list list"
  cs_halo_sync_var_strided_9 :: "cs_halo_type_t \<Rightarrow> real list list list \<Rightarrow> real list list list"
  cs_halo_perio_sync_var_tens :: "cs_halo_type_t \<Rightarrow> real list list list \<Rightarrow> real list list list"

record cs_numbering_t =
  n_threads :: nat
  n_groups :: nat
  group_index :: "nat list"

record cs_mesh_t =
  n_domains :: nat
  n_cells :: nat
  n_cells_with_ghosts :: nat
  n_i_faces :: nat
  n_b_faces :: nat
  n_b_cells :: nat
  i_face_cells :: "nat list list"
  b_face_cells :: "nat list"
  b_cells :: "nat list"
  cell_cells_idx :: "nat list option"
  cell_cells_lst :: "nat list"
  i_face_numbering :: cs_numbering_t
  b_face_numbering :: cs_numbering_t
  halo :: "cs_halo_t option"
  have_rotation_perio :: bool

record cs_mesh_quantities_t =
  cell_cen :: "cs_real_3_t list"
  cell_vol :: "real list"
  cell_f_vol :: "real list"
  i_face_normal :: "cs_real_3_t list"
  b_face_normal :: "cs_real_3_t list"
  i_f_face_normal :: "cs_real_3_t list"
  b_f_face_normal :: "cs_real_3_t list"
  i_face_cog :: "cs_real_3_t list"
  b_face_cog :: "cs_real_3_t list"
  b_face_surf :: "real list"
  b_dist :: "real list"
  weight :: "real list"
  dofij :: "cs_real_3_t list"
  diipb :: "cs_real_3_t list"
  corr_grad_lin :: "cs_real_33_t list"
  has_disable_flag :: nat
  c_disable_flag :: "nat list"

text \<open>MPI reductions (\<^verbatim>\<open>MPI_Allreduce\<close> over \<^verbatim>\<open>cs_glob_mpi_comm\<close>) as seen from this rank.\<close>

record cs_mpi_t =
  cs_glob_n_ranks :: nat
  mpi_allreduce_sum :: "real \<Rightarrow> real"
  mpi_allreduce_min :: "real \<Rightarrow> real"
  mpi_allreduce_max :: "real \<Rightarrow> real"
  mpi_allreduce_sum_gnum :: "nat \<Rightarrow> nat"

text \<open>Lines written by \<^verbatim>\<open>bft_printf\<close>.\<close>

datatype log_msg =
    Clip_info string nat real real
  | Clip_info_vector string nat real real
  | Converged_info string nat real real
  | Sweep_warning string nat real real

subsection \<open>Face loops\<close>

text \<open>The interior face loop nest
  \<^verbatim>\<open>for g_id < n_groups: for t_id < n_threads: for f_id in [group_index[(t_id*n_groups + g_id)*2], group_index[(t_id*n_groups + g_id)*2 + 1])\<close>;
  the thread loop is an OpenMP loop whose iterations touch disjoint cells, run here in
  index order.\<close>

definition for_i_faces :: "cs_numbering_t \<Rightarrow> (nat \<Rightarrow> 's \<Rightarrow> 's) \<Rightarrow> 's \<Rightarrow> 's" where
  "for_i_faces nu body =
     fold (\<lambda>g_id.
       fold (\<lambda>t_id.
         fold body [group_index nu ! ((t_id * n_groups nu + g_id) * 2) ..<
                    group_index nu ! ((t_id * n_groups nu + g_id) * 2 + 1)])
         [0 ..< n_threads nu])
       [0 ..< n_groups nu]"

text \<open>The boundary face loop nest
  \<^verbatim>\<open>for t_id < n_threads: for f_id in [group_index[t_id*2], group_index[t_id*2 + 1])\<close>.\<close>

definition for_b_faces :: "cs_numbering_t \<Rightarrow> (nat \<Rightarrow> 's \<Rightarrow> 's) \<Rightarrow> 's \<Rightarrow> 's" where
  "for_b_faces nu body =
     fold (\<lambda>t_id. fold body [group_index nu ! (t_id * 2) ..< group_index nu ! (t_id * 2 + 1)])
       [0 ..< n_threads nu]"

text \<open>The extended neighbourhood loop nest
  \<^verbatim>\<open>for ii < n_cells: for cidx in [cell_cells_idx[ii], cell_cells_idx[ii+1])\<close>, the body
  receiving \<open>ii\<close> and \<open>cidx\<close>.\<close>

definition for_ext_neighbors :: "nat \<Rightarrow> nat list \<Rightarrow> (nat \<Rightarrow> nat \<Rightarrow> 's \<Rightarrow> 's) \<Rightarrow> 's \<Rightarrow> 's" where
  "for_ext_neighbors n idx body =
     fold (\<lambda>ii. fold (body ii) [idx ! ii ..< idx ! (ii + 1)]) [0 ..< n]"

text \<open>The interior (resp. boundary) faces in the order the loop nests visit them.\<close>

definition i_face_ids :: "cs_numbering_t \<Rightarrow> nat list" where
  "i_face_ids nu =
     concat (map (\<lambda>g_id. concat (map (\<lambda>t_id.
       [group_index nu ! ((t_id * n_groups nu + g_id) * 2) ..<
        group_index nu ! ((t_id * n_groups nu + g_id) * 2 + 1)]) [0 ..< n_threads nu]))
       [0 ..< n_groups nu])"

definition b_face_ids :: "cs_numbering_t \<Rightarrow> nat list" where
  "b_face_ids nu =
     concat (map (\<lambda>t_id. [group_index nu ! (t_id * 2) ..< group_index nu ! (t_id * 2 + 1)])
       [0 ..< n_threads nu])"

text \<open>\<^verbatim>\<open>_sync_scalar_gradient_halo\<close>.\<close>

definition sync_scalar_gradient_halo ::
  "cs_mesh_t \<Rightarrow> cs_halo_type_t \<Rightarrow> cs_real_3_t list \<Rightarrow> cs_real_3_t list" where
  "sync_scalar_gradient_halo m halo_type grad =
     (case halo m of
        None \<Rightarrow> grad
      | Some h \<Rightarrow>
          (let grad = cs_halo_sync_var_strided h halo_type grad
           in if have_rotation_perio m
              then cs_halo_perio_sync_var_vect h halo_type grad else grad))"


subsection \<open>Clipping of a scalar gradient (\<^verbatim>\<open>_scalar_gradient_clipping\<close>)\<close>

text \<open>Loop bodies of the first stage: \<open>denum\<close> holds the maximum variation of the
  gradient, \<open>denom\<close> the maximum variation of the variable.\<close>

definition clip_s_cell_face ::
  "cs_mesh_t \<Rightarrow> cs_mesh_quantities_t \<Rightarrow> real list \<Rightarrow> cs_real_3_t list \<Rightarrow> nat \<Rightarrow>
   real list \<times> real list \<Rightarrow> real list \<times> real list" where
  "clip_s_cell_face m fvq var grad f_id = (\<lambda>(denum, denom).
     let ii = i_face_cells m ! f_id ! 0;
         jj = i_face_cells m ! f_id ! 1;
         dist = map (\<lambda>ll. cell_cen fvq ! ii ! ll - cell_cen fvq ! jj ! ll) [0, 1, 2];
         dist1 = CS_ABS (dist!0 * grad!ii!0 + dist!1 * grad!ii!1 + dist!2 * grad!ii!2);
         dist2 = CS_ABS (dist!0 * grad!jj!0 + dist!1 * grad!jj!1 + dist!2 * grad!jj!2);
         dvar = CS_ABS (var!ii - var!jj);
         denum = denum[ii := CS_MAX (denum!ii) dist1];
         denum = denum[jj := CS_MAX (denum!jj) dist2];
         denom = denom[ii := CS_MAX (denom!ii) dvar];
         denom = denom[jj := CS_MAX (denom!jj) dvar]
     in (denum, denom))"

definition clip_s_cell_ext ::
  "cs_mesh_t \<Rightarrow> cs_mesh_quantities_t \<Rightarrow> real list \<Rightarrow> cs_real_3_t list \<Rightarrow> nat \<Rightarrow> nat \<Rightarrow>
   real list \<times> real list \<Rightarrow> real list \<times> real list" where
  "clip_s_cell_ext m fvq var grad ii cidx = (\<lambda>(denum, denom).
     let jj = cell_cells_lst m ! cidx;
         dist = map (\<lambda>ll. cell_cen fvq ! ii ! ll - cell_cen fvq ! jj ! ll) [0, 1, 2];
         dist1 = CS_ABS (dist!0 * grad!ii!0 + dist!1 * grad!ii!1 + dist!2 * grad!ii!2);
         dvar = CS_ABS (var!ii - var!jj);
         denum = denum[ii := CS_MAX (denum!ii) dist1];
         denom = denom[ii := CS_MAX (denom!ii) dvar]
     in (denum, denom))"

definition clip_s_face_face ::
  "cs_mesh_t \<Rightarrow> cs_mesh_quantities_t \<Rightarrow> real list \<Rightarrow> cs_real_3_t list \<Rightarrow> nat \<Rightarrow>
   real list \<times> real list \<Rightarrow> real list \<times> real list" where
  "clip_s_face_face m fvq var grad f_id = (\<lambda>(denum, denom).
     let ii = i_face_cells m ! f_id ! 0;
         jj = i_face_cells m ! f_id ! 1;
         dist = map (\<lambda>ll. cell_cen fvq ! ii ! ll - cell_cen fvq ! jj ! ll) [0, 1, 2];
         dpdxf = 0.5 * (grad!ii!0 + grad!jj!0);
         dpdyf = 0.5 * (grad!ii!1 + grad!jj!1);
         dpdzf = 0.5 * (grad!ii!2 + grad!jj!2);
         dist1 = CS_ABS (dist!0 * dpdxf + dist!1 * dpdyf + dist!2 * dpdzf);
         dvar = CS_ABS (var!ii - var!jj);
         denum = denum[ii := CS_MAX (denum!ii) dist1];
         denum = denum[jj := CS_MAX (denum!jj) dist1];
         denom = denom[ii := CS_MAX (denom!ii) dvar];
         denom = denom[jj := CS_MAX (denom!jj) dvar]
     in (denum, denom))"

definition clip_s_face_ext ::
  "cs_mesh_t \<Rightarrow> cs_mesh_quantities_t \<Rightarrow> real list \<Rightarrow> cs_real_3_t list \<Rightarrow> nat \<Rightarrow> nat \<Rightarrow>
   real list \<times> real list \<Rightarrow> real list \<times> real list" where
  "clip_s_face_ext m fvq var grad ii cidx = (\<lambda>(denum, denom).
     let jj = cell_cells_lst m ! cidx;
         dist = map (\<lambda>ll. cell_cen fvq ! ii ! ll - cell_cen fvq ! jj ! ll) [0, 1, 2];
         dpdxf = 0.5 * (grad!ii!0 + grad!jj!0);
         dpdyf = 0.5 * (grad!ii!1 + grad!jj!1);
         dpdzf = 0.5 * (grad!ii!2 + grad!jj!2);
         dist1 = CS_ABS (dist!0 * dpdxf + dist!1 * dpdyf + dist!2 * dpdzf);
         dvar = CS_ABS (var!ii - var!jj);
         denum = denum[ii := CS_MAX (denum!ii) dist1];
         denom = denom[ii := CS_MAX (denom!ii) dvar]
     in (denum, denom))"

text \<open>First stage, by clip mode.\<close>

definition clip_s_variations ::
  "cs_mesh_t \<Rightarrow> cs_mesh_quantities_t \<Rightarrow> cs_halo_type_t \<Rightarrow> int \<Rightarrow> real list \<Rightarrow>
   cs_real_3_t list \<Rightarrow> real list \<times> real list" where
  "clip_s_variations m fvq halo_type clip_mode var grad =
    (let denum = replicate (n_cells_with_ghosts m) 0;
         denom = replicate (n_cells_with_ghosts m) 0
     in if clip_mode = CS_GRADIENT_LIMIT_CELL then
          (let dd = for_i_faces (i_face_numbering m) (clip_s_cell_face m fvq var grad)
                      (denum, denom)
           in case cell_cells_idx m of
                Some idx \<Rightarrow>
                  if halo_type = CS_HALO_EXTENDED
                  then for_ext_neighbors (n_cells m) idx (clip_s_cell_ext m fvq var grad) dd
                  else dd
              | None \<Rightarrow> dd)
        else if clip_mode = CS_GRADIENT_LIMIT_FACE then
          (let dd = for_i_faces (i_face_numbering m) (clip_s_face_face m fvq var grad)
                      (denum, denom)
           in case cell_cells_idx m of
                Some idx \<Rightarrow>
                  if halo_type = CS_HALO_EXTENDED
                  then for_ext_neighbors (n_cells m) idx (clip_s_face_ext m fvq var grad) dd
                  else dd
              | None \<Rightarrow> dd)
        else (denum, denom))"

text \<open>Second stage, cell-based: the state is the gradient with the thread-local
  statistics \<open>(t_min_factor, t_max_factor, t_n_clip)\<close>, merged into the shared ones
  in the critical section that follows the loop.\<close>

definition clip_s_cell_apply ::
  "real \<Rightarrow> real list \<Rightarrow> real list \<Rightarrow> nat \<Rightarrow>
   cs_real_3_t list \<times> real \<times> real \<times> nat \<Rightarrow> cs_real_3_t list \<times> real \<times> real \<times> nat" where
  "clip_s_cell_apply climgp denum denom ii = (\<lambda>(grad, t_min_factor, t_max_factor, t_n_clip).
     if denum!ii > climgp * denom!ii then
       (let factor1 = climgp * denom!ii / denum!ii;
            grad = grad[ii := (grad!ii)[0 := grad!ii!0 * factor1]];
            grad = grad[ii := (grad!ii)[1 := grad!ii!1 * factor1]];
            grad = grad[ii := (grad!ii)[2 := grad!ii!2 * factor1]]
        in (grad, CS_MIN factor1 t_min_factor, CS_MAX factor1 t_max_factor, t_n_clip + 1))
     else (grad, t_min_factor, t_max_factor, t_n_clip))"

text \<open>Second stage, face-based: per-face one-sided factors, their per-cell minimum,
  the complement on the extended neighbourhood, and the application.\<close>

definition clip_s_face_factor ::
  "cs_mesh_t \<Rightarrow> real \<Rightarrow> real list \<Rightarrow> real list \<Rightarrow> nat \<Rightarrow> real list \<Rightarrow> real list" where
  "clip_s_face_factor m climgp denum denom f_id clip_factor =
    (let ii = i_face_cells m ! f_id ! 0;
         jj = i_face_cells m ! f_id ! 1;
         factor1 = (if denum!ii > climgp * denom!ii then climgp * denom!ii / denum!ii else 1);
         factor2 = (if denum!jj > climgp * denom!jj then climgp * denom!jj / denum!jj else 1);
         l_min_factor = CS_MIN factor1 factor2;
         clip_factor = clip_factor[ii := CS_MIN (clip_factor!ii) l_min_factor];
         clip_factor = clip_factor[jj := CS_MIN (clip_factor!jj) l_min_factor]
     in clip_factor)"

definition clip_s_face_factor_ext_inner ::
  "cs_mesh_t \<Rightarrow> real \<Rightarrow> real list \<Rightarrow> real list \<Rightarrow> nat \<Rightarrow> real \<Rightarrow> real" where
  "clip_s_face_factor_ext_inner m climgp denum denom cidx factor1 =
    (let jj = cell_cells_lst m ! cidx;
         factor2 = (if denum!jj > climgp * denom!jj then climgp * denom!jj / denum!jj else 1)
     in CS_MIN factor1 factor2)"

definition clip_s_face_factor_ext ::
  "cs_mesh_t \<Rightarrow> real \<Rightarrow> real list \<Rightarrow> real list \<Rightarrow> nat list \<Rightarrow> nat \<Rightarrow> real list \<Rightarrow> real list" where
  "clip_s_face_factor_ext m climgp denum denom idx ii clip_factor =
    (let factor1 = fold (clip_s_face_factor_ext_inner m climgp denum denom)
                     [idx ! ii ..< idx ! (ii + 1)] 1
     in clip_factor[ii := CS_MIN (clip_factor!ii) factor1])"

definition clip_s_face_apply ::
  "real list \<Rightarrow> nat \<Rightarrow>
   cs_real_3_t list \<times> real \<times> real \<times> nat \<Rightarrow> cs_real_3_t list \<times> real \<times> real \<times> nat" where
  "clip_s_face_apply clip_factor ii = (\<lambda>(grad, t_min_factor, t_max_factor, t_n_clip).
     let grad = fold (\<lambda>ll grad. grad[ii := (grad!ii)[ll := grad!ii!ll * clip_factor!ii]])
                  [0, 1, 2] grad
     in if clip_factor!ii < 0.99
        then (grad, CS_MIN t_min_factor (clip_factor!ii), CS_MAX t_max_factor (clip_factor!ii),
              t_n_clip + 1)
        else (grad, t_min_factor, t_max_factor, t_n_clip))"

definition clip_s_face_factors ::
  "cs_mesh_t \<Rightarrow> cs_halo_type_t \<Rightarrow> real \<Rightarrow> real list \<Rightarrow> real list \<Rightarrow> real list" where
  "clip_s_face_factors m halo_type climgp denum denom =
    (let clip_factor = replicate (n_cells_with_ghosts m) DBL_MAX;
         clip_factor = for_i_faces (i_face_numbering m)
                         (clip_s_face_factor m climgp denum denom) clip_factor
     in case cell_cells_idx m of
          Some idx \<Rightarrow>
            if halo_type = CS_HALO_EXTENDED
            then fold (clip_s_face_factor_ext m climgp denum denom idx) [0 ..< n_cells m]
                   clip_factor
            else clip_factor
        | None \<Rightarrow> clip_factor)"

text \<open>The whole stage. The result is the gradient array and the log.\<close>

definition scalar_gradient_clipping ::
  "cs_mesh_t \<Rightarrow> cs_mesh_quantities_t \<Rightarrow> cs_mpi_t \<Rightarrow> cs_halo_type_t \<Rightarrow> int \<Rightarrow> int \<Rightarrow> real \<Rightarrow>
   string \<Rightarrow> real list \<Rightarrow> cs_real_3_t list \<times> log_msg list \<Rightarrow> cs_real_3_t list \<times> log_msg list"
  where
  "scalar_gradient_clipping m fvq mpi halo_type clip_mode verbosity climgp var_name var =
   (\<lambda>(grad, out).
    if clip_mode \<le> CS_GRADIENT_LIMIT_NONE then (grad, out)
    else
     (let min_factor = 1; max_factor = 0; n_clip = 0;
          grad = (case halo m of
                    Some h \<Rightarrow>
                      if clip_mode = CS_GRADIENT_LIMIT_FACE
                      then cs_halo_perio_sync_var_vect h halo_type
                             (cs_halo_sync_var_strided h halo_type grad)
                      else grad
                  | None \<Rightarrow> grad);
          (denum, denom) = clip_s_variations m fvq halo_type clip_mode var grad;
          (grad, min_factor, max_factor, n_clip) =
            (if clip_mode = CS_GRADIENT_LIMIT_CELL then
               (let (grad, t_min_factor, t_max_factor, t_n_clip) =
                      fold (clip_s_cell_apply climgp denum denom) [0 ..< n_cells m]
                        (grad, min_factor, max_factor, 0)
                in (grad, CS_MIN min_factor t_min_factor, CS_MAX max_factor t_max_factor,
                    n_clip + t_n_clip))
             else if clip_mode = CS_GRADIENT_LIMIT_FACE then
               (let denom = (case halo m of Some h \<Rightarrow> cs_halo_sync_var h halo_type denom
                                          | None \<Rightarrow> denom);
                    denum = (case halo m of Some h \<Rightarrow> cs_halo_sync_var h halo_type denum
                                          | None \<Rightarrow> denum);
                    clip_factor = clip_s_face_factors m halo_type climgp denum denom;
                    (grad, t_min_factor, t_max_factor, t_n_clip) =
                      fold (clip_s_face_apply clip_factor) [0 ..< n_cells m]
                        (grad, min_factor, max_factor, 0)
                in (grad, CS_MIN min_factor t_min_factor, CS_MAX max_factor t_max_factor,
                    n_clip + t_n_clip))
             else (grad, min_factor, max_factor, n_clip));
          (min_factor, max_factor, n_clip) =
            (if n_domains m > 1
             then (mpi_allreduce_min mpi min_factor, mpi_allreduce_max mpi max_factor,
                   mpi_allreduce_sum_gnum mpi n_clip)
             else (min_factor, max_factor, n_clip));
          out = (if verbosity > 1
                 then out @ [Clip_info var_name n_clip min_factor max_factor] else out);
          grad = (case halo m of
                    Some h \<Rightarrow> cs_halo_perio_sync_var_vect h halo_type
                               (cs_halo_sync_var_strided h halo_type grad)
                  | None \<Rightarrow> grad)
      in (grad, out)))"

subsection \<open>Clipping of a vector gradient (\<^verbatim>\<open>_vector_gradient_clipping\<close>)\<close>

text \<open>Here \<open>denum\<close> and \<open>denom\<close> hold squared l2 norms, and the clip mode is compared
  with the literals \<open>0\<close> and \<open>1\<close>.\<close>

definition clip_v_dvar_sq :: "cs_real_3_t list \<Rightarrow> nat \<Rightarrow> nat \<Rightarrow> real" where
  "clip_v_dvar_sq pvar c_id1 c_id2 =
       (pvar!c_id1!0 - pvar!c_id2!0) * (pvar!c_id1!0 - pvar!c_id2!0)
     + (pvar!c_id1!1 - pvar!c_id2!1) * (pvar!c_id1!1 - pvar!c_id2!1)
     + (pvar!c_id1!2 - pvar!c_id2!2) * (pvar!c_id1!2 - pvar!c_id2!2)"

definition clip_v_cell_face ::
  "cs_mesh_t \<Rightarrow> cs_mesh_quantities_t \<Rightarrow> cs_real_3_t list \<Rightarrow> cs_real_33_t list \<Rightarrow> nat \<Rightarrow>
   real list \<times> real list \<Rightarrow> real list \<times> real list" where
  "clip_v_cell_face m fvq pvar gradv f_id = (\<lambda>(denum, denom).
     let c_id1 = i_face_cells m ! f_id ! 0;
         c_id2 = i_face_cells m ! f_id ! 1;
         dist = map (\<lambda>i. cell_cen fvq ! c_id1 ! i - cell_cen fvq ! c_id2 ! i) [0, 1, 2];
         grad_dist1 = map (\<lambda>i. gradv!c_id1!i!0 * dist!0 + gradv!c_id1!i!1 * dist!1
                                + gradv!c_id1!i!2 * dist!2) [0, 1, 2];
         grad_dist2 = map (\<lambda>i. gradv!c_id2!i!0 * dist!0 + gradv!c_id2!i!1 * dist!1
                                + gradv!c_id2!i!2 * dist!2) [0, 1, 2];
         dist_sq1 = grad_dist1!0 * grad_dist1!0 + grad_dist1!1 * grad_dist1!1
                  + grad_dist1!2 * grad_dist1!2;
         dist_sq2 = grad_dist2!0 * grad_dist2!0 + grad_dist2!1 * grad_dist2!1
                  + grad_dist2!2 * grad_dist2!2;
         dvar_sq = clip_v_dvar_sq pvar c_id1 c_id2;
         denum = denum[c_id1 := CS_MAX (denum!c_id1) dist_sq1];
         denum = denum[c_id2 := CS_MAX (denum!c_id2) dist_sq2];
         denom = denom[c_id1 := CS_MAX (denom!c_id1) dvar_sq];
         denom = denom[c_id2 := CS_MAX (denom!c_id2) dvar_sq]
     in (denum, denom))"

definition clip_v_cell_ext ::
  "cs_mesh_t \<Rightarrow> cs_mesh_quantities_t \<Rightarrow> cs_real_3_t list \<Rightarrow> cs_real_33_t list \<Rightarrow> nat \<Rightarrow> nat \<Rightarrow>
   real list \<times> real list \<Rightarrow> real list \<times> real list" where
  "clip_v_cell_ext m fvq pvar gradv c_id1 cidx = (\<lambda>(denum, denom).
     let c_id2 = cell_cells_lst m ! cidx;
         dist = map (\<lambda>i. cell_cen fvq ! c_id1 ! i - cell_cen fvq ! c_id2 ! i) [0, 1, 2];
         grad_dist1 = map (\<lambda>i. gradv!c_id1!i!0 * dist!0 + gradv!c_id1!i!1 * dist!1
                                + gradv!c_id1!i!2 * dist!2) [0, 1, 2];
         dist_sq1 = grad_dist1!0 * grad_dist1!0 + grad_dist1!1 * grad_dist1!1
                  + grad_dist1!2 * grad_dist1!2;
         dvar_sq = clip_v_dvar_sq pvar c_id1 c_id2;
         denum = denum[c_id1 := CS_MAX (denum!c_id1) dist_sq1];
         denom = denom[c_id1 := CS_MAX (denom!c_id1) dvar_sq]
     in (denum, denom))"

definition clip_v_face_face ::
  "cs_mesh_t \<Rightarrow> cs_mesh_quantities_t \<Rightarrow> cs_real_3_t list \<Rightarrow> cs_real_33_t list \<Rightarrow> nat \<Rightarrow>
   real list \<times> real list \<Rightarrow> real list \<times> real list" where
  "clip_v_face_face m fvq pvar gradv f_id = (\<lambda>(denum, denom).
     let c_id1 = i_face_cells m ! f_id ! 0;
         c_id2 = i_face_cells m ! f_id ! 1;
         dist = map (\<lambda>i. cell_cen fvq ! c_id1 ! i - cell_cen fvq ! c_id2 ! i) [0, 1, 2];
         grad_dist1 = map (\<lambda>i. 0.5 * (  (gradv!c_id1!i!0 + gradv!c_id2!i!0) * dist!0
                                       + (gradv!c_id1!i!1 + gradv!c_id2!i!1) * dist!1
                                       + (gradv!c_id1!i!2 + gradv!c_id2!i!2) * dist!2)) [0, 1, 2];
         dist_sq1 = grad_dist1!0 * grad_dist1!0 + grad_dist1!1 * grad_dist1!1
                  + grad_dist1!2 * grad_dist1!2;
         dvar_sq = clip_v_dvar_sq pvar c_id1 c_id2;
         denum = denum[c_id1 := CS_MAX (denum!c_id1) dist_sq1];
         denum = denum[c_id2 := CS_MAX (denum!c_id2) dist_sq1];
         denom = denom[c_id1 := CS_MAX (denom!c_id1) dvar_sq];
         denom = denom[c_id2 := CS_MAX (denom!c_id2) dvar_sq]
     in (denum, denom))"

definition clip_v_face_ext ::
  "cs_mesh_t \<Rightarrow> cs_mesh_quantities_t \<Rightarrow> cs_real_3_t list \<Rightarrow> cs_real_33_t list \<Rightarrow> nat \<Rightarrow> nat \<Rightarrow>
   real list \<times> real list \<Rightarrow> real list \<times> real list" where
  "clip_v_face_ext m fvq pvar gradv c_id1 cidx = (\<lambda>(denum, denom).
     let c_id2 = cell_cells_lst m ! cidx;
         dist = map (\<lambda>i. cell_cen fvq ! c_id1 ! i - cell_cen fvq ! c_id2 ! i) [0, 1, 2];
         grad_dist1 = map (\<lambda>i. 0.5 * (  (gradv!c_id1!i!0 + gradv!c_id2!i!0) * dist!0
                                       + (gradv!c_id1!i!1 + gradv!c_id2!i!1) * dist!1
                                       + (gradv!c_id1!i!2 + gradv!c_id2!i!2) * dist!2)) [0, 1, 2];
         dist_sq1 = grad_dist1!0 * grad_dist1!0 + grad_dist1!1 * grad_dist1!1
                  + grad_dist1!2 * grad_dist1!2;
         dvar_sq = clip_v_dvar_sq pvar c_id1 c_id2;
         denum = denum[c_id1 := CS_MAX (denum!c_id1) dist_sq1];
         denom = denom[c_id1 := CS_MAX (denom!c_id1) dvar_sq]
     in (denum, denom))"

definition clip_v_variations ::
  "cs_mesh_t \<Rightarrow> cs_mesh_quantities_t \<Rightarrow> cs_halo_type_t \<Rightarrow> int \<Rightarrow> cs_real_3_t list \<Rightarrow>
   cs_real_33_t list \<Rightarrow> real list \<times> real list" where
  "clip_v_variations m fvq halo_type clip_mode pvar gradv =
    (let denum = replicate (n_cells_with_ghosts m) 0;
         denom = replicate (n_cells_with_ghosts m) 0
     in if clip_mode = 0 then
          (let dd = for_i_faces (i_face_numbering m) (clip_v_cell_face m fvq pvar gradv)
                      (denum, denom)
           in case cell_cells_idx m of
                Some idx \<Rightarrow>
                  if halo_type = CS_HALO_EXTENDED
                  then for_ext_neighbors (n_cells m) idx (clip_v_cell_ext m fvq pvar gradv) dd
                  else dd
              | None \<Rightarrow> dd)
        else if clip_mode = 1 then
          (let dd = for_i_faces (i_face_numbering m) (clip_v_face_face m fvq pvar gradv)
                      (denum, denom);
               (denum, denom) =
                 (case cell_cells_idx m of
                    Some idx \<Rightarrow>
                      if halo_type = CS_HALO_EXTENDED
                      then for_ext_neighbors (n_cells m) idx (clip_v_face_ext m fvq pvar gradv) dd
                      else dd
                  | None \<Rightarrow> dd)
           in case halo m of
                Some h \<Rightarrow>
                  (let denom = cs_halo_sync_var h halo_type denom;
                       denum = cs_halo_sync_var h halo_type denum
                   in (denum, denom))
              | None \<Rightarrow> (denum, denom))
        else (denum, denom))"

text \<open>\<^verbatim>\<open>for i < 3: for j < 3: gradv[c_id][i][j] *= factor\<close>.\<close>

definition scale_gradv :: "nat \<Rightarrow> real \<Rightarrow> cs_real_33_t list \<Rightarrow> cs_real_33_t list" where
  "scale_gradv c_id factor =
     fold (\<lambda>i. fold (\<lambda>j gradv.
        gradv[c_id := (gradv!c_id)[i := (gradv!c_id!i)[j := gradv!c_id!i!j * factor]]])
       [0, 1, 2]) [0, 1, 2]"

definition clip_v_cell_apply ::
  "real \<Rightarrow> real list \<Rightarrow> real list \<Rightarrow> nat \<Rightarrow>
   cs_real_33_t list \<times> real \<times> real \<times> nat \<Rightarrow> cs_real_33_t list \<times> real \<times> real \<times> nat" where
  "clip_v_cell_apply clipp_coef_sq denum denom c_id =
    (\<lambda>(gradv, t_min_factor, t_max_factor, t_n_clip).
     if denum!c_id > clipp_coef_sq * denom!c_id then
       (let factor1 = sqrt (clipp_coef_sq * denom!c_id / denum!c_id);
            gradv = scale_gradv c_id factor1 gradv
        in (gradv, CS_MIN factor1 t_min_factor, CS_MAX factor1 t_max_factor, t_n_clip + 1))
     else (gradv, t_min_factor, t_max_factor, t_n_clip))"

definition clip_v_face_factor ::
  "cs_mesh_t \<Rightarrow> real \<Rightarrow> real list \<Rightarrow> real list \<Rightarrow> nat \<Rightarrow> real list \<Rightarrow> real list" where
  "clip_v_face_factor m clipp_coef_sq denum denom f_id clip_factor =
    (let c_id1 = i_face_cells m ! f_id ! 0;
         c_id2 = i_face_cells m ! f_id ! 1;
         factor1 = (if denum!c_id1 > clipp_coef_sq * denom!c_id1
                    then sqrt (clipp_coef_sq * denom!c_id1 / denum!c_id1) else 1);
         factor2 = (if denum!c_id2 > clipp_coef_sq * denom!c_id2
                    then sqrt (clipp_coef_sq * denom!c_id2 / denum!c_id2) else 1);
         l_min_factor = CS_MIN factor1 factor2;
         clip_factor = clip_factor[c_id1 := CS_MIN (clip_factor!c_id1) l_min_factor];
         clip_factor = clip_factor[c_id2 := CS_MIN (clip_factor!c_id2) l_min_factor]
     in clip_factor)"

definition clip_v_face_factor_ext ::
  "cs_mesh_t \<Rightarrow> real \<Rightarrow> real list \<Rightarrow> real list \<Rightarrow> nat list \<Rightarrow> nat \<Rightarrow> real list \<Rightarrow> real list" where
  "clip_v_face_factor_ext m clipp_coef_sq denum denom idx c_id1 clip_factor =
    (let l_min_factor =
           fold (\<lambda>cidx l_min_factor.
                   let c_id2 = cell_cells_lst m ! cidx;
                       factor2 = (if denum!c_id2 > clipp_coef_sq * denom!c_id2
                                  then sqrt (clipp_coef_sq * denom!c_id2 / denum!c_id2) else 1)
                   in CS_MIN l_min_factor factor2)
             [idx ! c_id1 ..< idx ! (c_id1 + 1)] 1
     in clip_factor[c_id1 := CS_MIN (clip_factor!c_id1) l_min_factor])"

definition clip_v_face_apply ::
  "real list \<Rightarrow> nat \<Rightarrow>
   cs_real_33_t list \<times> real \<times> real \<times> nat \<Rightarrow> cs_real_33_t list \<times> real \<times> real \<times> nat" where
  "clip_v_face_apply clip_factor c_id = (\<lambda>(gradv, t_min_factor, t_max_factor, t_n_clip).
     let gradv = scale_gradv c_id (clip_factor!c_id) gradv
     in if clip_factor!c_id < 0.99
        then (gradv, CS_MIN t_min_factor (clip_factor!c_id),
              CS_MAX t_max_factor (clip_factor!c_id), t_n_clip + 1)
        else (gradv, t_min_factor, t_max_factor, t_n_clip))"

definition vector_gradient_clipping ::
  "cs_mesh_t \<Rightarrow> cs_mesh_quantities_t \<Rightarrow> cs_mpi_t \<Rightarrow> cs_halo_type_t \<Rightarrow> int \<Rightarrow> int \<Rightarrow> real \<Rightarrow>
   string \<Rightarrow> cs_real_3_t list \<Rightarrow> cs_real_33_t list \<times> log_msg list \<Rightarrow>
   cs_real_33_t list \<times> log_msg list" where
  "vector_gradient_clipping m fvq mpi halo_type clip_mode verbosity climgp var_name pvar =
   (\<lambda>(gradv, out).
    if clip_mode < 0 then (gradv, out)
    else
     (let n_clip = 0; min_factor = 1; max_factor = 0;
          clipp_coef_sq = climgp * climgp;
          (denum, denom) = clip_v_variations m fvq halo_type clip_mode pvar gradv;
          (gradv, min_factor, max_factor, n_clip) =
            (if clip_mode = 0 then
               (let (gradv, t_min_factor, t_max_factor, t_n_clip) =
                      fold (clip_v_cell_apply clipp_coef_sq denum denom) [0 ..< n_cells m]
                        (gradv, min_factor, max_factor, 0)
                in (gradv, CS_MIN min_factor t_min_factor, CS_MAX max_factor t_max_factor,
                    n_clip + t_n_clip))
             else if clip_mode = 1 then
               (let clip_factor = replicate (n_cells_with_ghosts m) DBL_MAX;
                    clip_factor = for_i_faces (i_face_numbering m)
                                    (clip_v_face_factor m clipp_coef_sq denum denom) clip_factor;
                    clip_factor =
                      (case cell_cells_idx m of
                         Some idx \<Rightarrow>
                           if halo_type = CS_HALO_EXTENDED
                           then fold (clip_v_face_factor_ext m clipp_coef_sq denum denom idx)
                                  [0 ..< n_cells m] clip_factor
                           else clip_factor
                       | None \<Rightarrow> clip_factor);
                    (gradv, t_min_factor, t_max_factor, t_n_clip) =
                      fold (clip_v_face_apply clip_factor) [0 ..< n_cells m]
                        (gradv, min_factor, max_factor, 0)
                in (gradv, CS_MIN min_factor t_min_factor, CS_MAX max_factor t_max_factor,
                    n_clip + t_n_clip))
             else (gradv, min_factor, max_factor, n_clip));
          (min_factor, max_factor, n_clip) =
            (if n_domains m > 1
             then (mpi_allreduce_min mpi min_factor, mpi_allreduce_max mpi max_factor,
                   mpi_allreduce_sum_gnum mpi n_clip)
             else (min_factor, max_factor, n_clip));
          out = (if verbosity > 1
                 then out @ [Clip_info_vector var_name n_clip min_factor max_factor] else out);
          gradv = (case halo m of
                     Some h \<Rightarrow>
                       (let gradv = cs_halo_sync_var_strided_9 h halo_type gradv
                        in if have_rotation_perio m
                           then cs_halo_perio_sync_var_tens h halo_type gradv else gradv)
                   | None \<Rightarrow> gradv)
      in (gradv, out)))"

subsection \<open>Predicates used in the statements\<close>

text \<open>Well-formedness of the connectivity the kernels index with.\<close>

definition i_faces_in_range :: "cs_mesh_t \<Rightarrow> bool" where
  "i_faces_in_range m \<longleftrightarrow>
     (\<forall>f \<in> set (i_face_ids (i_face_numbering m)).
        i_face_cells m ! f ! 0 < n_cells_with_ghosts m \<and>
        i_face_cells m ! f ! 1 < n_cells_with_ghosts m)"

definition ext_neighbors_in_range :: "cs_mesh_t \<Rightarrow> bool" where
  "ext_neighbors_in_range m \<longleftrightarrow>
     (\<forall>idx. cell_cells_idx m = Some idx \<longrightarrow>
        (\<forall>ii < n_cells m. \<forall>cidx \<in> set [idx ! ii ..< idx ! (ii + 1)].
           cell_cells_lst m ! cidx < n_cells_with_ghosts m))"

definition cell_has_i_face :: "cs_mesh_t \<Rightarrow> nat \<Rightarrow> bool" where
  "cell_has_i_face m c \<longleftrightarrow>
     (\<exists>f \<in> set (i_face_ids (i_face_numbering m)).
        i_face_cells m ! f ! 0 = c \<or> i_face_cells m ! f ! 1 = c)"

definition nonneg_arr :: "nat \<Rightarrow> real list \<Rightarrow> bool" where
  "nonneg_arr n xs \<longleftrightarrow> length xs = n \<and> (\<forall>i<n. 0 \<le> xs ! i)"

text \<open>Euclidean norm of a 3-vector.\<close>

definition cs_math_3_norm :: "cs_real_3_t \<Rightarrow> real" where
  "cs_math_3_norm v = sqrt (v!0 * v!0 + v!1 * v!1 + v!2 * v!2)"

text \<open>The contract of the halo exchange this engine relies on: an exchange writes ghost
  entries only (entries of owned cells and the array length are unchanged), and the ghost
  values of a non-negative array are non-negative (they are copies of values of the
  owning rank).\<close>

definition halo_keeps_owned :: "nat \<Rightarrow> cs_halo_t \<Rightarrow> bool" where
  "halo_keeps_owned n h \<longleftrightarrow>
     (\<forall>ht xs. length (cs_halo_sync_var h ht xs) = length xs \<and>
        (\<forall>c<n. cs_halo_sync_var h ht xs ! c = xs ! c)) \<and>
     (\<forall>ht g. length (cs_halo_sync_var_strided h ht g) = length g \<and>
        (\<forall>c<n. cs_halo_sync_var_strided h ht g ! c = g ! c)) \<and>
     (\<forall>ht g. length (cs_halo_perio_sync_var_vect h ht g) = length g \<and>
        (\<forall>c<n. cs_halo_perio_sync_var_vect h ht g ! c = g ! c)) \<and>
     (\<forall>ht g. length (cs_halo_sync_var_strided_9 h ht g) = length g \<and>
        (\<forall>c<n. cs_halo_sync_var_strided_9 h ht g ! c = g ! c)) \<and>
     (\<forall>ht g. length (cs_halo_perio_sync_var_tens h ht g) = length g \<and>
        (\<forall>c<n. cs_halo_perio_sync_var_tens h ht g ! c = g ! c))"

definition halo_keeps_nonneg :: "cs_halo_t \<Rightarrow> bool" where
  "halo_keeps_nonneg h \<longleftrightarrow>
     (\<forall>ht xs. (\<forall>i<length xs. 0 \<le> xs ! i) \<longrightarrow>
        (\<forall>i<length xs. 0 \<le> cs_halo_sync_var h ht xs ! i))"

text \<open>The gradient as the face-based scalar clipping reads it, after its first exchange.\<close>

definition clip_s_face_synced_grad ::
  "cs_mesh_t \<Rightarrow> cs_halo_type_t \<Rightarrow> cs_real_3_t list \<Rightarrow> cs_real_3_t list" where
  "clip_s_face_synced_grad m halo_type grad =
     (case halo m of
        Some h \<Rightarrow> cs_halo_perio_sync_var_vect h halo_type (cs_halo_sync_var_strided h halo_type grad)
      | None \<Rightarrow> grad)"

subsection \<open>Concrete meshes used in the examples\<close>

text \<open>A halo whose exchanges change nothing (a rank whose ghost values are already current).\<close>

definition halo_id :: cs_halo_t where
  "halo_id = \<lparr> cs_halo_sync_var = (\<lambda>ht xs. xs),
               cs_halo_sync_var_strided = (\<lambda>ht g. g),
               cs_halo_perio_sync_var_vect = (\<lambda>ht g. g),
               cs_halo_sync_var_strided_9 = (\<lambda>ht g. g),
               cs_halo_perio_sync_var_tens = (\<lambda>ht g. g) \<rparr>"

definition mpi_serial :: cs_mpi_t where
  "mpi_serial = \<lparr> cs_glob_n_ranks = 1, mpi_allreduce_sum = (\<lambda>x. x),
                  mpi_allreduce_min = (\<lambda>x. x), mpi_allreduce_max = (\<lambda>x. x),
                  mpi_allreduce_sum_gnum = (\<lambda>n. n) \<rparr>"

text \<open>Two unit cells side by side along \<open>x\<close>, sharing one interior face.\<close>

definition mesh_two_cells :: cs_mesh_t where
  "mesh_two_cells =
     \<lparr> n_domains = 1, n_cells = 2, n_cells_with_ghosts = 2, n_i_faces = 1, n_b_faces = 0,
       n_b_cells = 0, i_face_cells = [[0, 1]], b_face_cells = [], b_cells = [],
       cell_cells_idx = None, cell_cells_lst = [],
       i_face_numbering = \<lparr> n_threads = 1, n_groups = 1, group_index = [0, 1] \<rparr>,
       b_face_numbering = \<lparr> n_threads = 1, n_groups = 1, group_index = [0, 0] \<rparr>,
       halo = Some halo_id, have_rotation_perio = False \<rparr>"

definition fvq_two_cells :: cs_mesh_quantities_t where
  "fvq_two_cells =
     \<lparr> cell_cen = [[0, 0, 0], [1, 0, 0]], cell_vol = [1, 1], cell_f_vol = [1, 1],
       i_face_normal = [[1, 0, 0]], b_face_normal = [],
       i_f_face_normal = [[1, 0, 0]], b_f_face_normal = [],
       i_face_cog = [[1/2, 0, 0]], b_face_cog = [], b_face_surf = [], b_dist = [],
       weight = [1/2], dofij = [[0, 0, 0]], diipb = [], corr_grad_lin = [],
       has_disable_flag = 0, c_disable_flag = [0] \<rparr>"

subsection \<open>Environment of a gradient computation\<close>

datatype cs_e2n_sum_t =
    CS_E2N_SUM_SCATTER | CS_E2N_SUM_SCATTER_ATOMIC | CS_E2N_SUM_GATHER
  | CS_E2N_SUM_STORE_THEN_GATHER

text \<open>Global data the kernels read besides the mesh: \<^verbatim>\<open>cs_glob_porous_model\<close>, the
  optional porosity fields \<^verbatim>\<open>i_poro_duq_0\<close>, \<^verbatim>\<open>i_poro_duq_1\<close>, \<^verbatim>\<open>b_poro_duq\<close>
  (present or absent together), the two bits of \<^verbatim>\<open>cs_glob_mesh_quantities_flag\<close> tested
  here, the value \<^verbatim>\<open>cs_mesh_quantities_compute_count()\<close> returns,
  \<^verbatim>\<open>cs_glob_e2n_sum_type\<close>, the MPI reductions, and the external
  \<^verbatim>\<open>cs_bad_cells_regularisation_vector\<close>.\<close>

record cs_env_t =
  cs_glob_porous_model :: int
  poro_duq :: "(real list \<times> real list \<times> real list) option"
  bad_cells_regularisation :: bool
  bad_cells_warped_correction :: bool
  cs_mesh_quantities_compute_count :: int
  cs_glob_e2n_sum_type :: cs_e2n_sum_t
  env_mpi :: cs_mpi_t
  cs_bad_cells_regularisation_vector :: "cs_real_3_t list \<Rightarrow> cs_real_3_t list"

text \<open>An internal coupling entity (\<^verbatim>\<open>cs_internal_coupling.h\<close>): its id, its flags of
  coupled boundary faces, and the contributions it adds, which are external.\<close>

record cs_internal_coupling_t =
  cpl_id :: nat
  coupled_faces :: "bool list"
  cs_internal_coupling_initialize_scalar_gradient ::
    "real list option \<Rightarrow> real list \<Rightarrow> cs_real_3_t list \<Rightarrow> cs_real_3_t list"
  cs_internal_coupling_iterative_scalar_gradient ::
    "real list option \<Rightarrow> cs_real_3_t list \<Rightarrow> real list \<Rightarrow> cs_real_3_t list \<Rightarrow> cs_real_3_t list"
  cs_internal_coupling_reconstruct_scalar_gradient ::
    "cs_real_3_t list \<Rightarrow> cs_real_3_t list \<Rightarrow> cs_real_3_t list"
  cs_internal_coupling_it_cocg_contribution :: "cs_real_33_t list \<Rightarrow> cs_real_33_t list"
  cs_internal_coupling_lsq_cocg_contribution :: "cs_cocg_6_t list \<Rightarrow> cs_cocg_6_t list"
  cs_internal_coupling_lsq_cocg_weighted :: "real list \<Rightarrow> cs_cocg_6_t list \<Rightarrow> cs_cocg_6_t list"
  cs_internal_coupling_lsq_scalar_gradient ::
    "real list option \<Rightarrow> nat \<Rightarrow> real list list \<Rightarrow> real list list"

text \<open>\<^verbatim>\<open>coupled_faces[f_id * cpl_stride]\<close>, with the one-entry array \<^verbatim>\<open>{false}\<close> and
  stride \<open>0\<close> when there is no coupling.\<close>

definition is_coupled_face :: "cs_internal_coupling_t option \<Rightarrow> nat \<Rightarrow> bool" where
  "is_coupled_face cpl f_id =
     (case cpl of None \<Rightarrow> [False] ! (f_id * 0) | Some ce \<Rightarrow> coupled_faces ce ! (f_id * 1))"

text \<open>\<^verbatim>\<open>cell_f_vol\<close> as selected at the head of the Green-Gauss kernels.\<close>

definition sel_cell_f_vol :: "cs_env_t \<Rightarrow> cs_mesh_quantities_t \<Rightarrow> real list" where
  "sel_cell_f_vol env fvq =
     (if cs_glob_porous_model env = 1 \<or> cs_glob_porous_model env = 2
      then cell_vol fvq else cell_f_vol fvq)"

text \<open>\<open>(is_porous, i_poro_duq_0, i_poro_duq_1, b_poro_duq)\<close>; without the porosity
  fields the three pointers address one local zero.\<close>

definition poro_arrays :: "cs_env_t \<Rightarrow> nat \<times> real list \<times> real list \<times> real list" where
  "poro_arrays env =
     (case poro_duq env of
        Some (i_poro_duq_0, i_poro_duq_1, b_poro_duq) \<Rightarrow> (1, i_poro_duq_0, i_poro_duq_1, b_poro_duq)
      | None \<Rightarrow> (0, [0], [0], [0]))"

definition c_weight_s_of :: "nat \<Rightarrow> real list option \<Rightarrow> real list option" where
  "c_weight_s_of w_stride c_weight =
     (case c_weight of None \<Rightarrow> None | Some cw \<Rightarrow> if w_stride = 1 then Some cw else None)"

definition c_weight_t_of :: "nat \<Rightarrow> real list option \<Rightarrow> real list option" where
  "c_weight_t_of w_stride c_weight =
     (case c_weight of None \<Rightarrow> None
      | Some cw \<Rightarrow> if w_stride = 1 then None else if w_stride = 6 then Some cw else None)"

subsection \<open>Helpers of \<^verbatim>\<open>cs_math.h\<close> and \<^verbatim>\<open>cs_blas.h\<close>\<close>

text \<open>Modelled from the spec: the inline helpers of \<^verbatim>\<open>cs_math.h\<close> and \<^verbatim>\<open>cs_dot\<close> of
  \<^verbatim>\<open>cs_blas.h\<close> are not part of the sources at hand. They are the dot product, the
  squared norm, \<open>(x\<^sub>b - x\<^sub>a) \<cdot> x\<^sub>c\<close>, the normalisation that returns the zero vector
  for a vector of negligible norm, the Cramer inverse and the matrix-vector product of a
  packed symmetric 3x3 matrix.\<close>

definition cs_math_3_dot_product :: "real list \<Rightarrow> real list \<Rightarrow> real" where
  "cs_math_3_dot_product u v = u!0 * v!0 + u!1 * v!1 + u!2 * v!2"

definition cs_math_3_square_norm :: "real list \<Rightarrow> real" where
  "cs_math_3_square_norm v = v!0 * v!0 + v!1 * v!1 + v!2 * v!2"

definition cs_math_3_distance_dot_product :: "real list \<Rightarrow> real list \<Rightarrow> real list \<Rightarrow> real" where
  "cs_math_3_distance_dot_product xa xb xc =
     (xb!0 - xa!0) * xc!0 + (xb!1 - xa!1) * xc!1 + (xb!2 - xa!2) * xc!2"

definition cs_math_zero_threshold :: real where
  "cs_math_zero_threshold = 1 / 2 ^ 126"

definition cs_math_3_normalize :: "real list \<Rightarrow> real list" where
  "cs_math_3_normalize vin =
     (let norm = cs_math_3_norm vin;
          inv_norm = (if \<bar>norm\<bar> > cs_math_zero_threshold then 1 / norm else 0)
      in [inv_norm * vin!0, inv_norm * vin!1, inv_norm * vin!2])"

definition cs_math_sym_33_inv_cramer :: "real list \<Rightarrow> real list" where
  "cs_math_sym_33_inv_cramer s =
     (let detinv = 1 / (s!0 * s!1 * s!2 + 2 * s!3 * s!4 * s!5
                        - s!0 * s!4 * s!4 - s!1 * s!5 * s!5 - s!2 * s!3 * s!3)
      in [(s!1 * s!2 - s!4 * s!4) * detinv, (s!0 * s!2 - s!5 * s!5) * detinv,
          (s!0 * s!1 - s!3 * s!3) * detinv, (s!4 * s!5 - s!3 * s!2) * detinv,
          (s!3 * s!5 - s!0 * s!4) * detinv, (s!3 * s!4 - s!1 * s!5) * detinv])"

definition cs_math_sym_33_3_product :: "real list \<Rightarrow> real list \<Rightarrow> real list" where
  "cs_math_sym_33_3_product mt v =
     [mt!0 * v!0 + mt!3 * v!1 + mt!5 * v!2,
      mt!3 * v!0 + mt!1 * v!1 + mt!4 * v!2,
      mt!5 * v!0 + mt!4 * v!1 + mt!2 * v!2]"

definition cs_dot :: "nat \<Rightarrow> real list \<Rightarrow> real list \<Rightarrow> real" where
  "cs_dot n x y = sum_list (map (\<lambda>i. x!i * y!i) [0 ..< n])"

text \<open>\<^verbatim>\<open>_l2_norm_1\<close>, applied to the flat view of an array of 3-vectors.\<close>

definition l2_norm_1 :: "cs_mpi_t \<Rightarrow> nat \<Rightarrow> real list \<Rightarrow> real" where
  "l2_norm_1 mp n_elts x =
     (let s = cs_dot n_elts x x;
          s = (if cs_glob_n_ranks mp > 1 then mpi_allreduce_sum mp s else s)
      in sqrt s)"

subsection \<open>Array updates\<close>

text \<open>\<^verbatim>\<open>a[c][j] += v\<close> and \<^verbatim>\<open>a[c][j] -= v\<close> on an array of small vectors.\<close>

definition add_to :: "nat \<Rightarrow> nat \<Rightarrow> real \<Rightarrow> real list list \<Rightarrow> real list list" where
  "add_to c j v a = a[c := (a!c)[j := a!c!j + v]]"

definition sub_from :: "nat \<Rightarrow> nat \<Rightarrow> real \<Rightarrow> real list list \<Rightarrow> real list list" where
  "sub_from c j v a = a[c := (a!c)[j := a!c!j - v]]"

definition mul_by :: "nat \<Rightarrow> nat \<Rightarrow> real \<Rightarrow> real list list \<Rightarrow> real list list" where
  "mul_by c j v a = a[c := (a!c)[j := a!c!j * v]]"

text \<open>The weighting \<open>ktpond\<close> of an interior face: geometric, or corrected by a scalar or
  a symmetric tensor cell weight (\<^verbatim>\<open>c_weight_t[c][k]\<close> is \<^verbatim>\<open>c_weight[6*c + k]\<close>).\<close>

definition face_ktpond ::
  "cs_mesh_quantities_t \<Rightarrow> real list option \<Rightarrow> real list option \<Rightarrow> nat \<Rightarrow> nat \<Rightarrow> nat \<Rightarrow> real" where
  "face_ktpond fvq c_weight_s c_weight_t f_id ii jj =
     (case c_weight_s of
        Some cw \<Rightarrow>
          weight fvq ! f_id * cw!ii
            / (weight fvq ! f_id * cw!ii + (1 - weight fvq ! f_id) * cw!jj)
      | None \<Rightarrow>
         (case c_weight_t of
            Some cw \<Rightarrow>
              (let sum = map (\<lambda>kk. weight fvq ! f_id * cw!(6 * ii + kk)
                                   + (1 - weight fvq ! f_id) * cw!(6 * jj + kk)) [0, 1, 2, 3, 4, 5];
                   inv_sum = cs_math_sym_33_inv_cramer sum
               in weight fvq ! f_id / 3
                    * (  inv_sum!0 * cw!(6 * ii + 0)
                       + inv_sum!1 * cw!(6 * ii + 1)
                       + inv_sum!2 * cw!(6 * ii + 2)
                       + 2 * (  inv_sum!3 * cw!(6 * ii + 3)
                              + inv_sum!4 * cw!(6 * ii + 4)
                              + inv_sum!5 * cw!(6 * ii + 5))))
          | None \<Rightarrow> weight fvq ! f_id))"

text \<open>The inverse volume of a cell, zero for a disabled cell.\<close>

definition cell_dvol :: "cs_mesh_quantities_t \<Rightarrow> real list \<Rightarrow> nat \<Rightarrow> real" where
  "cell_dvol fvq vol cell_id =
     (if has_disable_flag fvq * c_disable_flag fvq ! (has_disable_flag fvq * cell_id) = 0
      then 1 / vol ! cell_id else 0)"

subsection \<open>Non-reconstructed gradient (\<^verbatim>\<open>_initialize_scalar_gradient\<close>)\<close>

definition init_s_hyd_i_face ::
  "cs_mesh_t \<Rightarrow> cs_mesh_quantities_t \<Rightarrow> cs_env_t \<Rightarrow> real list option \<Rightarrow> real list option \<Rightarrow>
   cs_real_3_t list \<Rightarrow> real list \<Rightarrow> nat \<Rightarrow> cs_real_3_t list \<Rightarrow> cs_real_3_t list" where
  "init_s_hyd_i_face m fvq env c_weight_s c_weight_t f_ext pvar f_id grad =
    (let (is_porous, i_poro_duq_0, i_poro_duq_1, b_poro_duq) = poro_arrays env;
         ii = i_face_cells m ! f_id ! 0;
         jj = i_face_cells m ! f_id ! 1;
         ktpond = face_ktpond fvq c_weight_s c_weight_t f_id ii jj;
         poro = [i_poro_duq_0 ! (is_porous * f_id), i_poro_duq_1 ! (is_porous * f_id)];
         pfaci =  ktpond
                    * (  (i_face_cog fvq !f_id!0 - cell_cen fvq !ii!0) * f_ext!ii!0
                       + (i_face_cog fvq !f_id!1 - cell_cen fvq !ii!1) * f_ext!ii!1
                       + (i_face_cog fvq !f_id!2 - cell_cen fvq !ii!2) * f_ext!ii!2
                       + poro!0)
                + (1 - ktpond)
                    * (  (i_face_cog fvq !f_id!0 - cell_cen fvq !jj!0) * f_ext!jj!0
                       + (i_face_cog fvq !f_id!1 - cell_cen fvq !jj!1) * f_ext!jj!1
                       + (i_face_cog fvq !f_id!2 - cell_cen fvq !jj!2) * f_ext!jj!2
                       + poro!1);
         pfacj = pfaci;
         pfaci = pfaci + (1 - ktpond) * (pvar!jj - pvar!ii);
         pfacj = pfacj - ktpond * (pvar!jj - pvar!ii)
     in fold (\<lambda>j grad. sub_from jj j (pfacj * i_f_face_normal fvq !f_id!j)
                          (add_to ii j (pfaci * i_f_face_normal fvq !f_id!j) grad))
          [0, 1, 2] grad)"

definition init_s_hyd_b_face ::
  "cs_mesh_t \<Rightarrow> cs_mesh_quantities_t \<Rightarrow> cs_env_t \<Rightarrow> real \<Rightarrow> cs_real_3_t list \<Rightarrow> real list \<Rightarrow>
   real list \<Rightarrow> real list \<Rightarrow> nat \<Rightarrow> cs_real_3_t list \<Rightarrow> cs_real_3_t list" where
  "init_s_hyd_b_face m fvq env inc f_ext coefap coefbp pvar f_id grad =
    (let (is_porous, i_poro_duq_0, i_poro_duq_1, b_poro_duq) = poro_arrays env;
         ii = b_face_cells m ! f_id;
         poro = b_poro_duq ! (is_porous * f_id);
         pfac = coefap!f_id * inc
                + coefbp!f_id
                  * (  (b_face_cog fvq !f_id!0 - cell_cen fvq !ii!0) * f_ext!ii!0
                     + (b_face_cog fvq !f_id!1 - cell_cen fvq !ii!1) * f_ext!ii!1
                     + (b_face_cog fvq !f_id!2 - cell_cen fvq !ii!2) * f_ext!ii!2
                     + poro);
         pfac = pfac + (coefbp!f_id - 1) * pvar!ii
     in fold (\<lambda>j grad. add_to ii j (pfac * b_f_face_normal fvq !f_id!j) grad) [0, 1, 2] grad)"

definition init_s_std_i_face ::
  "cs_mesh_t \<Rightarrow> cs_mesh_quantities_t \<Rightarrow> real list option \<Rightarrow> real list option \<Rightarrow>
   real list \<Rightarrow> nat \<Rightarrow> cs_real_3_t list \<Rightarrow> cs_real_3_t list" where
  "init_s_std_i_face m fvq c_weight_s c_weight_t pvar f_id grad =
    (let ii = i_face_cells m ! f_id ! 0;
         jj = i_face_cells m ! f_id ! 1;
         ktpond = face_ktpond fvq c_weight_s c_weight_t f_id ii jj;
         pfaci = (1 - ktpond) * (pvar!jj - pvar!ii);
         pfacj = - ktpond * (pvar!jj - pvar!ii)
     in fold (\<lambda>j grad. sub_from jj j (pfacj * i_f_face_normal fvq !f_id!j)
                          (add_to ii j (pfaci * i_f_face_normal fvq !f_id!j) grad))
          [0, 1, 2] grad)"

definition init_s_std_b_face ::
  "cs_mesh_t \<Rightarrow> cs_mesh_quantities_t \<Rightarrow> cs_internal_coupling_t option \<Rightarrow> real \<Rightarrow> real list \<Rightarrow>
   real list \<Rightarrow> real list \<Rightarrow> nat \<Rightarrow> cs_real_3_t list \<Rightarrow> cs_real_3_t list" where
  "init_s_std_b_face m fvq cpl inc coefap coefbp pvar f_id grad =
    (if is_coupled_face cpl f_id then grad
     else
      (let ii = b_face_cells m ! f_id;
           pfac = inc * coefap!f_id + (coefbp!f_id - 1) * pvar!ii
       in fold (\<lambda>j grad. add_to ii j (pfac * b_f_face_normal fvq !f_id!j) grad) [0, 1, 2] grad))"

text \<open>\<^verbatim>\<open>for cell_id < n_cells: grad[cell_id][j] *= dvol\<close>.\<close>

definition scale_by_dvol ::
  "cs_mesh_quantities_t \<Rightarrow> real list \<Rightarrow> nat \<Rightarrow> cs_real_3_t list \<Rightarrow> cs_real_3_t list" where
  "scale_by_dvol fvq vol cell_id grad =
     (let dvol = cell_dvol fvq vol cell_id
      in fold (\<lambda>j grad. mul_by cell_id j dvol grad) [0, 1, 2] grad)"

definition initialize_scalar_gradient ::
  "cs_mesh_t \<Rightarrow> cs_mesh_quantities_t \<Rightarrow> cs_env_t \<Rightarrow> cs_internal_coupling_t option \<Rightarrow> nat \<Rightarrow> int \<Rightarrow>
   real \<Rightarrow> cs_real_3_t list \<Rightarrow> real list \<Rightarrow> real list \<Rightarrow> real list \<Rightarrow> real list option \<Rightarrow>
   cs_real_3_t list" where
  "initialize_scalar_gradient m fvq env cpl w_stride hyd_p_flag inc f_ext coefap coefbp pvar c_weight =
    (let vol = sel_cell_f_vol env fvq;
         c_weight_s = c_weight_s_of w_stride c_weight;
         c_weight_t = c_weight_t_of w_stride c_weight;
         grad = replicate (n_cells_with_ghosts m) [0, 0, 0];
         grad =
           (if hyd_p_flag = 1 then
              (let grad = for_i_faces (i_face_numbering m)
                            (init_s_hyd_i_face m fvq env c_weight_s c_weight_t f_ext pvar) grad
               in for_b_faces (b_face_numbering m)
                    (init_s_hyd_b_face m fvq env inc f_ext coefap coefbp pvar) grad)
            else
              (let grad = for_i_faces (i_face_numbering m)
                            (init_s_std_i_face m fvq c_weight_s c_weight_t pvar) grad;
                   grad = (case cpl of
                             Some ce \<Rightarrow> cs_internal_coupling_initialize_scalar_gradient ce
                                          c_weight pvar grad
                           | None \<Rightarrow> grad)
               in for_b_faces (b_face_numbering m)
                    (init_s_std_b_face m fvq cpl inc coefap coefbp pvar) grad));
         grad = fold (scale_by_dvol fvq vol) [0 ..< n_cells m] grad
     in sync_scalar_gradient_halo m CS_HALO_EXTENDED grad)"

subsection \<open>Cached geometric coefficients and diagnostics\<close>

record cs_gradient_quantities_t =
  cocg_it :: "cs_real_33_t list option"
  cocgb_s_lsq :: "cs_cocg_6_t list option"
  cocg_lsq :: "cs_cocg_6_t list option"
  cocgb_s_lsq_ext :: "cs_cocg_6_t list option"
  cocg_lsq_ext :: "cs_cocg_6_t list option"

definition gradient_quantities_empty :: cs_gradient_quantities_t where
  "gradient_quantities_empty =
     \<lparr> cocg_it = None, cocgb_s_lsq = None, cocg_lsq = None,
       cocgb_s_lsq_ext = None, cocg_lsq_ext = None \<rparr>"

text \<open>\<^verbatim>\<open>_gradient_quantities_get\<close>: the array of structures is grown up to the index
  asked for; the structure returned is the entry of the result at that index.\<close>

definition gradient_quantities_get ::
  "nat \<Rightarrow> cs_gradient_quantities_t list \<Rightarrow> cs_gradient_quantities_t list" where
  "gradient_quantities_get gq_id gqs =
     (if gq_id \<ge> length gqs
      then gqs @ replicate (gq_id + 1 - length gqs) gradient_quantities_empty
      else gqs)"

text \<open>The three schemes dispatched on, and a fourth value named in
  \<^verbatim>\<open>cs_gradient_type_name\<close> (``Green-Gauss, vertex-based face interpolation'').\<close>

datatype cs_gradient_type_t =
    CS_GRADIENT_GREEN_ITER | CS_GRADIENT_LSQ | CS_GRADIENT_GREEN_LSQ | CS_GRADIENT_GREEN_VTX

text \<open>\<^verbatim>\<open>cs_gradient_info_t\<close> without its timer.\<close>

record cs_gradient_info_t =
  info_name :: string
  info_type :: cs_gradient_type_t
  n_calls :: nat
  n_iter_min :: int
  n_iter_max :: int
  n_iter_tot :: int

text \<open>\<^verbatim>\<open>_gradient_info_update_iter\<close>.\<close>

definition gradient_info_update_iter :: "cs_gradient_info_t \<Rightarrow> int \<Rightarrow> cs_gradient_info_t" where
  "gradient_info_update_iter this_info n_iter =
    (let this_info =
           (if n_iter > n_iter_max this_info then
              (let this_info = this_info\<lparr> n_iter_max := n_iter \<rparr>
               in if n_calls this_info = 0
                  then this_info\<lparr> n_iter_min := n_iter \<rparr> else this_info)
            else if n_iter < n_iter_min this_info
            then this_info\<lparr> n_iter_min := n_iter \<rparr>
            else this_info)
     in this_info\<lparr> n_iter_tot := n_iter_tot this_info + n_iter \<rparr>)"

text \<open>The call guarded by \<^verbatim>\<open>gradient_info != NULL\<close>.\<close>

definition info_update_iter :: "cs_gradient_info_t option \<Rightarrow> int \<Rightarrow> cs_gradient_info_t option" where
  "info_update_iter gradient_info n_iter =
     (case gradient_info of None \<Rightarrow> None
      | Some this_info \<Rightarrow> Some (gradient_info_update_iter this_info n_iter))"

subsection \<open>Iterative reconstruction (\<^verbatim>\<open>_compute_cell_cocg_it\<close>, \<^verbatim>\<open>_iterative_scalar_gradient\<close>)\<close>

definition add_to_33 :: "nat \<Rightarrow> nat \<Rightarrow> nat \<Rightarrow> real \<Rightarrow> cs_real_33_t list \<Rightarrow> cs_real_33_t list" where
  "add_to_33 c i j v a = a[c := (a!c)[i := (a!c!i)[j := a!c!i!j + v]]]"

definition sub_from_33 :: "nat \<Rightarrow> nat \<Rightarrow> nat \<Rightarrow> real \<Rightarrow> cs_real_33_t list \<Rightarrow> cs_real_33_t list" where
  "sub_from_33 c i j v a = a[c := (a!c)[i := (a!c!i)[j := a!c!i!j - v]]]"

definition cocg_it_i_face ::
  "cs_mesh_t \<Rightarrow> cs_mesh_quantities_t \<Rightarrow> nat \<Rightarrow> cs_real_33_t list \<Rightarrow> cs_real_33_t list" where
  "cocg_it_i_face m fvq f_id cocg =
    (let cell_id1 = i_face_cells m ! f_id ! 0;
         cell_id2 = i_face_cells m ! f_id ! 1;
         dvol1 = 1 / cell_vol fvq ! cell_id1;
         dvol2 = 1 / cell_vol fvq ! cell_id2
     in fold (\<lambda>i cocg.
          let pfac = - 0.5 * dofij fvq ! f_id ! i
          in fold (\<lambda>j cocg.
               let vecfac = pfac * i_face_normal fvq ! f_id ! j
               in sub_from_33 cell_id2 i j (vecfac * dvol2)
                    (add_to_33 cell_id1 i j (vecfac * dvol1) cocg))
               [0, 1, 2] cocg)
          [0, 1, 2] cocg)"

text \<open>The matrices are computed in the array the structure points to; the function
  returns that array, and the structure holding it.\<close>

definition compute_cell_cocg_it ::
  "cs_mesh_t \<Rightarrow> cs_mesh_quantities_t \<Rightarrow> cs_internal_coupling_t option \<Rightarrow>
   cs_gradient_quantities_t \<Rightarrow> cs_real_33_t list \<times> cs_gradient_quantities_t" where
  "compute_cell_cocg_it m fvq ce gq =
    (let cocg = replicate (n_cells_with_ghosts m) [[1, 0, 0], [0, 1, 0], [0, 0, 1]];
         cocg = fold (cocg_it_i_face m fvq) [0 ..< n_i_faces m] cocg;
         cocg = (case ce of Some c \<Rightarrow> cs_internal_coupling_it_cocg_contribution c cocg
                 | None \<Rightarrow> cocg);
         cocg = fold (\<lambda>cell_id cocg. cocg[cell_id := cs_math_33_inv_cramer_in_place (cocg!cell_id)])
                  [0 ..< n_cells m] cocg
     in (cocg, gq\<lparr> cocg_it := Some cocg \<rparr>))"

text \<open>One sweep: contributions of the faces to the right-hand side.\<close>

definition iter_s_hyd_i_face ::
  "cs_mesh_t \<Rightarrow> cs_mesh_quantities_t \<Rightarrow> cs_env_t \<Rightarrow> real list option \<Rightarrow> real list option \<Rightarrow>
   cs_real_3_t list \<Rightarrow> real list \<Rightarrow> cs_real_3_t list \<Rightarrow> nat \<Rightarrow> cs_real_3_t list \<Rightarrow>
   cs_real_3_t list" where
  "iter_s_hyd_i_face m fvq env c_weight_s c_weight_t f_ext pvar grad f_id rhs =
    (let (is_porous, i_poro_duq_0, i_poro_duq_1, b_poro_duq) = poro_arrays env;
         c_id1 = i_face_cells m ! f_id ! 0;
         c_id2 = i_face_cells m ! f_id ! 1;
         ktpond = face_ktpond fvq c_weight_s c_weight_t f_id c_id1 c_id2;
         poro = [i_poro_duq_0 ! (is_porous * f_id), i_poro_duq_1 ! (is_porous * f_id)];
         fexd = [0.5 * (f_ext!c_id1!0 + f_ext!c_id2!0),
                 0.5 * (f_ext!c_id1!1 + f_ext!c_id2!1),
                 0.5 * (f_ext!c_id1!2 + f_ext!c_id2!2)];
         pfaci =
             (i_face_cog fvq !f_id!0 - cell_cen fvq !c_id1!0)
               * (ktpond * f_ext!c_id1!0 - weight fvq !f_id * fexd!0)
           + (i_face_cog fvq !f_id!1 - cell_cen fvq !c_id1!1)
               * (ktpond * f_ext!c_id1!1 - weight fvq !f_id * fexd!1)
           + (i_face_cog fvq !f_id!2 - cell_cen fvq !c_id1!2)
               * (ktpond * f_ext!c_id1!2 - weight fvq !f_id * fexd!2)
           + ktpond * poro!0
           + (i_face_cog fvq !f_id!0 - cell_cen fvq !c_id2!0)
               * ((1 - ktpond) * f_ext!c_id2!0 - (1 - weight fvq !f_id) * fexd!0)
           + (i_face_cog fvq !f_id!1 - cell_cen fvq !c_id2!1)
               * ((1 - ktpond) * f_ext!c_id2!1 - (1 - weight fvq !f_id) * fexd!1)
           + (i_face_cog fvq !f_id!2 - cell_cen fvq !c_id2!2)
               * ((1 - ktpond) * f_ext!c_id2!2 - (1 - weight fvq !f_id) * fexd!2)
           + (1 - ktpond) * poro!1
           + (  dofij fvq !f_id!0 * (grad!c_id1!0 + grad!c_id2!0)
              + dofij fvq !f_id!1 * (grad!c_id1!1 + grad!c_id2!1)
              + dofij fvq !f_id!2 * (grad!c_id1!2 + grad!c_id2!2)) * 0.5;
         pfacj = pfaci;
         pfaci = pfaci + (1 - ktpond) * (pvar!c_id2 - pvar!c_id1);
         pfacj = pfacj - ktpond * (pvar!c_id2 - pvar!c_id1)
     in fold (\<lambda>j rhs. sub_from c_id2 j (pfacj * i_f_face_normal fvq !f_id!j)
                         (add_to c_id1 j (pfaci * i_f_face_normal fvq !f_id!j) rhs))
          [0, 1, 2] rhs)"

definition iter_s_hyd_b_face ::
  "cs_mesh_t \<Rightarrow> cs_mesh_quantities_t \<Rightarrow> cs_env_t \<Rightarrow> real \<Rightarrow> cs_real_3_t list \<Rightarrow> real list \<Rightarrow>
   real list \<Rightarrow> real list \<Rightarrow> cs_real_3_t list \<Rightarrow> nat \<Rightarrow> cs_real_3_t list \<Rightarrow> cs_real_3_t list" where
  "iter_s_hyd_b_face m fvq env inc f_ext coefap coefbp pvar grad f_id rhs =
    (let (is_porous, i_poro_duq_0, i_poro_duq_1, b_poro_duq) = poro_arrays env;
         c_id = b_face_cells m ! f_id;
         poro = b_poro_duq ! (is_porous * f_id);
         pfac = coefap!f_id * inc
                + coefbp!f_id
                  * (  diipb fvq !f_id!0 * (grad!c_id!0 - f_ext!c_id!0)
                     + diipb fvq !f_id!1 * (grad!c_id!1 - f_ext!c_id!1)
                     + diipb fvq !f_id!2 * (grad!c_id!2 - f_ext!c_id!2)
                     + (b_face_cog fvq !f_id!0 - cell_cen fvq !c_id!0) * f_ext!c_id!0
                     + (b_face_cog fvq !f_id!1 - cell_cen fvq !c_id!1) * f_ext!c_id!1
                     + (b_face_cog fvq !f_id!2 - cell_cen fvq !c_id!2) * f_ext!c_id!2
                     + poro);
         pfac = pfac + (coefbp!f_id - 1) * pvar!c_id;
         rhs = add_to c_id 0 (pfac * b_f_face_normal fvq !f_id!0) rhs;
         rhs = add_to c_id 1 (pfac * b_f_face_normal fvq !f_id!1) rhs;
         rhs = add_to c_id 2 (pfac * b_f_face_normal fvq !f_id!2) rhs
     in rhs)"

definition iter_s_std_i_face ::
  "cs_mesh_t \<Rightarrow> cs_mesh_quantities_t \<Rightarrow> real list option \<Rightarrow> real list option \<Rightarrow>
   real list \<Rightarrow> cs_real_3_t list \<Rightarrow> nat \<Rightarrow> cs_real_3_t list \<Rightarrow> cs_real_3_t list" where
  "iter_s_std_i_face m fvq c_weight_s c_weight_t pvar grad f_id rhs =
    (let c_id1 = i_face_cells m ! f_id ! 0;
         c_id2 = i_face_cells m ! f_id ! 1;
         pfaci = 0.5 * (  dofij fvq !f_id!0 * (grad!c_id1!0 + grad!c_id2!0)
                        + dofij fvq !f_id!1 * (grad!c_id1!1 + grad!c_id2!1)
                        + dofij fvq !f_id!2 * (grad!c_id1!2 + grad!c_id2!2));
         pfacj = pfaci;
         ktpond = face_ktpond fvq c_weight_s c_weight_t f_id c_id1 c_id2;
         pfaci = pfaci + (1 - ktpond) * (pvar!c_id2 - pvar!c_id1);
         pfacj = pfacj - ktpond * (pvar!c_id2 - pvar!c_id1)
     in fold (\<lambda>j rhs. sub_from c_id2 j (pfacj * i_f_face_normal fvq !f_id!j)
                         (add_to c_id1 j (pfaci * i_f_face_normal fvq !f_id!j) rhs))
          [0, 1, 2] rhs)"

definition iter_s_std_b_face ::
  "cs_mesh_t \<Rightarrow> cs_mesh_quantities_t \<Rightarrow> cs_internal_coupling_t option \<Rightarrow> real \<Rightarrow> real list \<Rightarrow>
   real list \<Rightarrow> real list \<Rightarrow> cs_real_3_t list \<Rightarrow> nat \<Rightarrow> cs_real_3_t list \<Rightarrow> cs_real_3_t list" where
  "iter_s_std_b_face m fvq cpl inc coefap coefbp pvar grad f_id rhs =
    (if is_coupled_face cpl f_id then rhs
     else
      (let c_id = b_face_cells m ! f_id;
           pfac = coefap!f_id * inc
                  + coefbp!f_id
                    * (  diipb fvq !f_id!0 * grad!c_id!0
                       + diipb fvq !f_id!1 * grad!c_id!1
                       + diipb fvq !f_id!2 * grad!c_id!2);
           pfac = pfac + (coefbp!f_id - 1) * pvar!c_id;
           rhs = add_to c_id 0 (pfac * b_f_face_normal fvq !f_id!0) rhs;
           rhs = add_to c_id 1 (pfac * b_f_face_normal fvq !f_id!1) rhs;
           rhs = add_to c_id 2 (pfac * b_f_face_normal fvq !f_id!2) rhs
       in rhs))"

text \<open>The increment of the gradient of one cell; the state is \<open>(grad, rhs)\<close>.\<close>

definition iter_s_increment ::
  "cs_mesh_quantities_t \<Rightarrow> real list \<Rightarrow> cs_real_33_t list \<Rightarrow> nat \<Rightarrow>
   cs_real_3_t list \<times> cs_real_3_t list \<Rightarrow> cs_real_3_t list \<times> cs_real_3_t list" where
  "iter_s_increment fvq vol cocg c_id = (\<lambda>(grad, rhs).
     let dvol = cell_dvol fvq vol c_id;
         rhs = mul_by c_id 0 dvol rhs;
         rhs = mul_by c_id 1 dvol rhs;
         rhs = mul_by c_id 2 dvol rhs;
         grad = add_to c_id 0 (  rhs!c_id!0 * cocg!c_id!0!0
                               + rhs!c_id!1 * cocg!c_id!1!0
                               + rhs!c_id!2 * cocg!c_id!2!0) grad;
         grad = add_to c_id 1 (  rhs!c_id!0 * cocg!c_id!0!1
                               + rhs!c_id!1 * cocg!c_id!1!1
                               + rhs!c_id!2 * cocg!c_id!2!1) grad;
         grad = add_to c_id 2 (  rhs!c_id!0 * cocg!c_id!0!2
                               + rhs!c_id!1 * cocg!c_id!1!2
                               + rhs!c_id!2 * cocg!c_id!2!2) grad
     in (grad, rhs))"

text \<open>The body of the sweep loop up to the halo exchange: the new gradient and the
  right-hand side whose norm is the residual.\<close>

definition iter_s_sweep ::
  "cs_mesh_t \<Rightarrow> cs_mesh_quantities_t \<Rightarrow> cs_env_t \<Rightarrow> cs_internal_coupling_t option \<Rightarrow> nat \<Rightarrow> int \<Rightarrow>
   real \<Rightarrow> cs_real_3_t list \<Rightarrow> real list \<Rightarrow> real list \<Rightarrow> real list \<Rightarrow> real list option \<Rightarrow>
   cs_real_33_t list \<Rightarrow> cs_real_3_t list \<Rightarrow> cs_real_3_t list \<times> cs_real_3_t list" where
  "iter_s_sweep m fvq env cpl w_stride hyd_p_flag inc f_ext coefap coefbp pvar c_weight cocg grad =
    (let vol = sel_cell_f_vol env fvq;
         c_weight_s = c_weight_s_of w_stride c_weight;
         c_weight_t = c_weight_t_of w_stride c_weight;
         rhs = map (\<lambda>c_id. [- grad!c_id!0 * vol!c_id, - grad!c_id!1 * vol!c_id,
                            - grad!c_id!2 * vol!c_id]) [0 ..< n_cells_with_ghosts m];
         rhs =
           (if hyd_p_flag = 1 then
              (let rhs = for_i_faces (i_face_numbering m)
                           (iter_s_hyd_i_face m fvq env c_weight_s c_weight_t f_ext pvar grad) rhs
               in for_b_faces (b_face_numbering m)
                    (iter_s_hyd_b_face m fvq env inc f_ext coefap coefbp pvar grad) rhs)
            else
              (let rhs = for_i_faces (i_face_numbering m)
                           (iter_s_std_i_face m fvq c_weight_s c_weight_t pvar grad) rhs;
                   rhs = (case cpl of
                            Some ce \<Rightarrow> cs_internal_coupling_iterative_scalar_gradient ce
                                         c_weight grad pvar rhs
                          | None \<Rightarrow> rhs)
               in for_b_faces (b_face_numbering m)
                    (iter_s_std_b_face m fvq cpl inc coefap coefbp pvar grad) rhs));
         (grad, rhs) = fold (iter_s_increment fvq vol cocg) [0 ..< n_cells m] (grad, rhs);
         grad = sync_scalar_gradient_halo m CS_HALO_STANDARD grad
     in (grad, rhs))"

text \<open>The sweep loop \<^verbatim>\<open>for (n_sweeps = 1; n_sweeps < nswrgp; n_sweeps++)\<close> with its
  convergence test and \<^verbatim>\<open>break\<close>. The loop is given the sweep as a function; the state
  is \<open>(grad, l2_residual, out)\<close> and the result carries the final \<open>n_sweeps\<close>.\<close>

function iter_s_sweeps ::
  "(cs_real_3_t list \<Rightarrow> cs_real_3_t list \<times> cs_real_3_t list) \<Rightarrow> (cs_real_3_t list \<Rightarrow> real) \<Rightarrow>
   string \<Rightarrow> int \<Rightarrow> int \<Rightarrow> real \<Rightarrow> real \<Rightarrow> int \<Rightarrow>
   cs_real_3_t list \<times> real \<times> log_msg list \<Rightarrow> int \<times> cs_real_3_t list \<times> real \<times> log_msg list"
  where
  "iter_s_sweeps sweep res_norm var_name nswrgp verbosity epsrgp rnorm n_sweeps (grad, l2_residual, out) =
    (if n_sweeps < nswrgp then
       (let (grad, rhs) = sweep grad;
            l2_residual = res_norm rhs
        in if l2_residual < epsrgp * rnorm then
             (n_sweeps, grad, l2_residual,
              if verbosity \<ge> 2
              then out @ [Converged_info var_name (nat n_sweeps) (l2_residual / rnorm) rnorm]
              else out)
           else iter_s_sweeps sweep res_norm var_name nswrgp verbosity epsrgp rnorm (n_sweeps + 1)
                  (grad, l2_residual, out))
     else (n_sweeps, grad, l2_residual, out))"
  by pat_completeness auto
termination
  by (relation "measure (\<lambda>(sweep, res_norm, var_name, nswrgp, verbosity, epsrgp, rnorm, n_sweeps, s).
                  nat (nswrgp - n_sweeps))") auto

text \<open>The matrices of the iterative scheme: those cached for the coupling entity, computed
  on first use.\<close>

definition iter_s_get_cocg ::
  "cs_mesh_t \<Rightarrow> cs_mesh_quantities_t \<Rightarrow> cs_internal_coupling_t option \<Rightarrow>
   cs_gradient_quantities_t list \<Rightarrow> cs_real_33_t list \<times> cs_gradient_quantities_t list" where
  "iter_s_get_cocg m fvq cpl gqs =
    (let gq_id = (case cpl of None \<Rightarrow> 0 | Some ce \<Rightarrow> cpl_id ce + 1);
         gqs = gradient_quantities_get gq_id gqs
     in case cocg_it (gqs ! gq_id) of
          None \<Rightarrow> (let (cocg, gq) = compute_cell_cocg_it m fvq cpl (gqs ! gq_id)
                   in (cocg, gqs[gq_id := gq]))
        | Some cocg \<Rightarrow> (cocg, gqs))"

text \<open>The driver. The state is the gradient, the diagnostics entry, the cached
  quantities and the printed lines.\<close>

definition iterative_scalar_gradient ::
  "cs_mesh_t \<Rightarrow> cs_mesh_quantities_t \<Rightarrow> cs_env_t \<Rightarrow> cs_internal_coupling_t option \<Rightarrow> nat \<Rightarrow> string \<Rightarrow>
   int \<Rightarrow> int \<Rightarrow> int \<Rightarrow> real \<Rightarrow> real \<Rightarrow> cs_real_3_t list \<Rightarrow> real list \<Rightarrow> real list \<Rightarrow> real list \<Rightarrow>
   real list option \<Rightarrow>
   cs_real_3_t list \<times> cs_gradient_info_t option \<times> cs_gradient_quantities_t list \<times> log_msg list \<Rightarrow>
   cs_real_3_t list \<times> cs_gradient_info_t option \<times> cs_gradient_quantities_t list \<times> log_msg list"
  where
  "iterative_scalar_gradient m fvq env cpl w_stride var_name nswrgp hyd_p_flag verbosity inc epsrgp
     f_ext coefap coefbp pvar c_weight =
   (\<lambda>(grad, gradient_info, gqs, out).
    if nswrgp < 1 then (grad, info_update_iter gradient_info 0, gqs, out)
    else
     (let (cocg, gqs) = iter_s_get_cocg m fvq cpl gqs;
          rnorm = l2_norm_1 (env_mpi env) (3 * n_cells m) (concat grad)
      in if rnorm \<le> cs_math_epzero then (grad, info_update_iter gradient_info 0, gqs, out)
         else
          (let (n_sweeps, grad, l2_residual, out) =
                 iter_s_sweeps
                   (iter_s_sweep m fvq env cpl w_stride hyd_p_flag inc f_ext coefap coefbp pvar
                      c_weight cocg)
                   (\<lambda>rhs. l2_norm_1 (env_mpi env) (3 * n_cells m) (concat rhs))
                   var_name nswrgp verbosity epsrgp rnorm 1 (grad, 0, out);
               out = (if l2_residual \<ge> epsrgp * rnorm \<and> verbosity > - 1
                      then out @ [Sweep_warning var_name (nat n_sweeps) (l2_residual / rnorm) rnorm]
                      else out)
           in (grad, info_update_iter gradient_info n_sweeps, gqs, out))))"

text \<open>For the statements about the sweep loop: the gradient after \<open>k\<close> sweeps, and the
  residual the \<open>k\<close>-th sweep computes (\<open>k \<ge> 1\<close>).\<close>

definition grad_after_sweeps ::
  "(cs_real_3_t list \<Rightarrow> cs_real_3_t list \<times> cs_real_3_t list) \<Rightarrow> nat \<Rightarrow> cs_real_3_t list \<Rightarrow>
   cs_real_3_t list" where
  "grad_after_sweeps sweep k grad = ((\<lambda>g. fst (sweep g)) ^^ k) grad"

definition residual_of_sweep ::
  "(cs_real_3_t list \<Rightarrow> cs_real_3_t list \<times> cs_real_3_t list) \<Rightarrow> (cs_real_3_t list \<Rightarrow> real) \<Rightarrow>
   nat \<Rightarrow> cs_real_3_t list \<Rightarrow> real" where
  "residual_of_sweep sweep res_norm k grad =
     res_norm (snd (sweep (grad_after_sweeps sweep (k - 1) grad)))"

text \<open>What the loop returns, by the number \<open>k\<close> of sweeps it ran.\<close>

definition sweeps_result ::
  "(cs_real_3_t list \<Rightarrow> cs_real_3_t list \<times> cs_real_3_t list) \<Rightarrow> (cs_real_3_t list \<Rightarrow> real) \<Rightarrow>
   string \<Rightarrow> int \<Rightarrow> int \<Rightarrow> real \<Rightarrow> real \<Rightarrow> int \<Rightarrow> cs_real_3_t list \<Rightarrow> real \<Rightarrow> log_msg list \<Rightarrow>
   nat \<Rightarrow> int \<times> cs_real_3_t list \<times> real \<times> log_msg list" where
  "sweeps_result sweep res var_name nswrgp verbosity epsrgp rnorm n0 g r out k =
     (if 1 \<le> k \<and> residual_of_sweep sweep res k g < epsrgp * rnorm
      then (n0 + int k - 1, grad_after_sweeps sweep k g, residual_of_sweep sweep res k g,
            if verbosity \<ge> 2
            then out @ [Converged_info var_name (nat (n0 + int k - 1))
                          (residual_of_sweep sweep res k g / rnorm) rnorm]
            else out)
      else (max n0 nswrgp, grad_after_sweeps sweep k g,
            if k = 0 then r else residual_of_sweep sweep res k g, out))"


text \<open>A rank with one owned cell and one ghost cell across an interior face whose
  centre is off the line of the cell centres.\<close>

definition mesh_one_cell_ghost :: cs_mesh_t where
  "mesh_one_cell_ghost =
     \<lparr> n_domains = 1, n_cells = 1, n_cells_with_ghosts = 2, n_i_faces = 1, n_b_faces = 0,
       n_b_cells = 0, i_face_cells = [[0, 1]], b_face_cells = [], b_cells = [],
       cell_cells_idx = None, cell_cells_lst = [],
       i_face_numbering = \<lparr> n_threads = 1, n_groups = 1, group_index = [0, 1] \<rparr>,
       b_face_numbering = \<lparr> n_threads = 1, n_groups = 1, group_index = [0, 0] \<rparr>,
       halo = Some halo_id, have_rotation_perio = False \<rparr>"

definition fvq_skewed :: cs_mesh_quantities_t where
  "fvq_skewed =
     \<lparr> cell_cen = [[0, 0, 0], [1, 0, 0]], cell_vol = [1, 1], cell_f_vol = [1, 1],
       i_face_normal = [[1, 0, 0]], b_face_normal = [],
       i_f_face_normal = [[1, 0, 0]], b_f_face_normal = [],
       i_face_cog = [[1/2, 0, 0]], b_face_cog = [], b_face_surf = [], b_dist = [],
       weight = [1/2], dofij = [[1, 0, 0]], diipb = [], corr_grad_lin = [],
       has_disable_flag = 0, c_disable_flag = [0] \<rparr>"

text \<open>A serial run without porosity model, bad-cell corrections or internal coupling.\<close>

definition env_plain :: cs_env_t where
  "env_plain =
     \<lparr> cs_glob_porous_model = 0, poro_duq = None, bad_cells_regularisation = False,
       bad_cells_warped_correction = False, cs_mesh_quantities_compute_count = 1,
       cs_glob_e2n_sum_type = CS_E2N_SUM_STORE_THEN_GATHER, env_mpi = mpi_serial,
       cs_bad_cells_regularisation_vector = (\<lambda>grad. grad) \<rparr>"

subsection \<open>The static variables of \<^verbatim>\<open>_gradient_scalar\<close> and its two entry points\<close>

text \<open>\<^verbatim>\<open>static int last_fvm_count = 0; static char var_name_prev[96] = "";\<close>\<close>

record gradient_scalar_statics_t =
  last_fvm_count :: int
  var_name_prev :: string

definition gradient_scalar_statics_init :: gradient_scalar_statics_t where
  "gradient_scalar_statics_init = \<lparr> last_fvm_count = 0, var_name_prev = [] \<rparr>"

text \<open>\<^verbatim>\<open>strncmp(a, b, n) == 0\<close> and the result of \<^verbatim>\<open>strncpy(dest, src, n)\<close> into a zeroed
  buffer of \<open>n + 1\<close> bytes, on C strings seen as the characters before the terminator.\<close>

definition strncmp_eq :: "string \<Rightarrow> string \<Rightarrow> nat \<Rightarrow> bool" where
  "strncmp_eq a b n = (take n a = take n b)"

definition strncpy_str :: "string \<Rightarrow> nat \<Rightarrow> string" where
  "strncpy_str src n = take n src"

text \<open>The head of \<^verbatim>\<open>_gradient_scalar\<close>, up to \<^verbatim>\<open>strncpy(var_name_prev, var_name, 95)\<close>:
  the flag \<^verbatim>\<open>recompute_cocg\<close> handed to the least-squares kernels, and the updated
  static variables.\<close>

definition gradient_scalar_recompute_cocg ::
  "cs_env_t \<Rightarrow> string \<Rightarrow> int \<Rightarrow> bool \<Rightarrow> gradient_scalar_statics_t \<Rightarrow>
   bool \<times> gradient_scalar_statics_t" where
  "gradient_scalar_recompute_cocg env var_name inc check_recompute_cocg st =
    (let recompute_cocg = True;
         (recompute_cocg, st) =
           (if check_recompute_cocg then
              (let recompute_cocg =
                     (if strncmp_eq (var_name_prev st) var_name 95 \<and> inc = 0
                      then False else recompute_cocg);
                   prev_fvq_count = last_fvm_count st;
                   st = st\<lparr> last_fvm_count := cs_mesh_quantities_compute_count env \<rparr>;
                   recompute_cocg =
                     (if last_fvm_count st \<noteq> prev_fvq_count then True else recompute_cocg)
               in (recompute_cocg, st))
            else (recompute_cocg, st));
         st = st\<lparr> var_name_prev := strncpy_str var_name 95 \<rparr>
     in (recompute_cocg, st))"

text \<open>The entry points differ, for this flag, in the constant they pass:
  \<^verbatim>\<open>cs_gradient_scalar\<close> passes \<^verbatim>\<open>false\<close>, \<^verbatim>\<open>cs_gradient_scalar_synced_input\<close>
  passes \<^verbatim>\<open>true\<close>.\<close>

datatype scalar_entry_t = Via_cs_gradient_scalar | Via_cs_gradient_scalar_synced_input

definition entry_check_recompute_cocg :: "scalar_entry_t \<Rightarrow> bool" where
  "entry_check_recompute_cocg e =
     (case e of Via_cs_gradient_scalar \<Rightarrow> False
      | Via_cs_gradient_scalar_synced_input \<Rightarrow> True)"

text \<open>One call: the entry point, the environment at the time of the call, the variable
  name and \<^verbatim>\<open>inc\<close>.\<close>

record scalar_call_t =
  call_entry :: scalar_entry_t
  call_env :: cs_env_t
  call_var_name :: string
  call_inc :: int

definition scalar_call_recompute_cocg ::
  "scalar_call_t \<Rightarrow> gradient_scalar_statics_t \<Rightarrow> bool \<times> gradient_scalar_statics_t" where
  "scalar_call_recompute_cocg c st =
     gradient_scalar_recompute_cocg (call_env c) (call_var_name c) (call_inc c)
       (entry_check_recompute_cocg (call_entry c)) st"

text \<open>The static variables after a sequence of calls, from program start.\<close>

definition statics_after :: "scalar_call_t list \<Rightarrow> gradient_scalar_statics_t" where
  "statics_after calls =
     fold (\<lambda>c st. snd (scalar_call_recompute_cocg c st)) calls gradient_scalar_statics_init"

text \<open>For the statement: the name given to the last call of a history (empty before
  the first call), and the compute count seen by its last call through
  \<^verbatim>\<open>cs_gradient_scalar_synced_input\<close> (\<open>0\<close> before the first such call).\<close>

definition last_call_name :: "scalar_call_t list \<Rightarrow> string" where
  "last_call_name calls = (if calls = [] then [] else call_var_name (last calls))"

definition last_synced_count :: "scalar_call_t list \<Rightarrow> int" where
  "last_synced_count calls =
     (let synced = filter (\<lambda>c. call_entry c = Via_cs_gradient_scalar_synced_input) calls
      in if synced = [] then 0 else cs_mesh_quantities_compute_count (call_env (last synced)))"

definition env_with_count :: "int \<Rightarrow> cs_env_t" where
  "env_with_count n = env_plain\<lparr> cs_mesh_quantities_compute_count := n \<rparr>"

subsection \<open>Least-squares covariance (\<^verbatim>\<open>_compute_cell_cocg_lsq\<close>, \<^verbatim>\<open>_get_cell_cocg_lsq\<close>,
  \<^verbatim>\<open>_recompute_lsq_scalar_cocg\<close>)\<close>

text \<open>The six statements \<^verbatim>\<open>cocg[c][0] += d[0]*d[0]*k; ... cocg[c][5] += d[0]*d[2]*k;\<close> on one
  cell's packed matrix.\<close>

definition cocg_6_add :: "real list \<Rightarrow> real \<Rightarrow> cs_cocg_6_t \<Rightarrow> cs_cocg_6_t" where
  "cocg_6_add d k a =
     a[0 := a!0 + d!0 * d!0 * k, 1 := a!1 + d!1 * d!1 * k, 2 := a!2 + d!2 * d!2 * k,
       3 := a!3 + d!0 * d!1 * k, 4 := a!4 + d!1 * d!2 * k, 5 := a!5 + d!0 * d!2 * k]"

definition cocg_lsq_add :: "nat \<Rightarrow> real list \<Rightarrow> real \<Rightarrow> cs_cocg_6_t list \<Rightarrow> cs_cocg_6_t list" where
  "cocg_lsq_add c d k cocg = cocg[c := cocg_6_add d k (cocg ! c)]"

definition cocg_lsq_i_face ::
  "cs_mesh_t \<Rightarrow> cs_mesh_quantities_t \<Rightarrow> nat \<Rightarrow> cs_cocg_6_t list \<Rightarrow> cs_cocg_6_t list" where
  "cocg_lsq_i_face m fvq f_id cocg =
    (let ii = i_face_cells m ! f_id ! 0;
         jj = i_face_cells m ! f_id ! 1;
         dc = map (\<lambda>ll. cell_cen fvq ! jj ! ll - cell_cen fvq ! ii ! ll) [0, 1, 2];
         ddc = 1 / (dc!0 * dc!0 + dc!1 * dc!1 + dc!2 * dc!2)
     in cocg_lsq_add jj dc ddc (cocg_lsq_add ii dc ddc cocg))"

definition cocg_lsq_ext_neighbor ::
  "cs_mesh_t \<Rightarrow> cs_mesh_quantities_t \<Rightarrow> nat \<Rightarrow> nat \<Rightarrow> cs_cocg_6_t list \<Rightarrow> cs_cocg_6_t list" where
  "cocg_lsq_ext_neighbor m fvq ii cidx cocg =
    (let jj = cell_cells_lst m ! cidx;
         dc = map (\<lambda>ll. cell_cen fvq ! jj ! ll - cell_cen fvq ! ii ! ll) [0, 1, 2];
         ddc = 1 / (dc!0 * dc!0 + dc!1 * dc!1 + dc!2 * dc!2)
     in cocg_lsq_add ii dc ddc cocg)"

definition cocg_lsq_b_face ::
  "cs_mesh_t \<Rightarrow> cs_mesh_quantities_t \<Rightarrow> cs_internal_coupling_t option \<Rightarrow> nat \<Rightarrow>
   cs_cocg_6_t list \<Rightarrow> cs_cocg_6_t list" where
  "cocg_lsq_b_face m fvq ce f_id cocg =
    (if is_coupled_face ce f_id then cocg
     else
      (let ii = b_face_cells m ! f_id;
           normal = cs_math_3_normalize (b_face_normal fvq ! f_id)
       in cocg_lsq_add ii normal 1 cocg))"

text \<open>The covariance before the boundary faces are added: interior faces, internal
  coupling, extended neighbourhood.\<close>

definition cocg_lsq_interior ::
  "cs_mesh_t \<Rightarrow> bool \<Rightarrow> cs_mesh_quantities_t \<Rightarrow> cs_internal_coupling_t option \<Rightarrow>
   cs_cocg_6_t list" where
  "cocg_lsq_interior m extended fvq ce =
    (let cocg = replicate (n_cells_with_ghosts m) (replicate 6 0);
         cocg = for_i_faces (i_face_numbering m) (cocg_lsq_i_face m fvq) cocg;
         cocg = (case ce of Some c \<Rightarrow> cs_internal_coupling_lsq_cocg_contribution c cocg
                 | None \<Rightarrow> cocg)
     in if extended
        then (case cell_cells_idx m of
                Some idx \<Rightarrow> for_ext_neighbors (n_cells m) idx (cocg_lsq_ext_neighbor m fvq) cocg
              | None \<Rightarrow> cocg)
        else cocg)"

text \<open>\<^verbatim>\<open>_compute_cell_cocg_lsq\<close>: the arrays are written in the structure, in the pair of
  fields \<^verbatim>\<open>extended\<close> selects.\<close>

definition compute_cell_cocg_lsq ::
  "cs_mesh_t \<Rightarrow> bool \<Rightarrow> cs_mesh_quantities_t \<Rightarrow> cs_internal_coupling_t option \<Rightarrow>
   cs_gradient_quantities_t \<Rightarrow> cs_gradient_quantities_t" where
  "compute_cell_cocg_lsq m extended fvq ce gq =
    (let cocg = cocg_lsq_interior m extended fvq ce;
         cocgb = map (\<lambda>ii. let c_id = b_cells m ! ii in map (\<lambda>ll. cocg ! c_id ! ll) [0 ..< 6])
                   [0 ..< n_b_cells m];
         cocg = for_b_faces (b_face_numbering m) (cocg_lsq_b_face m fvq ce) cocg;
         cocg = fold (\<lambda>c_id cocg. cocg[c_id := math_6_inv_cramer_sym_in_place (cocg ! c_id)])
                  [0 ..< n_cells m] cocg
     in if extended then gq\<lparr> cocg_lsq_ext := Some cocg, cocgb_s_lsq_ext := Some cocgb \<rparr>
        else gq\<lparr> cocg_lsq := Some cocg, cocgb_s_lsq := Some cocgb \<rparr>)"

text \<open>The array a possibly null pointer addresses.\<close>

definition cached_array :: "'a list option \<Rightarrow> 'a list" where
  "cached_array p = (case p of Some a \<Rightarrow> a | None \<Rightarrow> [])"

text \<open>\<^verbatim>\<open>_get_cell_cocg_lsq\<close> on the host: \<open>(cocg, cocgb)\<close> and the updated structures.\<close>

definition lsq_extended :: "cs_mesh_t \<Rightarrow> cs_halo_type_t \<Rightarrow> bool" where
  "lsq_extended m halo_type = (halo_type = CS_HALO_EXTENDED \<and> cell_cells_idx m \<noteq> None)"

definition get_cell_cocg_lsq ::
  "cs_mesh_t \<Rightarrow> cs_halo_type_t \<Rightarrow> cs_mesh_quantities_t \<Rightarrow> cs_internal_coupling_t option \<Rightarrow>
   cs_gradient_quantities_t list \<Rightarrow>
   (cs_cocg_6_t list \<times> cs_cocg_6_t list) \<times> cs_gradient_quantities_t list" where
  "get_cell_cocg_lsq m halo_type fvq ce gqs =
    (let gq_id = (case ce of None \<Rightarrow> 0 | Some c \<Rightarrow> cpl_id c + 1);
         gqs = gradient_quantities_get gq_id gqs;
         gq = gqs ! gq_id;
         extended = lsq_extended m halo_type;
         cocg0 = (if extended then cocg_lsq_ext gq else cocg_lsq gq);
         gq = (if cocg0 = None then compute_cell_cocg_lsq m extended fvq ce gq else gq)
     in ((cached_array (if extended then cocg_lsq_ext gq else cocg_lsq gq),
          cached_array (if extended then cocgb_s_lsq_ext gq else cocgb_s_lsq gq)),
         gqs[gq_id := gq]))"

text \<open>The array \<open>cocg\<close> returned belongs to the structure of index \<open>0\<close> (the kernels
  pass no coupling entity): what is written to it is written there.\<close>

definition store_cell_cocg_lsq ::
  "cs_mesh_t \<Rightarrow> cs_halo_type_t \<Rightarrow> cs_cocg_6_t list \<Rightarrow> cs_gradient_quantities_t list \<Rightarrow>
   cs_gradient_quantities_t list" where
  "store_cell_cocg_lsq m halo_type cocg gqs =
     gqs[0 := (if lsq_extended m halo_type then (gqs ! 0)\<lparr> cocg_lsq_ext := Some cocg \<rparr>
               else (gqs ! 0)\<lparr> cocg_lsq := Some cocg \<rparr>)]"

text \<open>\<^verbatim>\<open>_recompute_lsq_scalar_cocg\<close>, loop by loop.\<close>

definition recompute_lsq_restore ::
  "cs_mesh_t \<Rightarrow> cs_cocg_6_t list \<Rightarrow> cs_cocg_6_t list \<Rightarrow> cs_cocg_6_t list" where
  "recompute_lsq_restore m cocgb cocg =
     fold (\<lambda>ii cocg. let c_id = b_cells m ! ii
                      in cocg[c_id := map (\<lambda>ll. cocgb ! ii ! ll) [0 ..< 6]])
       [0 ..< n_b_cells m] cocg"

definition recompute_lsq_dddij :: "cs_mesh_quantities_t \<Rightarrow> real list \<Rightarrow> nat \<Rightarrow> real list" where
  "recompute_lsq_dddij fvq coefbp f_id =
    (let umcbdd = (1 - coefbp ! f_id) / b_dist fvq ! f_id;
         udbfs = 1 / b_face_surf fvq ! f_id
     in map (\<lambda>ll. udbfs * b_face_normal fvq ! f_id ! ll + umcbdd * diipb fvq ! f_id ! ll)
          [0, 1, 2])"

definition recompute_lsq_b_face ::
  "cs_mesh_t \<Rightarrow> cs_mesh_quantities_t \<Rightarrow> cs_internal_coupling_t option \<Rightarrow> real list \<Rightarrow> nat \<Rightarrow>
   cs_cocg_6_t list \<Rightarrow> cs_cocg_6_t list" where
  "recompute_lsq_b_face m fvq cpl coefbp f_id cocg =
    (if is_coupled_face cpl f_id then cocg
     else
      (let ii = b_face_cells m ! f_id;
           dddij = recompute_lsq_dddij fvq coefbp f_id
       in cocg_lsq_add ii dddij 1 cocg))"

definition recompute_lsq_invert :: "cs_mesh_t \<Rightarrow> cs_cocg_6_t list \<Rightarrow> cs_cocg_6_t list" where
  "recompute_lsq_invert m cocg =
     fold (\<lambda>ii cocg. let c_id = b_cells m ! ii
                      in cocg[c_id := math_6_inv_cramer_sym_in_place (cocg ! c_id)])
       [0 ..< n_b_cells m] cocg"

definition recompute_lsq_scalar_cocg ::
  "cs_mesh_t \<Rightarrow> cs_mesh_quantities_t \<Rightarrow> cs_internal_coupling_t option \<Rightarrow> real list \<Rightarrow>
   cs_cocg_6_t list \<Rightarrow> cs_cocg_6_t list \<Rightarrow> cs_cocg_6_t list" where
  "recompute_lsq_scalar_cocg m fvq cpl coefbp cocgb cocg =
    (let cocg = recompute_lsq_restore m cocgb cocg;
         cocg = (case cpl of Some ce \<Rightarrow> cs_internal_coupling_lsq_cocg_contribution ce cocg
                 | None \<Rightarrow> cocg);
         cocg = for_b_faces (b_face_numbering m) (recompute_lsq_b_face m fvq cpl coefbp) cocg
     in recompute_lsq_invert m cocg)"

text \<open>For the statements: the boundary cells listed by the mesh; the mesh lists each
  boundary cell once and lists the cell of every boundary face; an internal coupling
  whose covariance contribution keeps the array size and touches listed cells only.\<close>

definition b_cell_ids :: "cs_mesh_t \<Rightarrow> nat list" where
  "b_cell_ids m = map (\<lambda>ii. b_cells m ! ii) [0 ..< n_b_cells m]"

definition b_cells_consistent :: "cs_mesh_t \<Rightarrow> bool" where
  "b_cells_consistent m =
     (distinct (b_cell_ids m) \<and>
      list_all (\<lambda>f_id. b_face_cells m ! f_id \<in> set (b_cell_ids m))
        (b_face_ids (b_face_numbering m)))"

definition coupling_on_b_cells :: "cs_mesh_t \<Rightarrow> cs_internal_coupling_t option \<Rightarrow> bool" where
  "coupling_on_b_cells m cpl =
     (case cpl of None \<Rightarrow> True
      | Some ce \<Rightarrow>
          (\<forall>cocg. length (cs_internal_coupling_lsq_cocg_contribution ce cocg) = length cocg \<and>
             (\<forall>c. c \<notin> set (b_cell_ids m) \<longrightarrow>
                  cs_internal_coupling_lsq_cocg_contribution ce cocg ! c = cocg ! c)))"

text \<open>The step \<^verbatim>\<open>if (cpl != NULL) cs_internal_coupling_lsq_cocg_contribution(cpl, cocg)\<close>.\<close>

definition coupled_cocg ::
  "cs_internal_coupling_t option \<Rightarrow> cs_cocg_6_t list \<Rightarrow> cs_cocg_6_t list" where
  "coupled_cocg cpl cocg =
     (case cpl of Some ce \<Rightarrow> cs_internal_coupling_lsq_cocg_contribution ce cocg | None \<Rightarrow> cocg)"

text \<open>The boundary faces of a cell that the face loop does not skip, in loop order.\<close>

definition b_faces_of_cell ::
  "cs_mesh_t \<Rightarrow> cs_internal_coupling_t option \<Rightarrow> nat \<Rightarrow> nat list" where
  "b_faces_of_cell m cpl c =
     filter (\<lambda>f_id. \<not> is_coupled_face cpl f_id \<and> b_face_cells m ! f_id = c)
       (b_face_ids (b_face_numbering m))"

text \<open>One cell with one boundary face, at distance \<open>1/2\<close> of the cell centre.\<close>

definition mesh_one_b_cell :: cs_mesh_t where
  "mesh_one_b_cell =
     \<lparr> n_domains = 1, n_cells = 2, n_cells_with_ghosts = 2, n_i_faces = 1, n_b_faces = 1,
       n_b_cells = 1, i_face_cells = [[0, 1]], b_face_cells = [1], b_cells = [1],
       cell_cells_idx = None, cell_cells_lst = [],
       i_face_numbering = \<lparr> n_threads = 1, n_groups = 1, group_index = [0, 1] \<rparr>,
       b_face_numbering = \<lparr> n_threads = 1, n_groups = 1, group_index = [0, 1] \<rparr>,
       halo = None, have_rotation_perio = False \<rparr>"

definition fvq_one_b_cell :: cs_mesh_quantities_t where
  "fvq_one_b_cell =
     \<lparr> cell_cen = [[0, 0, 0], [1, 0, 0]], cell_vol = [1, 1], cell_f_vol = [1, 1],
       i_face_normal = [[1, 0, 0]], b_face_normal = [[1, 0, 0]],
       i_f_face_normal = [[1, 0, 0]], b_f_face_normal = [[1, 0, 0]],
       i_face_cog = [[1/2, 0, 0]], b_face_cog = [[3/2, 0, 0]], b_face_surf = [1],
       b_dist = [1/2], weight = [1/2], dofij = [[0, 0, 0]], diipb = [[0, 0, 0]],
       corr_grad_lin = [], has_disable_flag = 0, c_disable_flag = [0, 0] \<rparr>"

subsection \<open>Dense symmetric systems (\<^verbatim>\<open>_fact_crout_pp\<close>, \<^verbatim>\<open>_fw_and_bw_ldtl_pp\<close>)\<close>

text \<open>The matrix is the packed lower triangle: entry \<open>(i, j)\<close>, \<open>j \<le> i\<close>, is at
  \<open>i*(i+1)/2 + j\<close>. The size \<open>d_size\<close> is a natural number here. The local array
  \<^verbatim>\<open>aux[d_size]\<close> is not initialised by the code: its initial content is an argument.\<close>

definition fact_crout_jj :: "nat \<Rightarrow> nat \<Rightarrow> real list \<Rightarrow> nat \<Rightarrow> real list \<Rightarrow> real list" where
  "fact_crout_jj ii_d_size kk aux jj ad =
     ad[ii_d_size + jj := ad ! (ii_d_size + jj) - ad ! (ii_d_size + kk) * aux ! jj]"

definition fact_crout_ii ::
  "nat \<Rightarrow> nat \<Rightarrow> nat \<Rightarrow> real list \<times> real list \<Rightarrow> real list \<times> real list" where
  "fact_crout_ii kk kk_d_size ii s =
    (let ad = fst s; aux = snd s;
         ii_d_size = ii * (ii + 1) div 2;
         aux = aux[ii := ad ! (ii_d_size + kk)];
         ad = ad[ii_d_size + kk := ad ! (ii_d_size + kk) / ad ! (kk_d_size + kk)];
         ad = fold (fact_crout_jj ii_d_size kk aux) [kk + 1 ..< ii + 1] ad
     in (ad, aux))"

definition fact_crout_kk :: "nat \<Rightarrow> nat \<Rightarrow> real list \<times> real list \<Rightarrow> real list \<times> real list" where
  "fact_crout_kk d_size kk s =
    (let kk_d_size = kk * (kk + 1) div 2
     in fold (fact_crout_ii kk kk_d_size) [kk + 1 ..< d_size] s)"

definition fact_crout_pp :: "nat \<Rightarrow> real list \<Rightarrow> real list \<Rightarrow> real list" where
  "fact_crout_pp d_size aux ad = fst (fold (fact_crout_kk d_size) [0 ..< d_size - 1] (ad, aux))"

definition fw_ldtl_ii :: "real list \<Rightarrow> real list \<Rightarrow> nat \<Rightarrow> real list \<Rightarrow> real list" where
  "fw_ldtl_ii mat b ii aux =
    (let ii_d_size = ii * (ii + 1) div 2;
         aux = aux[ii := b ! ii]
     in fold (\<lambda>jj aux. aux[ii := aux ! ii - aux ! jj * mat ! (ii_d_size + jj)]) [0 ..< ii] aux)"

definition diag_ldtl_ii :: "real list \<Rightarrow> nat \<Rightarrow> real list \<Rightarrow> real list" where
  "diag_ldtl_ii mat ii aux =
    (let ii_d_size = ii * (ii + 1) div 2
     in aux[ii := aux ! ii / mat ! (ii_d_size + ii)])"

definition bw_ldtl_ii :: "real list \<Rightarrow> nat \<Rightarrow> real list \<Rightarrow> nat \<Rightarrow> real list \<Rightarrow> real list" where
  "bw_ldtl_ii mat d_size aux ii x =
    (let x = x[ii := aux ! ii]
     in fold (\<lambda>jj x. let jj_d_size = jj * (jj + 1) div 2
                      in x[ii := x ! ii - x ! jj * mat ! (jj_d_size + ii)])
          (rev [ii + 1 ..< d_size]) x)"

text \<open>\<^verbatim>\<open>_fw_and_bw_ldtl_pp(mat, d_size, x, b)\<close>, with the initial content of \<^verbatim>\<open>aux\<close>.\<close>

definition fw_and_bw_ldtl_pp ::
  "real list \<Rightarrow> nat \<Rightarrow> real list \<Rightarrow> real list \<Rightarrow> real list \<Rightarrow> real list" where
  "fw_and_bw_ldtl_pp mat d_size aux x b =
    (let aux = fold (fw_ldtl_ii mat b) [0 ..< d_size] aux;
         aux = fold (diag_ldtl_ii mat) [0 ..< d_size] aux
     in fold (bw_ldtl_ii mat d_size aux) (rev [0 ..< d_size]) x)"

text \<open>For the statements: the entry \<open>(i, j)\<close> of the symmetric matrix a packed array
  stands for, the product of that matrix with a vector, and positive definiteness.\<close>

definition packed_at :: "real list \<Rightarrow> nat \<Rightarrow> nat \<Rightarrow> real" where
  "packed_at ad i j = ad ! (i * (i + 1) div 2 + j)"

definition sym_of :: "(nat \<Rightarrow> nat \<Rightarrow> real) \<Rightarrow> nat \<Rightarrow> nat \<Rightarrow> real" where
  "sym_of M i j = (if j \<le> i then M i j else M j i)"

definition packed_mult :: "nat \<Rightarrow> real list \<Rightarrow> real list \<Rightarrow> real list" where
  "packed_mult d ad x =
     map (\<lambda>i. sum_list (map (\<lambda>j. sym_of (packed_at ad) i j * x ! j) [0 ..< d])) [0 ..< d]"

definition quad_from :: "nat \<Rightarrow> nat \<Rightarrow> (nat \<Rightarrow> nat \<Rightarrow> real) \<Rightarrow> (nat \<Rightarrow> real) \<Rightarrow> real" where
  "quad_from k d M x = (\<Sum>i = k ..< d. \<Sum>j = k ..< d. sym_of M i j * x i * x j)"

definition pos_def_from :: "nat \<Rightarrow> nat \<Rightarrow> (nat \<Rightarrow> nat \<Rightarrow> real) \<Rightarrow> bool" where
  "pos_def_from k d M = (\<forall>x. (\<exists>i. k \<le> i \<and> i < d \<and> x i \<noteq> 0) \<longrightarrow> 0 < quad_from k d M x)"

definition sym_pos_def :: "nat \<Rightarrow> real list \<Rightarrow> bool" where
  "sym_pos_def d ad = pos_def_from 0 d (packed_at ad)"

text \<open>One elimination stage on the lower triangle, and what the stages up to \<open>k\<close>
  have factorised.\<close>

definition crout_stage :: "nat \<Rightarrow> (nat \<Rightarrow> nat \<Rightarrow> real) \<Rightarrow> nat \<Rightarrow> nat \<Rightarrow> real" where
  "crout_stage k M i j =
     (if j = k \<and> k < i then M i k / M k k
      else if k < j \<and> j \<le> i then M i j - (M i k / M k k) * M j k
      else M i j)"

definition ldl_rec :: "nat \<Rightarrow> (nat \<Rightarrow> nat \<Rightarrow> real) \<Rightarrow> nat \<Rightarrow> nat \<Rightarrow> real" where
  "ldl_rec k M i j =
     (\<Sum>m < min k j. M i m * M m m * M j m)
     + (if j < k then (if i = j then M j j else M i j * M j j) else M i j)"

definition tri_eq :: "nat \<Rightarrow> (nat \<Rightarrow> nat \<Rightarrow> real) \<Rightarrow> (nat \<Rightarrow> nat \<Rightarrow> real) \<Rightarrow> bool" where
  "tri_eq d M N = (\<forall>i < d. \<forall>j \<le> i. M i j = N i j)"

definition crout_inv ::
  "nat \<Rightarrow> (nat \<Rightarrow> nat \<Rightarrow> real) \<Rightarrow> nat \<Rightarrow> (nat \<Rightarrow> nat \<Rightarrow> real) \<Rightarrow> bool" where
  "crout_inv d A k M =
     (pos_def_from k d M \<and> (\<forall>j < k. 0 < M j j) \<and>
      (\<forall>i < d. \<forall>j \<le> i. ldl_rec k M i j = A i j))"

text \<open>The unit lower triangular factor as a full matrix.\<close>

definition unit_lower :: "(nat \<Rightarrow> nat \<Rightarrow> real) \<Rightarrow> nat \<Rightarrow> nat \<Rightarrow> real" where
  "unit_lower M i m = (if m < i then M i m else if m = i then 1 else 0)"


subsection \<open>Least-squares gradient (\<^verbatim>\<open>_lsq_scalar_gradient\<close>)\<close>

text \<open>\<^verbatim>\<open>for ll < 3: a[c][ll] += k * v[ll]\<close>.\<close>

definition add_vec3 :: "nat \<Rightarrow> real \<Rightarrow> real list \<Rightarrow> real list list \<Rightarrow> real list list" where
  "add_vec3 c k v a = fold (\<lambda>ll a. add_to c ll (k * v ! ll) a) [0, 1, 2] a"

definition sub_vec3 :: "nat \<Rightarrow> real \<Rightarrow> real list \<Rightarrow> real list list \<Rightarrow> real list list" where
  "sub_vec3 c k v a = fold (\<lambda>ll a. sub_from c ll (k * v ! ll) a) [0, 1, 2] a"

definition lsq_s_i_face ::
  "cs_mesh_t \<Rightarrow> cs_mesh_quantities_t \<Rightarrow> real list option \<Rightarrow> nat \<Rightarrow> real list list \<Rightarrow>
   real list list" where
  "lsq_s_i_face m fvq c_weight f_id rhsv =
    (let ii = i_face_cells m ! f_id ! 0;
         jj = i_face_cells m ! f_id ! 1;
         pond = weight fvq ! f_id;
         dc = map (\<lambda>ll. cell_cen fvq ! jj ! ll - cell_cen fvq ! ii ! ll) [0, 1, 2];
         pfac = (rhsv ! jj ! 3 - rhsv ! ii ! 3) / (dc!0 * dc!0 + dc!1 * dc!1 + dc!2 * dc!2);
         fctb = map (\<lambda>ll. dc ! ll * pfac) [0, 1, 2]
     in case c_weight of
          Some cw \<Rightarrow>
            (let denom = 1 / (pond * cw ! ii + (1 - pond) * cw ! jj)
             in add_vec3 jj (cw ! ii * denom) fctb (add_vec3 ii (cw ! jj * denom) fctb rhsv))
        | None \<Rightarrow> add_vec3 jj 1 fctb (add_vec3 ii 1 fctb rhsv))"

definition lsq_s_ext_neighbor ::
  "cs_mesh_t \<Rightarrow> cs_mesh_quantities_t \<Rightarrow> nat \<Rightarrow> nat \<Rightarrow> real list list \<Rightarrow> real list list" where
  "lsq_s_ext_neighbor m fvq ii cidx rhsv =
    (let jj = cell_cells_lst m ! cidx;
         dc = map (\<lambda>ll. cell_cen fvq ! jj ! ll - cell_cen fvq ! ii ! ll) [0, 1, 2];
         pfac = (rhsv ! jj ! 3 - rhsv ! ii ! 3) / (dc!0 * dc!0 + dc!1 * dc!1 + dc!2 * dc!2);
         fctb = map (\<lambda>ll. dc ! ll * pfac) [0, 1, 2]
     in add_vec3 ii 1 fctb rhsv)"

definition lsq_s_b_face ::
  "cs_mesh_t \<Rightarrow> cs_mesh_quantities_t \<Rightarrow> cs_internal_coupling_t option \<Rightarrow> real \<Rightarrow> real list \<Rightarrow>
   real list \<Rightarrow> nat \<Rightarrow> real list list \<Rightarrow> real list list" where
  "lsq_s_b_face m fvq cpl inc coefap coefbp f_id rhsv =
    (if is_coupled_face cpl f_id then rhsv
     else
      (let ii = b_face_cells m ! f_id;
           unddij = 1 / b_dist fvq ! f_id;
           udbfs = 1 / b_face_surf fvq ! f_id;
           umcbdd = (1 - coefbp ! f_id) * unddij;
           dsij = map (\<lambda>ll. udbfs * b_face_normal fvq ! f_id ! ll + umcbdd * diipb fvq ! f_id ! ll)
                    [0, 1, 2];
           pfac = (coefap ! f_id * inc + (coefbp ! f_id - 1) * rhsv ! ii ! 3) * unddij
       in add_vec3 ii pfac dsij rhsv))"

text \<open>\<^verbatim>\<open>grad[c_id] = cocg[c_id] . rhsv[c_id]\<close>, the three components of a \<^verbatim>\<open>cs_real_3_t\<close>.\<close>

definition lsq_s_cell_grad ::
  "cs_cocg_6_t list \<Rightarrow> real list list \<Rightarrow> nat \<Rightarrow> cs_real_3_t list \<Rightarrow> cs_real_3_t list" where
  "lsq_s_cell_grad cocg rhsv c_id grad =
     grad[c_id :=
       [cocg!c_id!0 * rhsv!c_id!0 + cocg!c_id!3 * rhsv!c_id!1 + cocg!c_id!5 * rhsv!c_id!2,
        cocg!c_id!3 * rhsv!c_id!0 + cocg!c_id!1 * rhsv!c_id!1 + cocg!c_id!4 * rhsv!c_id!2,
        cocg!c_id!5 * rhsv!c_id!0 + cocg!c_id!4 * rhsv!c_id!1 + cocg!c_id!2 * rhsv!c_id!2]]"

definition lsq_rhsv_init :: "cs_mesh_t \<Rightarrow> real list \<Rightarrow> real list list" where
  "lsq_rhsv_init m pvar = map (\<lambda>c_id. [0, 0, 0, pvar ! c_id]) [0 ..< n_cells_with_ghosts m]"

text \<open>The state is the gradient array and the cached quantities.\<close>

definition lsq_scalar_gradient ::
  "cs_mesh_t \<Rightarrow> cs_mesh_quantities_t \<Rightarrow> cs_internal_coupling_t option \<Rightarrow> cs_halo_type_t \<Rightarrow> bool \<Rightarrow>
   real \<Rightarrow> real list \<Rightarrow> real list \<Rightarrow> real list \<Rightarrow> real list option \<Rightarrow>
   cs_real_3_t list \<times> cs_gradient_quantities_t list \<Rightarrow>
   cs_real_3_t list \<times> cs_gradient_quantities_t list" where
  "lsq_scalar_gradient m fvq cpl halo_type recompute_cocg inc coefap coefbp pvar c_weight s =
    (let grad = fst s; gqs = snd s;
         ((cocg, cocgb), gqs) = get_cell_cocg_lsq m halo_type fvq None gqs;
         cocg = (if recompute_cocg then recompute_lsq_scalar_cocg m fvq cpl coefbp cocgb cocg
                 else cocg);
         gqs = (if recompute_cocg then store_cell_cocg_lsq m halo_type cocg gqs else gqs);
         rhsv = lsq_rhsv_init m pvar;
         rhsv = for_i_faces (i_face_numbering m) (lsq_s_i_face m fvq c_weight) rhsv;
         rhsv = (if halo_type = CS_HALO_EXTENDED
                 then (case cell_cells_idx m of
                         Some idx \<Rightarrow> for_ext_neighbors (n_cells m) idx (lsq_s_ext_neighbor m fvq) rhsv
                       | None \<Rightarrow> rhsv)
                 else rhsv);
         rhsv = (case cpl of
                   Some ce \<Rightarrow> cs_internal_coupling_lsq_scalar_gradient ce c_weight 1 rhsv
                 | None \<Rightarrow> rhsv);
         rhsv = for_b_faces (b_face_numbering m) (lsq_s_b_face m fvq cpl inc coefap coefbp) rhsv;
         grad = fold (lsq_s_cell_grad cocg rhsv) [0 ..< n_cells m] grad
     in (sync_scalar_gradient_halo m CS_HALO_STANDARD grad, gqs))"

subsection \<open>Anisotropic least-squares gradient (\<^verbatim>\<open>_lsq_scalar_gradient_ani\<close>)\<close>

text \<open>The vectors \<open>ki_d\<close> and \<open>kj_d\<close> both \<^verbatim>\<open>_compute_ani_weighting_cocg\<close> and
  \<^verbatim>\<open>_compute_ani_weighting\<close> compute.\<close>

definition compute_ani_weighting_cocg ::
  "real list \<Rightarrow> real list \<Rightarrow> real list \<Rightarrow> real \<Rightarrow> real list \<times> real list" where
  "compute_ani_weighting_cocg wi wj d a =
    (let sum = map (\<lambda>ii. a * wi ! ii + (1 - a) * wj ! ii) [0 ..< 6];
         inv_wi = cs_math_sym_33_inv_cramer wi;
         inv_wj = cs_math_sym_33_inv_cramer wj;
         ki_d = cs_math_sym_33_3_product sum (cs_math_sym_33_3_product inv_wj d);
         kj_d = cs_math_sym_33_3_product sum (cs_math_sym_33_3_product inv_wi d)
     in (ki_d, kj_d))"

text \<open>\<^verbatim>\<open>_compute_ani_weighting\<close> on \<open>resi = rhsv[ii]\<close> and \<open>resj = rhsv[jj]\<close>: each of the
  three steps of its last loop updates \<open>rhsv[ii]\<close>, then \<open>rhsv[jj]\<close>.\<close>

definition compute_ani_weighting ::
  "real list \<Rightarrow> real list \<Rightarrow> real \<Rightarrow> real list \<Rightarrow> real \<Rightarrow> nat \<Rightarrow> nat \<Rightarrow> real list list \<Rightarrow>
   real list list" where
  "compute_ani_weighting wi wj p_diff d a ii jj rhsv =
    (let (ki_d, kj_d) = compute_ani_weighting_cocg wi wj d a;
         normi = 1 / cs_math_3_dot_product ki_d ki_d;
         normj = 1 / cs_math_3_dot_product kj_d kj_d
     in fold (\<lambda>l rhsv. add_to jj l (p_diff * kj_d ! l * normj)
                          (add_to ii l (p_diff * ki_d ! l * normi) rhsv))
          [0, 1, 2] rhsv)"

definition c_weight_t_at :: "real list \<Rightarrow> nat \<Rightarrow> real list" where
  "c_weight_t_at cw c = map (\<lambda>kk. cw ! (6 * c + kk)) [0 ..< 6]"

definition lsq_ani_i_face ::
  "cs_mesh_t \<Rightarrow> cs_mesh_quantities_t \<Rightarrow> real list \<Rightarrow> nat \<Rightarrow>
   cs_cocg_6_t list \<times> real list list \<Rightarrow> cs_cocg_6_t list \<times> real list list" where
  "lsq_ani_i_face m fvq c_weight_t f_id s =
    (let cocg = fst s; rhsv = snd s;
         ii = i_face_cells m ! f_id ! 0;
         jj = i_face_cells m ! f_id ! 1;
         pond = weight fvq ! f_id;
         dc = map (\<lambda>ll. cell_cen fvq ! jj ! ll - cell_cen fvq ! ii ! ll) [0, 1, 2];
         (dc_i, dc_j) = compute_ani_weighting_cocg (c_weight_t_at c_weight_t ii)
                          (c_weight_t_at c_weight_t jj) dc pond;
         i_dci = 1 / cs_math_3_square_norm dc_i;
         i_dcj = 1 / cs_math_3_square_norm dc_j;
         cocg = cocg_lsq_add jj dc_j i_dcj (cocg_lsq_add ii dc_i i_dci cocg);
         p_diff = rhsv ! jj ! 3 - rhsv ! ii ! 3;
         rhsv = compute_ani_weighting (c_weight_t_at c_weight_t ii) (c_weight_t_at c_weight_t jj)
                  p_diff dc pond ii jj rhsv
     in (cocg, rhsv))"

definition lsq_ani_b_face ::
  "cs_mesh_t \<Rightarrow> cs_mesh_quantities_t \<Rightarrow> cs_internal_coupling_t option \<Rightarrow> real \<Rightarrow> real list \<Rightarrow>
   real list \<Rightarrow> nat \<Rightarrow> cs_cocg_6_t list \<times> real list list \<Rightarrow> cs_cocg_6_t list \<times> real list list" where
  "lsq_ani_b_face m fvq cpl inc coefap coefbp f_id s =
    (if is_coupled_face cpl f_id then s
     else
      (let cocg = fst s; rhsv = snd s;
           ii = b_face_cells m ! f_id;
           umcbdd = (1 - coefbp ! f_id) / b_dist fvq ! f_id;
           udbfs = 1 / b_face_surf fvq ! f_id;
           unddij = 1 / b_dist fvq ! f_id;
           dsij = map (\<lambda>ll. udbfs * b_face_normal fvq ! f_id ! ll + umcbdd * diipb fvq ! f_id ! ll)
                    [0, 1, 2];
           cocg = cocg_lsq_add ii dsij 1 cocg;
           pfac = (coefap ! f_id * inc + (coefbp ! f_id - 1) * rhsv ! ii ! 3) * unddij
       in (cocg, add_vec3 ii pfac dsij rhsv)))"

definition lsq_scalar_gradient_ani ::
  "cs_mesh_t \<Rightarrow> cs_mesh_quantities_t \<Rightarrow> cs_internal_coupling_t option \<Rightarrow> real \<Rightarrow> real list \<Rightarrow>
   real list \<Rightarrow> real list \<Rightarrow> real list \<Rightarrow> cs_real_3_t list \<Rightarrow> cs_real_3_t list" where
  "lsq_scalar_gradient_ani m fvq cpl inc coefap coefbp pvar c_weight_t grad =
    (let cocg = replicate (n_cells_with_ghosts m) (replicate 6 0);
         rhsv = lsq_rhsv_init m pvar;
         (cocg, rhsv) = for_i_faces (i_face_numbering m) (lsq_ani_i_face m fvq c_weight_t)
                          (cocg, rhsv);
         (cocg, rhsv) =
           (case cpl of
              Some ce \<Rightarrow> (cs_internal_coupling_lsq_cocg_weighted ce c_weight_t cocg,
                          cs_internal_coupling_lsq_scalar_gradient ce (Some c_weight_t) 6 rhsv)
            | None \<Rightarrow> (cocg, rhsv));
         (cocg, rhsv) = for_b_faces (b_face_numbering m)
                          (lsq_ani_b_face m fvq cpl inc coefap coefbp) (cocg, rhsv);
         cocg = fold (\<lambda>cell_id cocg. cocg[cell_id := math_6_inv_cramer_sym_in_place (cocg ! cell_id)])
                  [0 ..< n_cells m] cocg;
         grad = fold (lsq_s_cell_grad cocg rhsv) [0 ..< n_cells m] grad
     in sync_scalar_gradient_halo m CS_HALO_STANDARD grad)"

subsection \<open>Reconstruction from a given gradient (\<^verbatim>\<open>_reconstruct_scalar_gradient\<close>)\<close>

definition recon_s_hyd_i_face ::
  "cs_mesh_t \<Rightarrow> cs_mesh_quantities_t \<Rightarrow> cs_env_t \<Rightarrow> real list option \<Rightarrow> real list option \<Rightarrow>
   cs_real_3_t list \<Rightarrow> real list \<Rightarrow> cs_real_3_t list \<Rightarrow> nat \<Rightarrow> cs_real_3_t list \<Rightarrow>
   cs_real_3_t list" where
  "recon_s_hyd_i_face m fvq env c_weight_s c_weight_t f_ext c_var r_grad f_id grad =
    (let (is_porous, i_poro_duq_0, i_poro_duq_1, b_poro_duq) = poro_arrays env;
         c_id1 = i_face_cells m ! f_id ! 0;
         c_id2 = i_face_cells m ! f_id ! 1;
         ktpond = face_ktpond fvq c_weight_s c_weight_t f_id c_id1 c_id2;
         poro = [i_poro_duq_0 ! (is_porous * f_id), i_poro_duq_1 ! (is_porous * f_id)];
         fexd = map (\<lambda>l. 0.5 * (f_ext ! c_id1 ! l + f_ext ! c_id2 ! l)) [0, 1, 2];
         pfaci =  ktpond
                    * (  (i_face_cog fvq !f_id!0 - cell_cen fvq !c_id1!0) * f_ext!c_id1!0
                       + (i_face_cog fvq !f_id!1 - cell_cen fvq !c_id1!1) * f_ext!c_id1!1
                       + (i_face_cog fvq !f_id!2 - cell_cen fvq !c_id1!2) * f_ext!c_id1!2
                       + poro!0)
                + (1 - ktpond)
                    * (  (i_face_cog fvq !f_id!0 - cell_cen fvq !c_id2!0) * f_ext!c_id2!0
                       + (i_face_cog fvq !f_id!1 - cell_cen fvq !c_id2!1) * f_ext!c_id2!1
                       + (i_face_cog fvq !f_id!2 - cell_cen fvq !c_id2!2) * f_ext!c_id2!2
                       + poro!1);
         pfacj = pfaci;
         pfaci = pfaci + (1 - ktpond) * (c_var!c_id2 - c_var!c_id1);
         pfacj = pfacj - ktpond * (c_var!c_id2 - c_var!c_id1);
         rfac = weight fvq ! f_id
                  * (  (cell_cen fvq !c_id1!0 - i_face_cog fvq !f_id!0) * fexd!0
                     + (cell_cen fvq !c_id1!1 - i_face_cog fvq !f_id!1) * fexd!1
                     + (cell_cen fvq !c_id1!2 - i_face_cog fvq !f_id!2) * fexd!2)
                + (1 - weight fvq ! f_id)
                  * (  (cell_cen fvq !c_id2!0 - i_face_cog fvq !f_id!0) * fexd!0
                     + (cell_cen fvq !c_id2!1 - i_face_cog fvq !f_id!1) * fexd!1
                     + (cell_cen fvq !c_id2!2 - i_face_cog fvq !f_id!2) * fexd!2)
                + (  dofij fvq !f_id!0 * (r_grad!c_id1!0 + r_grad!c_id2!0)
                   + dofij fvq !f_id!1 * (r_grad!c_id1!1 + r_grad!c_id2!1)
                   + dofij fvq !f_id!2 * (r_grad!c_id1!2 + r_grad!c_id2!2)) * 0.5
     in fold (\<lambda>j grad. sub_from c_id2 j ((pfacj + rfac) * i_f_face_normal fvq !f_id!j)
                          (add_to c_id1 j ((pfaci + rfac) * i_f_face_normal fvq !f_id!j) grad))
          [0, 1, 2] grad)"

definition recon_s_hyd_b_face ::
  "cs_mesh_t \<Rightarrow> cs_mesh_quantities_t \<Rightarrow> cs_env_t \<Rightarrow> real \<Rightarrow> cs_real_3_t list \<Rightarrow> real list \<Rightarrow>
   real list \<Rightarrow> real list \<Rightarrow> cs_real_3_t list \<Rightarrow> nat \<Rightarrow> cs_real_3_t list \<Rightarrow> cs_real_3_t list" where
  "recon_s_hyd_b_face m fvq env inc f_ext coefap coefbp c_var r_grad f_id grad =
    (let (is_porous, i_poro_duq_0, i_poro_duq_1, b_poro_duq) = poro_arrays env;
         c_id = b_face_cells m ! f_id;
         poro = b_poro_duq ! (is_porous * f_id);
         pfac = coefap!f_id * inc
                + coefbp!f_id
                  * (  (b_face_cog fvq !f_id!0 - cell_cen fvq !c_id!0) * f_ext!c_id!0
                     + (b_face_cog fvq !f_id!1 - cell_cen fvq !c_id!1) * f_ext!c_id!1
                     + (b_face_cog fvq !f_id!2 - cell_cen fvq !c_id!2) * f_ext!c_id!2
                     + poro);
         pfac = pfac + (coefbp!f_id - 1) * c_var!c_id;
         rfac = coefbp!f_id
                  * (  diipb fvq !f_id!0 * (r_grad!c_id!0 - f_ext!c_id!0)
                     + diipb fvq !f_id!1 * (r_grad!c_id!1 - f_ext!c_id!1)
                     + diipb fvq !f_id!2 * (r_grad!c_id!2 - f_ext!c_id!2))
     in fold (\<lambda>j grad. add_to c_id j ((pfac + rfac) * b_f_face_normal fvq !f_id!j) grad)
          [0, 1, 2] grad)"

definition recon_s_std_i_face ::
  "cs_mesh_t \<Rightarrow> cs_mesh_quantities_t \<Rightarrow> real list option \<Rightarrow> real list option \<Rightarrow> real list \<Rightarrow>
   cs_real_3_t list \<Rightarrow> nat \<Rightarrow> cs_real_3_t list \<Rightarrow> cs_real_3_t list" where
  "recon_s_std_i_face m fvq c_weight_s c_weight_t c_var r_grad f_id grad =
    (let c_id1 = i_face_cells m ! f_id ! 0;
         c_id2 = i_face_cells m ! f_id ! 1;
         ktpond = face_ktpond fvq c_weight_s c_weight_t f_id c_id1 c_id2;
         pfaci = (1 - ktpond) * (c_var!c_id2 - c_var!c_id1);
         pfacj = - ktpond * (c_var!c_id2 - c_var!c_id1);
         rfac = 0.5 *
                  (  dofij fvq !f_id!0 * (r_grad!c_id1!0 + r_grad!c_id2!0)
                   + dofij fvq !f_id!1 * (r_grad!c_id1!1 + r_grad!c_id2!1)
                   + dofij fvq !f_id!2 * (r_grad!c_id1!2 + r_grad!c_id2!2))
     in fold (\<lambda>j grad. sub_from c_id2 j ((pfacj + rfac) * i_f_face_normal fvq !f_id!j)
                          (add_to c_id1 j ((pfaci + rfac) * i_f_face_normal fvq !f_id!j) grad))
          [0, 1, 2] grad)"

definition recon_s_std_b_face ::
  "cs_mesh_t \<Rightarrow> cs_mesh_quantities_t \<Rightarrow> cs_internal_coupling_t option \<Rightarrow> real \<Rightarrow> real list \<Rightarrow>
   real list \<Rightarrow> real list \<Rightarrow> cs_real_3_t list \<Rightarrow> nat \<Rightarrow> cs_real_3_t list \<Rightarrow> cs_real_3_t list" where
  "recon_s_std_b_face m fvq cpl inc coefap coefbp c_var r_grad f_id grad =
    (if is_coupled_face cpl f_id then grad
     else
      (let c_id = b_face_cells m ! f_id;
           pfac = inc * coefap!f_id + (coefbp!f_id - 1) * c_var!c_id;
           rfac = coefbp!f_id
                    * (  diipb fvq !f_id!0 * r_grad!c_id!0
                       + diipb fvq !f_id!1 * r_grad!c_id!1
                       + diipb fvq !f_id!2 * r_grad!c_id!2)
       in fold (\<lambda>j grad. add_to c_id j ((pfac + rfac) * b_f_face_normal fvq !f_id!j) grad)
            [0, 1, 2] grad))"

text \<open>The last cell loop: scaling by the inverse volume, then the correction of warped
  cells when its flag is set.\<close>

definition recon_s_cell ::
  "cs_mesh_quantities_t \<Rightarrow> cs_env_t \<Rightarrow> real list \<Rightarrow> nat \<Rightarrow> cs_real_3_t list \<Rightarrow> cs_real_3_t list"
  where
  "recon_s_cell fvq env vol c_id grad =
    (let grad = scale_by_dvol fvq vol c_id grad
     in if bad_cells_warped_correction env
        then (let gradpa = map (\<lambda>i. grad ! c_id ! i) [0, 1, 2];
                  grad = fold (\<lambda>i grad. grad[c_id := (grad ! c_id)[i := 0]]) [0, 1, 2] grad
              in fold (\<lambda>i grad.
                   fold (\<lambda>j grad. add_to c_id i (corr_grad_lin fvq ! c_id ! i ! j * gradpa ! j) grad)
                     [0, 1, 2] grad)
                   [0, 1, 2] grad)
        else grad)"

definition reconstruct_scalar_gradient ::
  "cs_mesh_t \<Rightarrow> cs_mesh_quantities_t \<Rightarrow> cs_env_t \<Rightarrow> cs_internal_coupling_t option \<Rightarrow> nat \<Rightarrow> int \<Rightarrow>
   real \<Rightarrow> cs_real_3_t list \<Rightarrow> real list \<Rightarrow> real list \<Rightarrow> real list option \<Rightarrow> real list \<Rightarrow>
   cs_real_3_t list \<Rightarrow> cs_real_3_t list" where
  "reconstruct_scalar_gradient m fvq env cpl w_stride hyd_p_flag inc f_ext coefap coefbp c_weight
     c_var r_grad =
    (let vol = sel_cell_f_vol env fvq;
         c_weight_s = c_weight_s_of w_stride c_weight;
         c_weight_t = c_weight_t_of w_stride c_weight;
         grad = replicate (n_cells_with_ghosts m) [0, 0, 0];
         grad =
           (if hyd_p_flag = 1 then
              (let grad = for_i_faces (i_face_numbering m)
                            (recon_s_hyd_i_face m fvq env c_weight_s c_weight_t f_ext c_var r_grad)
                            grad
               in for_b_faces (b_face_numbering m)
                    (recon_s_hyd_b_face m fvq env inc f_ext coefap coefbp c_var r_grad) grad)
            else
              (let grad = for_i_faces (i_face_numbering m)
                            (recon_s_std_i_face m fvq c_weight_s c_weight_t c_var r_grad) grad;
                   grad = (case cpl of
                             Some ce \<Rightarrow>
                               cs_internal_coupling_reconstruct_scalar_gradient ce r_grad
                                 (cs_internal_coupling_initialize_scalar_gradient ce c_weight
                                    c_var grad)
                           | None \<Rightarrow> grad)
               in for_b_faces (b_face_numbering m)
                    (recon_s_std_b_face m fvq cpl inc coefap coefbp c_var r_grad) grad));
         grad = fold (recon_s_cell fvq env vol) [0 ..< n_cells m] grad
     in sync_scalar_gradient_halo m CS_HALO_EXTENDED grad)"

subsection \<open>The scalar dispatcher (\<^verbatim>\<open>_gradient_scalar\<close>)\<close>

text \<open>\<^verbatim>\<open>_lsq_scalar_gradient_hyd_p<e2n>\<close> assembles its interior-face terms through
  \<^verbatim>\<open>cs_mesh_i_faces_thread_block_range\<close> and \<^verbatim>\<open>cs_glob_mesh_adjacencies\<close>, which are outside
  the sources at hand: the kernel is a parameter of the dispatcher, with the template
  argument as its first argument.\<close>

type_synonym lsq_hyd_p_kernel_t =
  "cs_e2n_sum_t \<Rightarrow> cs_mesh_t \<Rightarrow> cs_mesh_quantities_t \<Rightarrow> cs_halo_type_t \<Rightarrow> bool \<Rightarrow> real \<Rightarrow>
   cs_real_3_t list \<Rightarrow> real list \<Rightarrow> real list \<Rightarrow> real list \<Rightarrow> real list option \<Rightarrow>
   cs_real_3_t list \<times> cs_gradient_quantities_t list \<Rightarrow>
   cs_real_3_t list \<times> cs_gradient_quantities_t list"

text \<open>The default boundary conditions the dispatchers build when a pointer is null.\<close>

definition default_bc_coeff_a :: "cs_mesh_t \<Rightarrow> real list option \<Rightarrow> real list" where
  "default_bc_coeff_a m bc_coeff_a =
     (case bc_coeff_a of
        None \<Rightarrow> fold (\<lambda>i a. a[i := 0]) [0 ..< n_b_faces m] (replicate (n_b_faces m) 0)
      | Some a \<Rightarrow> a)"

definition default_bc_coeff_b :: "cs_mesh_t \<Rightarrow> real list option \<Rightarrow> real list" where
  "default_bc_coeff_b m bc_coeff_b =
     (case bc_coeff_b of
        None \<Rightarrow> fold (\<lambda>i b. b[i := 1]) [0 ..< n_b_faces m] (replicate (n_b_faces m) 0)
      | Some b \<Rightarrow> b)"

text \<open>The least-squares stage of the two least-squares schemes: kernel, then clipping, on
  the array \<open>r_grad\<close>.\<close>

definition gradient_scalar_lsq ::
  "lsq_hyd_p_kernel_t \<Rightarrow> cs_mesh_t \<Rightarrow> cs_mesh_quantities_t \<Rightarrow> cs_env_t \<Rightarrow> string \<Rightarrow>
   cs_halo_type_t \<Rightarrow> real \<Rightarrow> bool \<Rightarrow> int \<Rightarrow> nat \<Rightarrow> int \<Rightarrow> int \<Rightarrow> real \<Rightarrow> cs_real_3_t list \<Rightarrow>
   real list \<Rightarrow> real list \<Rightarrow> real list \<Rightarrow> real list option \<Rightarrow> cs_internal_coupling_t option \<Rightarrow>
   cs_real_3_t list \<times> cs_gradient_quantities_t list \<times> log_msg list \<Rightarrow>
   cs_real_3_t list \<times> cs_gradient_quantities_t list \<times> log_msg list" where
  "gradient_scalar_lsq lsq_hyd_p m fvq env var_name halo_type inc recompute_cocg hyd_p_flag
     w_stride verbosity clip_mode clip_coeff f_ext bc_coeff_a bc_coeff_b var c_weight cpl s =
    (let r_grad = fst s; gqs = fst (snd s); out = snd (snd s);
         (r_grad, gqs) =
           (case (if w_stride = 6 then c_weight else None) of
              Some cw \<Rightarrow>
                (lsq_scalar_gradient_ani m fvq cpl inc bc_coeff_a bc_coeff_b var cw r_grad, gqs)
            | None \<Rightarrow>
                if hyd_p_flag \<noteq> 0 then
                  (if cs_glob_e2n_sum_type env = CS_E2N_SUM_SCATTER
                   then lsq_hyd_p CS_E2N_SUM_SCATTER m fvq halo_type recompute_cocg inc f_ext
                          bc_coeff_a bc_coeff_b var c_weight (r_grad, gqs)
                   else if cs_glob_e2n_sum_type env = CS_E2N_SUM_SCATTER_ATOMIC
                   then lsq_hyd_p CS_E2N_SUM_SCATTER_ATOMIC m fvq halo_type recompute_cocg inc f_ext
                          bc_coeff_a bc_coeff_b var c_weight (r_grad, gqs)
                   else if cs_glob_e2n_sum_type env = CS_E2N_SUM_GATHER
                   then lsq_hyd_p CS_E2N_SUM_GATHER m fvq halo_type recompute_cocg inc f_ext
                          bc_coeff_a bc_coeff_b var c_weight (r_grad, gqs)
                   else lsq_hyd_p CS_E2N_SUM_STORE_THEN_GATHER m fvq halo_type recompute_cocg inc
                          f_ext bc_coeff_a bc_coeff_b var c_weight (r_grad, gqs))
                else lsq_scalar_gradient m fvq cpl halo_type recompute_cocg inc bc_coeff_a
                       bc_coeff_b var c_weight (r_grad, gqs));
         (r_grad, out) = scalar_gradient_clipping m fvq (env_mpi env) halo_type clip_mode verbosity
                           clip_coeff var_name var (r_grad, out)
     in (r_grad, gqs, out))"

text \<open>The state of the dispatcher: the gradient array, the diagnostics entry, the cached
  quantities, the static variables and the printed lines. \<open>r_grad_mem\<close> is the content
  of the work array \<^verbatim>\<open>r_grad\<close> as allocated for \<^verbatim>\<open>CS_GRADIENT_GREEN_LSQ\<close>. The
  \<^verbatim>\<open>switch\<close> has no \<^verbatim>\<open>default\<close>: any other value of the type runs no kernel.\<close>

definition gradient_scalar ::
  "lsq_hyd_p_kernel_t \<Rightarrow> cs_mesh_t \<Rightarrow> cs_mesh_quantities_t \<Rightarrow> cs_env_t \<Rightarrow> cs_real_3_t list \<Rightarrow>
   string \<Rightarrow> cs_gradient_type_t \<Rightarrow> cs_halo_type_t \<Rightarrow> int \<Rightarrow> bool \<Rightarrow> int \<Rightarrow> int \<Rightarrow> nat \<Rightarrow> int \<Rightarrow>
   int \<Rightarrow> real \<Rightarrow> real \<Rightarrow> cs_real_3_t list \<Rightarrow> real list option \<Rightarrow> real list option \<Rightarrow> real list \<Rightarrow>
   real list option \<Rightarrow> cs_internal_coupling_t option \<Rightarrow>
   cs_real_3_t list \<times> cs_gradient_info_t option \<times> cs_gradient_quantities_t list \<times>
     gradient_scalar_statics_t \<times> log_msg list \<Rightarrow>
   cs_real_3_t list \<times> cs_gradient_info_t option \<times> cs_gradient_quantities_t list \<times>
     gradient_scalar_statics_t \<times> log_msg list" where
  "gradient_scalar lsq_hyd_p mesh fvq env r_grad_mem var_name gradient_type halo_type inc
     check_recompute_cocg n_r_sweeps hyd_p_flag w_stride verbosity clip_mode epsilon clip_coeff
     f_ext bc_coeff_a bc_coeff_b var c_weight cpl s =
    (let grad = fst s; gradient_info = fst (snd s); gqs = fst (snd (snd s));
         st = fst (snd (snd (snd s))); out = snd (snd (snd (snd s)));
         (recompute_cocg, st) =
           gradient_scalar_recompute_cocg env var_name inc check_recompute_cocg st;
         bc_coeff_a = default_bc_coeff_a mesh bc_coeff_a;
         bc_coeff_b = default_bc_coeff_b mesh bc_coeff_b;
         (grad, gradient_info, gqs, out) =
           (case gradient_type of
              CS_GRADIENT_GREEN_ITER \<Rightarrow>
                iterative_scalar_gradient mesh fvq env cpl w_stride var_name n_r_sweeps hyd_p_flag
                  verbosity (real_of_int inc) epsilon f_ext bc_coeff_a bc_coeff_b var c_weight
                  (initialize_scalar_gradient mesh fvq env cpl w_stride hyd_p_flag
                     (real_of_int inc) f_ext bc_coeff_a bc_coeff_b var c_weight,
                   gradient_info, gqs, out)
            | CS_GRADIENT_LSQ \<Rightarrow>
                (let (grad, gqs, out) =
                       gradient_scalar_lsq lsq_hyd_p mesh fvq env var_name halo_type
                         (real_of_int inc) recompute_cocg hyd_p_flag w_stride verbosity clip_mode
                         clip_coeff f_ext bc_coeff_a bc_coeff_b var c_weight cpl (grad, gqs, out)
                 in (grad, gradient_info, gqs, out))
            | CS_GRADIENT_GREEN_LSQ \<Rightarrow>
                (let (r_grad, gqs, out) =
                       gradient_scalar_lsq lsq_hyd_p mesh fvq env var_name halo_type
                         (real_of_int inc) recompute_cocg hyd_p_flag w_stride verbosity clip_mode
                         clip_coeff f_ext bc_coeff_a bc_coeff_b var c_weight cpl
                         (r_grad_mem, gqs, out)
                 in (reconstruct_scalar_gradient mesh fvq env cpl w_stride hyd_p_flag
                       (real_of_int inc) f_ext bc_coeff_a bc_coeff_b c_weight var r_grad,
                     gradient_info, gqs, out))
            | CS_GRADIENT_GREEN_VTX \<Rightarrow> (grad, gradient_info, gqs, out));
         grad = (if bad_cells_regularisation env
                 then cs_bad_cells_regularisation_vector env grad else grad)
     in (grad, gradient_info, gqs, st, out))"

subsection \<open>Setting of a uniformly zero field\<close>

definition zero3 :: "nat \<Rightarrow> cs_real_3_t list" where
  "zero3 n = replicate n [0, 0, 0]"

definition zero4 :: "nat \<Rightarrow> real list list" where
  "zero4 n = replicate n [0, 0, 0, 0]"

text \<open>Ghost values are copies of values of owned cells of some rank: where every rank
  holds zeros on its owned cells, an exchange leaves zeros everywhere. Without a halo there
  is no ghost cell.\<close>

definition halo_zero_fill :: "cs_mesh_t \<Rightarrow> bool" where
  "halo_zero_fill m \<longleftrightarrow>
     (case halo m of
        None \<Rightarrow> n_cells_with_ghosts m = n_cells m
      | Some h \<Rightarrow>
          (\<forall>ht g. length g = n_cells_with_ghosts m \<and> (\<forall>c < n_cells m. g ! c = [0, 0, 0]) \<longrightarrow>
                   cs_halo_sync_var_strided h ht g = zero3 (n_cells_with_ghosts m)) \<and>
          (\<forall>ht. cs_halo_perio_sync_var_vect h ht (zero3 (n_cells_with_ghosts m))
                 = zero3 (n_cells_with_ghosts m)))"

definition b_faces_in_range :: "cs_mesh_t \<Rightarrow> bool" where
  "b_faces_in_range m \<longleftrightarrow>
     (\<forall>f \<in> set (b_face_ids (b_face_numbering m)).
        f < n_b_faces m \<and> b_face_cells m ! f < n_cells_with_ghosts m)"

definition neumann_bc :: "cs_mesh_t \<Rightarrow> real list option \<Rightarrow> real list option \<Rightarrow> bool" where
  "neumann_bc m bc_coeff_a bc_coeff_b \<longleftrightarrow>
     (\<forall>f \<in> set (b_face_ids (b_face_numbering m)).
        default_bc_coeff_a m bc_coeff_a ! f = 0 \<and> default_bc_coeff_b m bc_coeff_b ! f = 1)"

definition zero_field_setting ::
  "cs_mesh_t \<Rightarrow> cs_env_t \<Rightarrow> real list \<Rightarrow> real list option \<Rightarrow> real list option \<Rightarrow> bool" where
  "zero_field_setting m env var bc_coeff_a bc_coeff_b \<longleftrightarrow>
     n_cells m \<le> n_cells_with_ghosts m \<and>
     i_faces_in_range m \<and> ext_neighbors_in_range m \<and> b_faces_in_range m \<and>
     halo_zero_fill m \<and>
     (\<forall>c < n_cells_with_ghosts m. var ! c = 0) \<and>
     neumann_bc m bc_coeff_a bc_coeff_b \<and>
     (bad_cells_regularisation env \<longrightarrow>
        cs_bad_cells_regularisation_vector env (zero3 (n_cells_with_ghosts m))
        = zero3 (n_cells_with_ghosts m)) \<and>
     (cs_glob_n_ranks (env_mpi env) > 1 \<longrightarrow> mpi_allreduce_sum (env_mpi env) 0 = 0)"

text \<open>A stand-in for the hydrostatic least-squares kernel in closed examples that do not
  reach it.\<close>

definition lsq_hyd_p_unreached :: lsq_hyd_p_kernel_t where
  "lsq_hyd_p_unreached e2n m fvq halo_type recompute_cocg inc f_ext coefap coefbp pvar c_weight s
     = s"

subsection \<open>Diagnostics entries (\<^verbatim>\<open>_find_or_add_system\<close>)\<close>








subsection \<open>Gradient of a scalar at one cell (\<^verbatim>\<open>cs_gradient_scalar_cell\<close>)\<close>

text \<open>Modelled from the spec: the cell adjacencies \<^verbatim>\<open>cs_mesh_adjacencies_t\<close> of
  \<^verbatim>\<open>cs_mesh_adjacencies.h\<close>, of which the function reads the cell to cells index and array,
  the same for the extended neighbourhood (the index may be null), and the cell to boundary
  faces index and array.\<close>

record cs_mesh_adjacencies_t =
  ma_cell_cells_idx :: "nat list"
  ma_cell_cells :: "nat list"
  ma_cell_cells_e_idx :: "nat list option"
  ma_cell_cells_e :: "nat list"
  ma_cell_b_faces_idx :: "nat list"
  ma_cell_b_faces :: "nat list"

text \<open>The state of the function is \<open>(cocg, rhsv)\<close>. The two loop bodies over adjacent cells,
  without and with cell weights.\<close>

definition scalar_cell_adj ::
  "cs_mesh_quantities_t \<Rightarrow> nat \<Rightarrow> real list \<Rightarrow> nat list \<Rightarrow> nat \<Rightarrow>
   real list \<times> real list \<Rightarrow> real list \<times> real list" where
  "scalar_cell_adj fvq c_id var cell_cells_p i = (\<lambda>(cocg, rhsv).
     let c_id1 = cell_cells_p ! i;
         dc = map (\<lambda>ii. cell_cen fvq ! c_id1 ! ii - cell_cen fvq ! c_id ! ii) [0, 1, 2];
         ddc = 1 / (dc!0 * dc!0 + dc!1 * dc!1 + dc!2 * dc!2);
         pfac = (var ! c_id1 - var ! c_id) * ddc;
         rhsv = fold (\<lambda>ll rhsv. rhsv[ll := rhsv ! ll + dc ! ll * pfac]) [0, 1, 2] rhsv
     in (cocg_6_add dc ddc cocg, rhsv))"

definition scalar_cell_adj_w ::
  "cs_mesh_quantities_t \<Rightarrow> nat \<Rightarrow> real list \<Rightarrow> real list \<Rightarrow> nat list \<Rightarrow> nat \<Rightarrow>
   real list \<times> real list \<Rightarrow> real list \<times> real list" where
  "scalar_cell_adj_w fvq c_id var c_weight cell_cells_p i = (\<lambda>(cocg, rhsv).
     let c_id1 = cell_cells_p ! i;
         dc = map (\<lambda>ii. cell_cen fvq ! c_id1 ! ii - cell_cen fvq ! c_id ! ii) [0, 1, 2];
         ddc = 1 / (dc!0 * dc!0 + dc!1 * dc!1 + dc!2 * dc!2);
         pfac = (var ! c_id1 - var ! c_id) * ddc;
         weight_l = 2 * c_weight ! c_id1 / (c_weight ! c_id + c_weight ! c_id1);
         rhsv = fold (\<lambda>ll rhsv. rhsv[ll := rhsv ! ll + dc ! ll * pfac * weight_l]) [0, 1, 2] rhsv
     in (cocg_6_add dc ddc cocg, rhsv))"

text \<open>One pass of the loop on \<^verbatim>\<open>adj_id\<close>, over the entries \<open>[s_id, e_id)\<close> of
  \<open>cell_cells_p\<close>.\<close>

definition scalar_cell_adj_pass ::
  "cs_mesh_quantities_t \<Rightarrow> nat \<Rightarrow> real list \<Rightarrow> real list option \<Rightarrow> nat \<Rightarrow> nat \<Rightarrow> nat list \<Rightarrow>
   real list \<times> real list \<Rightarrow> real list \<times> real list" where
  "scalar_cell_adj_pass fvq c_id var c_weight s_id e_id cell_cells_p s =
     (case c_weight of
        None \<Rightarrow> fold (scalar_cell_adj fvq c_id var cell_cells_p) [s_id ..< e_id] s
      | Some cw \<Rightarrow> fold (scalar_cell_adj_w fvq c_id var cw cell_cells_p) [s_id ..< e_id] s)"

text \<open>The body of the loop on the boundary faces of the cell: known coefficients, known
  face values (\<open>bc_coeff_b\<close> null), or no boundary condition given (\<open>bc_coeff_a\<close> null).\<close>

definition scalar_cell_b_face ::
  "cs_mesh_quantities_t \<Rightarrow> nat \<Rightarrow> real list option \<Rightarrow> real list option \<Rightarrow> real list \<Rightarrow> nat list \<Rightarrow>
   nat \<Rightarrow> real list \<times> real list \<Rightarrow> real list \<times> real list" where
  "scalar_cell_b_face fvq c_id bc_coeff_a bc_coeff_b var cell_b_faces i = (\<lambda>(cocg, rhsv).
     let f_id = cell_b_faces ! i;
         udbfs = 1 / b_face_surf fvq ! f_id;
         dsij = map (\<lambda>ll. udbfs * b_face_normal fvq ! f_id ! ll) [0, 1, 2]
     in if bc_coeff_a \<noteq> None \<and> bc_coeff_b \<noteq> None then
          (let unddij = 1 / b_dist fvq ! f_id;
               umcbdd = (1 - the bc_coeff_b ! f_id) * unddij;
               pfac = (the bc_coeff_a ! f_id + (the bc_coeff_b ! f_id - 1) * var ! c_id) * unddij;
               dsij = fold (\<lambda>ll dsij. dsij[ll := dsij ! ll + umcbdd * diipb fvq ! f_id ! ll])
                        [0, 1, 2] dsij;
               rhsv = fold (\<lambda>ll rhsv. rhsv[ll := rhsv ! ll + dsij ! ll * pfac]) [0, 1, 2] rhsv;
               cocg = cocg[0 := cocg!0 + dsij!0 * dsij!0, 1 := cocg!1 + dsij!1 * dsij!1,
                           2 := cocg!2 + dsij!2 * dsij!2, 3 := cocg!3 + dsij!0 * dsij!1,
                           4 := cocg!4 + dsij!1 * dsij!2, 5 := cocg!5 + dsij!0 * dsij!2]
           in (cocg, rhsv))
        else if bc_coeff_a \<noteq> None then
          (let dc = map (\<lambda>ii. b_face_cog fvq ! f_id ! ii - cell_cen fvq ! c_id ! ii) [0, 1, 2];
               ddc = 1 / (dc!0 * dc!0 + dc!1 * dc!1 + dc!2 * dc!2);
               pfac = (the bc_coeff_a ! f_id - var ! c_id) * ddc;
               rhsv = fold (\<lambda>ll rhsv. rhsv[ll := rhsv ! ll + dc ! ll * pfac]) [0, 1, 2] rhsv
           in (cocg_6_add dc ddc cocg, rhsv))
        else
          (let dc = map (\<lambda>ii. b_face_cog fvq ! f_id ! ii - cell_cen fvq ! c_id ! ii) [0, 1, 2];
               ddc = 1 / (dc!0 * dc!0 + dc!1 * dc!1 + dc!2 * dc!2)
           in (cocg_6_add dc ddc cocg, rhsv)))"

text \<open>The mesh argument is unused (\<^verbatim>\<open>CS_UNUSED(m)\<close>); the adjacencies are the global
  \<^verbatim>\<open>cs_glob_mesh_adjacencies\<close>. The loop on \<^verbatim>\<open>adj_id\<close> runs once, or twice for the extended
  halo type, and is left at the second pass when there is no extended index.\<close>

definition cs_gradient_scalar_cell ::
  "cs_mesh_adjacencies_t \<Rightarrow> cs_mesh_t \<Rightarrow> cs_mesh_quantities_t \<Rightarrow> nat \<Rightarrow> cs_halo_type_t \<Rightarrow>
   real list option \<Rightarrow> real list option \<Rightarrow> real list \<Rightarrow> real list option \<Rightarrow> real list" where
  "cs_gradient_scalar_cell ma m fvq c_id halo_type bc_coeff_a bc_coeff_b var c_weight =
    (let cocg = [0, 0, 0, 0, 0, 0];
         rhsv = [0, 0, 0];
         n_adj = (if halo_type = CS_HALO_EXTENDED then 2 else 1 :: nat);
         s = scalar_cell_adj_pass fvq c_id var c_weight
               (ma_cell_cells_idx ma ! c_id) (ma_cell_cells_idx ma ! (c_id + 1))
               (ma_cell_cells ma) (cocg, rhsv);
         s = (if 1 < n_adj then
                (case ma_cell_cells_e_idx ma of
                   Some cell_cells_e_idx \<Rightarrow>
                     scalar_cell_adj_pass fvq c_id var c_weight
                       (cell_cells_e_idx ! c_id) (cell_cells_e_idx ! (c_id + 1))
                       (ma_cell_cells_e ma) s
                 | None \<Rightarrow> s)
              else s);
         s = fold (scalar_cell_b_face fvq c_id bc_coeff_a bc_coeff_b var (ma_cell_b_faces ma))
               [ma_cell_b_faces_idx ma ! c_id ..< ma_cell_b_faces_idx ma ! (c_id + 1)] s;
         cocg = fst s;
         rhsv = snd s;
         a00 = cocg!1 * cocg!2 - cocg!4 * cocg!4;
         a01 = cocg!4 * cocg!5 - cocg!3 * cocg!2;
         a02 = cocg!3 * cocg!4 - cocg!1 * cocg!5;
         a11 = cocg!0 * cocg!2 - cocg!5 * cocg!5;
         a12 = cocg!3 * cocg!5 - cocg!0 * cocg!4;
         a22 = cocg!0 * cocg!1 - cocg!3 * cocg!3;
         det_inv = 1 / (cocg!0 * a00 + cocg!3 * a01 + cocg!5 * a02)
     in [(a00 * rhsv!0 + a01 * rhsv!1 + a02 * rhsv!2) * det_inv,
         (a01 * rhsv!0 + a11 * rhsv!1 + a12 * rhsv!2) * det_inv,
         (a02 * rhsv!0 + a12 * rhsv!1 + a22 * rhsv!2) * det_inv])"

text \<open>A cell at the origin with two neighbours, along \<open>x\<close> and \<open>y\<close>, and one boundary
  face of unit normal \<open>z\<close> whose centre \<open>(0, 1, 1)\<close> is not on the normal through the
  cell centre.\<close>

definition ma_skewed_b_face :: cs_mesh_adjacencies_t where
  "ma_skewed_b_face =
     \<lparr> ma_cell_cells_idx = [0, 2, 3, 4], ma_cell_cells = [1, 2, 0, 0],
       ma_cell_cells_e_idx = None, ma_cell_cells_e = [],
       ma_cell_b_faces_idx = [0, 1, 1, 1], ma_cell_b_faces = [0] \<rparr>"

definition mesh_skewed_b_face :: cs_mesh_t where
  "mesh_skewed_b_face =
     \<lparr> n_domains = 1, n_cells = 3, n_cells_with_ghosts = 3, n_i_faces = 2, n_b_faces = 1,
       n_b_cells = 1, i_face_cells = [[0, 1], [0, 2]], b_face_cells = [0], b_cells = [0],
       cell_cells_idx = None, cell_cells_lst = [],
       i_face_numbering = \<lparr> n_threads = 1, n_groups = 1, group_index = [0, 2] \<rparr>,
       b_face_numbering = \<lparr> n_threads = 1, n_groups = 1, group_index = [0, 1] \<rparr>,
       halo = None, have_rotation_perio = False \<rparr>"

definition fvq_skewed_b_face :: cs_mesh_quantities_t where
  "fvq_skewed_b_face =
     \<lparr> cell_cen = [[0, 0, 0], [1, 0, 0], [0, 1, 0]], cell_vol = [1, 1, 1],
       cell_f_vol = [1, 1, 1],
       i_face_normal = [[1, 0, 0], [0, 1, 0]], b_face_normal = [[0, 0, 1]],
       i_f_face_normal = [[1, 0, 0], [0, 1, 0]], b_f_face_normal = [[0, 0, 1]],
       i_face_cog = [[1/2, 0, 0], [0, 1/2, 0]], b_face_cog = [[0, 1, 1]], b_face_surf = [1],
       b_dist = [1], weight = [1/2, 1/2], dofij = [[0, 0, 0], [0, 0, 0]],
       diipb = [[0, -1, 0]], corr_grad_lin = [], has_disable_flag = 0,
       c_disable_flag = [0, 0, 0] \<rparr>"

subsection \<open>Homogeneous Neumann boundary coefficients\<close>

text \<open>The coefficients of a homogeneous Neumann condition on \<open>n\<close> boundary faces for a field
  of \<open>d\<close> components: a zero additive term and the identity of size \<open>d\<close> as linear term.
  For a scalar they are \<open>replicate n 0\<close> and \<open>replicate n 1\<close>.\<close>

definition identity_matrix :: "nat \<Rightarrow> real list list" where
  "identity_matrix d = map (\<lambda>j. map (\<lambda>k. if j = k then 1 else 0) [0 ..< d]) [0 ..< d]"

definition homogeneous_neumann_a :: "nat \<Rightarrow> nat \<Rightarrow> real list list" where
  "homogeneous_neumann_a d n = replicate n (replicate d 0)"

definition homogeneous_neumann_b :: "nat \<Rightarrow> nat \<Rightarrow> real list list list" where
  "homogeneous_neumann_b d n = replicate n (identity_matrix d)"

text \<open>The arrays \<^verbatim>\<open>_bc_coeff_a\<close> and \<^verbatim>\<open>_bc_coeff_b\<close> that \<^verbatim>\<open>_gradient_vector\<close> (\<open>d = 3\<close>) and
  \<^verbatim>\<open>_gradient_tensor\<close> (\<open>d = 6\<close>) allocate and fill when a pointer is null: every entry of
  the new array is written by the loop nest, row \<open>j\<close> of a face being set to zero and its
  entry \<open>j\<close> then to one.\<close>

definition default_bc_coeff_a_strided ::
  "nat \<Rightarrow> cs_mesh_t \<Rightarrow> real list list option \<Rightarrow> real list list" where
  "default_bc_coeff_a_strided d m bc_coeff_a =
     (case bc_coeff_a of
        None \<Rightarrow> map (\<lambda>i. map (\<lambda>j. 0) [0 ..< d]) [0 ..< n_b_faces m]
      | Some a \<Rightarrow> a)"

definition default_bc_coeff_b_strided ::
  "nat \<Rightarrow> cs_mesh_t \<Rightarrow> real list list list option \<Rightarrow> real list list list" where
  "default_bc_coeff_b_strided d m bc_coeff_b =
     (case bc_coeff_b of
        None \<Rightarrow> map (\<lambda>i. map (\<lambda>j. (map (\<lambda>k. 0) [0 ..< d])[j := 1]) [0 ..< d]) [0 ..< n_b_faces m]
      | Some b \<Rightarrow> b)"

subsection \<open>Dispatcher of vector gradients (\<^verbatim>\<open>_gradient_vector\<close>)\<close>

text \<open>The state a vector kernel can reach: the array it writes, the diagnostics entries
  (\<^verbatim>\<open>gradient_info\<close> is the index of one of them), the cached quantities and the printed
  lines.\<close>

type_synonym vector_state_t =
  "cs_real_33_t list \<times> cs_gradient_info_t list \<times> cs_gradient_quantities_t list \<times> log_msg list"

text \<open>The kernels of vector gradients other than the clipping, and the regularisation on bad
  cells (\<^verbatim>\<open>cs_bad_cells_regularisation_tensor\<close>, external), are parameters of the
  dispatcher: each is a function of the arguments the dispatcher hands it.\<close>

record cs_vector_kernels_t =
  initialize_vector_gradient ::
    "cs_mesh_t \<Rightarrow> cs_mesh_quantities_t \<Rightarrow> cs_internal_coupling_t option \<Rightarrow> cs_halo_type_t \<Rightarrow>
     int \<Rightarrow> cs_real_3_t list \<Rightarrow> cs_real_33_t list \<Rightarrow> cs_real_3_t list \<Rightarrow> real list option \<Rightarrow>
     vector_state_t \<Rightarrow> vector_state_t"
  iterative_vector_gradient ::
    "cs_mesh_t \<Rightarrow> cs_mesh_quantities_t \<Rightarrow> cs_internal_coupling_t option \<Rightarrow> string \<Rightarrow>
     nat option \<Rightarrow> cs_halo_type_t \<Rightarrow> int \<Rightarrow> int \<Rightarrow> int \<Rightarrow> real \<Rightarrow> cs_real_3_t list \<Rightarrow>
     cs_real_33_t list \<Rightarrow> cs_real_3_t list \<Rightarrow> real list option \<Rightarrow>
     vector_state_t \<Rightarrow> vector_state_t"
  lsq_vector_gradient ::
    "cs_mesh_t \<Rightarrow> cs_mesh_quantities_t \<Rightarrow> cs_internal_coupling_t option \<Rightarrow> cs_halo_type_t \<Rightarrow>
     int \<Rightarrow> cs_real_3_t list \<Rightarrow> cs_real_33_t list \<Rightarrow> cs_real_3_t list \<Rightarrow> real list option \<Rightarrow>
     vector_state_t \<Rightarrow> vector_state_t"
  reconstruct_vector_gradient ::
    "cs_mesh_t \<Rightarrow> cs_mesh_quantities_t \<Rightarrow> cs_internal_coupling_t option \<Rightarrow> cs_halo_type_t \<Rightarrow>
     int \<Rightarrow> cs_real_3_t list \<Rightarrow> cs_real_33_t list \<Rightarrow> cs_real_3_t list \<Rightarrow> real list option \<Rightarrow>
     cs_real_33_t list \<Rightarrow> vector_state_t \<Rightarrow> vector_state_t"
  cs_bad_cells_regularisation_tensor :: "cs_real_33_t list \<Rightarrow> cs_real_33_t list"

text \<open>\<open>r_gradv_mem\<close> is the content of the work array \<^verbatim>\<open>r_gradv\<close> as allocated. The
  \<^verbatim>\<open>switch\<close> has no \<^verbatim>\<open>default\<close>.\<close>

definition gradient_vector ::
  "cs_vector_kernels_t \<Rightarrow> cs_mesh_t \<Rightarrow> cs_mesh_quantities_t \<Rightarrow> cs_env_t \<Rightarrow> cs_real_33_t list \<Rightarrow>
   string \<Rightarrow> nat option \<Rightarrow> cs_gradient_type_t \<Rightarrow> cs_halo_type_t \<Rightarrow> int \<Rightarrow> int \<Rightarrow> int \<Rightarrow> int \<Rightarrow>
   real \<Rightarrow> real \<Rightarrow> cs_real_3_t list option \<Rightarrow> cs_real_33_t list option \<Rightarrow> cs_real_3_t list \<Rightarrow>
   real list option \<Rightarrow> cs_internal_coupling_t option \<Rightarrow> vector_state_t \<Rightarrow> vector_state_t" where
  "gradient_vector K mesh fvq env r_gradv_mem var_name gradient_info gradient_type halo_type inc
     n_r_sweeps verbosity clip_mode epsilon clip_coeff bc_coeff_a bc_coeff_b var c_weight cpl s =
    (let bc_coeff_a = default_bc_coeff_a_strided 3 mesh bc_coeff_a;
         bc_coeff_b = default_bc_coeff_b_strided 3 mesh bc_coeff_b;
         s = (case gradient_type of
                CS_GRADIENT_GREEN_ITER \<Rightarrow>
                  (let s = initialize_vector_gradient K mesh fvq cpl halo_type inc bc_coeff_a
                             bc_coeff_b var c_weight s
                   in if n_r_sweeps > 1
                      then iterative_vector_gradient K mesh fvq cpl var_name gradient_info
                             halo_type inc n_r_sweeps verbosity epsilon bc_coeff_a bc_coeff_b
                             var c_weight s
                      else s)
              | CS_GRADIENT_LSQ \<Rightarrow>
                  (let (grad, systems, gqs, out) =
                         lsq_vector_gradient K mesh fvq cpl halo_type inc bc_coeff_a bc_coeff_b
                           var c_weight s;
                       (grad, out) = vector_gradient_clipping mesh fvq (env_mpi env) halo_type
                                       clip_mode verbosity clip_coeff var_name var (grad, out)
                   in (grad, systems, gqs, out))
              | CS_GRADIENT_GREEN_LSQ \<Rightarrow>
                  (let (r_gradv, systems, gqs, out) =
                         lsq_vector_gradient K mesh fvq cpl halo_type inc bc_coeff_a bc_coeff_b
                           var c_weight (r_gradv_mem, snd s);
                       (r_gradv, out) = vector_gradient_clipping mesh fvq (env_mpi env) halo_type
                                          clip_mode verbosity clip_coeff var_name var
                                          (r_gradv, out)
                   in reconstruct_vector_gradient K mesh fvq cpl halo_type inc bc_coeff_a
                        bc_coeff_b var c_weight r_gradv (fst s, systems, gqs, out))
              | CS_GRADIENT_GREEN_VTX \<Rightarrow> s);
         grad = (if bad_cells_regularisation env
                 then cs_bad_cells_regularisation_tensor K (fst s) else fst s)
     in (grad, snd s))"

subsection \<open>Tensor gradients (\<^verbatim>\<open>_initialize_tensor_gradient\<close>, \<^verbatim>\<open>_gradient_tensor\<close>, \<^verbatim>\<open>cs_gradient_tensor\<close>)\<close>

type_synonym cs_real_6_t = "real list"
type_synonym cs_real_66_t = "real list list"
type_synonym cs_real_63_t = "real list list"

type_synonym tensor_state_t =
  "cs_real_63_t list \<times> cs_gradient_info_t list \<times> cs_gradient_quantities_t list \<times> log_msg list"

text \<open>The halo exchanges of arrays of symmetric tensors and of their gradients are external
  (\<^verbatim>\<open>cs_halo_sync_var_strided\<close> with strides \<open>6\<close> and \<open>18\<close>,
  \<^verbatim>\<open>cs_halo_perio_sync_var_sym_tens\<close>, \<^verbatim>\<open>cs_halo_perio_sync_var_sym_tens_grad\<close>). The
  kernels of tensor gradients other than the initialisation are parameters of the
  dispatcher: each is a function of the arguments the dispatcher hands it.\<close>

record cs_tensor_kernels_t =
  cs_halo_sync_var_strided_6 :: "cs_halo_t \<Rightarrow> cs_halo_type_t \<Rightarrow> cs_real_6_t list \<Rightarrow> cs_real_6_t list"
  cs_halo_perio_sync_var_sym_tens ::
    "cs_halo_t \<Rightarrow> cs_halo_type_t \<Rightarrow> cs_real_6_t list \<Rightarrow> cs_real_6_t list"
  cs_halo_sync_var_strided_18 ::
    "cs_halo_t \<Rightarrow> cs_halo_type_t \<Rightarrow> cs_real_63_t list \<Rightarrow> cs_real_63_t list"
  cs_halo_perio_sync_var_sym_tens_grad ::
    "cs_halo_t \<Rightarrow> cs_halo_type_t \<Rightarrow> cs_real_63_t list \<Rightarrow> cs_real_63_t list"
  iterative_tensor_gradient ::
    "cs_mesh_t \<Rightarrow> cs_mesh_quantities_t \<Rightarrow> string \<Rightarrow> nat option \<Rightarrow> cs_halo_type_t \<Rightarrow> int \<Rightarrow> int \<Rightarrow>
     int \<Rightarrow> real \<Rightarrow> cs_real_6_t list \<Rightarrow> cs_real_66_t list \<Rightarrow> cs_real_6_t list \<Rightarrow>
     tensor_state_t \<Rightarrow> tensor_state_t"
  lsq_tensor_gradient ::
    "cs_mesh_t \<Rightarrow> cs_mesh_quantities_t \<Rightarrow> cs_halo_type_t \<Rightarrow> int \<Rightarrow> cs_real_6_t list \<Rightarrow>
     cs_real_66_t list \<Rightarrow> cs_real_6_t list \<Rightarrow> real list option \<Rightarrow>
     tensor_state_t \<Rightarrow> tensor_state_t"
  tensor_gradient_clipping ::
    "cs_mesh_t \<Rightarrow> cs_mesh_quantities_t \<Rightarrow> cs_halo_type_t \<Rightarrow> int \<Rightarrow> int \<Rightarrow> real \<Rightarrow> string \<Rightarrow>
     cs_real_6_t list \<Rightarrow> tensor_state_t \<Rightarrow> tensor_state_t"

definition mul_by_33 :: "nat \<Rightarrow> nat \<Rightarrow> nat \<Rightarrow> real \<Rightarrow> real list list list \<Rightarrow> real list list list" where
  "mul_by_33 c i j v a = a[c := (a!c)[i := (a!c!i)[j := a!c!i!j * v]]]"

text \<open>Bodies of the loops of \<^verbatim>\<open>_initialize_tensor_gradient\<close> on interior faces, on boundary
  faces and on owned cells.\<close>

definition init_t_i_face ::
  "cs_mesh_t \<Rightarrow> cs_mesh_quantities_t \<Rightarrow> cs_real_6_t list \<Rightarrow> nat \<Rightarrow> cs_real_63_t list \<Rightarrow>
   cs_real_63_t list" where
  "init_t_i_face m fvq pvar f_id grad =
    (let c_id1 = i_face_cells m ! f_id ! 0;
         c_id2 = i_face_cells m ! f_id ! 1;
         pond = weight fvq ! f_id
     in fold (\<lambda>i grad.
          let pfaci = (1 - pond) * (pvar ! c_id2 ! i - pvar ! c_id1 ! i);
              pfacj = - pond * (pvar ! c_id2 ! i - pvar ! c_id1 ! i)
          in fold (\<lambda>j grad.
               sub_from_33 c_id2 i j (pfacj * i_f_face_normal fvq ! f_id ! j)
                 (add_to_33 c_id1 i j (pfaci * i_f_face_normal fvq ! f_id ! j) grad))
               [0, 1, 2] grad)
          [0 ..< 6] grad)"

definition init_t_b_face ::
  "cs_mesh_t \<Rightarrow> cs_mesh_quantities_t \<Rightarrow> int \<Rightarrow> cs_real_6_t list \<Rightarrow> cs_real_66_t list \<Rightarrow>
   cs_real_6_t list \<Rightarrow> nat \<Rightarrow> cs_real_63_t list \<Rightarrow> cs_real_63_t list" where
  "init_t_b_face m fvq inc coefat coefbt pvar f_id grad =
    (let c_id = b_face_cells m ! f_id
     in fold (\<lambda>i grad.
          let pfac = real_of_int inc * coefat ! f_id ! i;
              pfac = fold (\<lambda>k pfac.
                       if i = k then pfac + (coefbt ! f_id ! i ! k - 1) * pvar ! c_id ! k
                       else pfac + coefbt ! f_id ! i ! k * pvar ! c_id ! k)
                       [0 ..< 6] pfac
          in fold (\<lambda>j grad. add_to_33 c_id i j (pfac * b_f_face_normal fvq ! f_id ! j) grad)
               [0, 1, 2] grad)
          [0 ..< 6] grad)"

definition init_t_cell ::
  "cs_mesh_quantities_t \<Rightarrow> real list \<Rightarrow> nat \<Rightarrow> cs_real_63_t list \<Rightarrow> cs_real_63_t list" where
  "init_t_cell fvq vol c_id grad =
    (let dvol = cell_dvol fvq vol c_id
     in fold (\<lambda>i grad. fold (\<lambda>j grad. mul_by_33 c_id i j dvol grad) [0, 1, 2] grad)
          [0 ..< 6] grad)"

text \<open>The first loop sets every entry of \<open>grad\<close>, ghost cells included, to zero.\<close>

definition initialize_tensor_gradient ::
  "cs_tensor_kernels_t \<Rightarrow> cs_mesh_t \<Rightarrow> cs_mesh_quantities_t \<Rightarrow> cs_env_t \<Rightarrow> cs_halo_type_t \<Rightarrow> int \<Rightarrow>
   cs_real_6_t list \<Rightarrow> cs_real_66_t list \<Rightarrow> cs_real_6_t list \<Rightarrow> cs_real_63_t list" where
  "initialize_tensor_gradient X m fvq env halo_type inc coefat coefbt pvar =
    (let vol = sel_cell_f_vol env fvq;
         grad = replicate (n_cells_with_ghosts m) (replicate 6 [0, 0, 0]);
         grad = for_i_faces (i_face_numbering m) (init_t_i_face m fvq pvar) grad;
         grad = for_b_faces (b_face_numbering m) (init_t_b_face m fvq inc coefat coefbt pvar) grad;
         grad = fold (init_t_cell fvq vol) [0 ..< n_cells m] grad
     in case halo m of
          None \<Rightarrow> grad
        | Some h \<Rightarrow>
            (let grad = cs_halo_sync_var_strided_18 X h halo_type grad
             in if have_rotation_perio m
                then cs_halo_perio_sync_var_sym_tens_grad X h halo_type grad else grad))"

text \<open>\<^verbatim>\<open>assert(0)\<close> ends the process (\<^verbatim>\<open>abort\<close>) unless the file is compiled with \<^verbatim>\<open>NDEBUG\<close>,
  in which case the statement is empty.\<close>

datatype cs_abort_t = Assertion_failed

definition gradient_tensor ::
  "cs_tensor_kernels_t \<Rightarrow> bool \<Rightarrow> cs_mesh_t \<Rightarrow> cs_mesh_quantities_t \<Rightarrow> cs_env_t \<Rightarrow> string \<Rightarrow>
   nat option \<Rightarrow> cs_gradient_type_t \<Rightarrow> cs_halo_type_t \<Rightarrow> int \<Rightarrow> int \<Rightarrow> int \<Rightarrow> int \<Rightarrow> real \<Rightarrow> real \<Rightarrow>
   cs_real_6_t list option \<Rightarrow> cs_real_66_t list option \<Rightarrow> cs_real_6_t list \<Rightarrow>
   tensor_state_t \<Rightarrow> cs_abort_t + tensor_state_t" where
  "gradient_tensor X ndebug mesh fvq env var_name gradient_info gradient_type halo_type inc
     n_r_sweeps verbosity clip_mode epsilon clip_coeff bc_coeff_a bc_coeff_b var s =
    (let bc_coeff_a = default_bc_coeff_a_strided 6 mesh bc_coeff_a;
         bc_coeff_b = default_bc_coeff_b_strided 6 mesh bc_coeff_b
     in case gradient_type of
          CS_GRADIENT_GREEN_ITER \<Rightarrow>
            (let s = (initialize_tensor_gradient X mesh fvq env halo_type inc bc_coeff_a
                        bc_coeff_b var, snd s)
             in if n_r_sweeps > 1
                then Inr (iterative_tensor_gradient X mesh fvq var_name gradient_info halo_type
                            inc n_r_sweeps verbosity epsilon bc_coeff_a bc_coeff_b var s)
                else Inr s)
        | CS_GRADIENT_LSQ \<Rightarrow>
            Inr (tensor_gradient_clipping X mesh fvq halo_type clip_mode verbosity clip_coeff
                   var_name var
                   (lsq_tensor_gradient X mesh fvq halo_type inc bc_coeff_a bc_coeff_b var None s))
        | _ \<Rightarrow> if ndebug then Inr s else Inl Assertion_failed)"





text \<open>Stand-ins for the parameters in closed examples on a mesh without halo, with one
  sweep: they are not reached.\<close>

definition tensor_kernels_unreached :: cs_tensor_kernels_t where
  "tensor_kernels_unreached =
     \<lparr> cs_halo_sync_var_strided_6 = (\<lambda>h ht v. v),
       cs_halo_perio_sync_var_sym_tens = (\<lambda>h ht v. v),
       cs_halo_sync_var_strided_18 = (\<lambda>h ht g. g),
       cs_halo_perio_sync_var_sym_tens_grad = (\<lambda>h ht g. g),
       iterative_tensor_gradient = (\<lambda>m fvq name gi ht inc nsw verb eps a b var s. s),
       lsq_tensor_gradient = (\<lambda>m fvq ht inc a b var cw s. s),
       tensor_gradient_clipping = (\<lambda>m fvq ht clip verb coeff name var s. s) \<rparr>"

definition vector_kernels_unreached :: cs_vector_kernels_t where
  "vector_kernels_unreached =
     \<lparr> initialize_vector_gradient = (\<lambda>m fvq cpl ht inc a b var cw s. s),
       iterative_vector_gradient = (\<lambda>m fvq cpl name gi ht inc nsw verb eps a b var cw s. s),
       lsq_vector_gradient = (\<lambda>m fvq cpl ht inc a b var cw s. s),
       reconstruct_vector_gradient = (\<lambda>m fvq cpl ht inc a b var cw r s. s),
       cs_bad_cells_regularisation_tensor = (\<lambda>g. g) \<rparr>"

subsection \<open>Non-degenerate geometry and weights\<close>

text \<open>The divisors of the scalar kernels. A zero divisor has no quotient in exact
  arithmetic and gives an infinity or NaN in double precision: the statements about the
  values a call computes assume that no divisor the call meets is zero. Each predicate
  below names the divisors of one kernel, over the loop that evaluates them.\<close>

text \<open>The divisor of \<^verbatim>\<open>cs_math_sym_33_inv_cramer\<close>.\<close>

definition cs_math_sym_33_det :: "real list \<Rightarrow> real" where
  "cs_math_sym_33_det s =
     s!0 * s!1 * s!2 + 2 * s!3 * s!4 * s!5 - s!0 * s!4 * s!4 - s!1 * s!5 * s!5 - s!2 * s!3 * s!3"

text \<open>The divisor of \<open>cell_dvol\<close>: the selected volume of every owned cell that is not
  disabled.\<close>

definition cell_vol_nonzero :: "cs_mesh_t \<Rightarrow> cs_mesh_quantities_t \<Rightarrow> cs_env_t \<Rightarrow> bool" where
  "cell_vol_nonzero m fvq env \<longleftrightarrow>
     (\<forall>c_id < n_cells m.
        has_disable_flag fvq * c_disable_flag fvq ! (has_disable_flag fvq * c_id) = 0 \<longrightarrow>
        sel_cell_f_vol env fvq ! c_id \<noteq> 0)"

text \<open>The divisor of \<open>face_ktpond\<close> at an interior face (\<open>1\<close> without cell weights).\<close>

definition face_ktpond_divisor ::
  "cs_mesh_quantities_t \<Rightarrow> real list option \<Rightarrow> real list option \<Rightarrow> nat \<Rightarrow> nat \<Rightarrow> nat \<Rightarrow> real" where
  "face_ktpond_divisor fvq c_weight_s c_weight_t f_id ii jj =
     (case c_weight_s of
        Some cw \<Rightarrow> weight fvq ! f_id * cw!ii + (1 - weight fvq ! f_id) * cw!jj
      | None \<Rightarrow>
         (case c_weight_t of
            Some cw \<Rightarrow>
              cs_math_sym_33_det
                (map (\<lambda>kk. weight fvq ! f_id * cw!(6 * ii + kk)
                           + (1 - weight fvq ! f_id) * cw!(6 * jj + kk)) [0, 1, 2, 3, 4, 5])
          | None \<Rightarrow> 1))"

definition face_weights_nonzero ::
  "cs_mesh_t \<Rightarrow> cs_mesh_quantities_t \<Rightarrow> nat \<Rightarrow> real list option \<Rightarrow> bool" where
  "face_weights_nonzero m fvq w_stride c_weight \<longleftrightarrow>
     (\<forall>f_id \<in> set (i_face_ids (i_face_numbering m)).
        face_ktpond_divisor fvq (c_weight_s_of w_stride c_weight) (c_weight_t_of w_stride c_weight)
          f_id (i_face_cells m ! f_id ! 0) (i_face_cells m ! f_id ! 1) \<noteq> 0)"

text \<open>The matrices \<^verbatim>\<open>_compute_cell_cocg_it\<close> inverts, and its divisors: the volumes of the
  two cells of every interior face and the determinant of the matrix of every owned cell.
  They are met when the matrices are not cached yet.\<close>

definition cocg_it_accumulated ::
  "cs_mesh_t \<Rightarrow> cs_mesh_quantities_t \<Rightarrow> cs_internal_coupling_t option \<Rightarrow> cs_real_33_t list" where
  "cocg_it_accumulated m fvq ce =
    (let cocg = replicate (n_cells_with_ghosts m) [[1, 0, 0], [0, 1, 0], [0, 0, 1]];
         cocg = fold (cocg_it_i_face m fvq) [0 ..< n_i_faces m] cocg
     in case ce of Some c \<Rightarrow> cs_internal_coupling_it_cocg_contribution c cocg | None \<Rightarrow> cocg)"

definition cocg_it_nonsingular ::
  "cs_mesh_t \<Rightarrow> cs_mesh_quantities_t \<Rightarrow> cs_internal_coupling_t option \<Rightarrow>
   cs_gradient_quantities_t list \<Rightarrow> bool" where
  "cocg_it_nonsingular m fvq cpl gqs \<longleftrightarrow>
    (let gq_id = (case cpl of None \<Rightarrow> 0 | Some ce \<Rightarrow> cpl_id ce + 1)
     in cocg_it (gradient_quantities_get gq_id gqs ! gq_id) = None \<longrightarrow>
        (\<forall>f_id < n_i_faces m. cell_vol fvq ! (i_face_cells m ! f_id ! 0) \<noteq> 0 \<and>
                              cell_vol fvq ! (i_face_cells m ! f_id ! 1) \<noteq> 0) \<and>
        (\<forall>c_id < n_cells m. mat33_det (cocg_it_accumulated m fvq cpl ! c_id) \<noteq> 0))"

text \<open>The divisors of a call of \<^verbatim>\<open>_iterative_scalar_gradient\<close>.\<close>

definition iterative_nondegenerate ::
  "cs_mesh_t \<Rightarrow> cs_mesh_quantities_t \<Rightarrow> cs_env_t \<Rightarrow> cs_internal_coupling_t option \<Rightarrow> nat \<Rightarrow>
   real list option \<Rightarrow> cs_gradient_quantities_t list \<Rightarrow> bool" where
  "iterative_nondegenerate m fvq env cpl w_stride c_weight gqs \<longleftrightarrow>
     cell_vol_nonzero m fvq env \<and> face_weights_nonzero m fvq w_stride c_weight \<and>
     cocg_it_nonsingular m fvq cpl gqs"

text \<open>The divisors of the least-squares kernels that depend on the geometry alone: the
  squared distance of the centres of the two cells of every interior face and of every
  pair of the extended neighbourhood, the distance and the surface of every boundary
  face.\<close>

definition cell_centres_apart :: "cs_mesh_quantities_t \<Rightarrow> nat \<Rightarrow> nat \<Rightarrow> bool" where
  "cell_centres_apart fvq ii jj \<longleftrightarrow>
    (let dc = map (\<lambda>ll. cell_cen fvq ! jj ! ll - cell_cen fvq ! ii ! ll) [0, 1, 2]
     in dc!0 * dc!0 + dc!1 * dc!1 + dc!2 * dc!2 \<noteq> 0)"

definition b_faces_nonzero :: "cs_mesh_t \<Rightarrow> cs_mesh_quantities_t \<Rightarrow> bool" where
  "b_faces_nonzero m fvq \<longleftrightarrow>
     (\<forall>f_id \<in> set (b_face_ids (b_face_numbering m)).
        b_dist fvq ! f_id \<noteq> 0 \<and> b_face_surf fvq ! f_id \<noteq> 0)"

definition lsq_geometry_nonzero :: "cs_mesh_t \<Rightarrow> cs_mesh_quantities_t \<Rightarrow> cs_halo_type_t \<Rightarrow> bool" where
  "lsq_geometry_nonzero m fvq halo_type \<longleftrightarrow>
     (\<forall>f_id \<in> set (i_face_ids (i_face_numbering m)).
        cell_centres_apart fvq (i_face_cells m ! f_id ! 0) (i_face_cells m ! f_id ! 1)) \<and>
     (halo_type = CS_HALO_EXTENDED \<longrightarrow>
        (case cell_cells_idx m of
           None \<Rightarrow> True
         | Some idx \<Rightarrow>
             (\<forall>ii < n_cells m. \<forall>cidx \<in> set [idx ! ii ..< idx ! (ii + 1)].
                cell_centres_apart fvq ii (cell_cells_lst m ! cidx)))) \<and>
     b_faces_nonzero m fvq"

text \<open>The divisor of the cell weighting of \<^verbatim>\<open>_lsq_scalar_gradient\<close> at an interior face.\<close>

definition lsq_weights_nonzero ::
  "cs_mesh_t \<Rightarrow> cs_mesh_quantities_t \<Rightarrow> real list option \<Rightarrow> bool" where
  "lsq_weights_nonzero m fvq c_weight \<longleftrightarrow>
     (case c_weight of
        None \<Rightarrow> True
      | Some cw \<Rightarrow>
          (\<forall>f_id \<in> set (i_face_ids (i_face_numbering m)).
             weight fvq ! f_id * cw ! (i_face_cells m ! f_id ! 0)
             + (1 - weight fvq ! f_id) * cw ! (i_face_cells m ! f_id ! 1) \<noteq> 0))"

text \<open>The covariance matrices the least-squares scheme inverts: those of all owned cells
  when \<^verbatim>\<open>_compute_cell_cocg_lsq\<close> builds the cache, those of the boundary cells when
  \<^verbatim>\<open>_recompute_lsq_scalar_cocg\<close> rebuilds them from the saved interior part.\<close>

definition lsq_cocg_accumulated ::
  "cs_mesh_t \<Rightarrow> bool \<Rightarrow> cs_mesh_quantities_t \<Rightarrow> cs_internal_coupling_t option \<Rightarrow>
   cs_cocg_6_t list" where
  "lsq_cocg_accumulated m extended fvq ce =
     for_b_faces (b_face_numbering m) (cocg_lsq_b_face m fvq ce)
       (cocg_lsq_interior m extended fvq ce)"

definition lsq_recompute_accumulated ::
  "cs_mesh_t \<Rightarrow> cs_mesh_quantities_t \<Rightarrow> cs_internal_coupling_t option \<Rightarrow> real list \<Rightarrow>
   cs_cocg_6_t list \<Rightarrow> cs_cocg_6_t list \<Rightarrow> cs_cocg_6_t list" where
  "lsq_recompute_accumulated m fvq cpl coefbp cocgb cocg =
     for_b_faces (b_face_numbering m) (recompute_lsq_b_face m fvq cpl coefbp)
       (coupled_cocg cpl (recompute_lsq_restore m cocgb cocg))"

definition lsq_cocg_nonsingular ::
  "cs_mesh_t \<Rightarrow> cs_mesh_quantities_t \<Rightarrow> cs_halo_type_t \<Rightarrow> real list \<Rightarrow> bool \<Rightarrow>
   cs_gradient_quantities_t list \<Rightarrow> bool" where
  "lsq_cocg_nonsingular m fvq halo_type coefbp recompute_cocg gqs \<longleftrightarrow>
    (let extended = lsq_extended m halo_type;
         gq = gradient_quantities_get 0 gqs ! 0;
         cached = (if extended then cocg_lsq_ext gq else cocg_lsq gq);
         cocg = fst (fst (get_cell_cocg_lsq m halo_type fvq None gqs));
         cocgb = snd (fst (get_cell_cocg_lsq m halo_type fvq None gqs))
     in (cached = None \<longrightarrow>
           (\<forall>c_id < n_cells m. sym6_det (lsq_cocg_accumulated m extended fvq None ! c_id) \<noteq> 0)) \<and>
        (recompute_cocg \<longrightarrow>
           (\<forall>ii < n_b_cells m.
              sym6_det (lsq_recompute_accumulated m fvq None coefbp cocgb cocg ! (b_cells m ! ii))
              \<noteq> 0)))"

text \<open>The divisors of \<^verbatim>\<open>_lsq_scalar_gradient_ani\<close>: the determinants of the weight tensors
  of the two cells of every interior face, the squared norms of the two weighted
  directions, the distance and surface of every boundary face, and the determinant of the
  matrix of every owned cell.\<close>

definition lsq_ani_cocg_accumulated ::
  "cs_mesh_t \<Rightarrow> cs_mesh_quantities_t \<Rightarrow> cs_internal_coupling_t option \<Rightarrow> real \<Rightarrow> real list \<Rightarrow>
   real list \<Rightarrow> real list \<Rightarrow> real list \<Rightarrow> cs_cocg_6_t list" where
  "lsq_ani_cocg_accumulated m fvq cpl inc coefap coefbp pvar c_weight_t =
    (let cocg = replicate (n_cells_with_ghosts m) (replicate 6 0);
         rhsv = lsq_rhsv_init m pvar;
         (cocg, rhsv) = for_i_faces (i_face_numbering m) (lsq_ani_i_face m fvq c_weight_t)
                          (cocg, rhsv);
         (cocg, rhsv) =
           (case cpl of
              Some ce \<Rightarrow> (cs_internal_coupling_lsq_cocg_weighted ce c_weight_t cocg,
                          cs_internal_coupling_lsq_scalar_gradient ce (Some c_weight_t) 6 rhsv)
            | None \<Rightarrow> (cocg, rhsv))
     in fst (for_b_faces (b_face_numbering m) (lsq_ani_b_face m fvq cpl inc coefap coefbp)
               (cocg, rhsv)))"

definition lsq_ani_nondegenerate ::
  "cs_mesh_t \<Rightarrow> cs_mesh_quantities_t \<Rightarrow> cs_internal_coupling_t option \<Rightarrow> real \<Rightarrow> real list \<Rightarrow>
   real list \<Rightarrow> real list \<Rightarrow> real list \<Rightarrow> bool" where
  "lsq_ani_nondegenerate m fvq cpl inc coefap coefbp pvar c_weight_t \<longleftrightarrow>
     (\<forall>f_id \<in> set (i_face_ids (i_face_numbering m)).
        let ii = i_face_cells m ! f_id ! 0;
            jj = i_face_cells m ! f_id ! 1;
            wi = c_weight_t_at c_weight_t ii;
            wj = c_weight_t_at c_weight_t jj;
            dc = map (\<lambda>ll. cell_cen fvq ! jj ! ll - cell_cen fvq ! ii ! ll) [0, 1, 2];
            ki_d = fst (compute_ani_weighting_cocg wi wj dc (weight fvq ! f_id));
            kj_d = snd (compute_ani_weighting_cocg wi wj dc (weight fvq ! f_id))
        in cs_math_sym_33_det wi \<noteq> 0 \<and> cs_math_sym_33_det wj \<noteq> 0 \<and>
           cs_math_3_dot_product ki_d ki_d \<noteq> 0 \<and> cs_math_3_dot_product kj_d kj_d \<noteq> 0) \<and>
     b_faces_nonzero m fvq \<and>
     (\<forall>c_id < n_cells m.
        sym6_det (lsq_ani_cocg_accumulated m fvq cpl inc coefap coefbp pvar c_weight_t ! c_id)
        \<noteq> 0)"

text \<open>The divisors of the least-squares stage of the dispatcher, by the kernel it selects
  (the hydrostatic kernel apart).\<close>

definition lsq_stage_nondegenerate ::
  "cs_mesh_t \<Rightarrow> cs_mesh_quantities_t \<Rightarrow> cs_internal_coupling_t option \<Rightarrow> cs_halo_type_t \<Rightarrow> nat \<Rightarrow>
   real list option \<Rightarrow> real \<Rightarrow> real list \<Rightarrow> real list \<Rightarrow> real list \<Rightarrow> bool \<Rightarrow>
   cs_gradient_quantities_t list \<Rightarrow> bool" where
  "lsq_stage_nondegenerate m fvq cpl halo_type w_stride c_weight inc coefap coefbp pvar
     recompute_cocg gqs \<longleftrightarrow>
     (case (if w_stride = 6 then c_weight else None) of
        Some cw \<Rightarrow> lsq_ani_nondegenerate m fvq cpl inc coefap coefbp pvar cw
      | None \<Rightarrow>
          lsq_geometry_nonzero m fvq halo_type \<and> lsq_weights_nonzero m fvq c_weight \<and>
          lsq_cocg_nonsingular m fvq halo_type coefbp recompute_cocg gqs)"

text \<open>The divisors of a call of the scalar dispatcher with the hydrostatic flag off, for
  a field whose initial Green-Gauss gradient has a norm below the threshold of the
  iterative driver (the sweep loop is then not entered).\<close>

definition scalar_call_nondegenerate ::
  "cs_mesh_t \<Rightarrow> cs_mesh_quantities_t \<Rightarrow> cs_env_t \<Rightarrow> cs_internal_coupling_t option \<Rightarrow>
   cs_gradient_type_t \<Rightarrow> cs_halo_type_t \<Rightarrow> nat \<Rightarrow> real list option \<Rightarrow> real \<Rightarrow> real list \<Rightarrow>
   real list \<Rightarrow> real list \<Rightarrow> bool \<Rightarrow> cs_gradient_quantities_t list \<Rightarrow> bool" where
  "scalar_call_nondegenerate m fvq env cpl gradient_type halo_type w_stride c_weight inc coefap
     coefbp pvar recompute_cocg gqs \<longleftrightarrow>
     (case gradient_type of
        CS_GRADIENT_GREEN_ITER \<Rightarrow>
          cell_vol_nonzero m fvq env \<and> face_weights_nonzero m fvq w_stride c_weight
      | CS_GRADIENT_LSQ \<Rightarrow>
          lsq_stage_nondegenerate m fvq cpl halo_type w_stride c_weight inc coefap coefbp pvar
            recompute_cocg gqs
      | CS_GRADIENT_GREEN_LSQ \<Rightarrow>
          lsq_stage_nondegenerate m fvq cpl halo_type w_stride c_weight inc coefap coefbp pvar
            recompute_cocg gqs \<and>
          cell_vol_nonzero m fvq env \<and> face_weights_nonzero m fvq w_stride c_weight
      | CS_GRADIENT_GREEN_VTX \<Rightarrow> True)"

text \<open>One cubic cell of side \<open>1\<close> centred at the origin, with its six boundary faces.\<close>

definition mesh_cube :: cs_mesh_t where
  "mesh_cube =
     \<lparr> n_domains = 1, n_cells = 1, n_cells_with_ghosts = 1, n_i_faces = 0, n_b_faces = 6,
       n_b_cells = 1, i_face_cells = [], b_face_cells = [0, 0, 0, 0, 0, 0], b_cells = [0],
       cell_cells_idx = None, cell_cells_lst = [],
       i_face_numbering = \<lparr> n_threads = 1, n_groups = 1, group_index = [0, 0] \<rparr>,
       b_face_numbering = \<lparr> n_threads = 1, n_groups = 1, group_index = [0, 6] \<rparr>,
       halo = None, have_rotation_perio = False \<rparr>"

definition fvq_cube :: cs_mesh_quantities_t where
  "fvq_cube =
     \<lparr> cell_cen = [[0, 0, 0]], cell_vol = [1], cell_f_vol = [1],
       i_face_normal = [],
       b_face_normal = [[1, 0, 0], [- 1, 0, 0], [0, 1, 0], [0, - 1, 0], [0, 0, 1], [0, 0, - 1]],
       i_f_face_normal = [],
       b_f_face_normal = [[1, 0, 0], [- 1, 0, 0], [0, 1, 0], [0, - 1, 0], [0, 0, 1], [0, 0, - 1]],
       i_face_cog = [],
       b_face_cog = [[1/2, 0, 0], [- 1/2, 0, 0], [0, 1/2, 0], [0, - 1/2, 0], [0, 0, 1/2],
                     [0, 0, - 1/2]],
       b_face_surf = [1, 1, 1, 1, 1, 1], b_dist = [1/2, 1/2, 1/2, 1/2, 1/2, 1/2],
       weight = [], dofij = [],
       diipb = replicate 6 [0, 0, 0],
       corr_grad_lin = [], has_disable_flag = 0, c_disable_flag = [0] \<rparr>"

subsection \<open>Double precision: overflow and its special values\<close>

text \<open>\<^verbatim>\<open>cs_real_t\<close> is \<^verbatim>\<open>double\<close>. For the statements about what the implementation
  returns when an intermediate value leaves the range of doubles: a double is a finite
  value, an infinity or NaN; the operations follow IEEE 754 on the special values, and a
  finite result of magnitude \<open>2\<^sup>1\<^sup>0\<^sup>2\<^sup>4\<close> or more becomes an infinity. Results inside the
  range are kept exact (rounding is not modelled) and the sign of zero is not tracked; the
  example below uses powers of two and zeros only, for which every result inside the range
  is exact in doubles as well.\<close>

datatype cs_double = Dbl real | Dbl_pinf | Dbl_ninf | Dbl_nan

definition dbl_of_real :: "real \<Rightarrow> cs_double" where
  "dbl_of_real x =
     (if 2 ^ 1024 \<le> x then Dbl_pinf else if x \<le> - (2 ^ 1024) then Dbl_ninf else Dbl x)"

fun dbl_neg :: "cs_double \<Rightarrow> cs_double" where
  "dbl_neg (Dbl x) = Dbl (- x)"
| "dbl_neg Dbl_pinf = Dbl_ninf"
| "dbl_neg Dbl_ninf = Dbl_pinf"
| "dbl_neg Dbl_nan = Dbl_nan"

fun dbl_add :: "cs_double \<Rightarrow> cs_double \<Rightarrow> cs_double" where
  "dbl_add (Dbl x) (Dbl y) = dbl_of_real (x + y)"
| "dbl_add Dbl_nan b = Dbl_nan"
| "dbl_add a Dbl_nan = Dbl_nan"
| "dbl_add Dbl_pinf Dbl_ninf = Dbl_nan"
| "dbl_add Dbl_ninf Dbl_pinf = Dbl_nan"
| "dbl_add Dbl_pinf b = Dbl_pinf"
| "dbl_add Dbl_ninf b = Dbl_ninf"
| "dbl_add a Dbl_pinf = Dbl_pinf"
| "dbl_add a Dbl_ninf = Dbl_ninf"

definition dbl_sub :: "cs_double \<Rightarrow> cs_double \<Rightarrow> cs_double" where
  "dbl_sub a b = dbl_add a (dbl_neg b)"

text \<open>The sign of a product or quotient with an infinite operand.\<close>

definition dbl_signed_inf :: "bool \<Rightarrow> cs_double" where
  "dbl_signed_inf negative = (if negative then Dbl_ninf else Dbl_pinf)"

fun dbl_mult :: "cs_double \<Rightarrow> cs_double \<Rightarrow> cs_double" where
  "dbl_mult (Dbl x) (Dbl y) = dbl_of_real (x * y)"
| "dbl_mult Dbl_nan b = Dbl_nan"
| "dbl_mult a Dbl_nan = Dbl_nan"
| "dbl_mult Dbl_pinf (Dbl y) = (if y = 0 then Dbl_nan else dbl_signed_inf (y < 0))"
| "dbl_mult Dbl_ninf (Dbl y) = (if y = 0 then Dbl_nan else dbl_signed_inf (0 < y))"
| "dbl_mult (Dbl x) Dbl_pinf = (if x = 0 then Dbl_nan else dbl_signed_inf (x < 0))"
| "dbl_mult (Dbl x) Dbl_ninf = (if x = 0 then Dbl_nan else dbl_signed_inf (0 < x))"
| "dbl_mult Dbl_pinf Dbl_pinf = Dbl_pinf"
| "dbl_mult Dbl_ninf Dbl_ninf = Dbl_pinf"
| "dbl_mult Dbl_pinf Dbl_ninf = Dbl_ninf"
| "dbl_mult Dbl_ninf Dbl_pinf = Dbl_ninf"

fun dbl_div :: "cs_double \<Rightarrow> cs_double \<Rightarrow> cs_double" where
  "dbl_div (Dbl x) (Dbl y) =
     (if y = 0 then (if x = 0 then Dbl_nan else dbl_signed_inf (x < 0))
      else dbl_of_real (x / y))"
| "dbl_div Dbl_nan b = Dbl_nan"
| "dbl_div a Dbl_nan = Dbl_nan"
| "dbl_div (Dbl x) Dbl_pinf = Dbl 0"
| "dbl_div (Dbl x) Dbl_ninf = Dbl 0"
| "dbl_div Dbl_pinf (Dbl y) = dbl_signed_inf (y < 0)"
| "dbl_div Dbl_ninf (Dbl y) = dbl_signed_inf (0 \<le> y)"
| "dbl_div Dbl_pinf Dbl_pinf = Dbl_nan"
| "dbl_div Dbl_pinf Dbl_ninf = Dbl_nan"
| "dbl_div Dbl_ninf Dbl_pinf = Dbl_nan"
| "dbl_div Dbl_ninf Dbl_ninf = Dbl_nan"

text \<open>\<^verbatim>\<open>_math_6_inv_cramer_sym_in_place\<close> on doubles, statement by statement.\<close>

definition math_6_inv_cramer_sym_in_place_dbl :: "cs_double list \<Rightarrow> cs_double list" where
  "math_6_inv_cramer_sym_in_place_dbl a =
    (let a00 = dbl_sub (dbl_mult (a!1) (a!2)) (dbl_mult (a!4) (a!4));
         a01 = dbl_sub (dbl_mult (a!4) (a!5)) (dbl_mult (a!3) (a!2));
         a02 = dbl_sub (dbl_mult (a!3) (a!4)) (dbl_mult (a!1) (a!5));
         a11 = dbl_sub (dbl_mult (a!0) (a!2)) (dbl_mult (a!5) (a!5));
         a12 = dbl_sub (dbl_mult (a!3) (a!5)) (dbl_mult (a!0) (a!4));
         a22 = dbl_sub (dbl_mult (a!0) (a!1)) (dbl_mult (a!3) (a!3));
         det_inv = dbl_div (Dbl 1)
                     (dbl_add (dbl_add (dbl_mult (a!0) a00) (dbl_mult (a!3) a01))
                        (dbl_mult (a!5) a02))
     in a[0 := dbl_mult a00 det_inv, 1 := dbl_mult a11 det_inv, 2 := dbl_mult a22 det_inv,
          3 := dbl_mult a01 det_inv, 4 := dbl_mult a12 det_inv, 5 := dbl_mult a02 det_inv])"

section \<open>Verification\<close>

subsection \<open>Loops and arrays\<close>


lemma fold_inv:
  assumes "P s" and "\<And>x s. x \<in> set xs \<Longrightarrow> P s \<Longrightarrow> P (f x s)"
  shows "P (fold f xs s)"
  using assms by (induction xs arbitrary: s) auto

lemma fold_establish:
  assumes "P s" and "\<And>x s. x \<in> set xs \<Longrightarrow> P s \<Longrightarrow> P (f x s)"
    and "\<And>x s. x \<in> set xs \<Longrightarrow> P s \<Longrightarrow> Q s \<Longrightarrow> Q (f x s)"
    and "y \<in> set xs" and "\<And>s. P s \<Longrightarrow> Q (f y s)"
  shows "Q (fold f xs s)"
proof -
  from assms(4) obtain ys zs where xs: "xs = ys @ y # zs" by (auto simp: in_set_conv_decomp)
  have P1: "P (fold f ys s)"
    by (rule fold_inv[where P=P, OF assms(1)]) (auto simp: xs intro: assms(2))
  have Q2: "Q (f y (fold f ys s))" by (rule assms(5)[OF P1])
  have P2: "P (f y (fold f ys s))" by (rule assms(2)[OF assms(4) P1])
  have "P (fold f zs (f y (fold f ys s))) \<and> Q (fold f zs (f y (fold f ys s)))"
    by (rule fold_inv[where P="\<lambda>s. P s \<and> Q s"]) (auto simp: xs P2 Q2 intro: assms(2,3))
  then show ?thesis by (simp add: xs)
qed

lemma fold_concat_map: "fold f (concat (map g xs)) = fold (\<lambda>x. fold f (g x)) xs"
  by (induction xs) simp_all

lemma for_i_faces_fold: "for_i_faces nu body = fold body (i_face_ids nu)"
  unfolding for_i_faces_def i_face_ids_def
  by (simp add: fold_concat_map)

lemma for_b_faces_fold: "for_b_faces nu body = fold body (b_face_ids nu)"
  unfolding for_b_faces_def b_face_ids_def
  by (simp add: fold_concat_map)

lemma for_ext_neighbors_inv:
  assumes "P s" and "\<And>ii cidx s. ii < n \<Longrightarrow> P s \<Longrightarrow> P (body ii cidx s)"
  shows "P (for_ext_neighbors n idx body s)"
  unfolding for_ext_neighbors_def
  by (rule fold_inv[where P=P, OF assms(1)]) (auto intro!: fold_inv[where P=P] assms(2))

lemma CS_ABS_nonneg: "0 \<le> CS_ABS a" by (simp add: CS_ABS_def)
lemma CS_MAX_ge2: "b \<le> CS_MAX a b" by (simp add: CS_MAX_def)
lemma CS_MIN_le1: "CS_MIN a b \<le> a" by (simp add: CS_MIN_def)
lemma CS_MIN_le2: "CS_MIN a b \<le> b" by (simp add: CS_MIN_def)
lemma CS_MIN_nonneg: "0 \<le> a \<Longrightarrow> 0 \<le> b \<Longrightarrow> 0 \<le> CS_MIN a b" by (simp add: CS_MIN_def)



lemma nonneg_arr_update: "nonneg_arr n xs \<Longrightarrow> 0 \<le> v \<Longrightarrow> nonneg_arr n (xs[i := v])"
  by (cases "i < length xs") (auto simp: nonneg_arr_def nth_list_update)

lemma nonneg_arr_replicate: "nonneg_arr n (replicate n 0)"
  by (simp add: nonneg_arr_def)

lemma clip_s_variations_denom:
  "nonneg_arr (n_cells_with_ghosts m) (snd (clip_s_variations m fvq halo_type clip_mode var grad))"
proof -
  let ?P = "\<lambda>dd. nonneg_arr (n_cells_with_ghosts m) (snd dd)"
  have P0: "?P (replicate (n_cells_with_ghosts m) 0, replicate (n_cells_with_ghosts m) 0)"
    by (simp add: nonneg_arr_replicate)
  have c1: "\<And>f dd. ?P dd \<Longrightarrow> ?P (clip_s_cell_face m fvq var grad f dd)"
    by (auto simp: clip_s_cell_face_def Let_def split_beta
        intro!: nonneg_arr_update order_trans[OF CS_ABS_nonneg CS_MAX_ge2])
  have c2: "\<And>ii cidx dd. ?P dd \<Longrightarrow> ?P (clip_s_cell_ext m fvq var grad ii cidx dd)"
    by (auto simp: clip_s_cell_ext_def Let_def split_beta
        intro!: nonneg_arr_update order_trans[OF CS_ABS_nonneg CS_MAX_ge2])
  have f1: "\<And>f dd. ?P dd \<Longrightarrow> ?P (clip_s_face_face m fvq var grad f dd)"
    by (auto simp: clip_s_face_face_def Let_def split_beta
        intro!: nonneg_arr_update order_trans[OF CS_ABS_nonneg CS_MAX_ge2])
  have f2: "\<And>ii cidx dd. ?P dd \<Longrightarrow> ?P (clip_s_face_ext m fvq var grad ii cidx dd)"
    by (auto simp: clip_s_face_ext_def Let_def split_beta
        intro!: nonneg_arr_update order_trans[OF CS_ABS_nonneg CS_MAX_ge2])
  have C1: "?P (for_i_faces (i_face_numbering m) (clip_s_cell_face m fvq var grad)
             (replicate (n_cells_with_ghosts m) 0, replicate (n_cells_with_ghosts m) 0))"
    unfolding for_i_faces_fold by (rule fold_inv[where P="?P", OF P0]) (rule c1)
  have F1: "?P (for_i_faces (i_face_numbering m) (clip_s_face_face m fvq var grad)
             (replicate (n_cells_with_ghosts m) 0, replicate (n_cells_with_ghosts m) 0))"
    unfolding for_i_faces_fold by (rule fold_inv[where P="?P", OF P0]) (rule f1)
  show ?thesis
    unfolding clip_s_variations_def Let_def
    using P0 C1 F1 for_ext_neighbors_inv[of ?P, OF C1 c2] for_ext_neighbors_inv[of ?P, OF F1 f2]
    by (auto split: option.splits)
qed


lemma one_sided_factor_bounds:
  fixes c a b :: real
  assumes "0 < c" "0 \<le> b"
  shows "0 \<le> (if a > c * b then c * b / a else 1) \<and> (if a > c * b then c * b / a else 1) \<le> 1"
proof (cases "a > c * b")
  case True
  have cb: "0 \<le> c * b" using assms by simp
  then have a: "0 < a" using True by linarith
  show ?thesis using True a cb by (simp add: divide_le_eq)
next
  case False then show ?thesis by simp
qed

lemma scale3_updates:
  "length g = 3 \<Longrightarrow> g[0 := g!0 * f, 1 := g!1 * f, 2 := g!2 * f] = map (\<lambda>x. x * f) g"
  by (auto simp: length_Suc_conv eval_nat_numeral)

lemma fold_pointwise:
  assumes len: "\<And>x s. length (fst (body x s)) = length (fst s)"
    and other: "\<And>x s. x \<noteq> c \<Longrightarrow> fst (body x s) ! c = fst s ! c"
    and self: "\<And>s. c < length (fst s) \<Longrightarrow> length (fst s ! c) = 3 \<Longrightarrow>
                 fst (body c s) ! c = map (\<lambda>x. x * k) (fst s ! c)"
    and "distinct xs" "c < length (fst s)" "length (fst s ! c) = 3"
  shows "fst (fold body xs s) ! c = (if c \<in> set xs then map (\<lambda>x. x * k) (fst s ! c) else fst s ! c)"
  using assms(4-)
proof (induction xs arbitrary: s)
  case Nil then show ?case by simp
next
  case (Cons x xs)
  show ?case
  proof (cases "x = c")
    case True
    have 1: "fst (body c s) ! c = map (\<lambda>x. x * k) (fst s ! c)" using Cons.prems by (intro self)
    have "fst (fold body xs (body c s)) ! c
          = (if c \<in> set xs then map (\<lambda>x. x * k) (fst (body c s) ! c) else fst (body c s) ! c)"
      using Cons.prems by (intro Cons.IH) (auto simp: len 1)
    then show ?thesis using True Cons.prems 1 by simp
  next
    case False
    have 1: "fst (body x s) ! c = fst s ! c" using False by (intro other)
    have "fst (fold body xs (body x s)) ! c
          = (if c \<in> set xs then map (\<lambda>x. x * k) (fst (body x s) ! c) else fst (body x s) ! c)"
      using Cons.prems by (intro Cons.IH) (auto simp: len 1)
    then show ?thesis using False 1 by simp
  qed
qed

lemma clip_s_cell_apply_len: "length (fst (clip_s_cell_apply climgp denum denom ii s)) = length (fst s)"
  by (simp add: clip_s_cell_apply_def split_beta Let_def)

lemma clip_s_cell_apply_other:
  "ii \<noteq> c \<Longrightarrow> fst (clip_s_cell_apply climgp denum denom ii s) ! c = fst s ! c"
  by (simp add: clip_s_cell_apply_def split_beta Let_def)

lemma clip_s_cell_apply_self:
  assumes "c < length (fst s)" "length (fst s ! c) = 3"
  shows "fst (clip_s_cell_apply climgp denum denom c s) ! c
         = map (\<lambda>x. x * (if denum!c > climgp * denom!c then climgp * denom!c / denum!c else 1))
             (fst s ! c)"
  using assms scale3_updates[of "fst s ! c"]
  by (simp add: clip_s_cell_apply_def split_beta Let_def)

lemma clip_s_face_apply_len: "length (fst (clip_s_face_apply cf ii s)) = length (fst s)"
  by (simp add: clip_s_face_apply_def split_beta Let_def)

lemma clip_s_face_apply_other:
  "ii \<noteq> c \<Longrightarrow> fst (clip_s_face_apply cf ii s) ! c = fst s ! c"
  by (simp add: clip_s_face_apply_def split_beta Let_def)

lemma clip_s_face_apply_self:
  assumes "c < length (fst s)" "length (fst s ! c) = 3"
  shows "fst (clip_s_face_apply cf c s) ! c = map (\<lambda>x. x * cf ! c) (fst s ! c)"
  using assms scale3_updates[of "fst s ! c"]
  by (simp add: clip_s_face_apply_def split_beta Let_def)


lemma upd_le1:
  fixes xs :: "real list"
  assumes "xs ! c \<le> 1 \<or> (i = c \<and> c < length xs)" "v \<le> 1"
  shows "xs[i := v] ! c \<le> 1"
proof (cases "i = c \<and> c < length xs")
  case True then show ?thesis using assms(2) by simp
next
  case False
  then have "xs[i := v] ! c = xs ! c"
    by (cases "i = c") (simp_all add: list_update_beyond)
  then show ?thesis using assms(1) False by auto
qed

lemma clip_s_face_factor_P:
  assumes "0 < climgp" "nonneg_arr n denom" "nonneg_arr n cf"
    "i_face_cells m ! f ! 0 < n" "i_face_cells m ! f ! 1 < n"
  shows "nonneg_arr n (clip_s_face_factor m climgp denum denom f cf)"
proof -
  let ?ii = "i_face_cells m ! f ! 0" and ?jj = "i_face_cells m ! f ! 1"
  let ?f1 = "if denum!?ii > climgp * denom!?ii then climgp * denom!?ii / denum!?ii else 1"
  let ?f2 = "if denum!?jj > climgp * denom!?jj then climgp * denom!?jj / denum!?jj else 1"
  have d1: "0 \<le> denom ! ?ii" and d2: "0 \<le> denom ! ?jj"
    using assms(2,4,5) by (simp_all add: nonneg_arr_def)
  have b1: "0 \<le> ?f1" using one_sided_factor_bounds[OF assms(1) d1] by blast
  have b2: "0 \<le> ?f2" using one_sided_factor_bounds[OF assms(1) d2] by blast
  have l: "0 \<le> CS_MIN ?f1 ?f2" using b1 b2 by (rule CS_MIN_nonneg)
  have c0: "0 \<le> cf ! ?ii" using assms(3,4) by (simp add: nonneg_arr_def)
  have 1: "nonneg_arr n (cf[?ii := CS_MIN (cf ! ?ii) (CS_MIN ?f1 ?f2)])"
    by (intro nonneg_arr_update[OF assms(3)] CS_MIN_nonneg c0 l)
  have 2: "0 \<le> cf[?ii := CS_MIN (cf ! ?ii) (CS_MIN ?f1 ?f2)] ! ?jj"
    using 1 assms(5) unfolding nonneg_arr_def by blast
  show ?thesis
    unfolding clip_s_face_factor_def Let_def
    by (intro nonneg_arr_update[OF 1] CS_MIN_nonneg 2 l)
qed

lemma clip_s_face_factor_Q:
  assumes "0 < climgp" "nonneg_arr n denom" "nonneg_arr n cf"
    "i_face_cells m ! f ! 0 < n" "i_face_cells m ! f ! 1 < n" "c < n"
    "cf ! c \<le> 1 \<or> i_face_cells m ! f ! 0 = c \<or> i_face_cells m ! f ! 1 = c"
  shows "clip_s_face_factor m climgp denum denom f cf ! c \<le> 1"
proof -
  let ?ii = "i_face_cells m ! f ! 0" and ?jj = "i_face_cells m ! f ! 1"
  let ?f1 = "if denum!?ii > climgp * denom!?ii then climgp * denom!?ii / denum!?ii else 1"
  let ?f2 = "if denum!?jj > climgp * denom!?jj then climgp * denom!?jj / denum!?jj else 1"
  have d1: "0 \<le> denom ! ?ii" using assms(2,4) by (simp_all add: nonneg_arr_def)
  have b1: "?f1 \<le> 1" using one_sided_factor_bounds[OF assms(1) d1] by blast
  have l: "CS_MIN ?f1 ?f2 \<le> 1" using b1 CS_MIN_le1[of ?f1 ?f2] by linarith
  have m1: "\<And>a. CS_MIN a (CS_MIN ?f1 ?f2) \<le> 1" using l CS_MIN_le2 order_trans by blast
  have len: "length cf = n" using assms(3) by (simp add: nonneg_arr_def)
  let ?cf1 = "cf[?ii := CS_MIN (cf ! ?ii) (CS_MIN ?f1 ?f2)]"
  have 1: "?cf1 ! c \<le> 1 \<or> (?jj = c \<and> c < length ?cf1)"
  proof (cases "?ii = c")
    case True then show ?thesis using upd_le1[of cf c ?ii, OF _ m1] assms(6) len by blast
  next
    case False
    then show ?thesis using assms(6,7) len by auto
  qed
  show ?thesis
    unfolding clip_s_face_factor_def Let_def
    by (rule upd_le1[OF 1 m1])
qed

lemma fold_ext_inner_bounds:
  assumes "0 < climgp" "nonneg_arr n denom" "\<forall>cidx \<in> set cs. cell_cells_lst m ! cidx < n"
    "0 \<le> a" "a \<le> 1"
  shows "0 \<le> fold (clip_s_face_factor_ext_inner m climgp denum denom) cs a
       \<and> fold (clip_s_face_factor_ext_inner m climgp denum denom) cs a \<le> 1"
proof (rule fold_inv[where P="\<lambda>a. 0 \<le> a \<and> a \<le> (1::real)"])
  show "0 \<le> a \<and> a \<le> 1" using assms by simp
next
  fix x s assume x: "x \<in> set cs" and s: "0 \<le> s \<and> s \<le> (1::real)"
  let ?jj = "cell_cells_lst m ! x"
  let ?f2 = "if denum!?jj > climgp * denom!?jj then climgp * denom!?jj / denum!?jj else 1"
  have "0 \<le> ?f2" using one_sided_factor_bounds[OF assms(1), of "denom!?jj" "denum!?jj"] assms(2,3) x
    by (simp add: nonneg_arr_def)
  then show "0 \<le> clip_s_face_factor_ext_inner m climgp denum denom x s
           \<and> clip_s_face_factor_ext_inner m climgp denum denom x s \<le> 1"
    unfolding clip_s_face_factor_ext_inner_def Let_def
    using s CS_MIN_nonneg[of s ?f2] CS_MIN_le1[of s ?f2] by auto
qed

lemma clip_s_face_factor_ext_P:
  assumes "0 < climgp" "nonneg_arr n denom" "nonneg_arr n cf"
    "\<forall>cidx \<in> set [idx ! ii ..< idx ! (ii + 1)]. cell_cells_lst m ! cidx < n"
  shows "nonneg_arr n (clip_s_face_factor_ext m climgp denum denom idx ii cf)"
proof (cases "ii < n")
  case True
  have "0 \<le> cf ! ii" using True assms(3) by (simp add: nonneg_arr_def)
  then show ?thesis
    unfolding clip_s_face_factor_ext_def Let_def
    using fold_ext_inner_bounds[OF assms(1,2,4), of 1 denum]
    by (intro nonneg_arr_update[OF assms(3)] CS_MIN_nonneg) auto
next
  case False
  then show ?thesis using assms(3)
    unfolding clip_s_face_factor_ext_def Let_def by (simp add: nonneg_arr_def)
qed

lemma clip_s_face_factor_ext_Q:
  assumes "0 < climgp" "nonneg_arr n denom" "nonneg_arr n cf"
    "\<forall>cidx \<in> set [idx ! ii ..< idx ! (ii + 1)]. cell_cells_lst m ! cidx < n"
    "c < n" "cf ! c \<le> 1 \<or> ii = c"
  shows "clip_s_face_factor_ext m climgp denum denom idx ii cf ! c \<le> 1"
proof -
  have len: "length cf = n" using assms(3) by (simp add: nonneg_arr_def)
  have b: "fold (clip_s_face_factor_ext_inner m climgp denum denom) [idx ! ii ..< idx ! (ii + 1)] 1 \<le> 1"
    using fold_ext_inner_bounds[OF assms(1,2,4), of 1 denum] by simp
  have m1: "\<And>a. CS_MIN a (fold (clip_s_face_factor_ext_inner m climgp denum denom)
                 [idx ! ii ..< idx ! (ii + 1)] 1) \<le> 1"
    using b CS_MIN_le2 order_trans by blast
  have 1: "cf ! c \<le> 1 \<or> (ii = c \<and> c < length cf)" using assms(5,6) len by blast
  show ?thesis
    unfolding clip_s_face_factor_ext_def Let_def
    by (rule upd_le1[OF 1 m1])
qed







lemma clip_s_face_factors_bounds:
  assumes "0 < climgp" "nonneg_arr (n_cells_with_ghosts m) denom"
    "i_faces_in_range m" "ext_neighbors_in_range m"
    "n_cells m \<le> n_cells_with_ghosts m" "c < n_cells m"
  shows "0 \<le> clip_s_face_factors m halo_type climgp denum denom ! c"
    and "cell_has_i_face m c \<or> (halo_type = CS_HALO_EXTENDED \<and> cell_cells_idx m \<noteq> None)
         \<Longrightarrow> clip_s_face_factors m halo_type climgp denum denom ! c \<le> 1"
proof -
  let ?n = "n_cells_with_ghosts m"
  let ?cf0 = "replicate ?n DBL_MAX"
  let ?cf1 = "for_i_faces (i_face_numbering m) (clip_s_face_factor m climgp denum denom) ?cf0"
  have cn: "c < ?n" using assms(5,6) by simp
  have P0: "nonneg_arr ?n ?cf0" by (simp add: nonneg_arr_def DBL_MAX_def)
  have stepP: "\<And>f cf. f \<in> set (i_face_ids (i_face_numbering m)) \<Longrightarrow> nonneg_arr ?n cf
      \<Longrightarrow> nonneg_arr ?n (clip_s_face_factor m climgp denum denom f cf)"
    using assms(3) by (intro clip_s_face_factor_P[OF assms(1,2)]) (auto simp: i_faces_in_range_def)
  have P1: "nonneg_arr ?n ?cf1"
    unfolding for_i_faces_fold by (rule fold_inv[where P="nonneg_arr ?n", OF P0]) (rule stepP)
  have Q1: "?cf1 ! c \<le> 1" if "cell_has_i_face m c"
  proof -
    from that obtain f where f: "f \<in> set (i_face_ids (i_face_numbering m))"
      "i_face_cells m ! f ! 0 = c \<or> i_face_cells m ! f ! 1 = c"
      by (auto simp: cell_has_i_face_def)
    show ?thesis
      unfolding for_i_faces_fold
    proof (rule fold_establish[where P="nonneg_arr ?n" and Q="\<lambda>cf. cf ! c \<le> 1" and y=f, OF P0 stepP])
      fix x s assume "x \<in> set (i_face_ids (i_face_numbering m))" "nonneg_arr ?n s" "s ! c \<le> 1"
      then show "clip_s_face_factor m climgp denum denom x s ! c \<le> 1"
        using assms(3) cn by (intro clip_s_face_factor_Q[OF assms(1,2)]) (auto simp: i_faces_in_range_def)
    next
      show "f \<in> set (i_face_ids (i_face_numbering m))" by (rule f(1))
    next
      fix s assume "nonneg_arr ?n s"
      then show "clip_s_face_factor m climgp denum denom f s ! c \<le> 1"
        using assms(3) cn f by (intro clip_s_face_factor_Q[OF assms(1,2)]) (auto simp: i_faces_in_range_def)
    qed
  qed
  have ext: "nonneg_arr ?n (fold (clip_s_face_factor_ext m climgp denum denom idx) [0 ..< n_cells m] ?cf1)
      \<and> fold (clip_s_face_factor_ext m climgp denum denom idx) [0 ..< n_cells m] ?cf1 ! c \<le> 1"
    if idx: "cell_cells_idx m = Some idx" for idx
  proof -
    have r: "\<And>ii. ii < n_cells m \<Longrightarrow> \<forall>cidx \<in> set [idx ! ii ..< idx ! (ii + 1)]. cell_cells_lst m ! cidx < ?n"
      using assms(4) idx unfolding ext_neighbors_in_range_def by blast
    have sP: "\<And>x s. x \<in> set [0 ..< n_cells m] \<Longrightarrow> nonneg_arr ?n s
        \<Longrightarrow> nonneg_arr ?n (clip_s_face_factor_ext m climgp denum denom idx x s)"
      using r by (intro clip_s_face_factor_ext_P[OF assms(1,2)]) auto
    have A: "nonneg_arr ?n (fold (clip_s_face_factor_ext m climgp denum denom idx) [0 ..< n_cells m] ?cf1)"
      by (rule fold_inv[where P="nonneg_arr ?n", OF P1]) (rule sP)
    have B: "fold (clip_s_face_factor_ext m climgp denum denom idx) [0 ..< n_cells m] ?cf1 ! c \<le> 1"
    proof (rule fold_establish[where P="nonneg_arr ?n" and Q="\<lambda>cf. cf ! c \<le> 1" and y=c, OF P1 sP])
      fix x s assume "x \<in> set [0 ..< n_cells m]" "nonneg_arr ?n s" "s ! c \<le> 1"
      then show "clip_s_face_factor_ext m climgp denum denom idx x s ! c \<le> 1"
        using r cn by (intro clip_s_face_factor_ext_Q[OF assms(1,2)]) auto
    next
      show "c \<in> set [0 ..< n_cells m]" using assms(6) by simp
    next
      fix s assume "nonneg_arr ?n s"
      then show "clip_s_face_factor_ext m climgp denum denom idx c s ! c \<le> 1"
        using r cn assms(6) by (intro clip_s_face_factor_ext_Q[OF assms(1,2)]) auto
    qed
    show ?thesis using A B by simp
  qed
  show "0 \<le> clip_s_face_factors m halo_type climgp denum denom ! c"
    unfolding clip_s_face_factors_def Let_def
    using P1 ext cn by (auto simp: nonneg_arr_def split: option.splits)
  show "clip_s_face_factors m halo_type climgp denum denom ! c \<le> 1"
    if "cell_has_i_face m c \<or> (halo_type = CS_HALO_EXTENDED \<and> cell_cells_idx m \<noteq> None)"
    unfolding clip_s_face_factors_def Let_def
    using that Q1 ext by (auto split: option.splits)
qed








lemma scale3_norm_le:
  assumes "0 \<le> f" "f \<le> 1"
  shows "cs_math_3_norm (map (\<lambda>x. x * f) g) \<le> cs_math_3_norm g \<or> length g \<noteq> 3"
proof (cases "length g = 3")
  case True
  then obtain a b c where g: "g = [a, b, c]" by (auto simp: length_Suc_conv eval_nat_numeral)
  have f2: "f * f \<le> 1" using assms by (simp add: mult_le_one)
  have "a * f * (a * f) + b * f * (b * f) + c * f * (c * f) = (f * f) * (a * a + b * b + c * c)"
    by (simp add: algebra_simps)
  also have "\<dots> \<le> 1 * (a * a + b * b + c * c)"
    by (rule mult_right_mono[OF f2]) simp
  finally show ?thesis by (simp add: g cs_math_3_norm_def)
next
  case False then show ?thesis by simp
qed

lemma sync_grad_owned:
  assumes "\<forall>h. halo m = Some h \<longrightarrow> halo_keeps_owned (n_cells m) h" "c < n_cells m"
  shows "(case halo m of Some h \<Rightarrow> cs_halo_perio_sync_var_vect h ht (cs_halo_sync_var_strided h ht g)
          | None \<Rightarrow> g) ! c = g ! c"
    and "length (case halo m of Some h \<Rightarrow> cs_halo_perio_sync_var_vect h ht (cs_halo_sync_var_strided h ht g)
          | None \<Rightarrow> g) = length g"
  using assms by (auto simp: halo_keeps_owned_def split: option.splits)

lemma sync_denom_nonneg:
  assumes "\<forall>h. halo m = Some h \<longrightarrow> halo_keeps_owned (n_cells m) h \<and> halo_keeps_nonneg h"
    "nonneg_arr n xs"
  shows "nonneg_arr n (case halo m of Some h \<Rightarrow> cs_halo_sync_var h ht xs | None \<Rightarrow> xs)"
  using assms by (auto simp: halo_keeps_owned_def halo_keeps_nonneg_def nonneg_arr_def split: option.splits)

lemma scalar_gradient_clipping_cell:
  "fst (scalar_gradient_clipping m fvq mpi halo_type CS_GRADIENT_LIMIT_CELL verbosity climgp
          var_name var (grad, out)) =
   (case halo m of
      Some h \<Rightarrow> cs_halo_perio_sync_var_vect h halo_type (cs_halo_sync_var_strided h halo_type
        (fst (fold (clip_s_cell_apply climgp
            (fst (clip_s_variations m fvq halo_type CS_GRADIENT_LIMIT_CELL var grad))
            (snd (clip_s_variations m fvq halo_type CS_GRADIENT_LIMIT_CELL var grad)))
          [0 ..< n_cells m] (grad, 1, 0, 0))))
    | None \<Rightarrow> fst (fold (clip_s_cell_apply climgp
            (fst (clip_s_variations m fvq halo_type CS_GRADIENT_LIMIT_CELL var grad))
            (snd (clip_s_variations m fvq halo_type CS_GRADIENT_LIMIT_CELL var grad)))
          [0 ..< n_cells m] (grad, 1, 0, 0)))"
  by (simp add: scalar_gradient_clipping_def CS_GRADIENT_LIMIT_CELL_def CS_GRADIENT_LIMIT_NONE_def
      CS_GRADIENT_LIMIT_FACE_def split_beta Let_def split: option.splits)



lemma scalar_gradient_clipping_face:
  "fst (scalar_gradient_clipping m fvq mpi halo_type CS_GRADIENT_LIMIT_FACE verbosity climgp
          var_name var (grad, out)) =
   clip_s_face_synced_grad m halo_type
     (fst (fold (clip_s_face_apply
        (clip_s_face_factors m halo_type climgp
          (case halo m of Some h \<Rightarrow> cs_halo_sync_var h halo_type
               (fst (clip_s_variations m fvq halo_type CS_GRADIENT_LIMIT_FACE var
                  (clip_s_face_synced_grad m halo_type grad)))
             | None \<Rightarrow> fst (clip_s_variations m fvq halo_type CS_GRADIENT_LIMIT_FACE var
                  (clip_s_face_synced_grad m halo_type grad)))
          (case halo m of Some h \<Rightarrow> cs_halo_sync_var h halo_type
               (snd (clip_s_variations m fvq halo_type CS_GRADIENT_LIMIT_FACE var
                  (clip_s_face_synced_grad m halo_type grad)))
             | None \<Rightarrow> snd (clip_s_variations m fvq halo_type CS_GRADIENT_LIMIT_FACE var
                  (clip_s_face_synced_grad m halo_type grad)))))
       [0 ..< n_cells m] (clip_s_face_synced_grad m halo_type grad, 1, 0, 0)))"
  by (simp add: scalar_gradient_clipping_def CS_GRADIENT_LIMIT_CELL_def CS_GRADIENT_LIMIT_NONE_def
      CS_GRADIENT_LIMIT_FACE_def clip_s_face_synced_grad_def split_beta Let_def split: option.splits)

text \<open>
  Claim C1, as amended. For every positive clip coefficient and the cell-based or face-based
  mode, the gradient of every owned cell after \<^verbatim>\<open>_scalar_gradient_clipping\<close> is its
  gradient before, multiplied by a factor in the closed interval \<open>[0, 1]\<close>, and so its
  Euclidean norm does not grow. In the face-based mode this is stated for the cells that
  have an interior face, or when the extended neighbourhood is processed. The mesh
  connectivity is in range and the halo exchange keeps owned entries and non-negativity.
\<close>

theorem scalar_clipping_factor_bounds:
  assumes climgp: "0 < climgp"
    and mode: "clip_mode = CS_GRADIENT_LIMIT_CELL \<or> clip_mode = CS_GRADIENT_LIMIT_FACE"
    and wf: "n_cells m \<le> n_cells_with_ghosts m" "i_faces_in_range m" "ext_neighbors_in_range m"
    and halo: "\<forall>h. halo m = Some h \<longrightarrow> halo_keeps_owned (n_cells m) h \<and> halo_keeps_nonneg h"
    and grad: "length grad = n_cells_with_ghosts m" "c < n_cells m" "length (grad ! c) = 3"
    and face: "clip_mode = CS_GRADIENT_LIMIT_FACE \<longrightarrow>
                 cell_has_i_face m c \<or> (halo_type = CS_HALO_EXTENDED \<and> cell_cells_idx m \<noteq> None)"
  shows "\<exists>f. 0 \<le> f \<and> f \<le> 1 \<and>
           fst (scalar_gradient_clipping m fvq mpi halo_type clip_mode verbosity climgp var_name var
                  (grad, out)) ! c = map (\<lambda>x. x * f) (grad ! c) \<and>
           cs_math_3_norm (fst (scalar_gradient_clipping m fvq mpi halo_type clip_mode verbosity
                  climgp var_name var (grad, out)) ! c) \<le> cs_math_3_norm (grad ! c)"
proof -
  have owned: "\<forall>h. halo m = Some h \<longrightarrow> halo_keeps_owned (n_cells m) h" using halo by blast
  have cn: "c < n_cells_with_ghosts m" using wf(1) grad(2) by simp
  have key: "\<exists>f. 0 \<le> f \<and> f \<le> 1 \<and>
           fst (scalar_gradient_clipping m fvq mpi halo_type clip_mode verbosity climgp var_name var
                  (grad, out)) ! c = map (\<lambda>x. x * f) (grad ! c)"
    using mode
  proof
    assume cm: "clip_mode = CS_GRADIENT_LIMIT_CELL"
    let ?dd = "clip_s_variations m fvq halo_type CS_GRADIENT_LIMIT_CELL var grad"
    let ?f = "if fst ?dd ! c > climgp * snd ?dd ! c then climgp * snd ?dd ! c / fst ?dd ! c else 1"
    let ?R = "fold (clip_s_cell_apply climgp (fst ?dd) (snd ?dd)) [0 ..< n_cells m] (grad, 1, 0, 0)"
    have d: "0 \<le> snd ?dd ! c" using clip_s_variations_denom[of m fvq halo_type CS_GRADIENT_LIMIT_CELL var grad] cn
      by (simp add: nonneg_arr_def)
    have fb: "0 \<le> ?f \<and> ?f \<le> 1" by (rule one_sided_factor_bounds[OF climgp d])
    have R: "fst ?R ! c = (if c \<in> set [0 ..< n_cells m] then map (\<lambda>x. x * ?f) (fst (grad, 1::real, 0::real, 0::nat) ! c)
                           else fst (grad, 1::real, 0::real, 0::nat) ! c)"
      by (rule fold_pointwise[OF clip_s_cell_apply_len clip_s_cell_apply_other clip_s_cell_apply_self])
         (use grad cn in auto)
    have Rc: "fst ?R ! c = map (\<lambda>x. x * ?f) (grad ! c)" using R grad(2) by simp
    have res: "fst (scalar_gradient_clipping m fvq mpi halo_type clip_mode verbosity climgp var_name var
                  (grad, out)) ! c = fst ?R ! c"
      unfolding cm scalar_gradient_clipping_cell by (rule sync_grad_owned(1)[OF owned grad(2)])
    show ?thesis using fb res Rc by metis
  next
    assume cm: "clip_mode = CS_GRADIENT_LIMIT_FACE"
    let ?g1 = "clip_s_face_synced_grad m halo_type grad"
    let ?dd = "clip_s_variations m fvq halo_type CS_GRADIENT_LIMIT_FACE var ?g1"
    let ?denum = "case halo m of Some h \<Rightarrow> cs_halo_sync_var h halo_type (fst ?dd) | None \<Rightarrow> fst ?dd"
    let ?denom = "case halo m of Some h \<Rightarrow> cs_halo_sync_var h halo_type (snd ?dd) | None \<Rightarrow> snd ?dd"
    let ?cf = "clip_s_face_factors m halo_type climgp ?denum ?denom"
    let ?R = "fold (clip_s_face_apply ?cf) [0 ..< n_cells m] (?g1, 1, 0, 0)"
    have g1c: "?g1 ! c = grad ! c" and g1l: "length ?g1 = length grad"
      unfolding clip_s_face_synced_grad_def
      using sync_grad_owned[OF owned grad(2)] by auto
    have dn: "nonneg_arr (n_cells_with_ghosts m) ?denom"
      by (rule sync_denom_nonneg[OF halo clip_s_variations_denom])
    have hasf: "cell_has_i_face m c \<or> (halo_type = CS_HALO_EXTENDED \<and> cell_cells_idx m \<noteq> None)"
      using face cm by simp
    have fb: "0 \<le> ?cf ! c \<and> ?cf ! c \<le> 1"
      using clip_s_face_factors_bounds[OF climgp dn wf(2,3,1) grad(2)] hasf by blast
    have R: "fst ?R ! c = (if c \<in> set [0 ..< n_cells m] then map (\<lambda>x. x * ?cf ! c) (fst (?g1, 1::real, 0::real, 0::nat) ! c)
                           else fst (?g1, 1::real, 0::real, 0::nat) ! c)"
      by (rule fold_pointwise[OF clip_s_face_apply_len clip_s_face_apply_other clip_s_face_apply_self])
         (use grad cn g1c g1l in auto)
    have Rc: "fst ?R ! c = map (\<lambda>x. x * ?cf ! c) (grad ! c)" using R grad(2) g1c by simp
    have res: "fst (scalar_gradient_clipping m fvq mpi halo_type clip_mode verbosity climgp var_name var
                  (grad, out)) ! c = fst ?R ! c"
      unfolding cm scalar_gradient_clipping_face clip_s_face_synced_grad_def
      by (rule sync_grad_owned(1)[OF owned grad(2)])
    show ?thesis using fb res Rc by metis
  qed
  then obtain f where f: "0 \<le> f" "f \<le> 1"
    "fst (scalar_gradient_clipping m fvq mpi halo_type clip_mode verbosity climgp var_name var
                  (grad, out)) ! c = map (\<lambda>x. x * f) (grad ! c)" by blast
  have "cs_math_3_norm (map (\<lambda>x. x * f) (grad ! c)) \<le> cs_math_3_norm (grad ! c)"
    using scale3_norm_le[OF f(1,2), of "grad ! c"] grad(3) by blast
  then show ?thesis using f by auto
qed

subsection \<open>Clipping: examples and the disabled mode\<close>


lemma upt_0_1: "[0..<1] = [0]" by (simp add: upt_rec)
lemma upt_0_2: "[0..<2] = [0, 1]" by (simp add: upt_rec)
lemma replicate_2: "replicate 2 x = [x, x]" by (simp add: numeral_2_eq_2)
lemma upt_0_Suc0: "[0..<Suc 0] = [0]" by simp

lemma mesh_two_cells_simps:
  "n_domains mesh_two_cells = 1" "n_cells mesh_two_cells = 2" "n_cells_with_ghosts mesh_two_cells = 2"
  "n_i_faces mesh_two_cells = 1" "n_b_faces mesh_two_cells = 0" "n_b_cells mesh_two_cells = 0"
  "i_face_cells mesh_two_cells = [[0, 1]]" "b_face_cells mesh_two_cells = []"
  "b_cells mesh_two_cells = []" "cell_cells_idx mesh_two_cells = None"
  "i_face_numbering mesh_two_cells = \<lparr> n_threads = 1, n_groups = 1, group_index = [0, 1] \<rparr>"
  "b_face_numbering mesh_two_cells = \<lparr> n_threads = 1, n_groups = 1, group_index = [0, 0] \<rparr>"
  "halo mesh_two_cells = Some halo_id" "have_rotation_perio mesh_two_cells = False"
  by (simp_all add: mesh_two_cells_def)

lemma halo_id_simps:
  "cs_halo_sync_var halo_id ht xs = xs" "cs_halo_sync_var_strided halo_id ht g = g"
  "cs_halo_perio_sync_var_vect halo_id ht g = g" "cs_halo_sync_var_strided_9 halo_id ht gv = gv"
  "cs_halo_perio_sync_var_tens halo_id ht gv = gv"
  by (simp_all add: halo_id_def)


lemma scale_gradv_eq:
  assumes "c < length gv" "length (gv ! c) = 3" "\<forall>r \<in> set (gv ! c). length r = 3"
  shows "scale_gradv c f gv = gv[c := map (map (\<lambda>x. x * f)) (gv ! c)]"
proof -
  obtain r0 r1 r2 where g: "gv ! c = [r0, r1, r2]"
    using assms(2) by (auto simp: length_Suc_conv eval_nat_numeral)
  have l: "length r0 = 3" "length r1 = 3" "length r2 = 3" using assms(3) g by auto
  obtain a0 a1 a2 where r0: "r0 = [a0, a1, a2]"
    using l(1) by (auto simp: length_Suc_conv eval_nat_numeral)
  obtain b0 b1 b2 where r1: "r1 = [b0, b1, b2]"
    using l(2) by (auto simp: length_Suc_conv eval_nat_numeral)
  obtain c0 c1 c2 where r2: "r2 = [c0, c1, c2]"
    using l(3) by (auto simp: length_Suc_conv eval_nat_numeral)
  show ?thesis
    unfolding scale_gradv_def
    using assms(1) by (simp add: g r0 r1 r2)
qed

lemmas clip_consts = CS_GRADIENT_LIMIT_NONE_def CS_GRADIENT_LIMIT_CELL_def CS_GRADIENT_LIMIT_FACE_def
lemmas example_defs = mesh_two_cells_def fvq_two_cells_def mpi_serial_def halo_id_def

text \<open>
  Claim C1 as stated fails: where the variable does not vary between a cell and its
  neighbours while the gradient does, the code applies the factor \<open>0\<close>, which it also
  reports as minimum and maximum factor.
\<close>

theorem scalar_clipping_factor_zero_counterexample:
  "scalar_gradient_clipping mesh_two_cells fvq_two_cells mpi_serial CS_HALO_STANDARD
     CS_GRADIENT_LIMIT_CELL 2 (3/2) ''p'' [1, 1] ([[1, 0, 0], [2, 0, 0]], [])
   = ([[0, 0, 0], [0, 0, 0]], [Clip_info ''p'' 2 0 0])"
  by code_simp

text \<open>The amended claim C1 at a face-based clipping on two cells.\<close>

theorem scalar_clipping_factor_bounds_witness:
  "\<exists>f. 0 \<le> f \<and> f \<le> 1 \<and>
     fst (scalar_gradient_clipping mesh_two_cells fvq_two_cells mpi_serial CS_HALO_STANDARD
            CS_GRADIENT_LIMIT_FACE 2 (3/2) ''p'' [1, 3] ([[1, 0, 0], [8, 0, 0]], [])) ! 0
       = map (\<lambda>x. x * f) ([[1, 0, 0], [8, 0, 0]] ! 0) \<and>
     cs_math_3_norm (fst (scalar_gradient_clipping mesh_two_cells fvq_two_cells mpi_serial
            CS_HALO_STANDARD CS_GRADIENT_LIMIT_FACE 2 (3/2) ''p'' [1, 3]
            ([[1, 0, 0], [8, 0, 0]], [])) ! 0)
       \<le> cs_math_3_norm ([[1, 0, 0], [8, 0, 0]] ! 0)"
proof (rule scalar_clipping_factor_bounds)
  show "(0::real) < 3/2" by simp
  show "CS_GRADIENT_LIMIT_FACE = CS_GRADIENT_LIMIT_CELL \<or> CS_GRADIENT_LIMIT_FACE = CS_GRADIENT_LIMIT_FACE"
    by simp
  show "n_cells mesh_two_cells \<le> n_cells_with_ghosts mesh_two_cells" by (simp add: example_defs)
  show "i_faces_in_range mesh_two_cells"
    by (simp add: i_faces_in_range_def i_face_ids_def example_defs upt_rec)
  show "ext_neighbors_in_range mesh_two_cells"
    by (simp add: ext_neighbors_in_range_def example_defs)
  show "\<forall>h. halo mesh_two_cells = Some h \<longrightarrow> halo_keeps_owned (n_cells mesh_two_cells) h \<and> halo_keeps_nonneg h"
    by (simp add: halo_keeps_owned_def halo_keeps_nonneg_def example_defs)
  show "length [[1, 0, 0], [8, 0, 0::real]] = n_cells_with_ghosts mesh_two_cells" by (simp add: example_defs)
  show "0 < n_cells mesh_two_cells" by (simp add: example_defs)
  show "length ([[1, 0, 0], [8, 0, 0::real]] ! 0) = 3" by simp
  show "CS_GRADIENT_LIMIT_FACE = CS_GRADIENT_LIMIT_FACE \<longrightarrow>
     cell_has_i_face mesh_two_cells 0 \<or> CS_HALO_STANDARD = CS_HALO_EXTENDED \<and> cell_cells_idx mesh_two_cells \<noteq> None"
    by (simp add: cell_has_i_face_def i_face_ids_def example_defs upt_rec)
qed

text \<open>
  Claim C10, as amended. For every negative clip mode (this is
  \<open>clip_mode \<le> CS_GRADIENT_LIMIT_NONE\<close>), the clipping stage returns at once: the gradient
  array, its ghost entries and the printed lines are unchanged, for a scalar and for a
  vector gradient.
\<close>

theorem clipping_disabled_noop:
  assumes "clip_mode < 0"
  shows "scalar_gradient_clipping m fvq mpi halo_type clip_mode verbosity climgp var_name var s = s
       \<and> vector_gradient_clipping m fvq mpi halo_type clip_mode verbosity climgp var_name pvar sv = sv"
  using assms
  by (simp add: scalar_gradient_clipping_def vector_gradient_clipping_def CS_GRADIENT_LIMIT_NONE_def
      split_beta)

text \<open>The amended claim C10 at clip mode \<open>-1\<close>.\<close>

theorem clipping_disabled_noop_witness:
  "scalar_gradient_clipping mesh_two_cells fvq_two_cells mpi_serial CS_HALO_STANDARD (- 1) 2 (3/2)
     ''p'' [1, 3] ([[1, 0, 0], [8, 0, 0]], []) = ([[1, 0, 0], [8, 0, 0]], [])
   \<and> vector_gradient_clipping mesh_two_cells fvq_two_cells mpi_serial CS_HALO_STANDARD (- 1) 2 (3/2)
     ''p'' [[0, 0, 0], [1, 0, 0]]
     ([[[1, 0, 0], [0, 0, 0], [0, 0, 0]], [[8, 0, 0], [0, 0, 0], [0, 0, 0]]], [])
     = ([[[1, 0, 0], [0, 0, 0], [0, 0, 0]], [[8, 0, 0], [0, 0, 0], [0, 0, 0]]], [])"
  using clipping_disabled_noop[where clip_mode="- 1" and m=mesh_two_cells and fvq=fvq_two_cells
     and mpi=mpi_serial and halo_type=CS_HALO_STANDARD and verbosity=2 and climgp="3/2"
     and var_name="''p''" and var="[1, 3]" and s="([[1, 0, 0], [8, 0, 0]], [])"
     and pvar="[[0, 0, 0], [1, 0, 0]]"
     and sv="([[[1, 0, 0], [0, 0, 0], [0, 0, 0]], [[8, 0, 0], [0, 0, 0], [0, 0, 0]]], [])"]
  by simp

text \<open>
  Claim C10 as stated fails at the non-positive clip mode \<open>0\<close>, which is the cell-based
  clipping: the gradient of a vector that does not vary is scaled to zero.
\<close>

theorem clipping_mode_zero_counterexample:
  "vector_gradient_clipping mesh_two_cells fvq_two_cells mpi_serial CS_HALO_STANDARD 0 0 1
     ''u'' [[0, 0, 0], [0, 0, 0]]
     ([[[1, 0, 0], [0, 0, 0], [0, 0, 0]], [[1, 0, 0], [0, 0, 0], [0, 0, 0]]], [])
   = ([[[0, 0, 0], [0, 0, 0], [0, 0, 0]], [[0, 0, 0], [0, 0, 0], [0, 0, 0]]], [])"
proof -
  have v: "clip_v_variations mesh_two_cells fvq_two_cells CS_HALO_STANDARD 0 [[0, 0, 0], [0, 0, 0]]
     [[[1, 0, 0], [0, 0, 0], [0, 0, 0]], [[1, 0, 0], [0, 0, 0], [0, 0, 0]]] = ([1, 1], [0, 0])"
    by (simp add: clip_v_variations_def mesh_two_cells_simps fvq_two_cells_def for_i_faces_def
        clip_v_cell_face_def clip_v_dvar_sq_def CS_MAX_def upt_0_1 upt_0_Suc0 replicate_2 Let_def)
  show ?thesis
    by (simp add: vector_gradient_clipping_def v mesh_two_cells_simps halo_id_simps
        clip_v_cell_apply_def scale_gradv_eq CS_MAX_def CS_MIN_def upt_0_2 replicate_2)
qed

subsection \<open>Cramer inversion\<close>


lemma sym6_inv_left:
  assumes "length a = 6" "sym6_det a \<noteq> 0"
  shows "mat33_mult (sym6_to_33 (math_6_inv_cramer_sym_in_place a)) (sym6_to_33 a) = mat33_id"
proof -
  obtain x0 x1 x2 x3 x4 x5 where a: "a = [x0, x1, x2, x3, x4, x5]"
    using assms(1) by (auto simp: length_Suc_conv eval_nat_numeral)
  define d where "d = x0 * (x1 * x2 - x4 * x4) + x3 * (x4 * x5 - x3 * x2) + x5 * (x3 * x4 - x1 * x5)"
  define di where "di = 1 / d"
  have d: "d \<noteq> 0" using assms(2) unfolding a sym6_det_def d_def by simp
  have di: "d * di = 1" using d by (simp add: di_def)
  have inv: "math_6_inv_cramer_sym_in_place a =
     [(x1 * x2 - x4 * x4) * di, (x0 * x2 - x5 * x5) * di, (x0 * x1 - x3 * x3) * di,
      (x4 * x5 - x3 * x2) * di, (x3 * x5 - x0 * x4) * di, (x3 * x4 - x1 * x5) * di]"
    unfolding a math_6_inv_cramer_sym_in_place_def Let_def di_def d_def by simp
  show ?thesis
    unfolding inv unfolding a sym6_to_33_def mat33_mult_def mat33_id_def
    using di unfolding d_def
    apply simp
    apply (intro conjI)
    apply (simp_all add: algebra_simps)
    done
qed

lemma mat33_inv_left:
  assumes "length a = 3" "\<forall>r \<in> set a. length r = 3" "mat33_det a \<noteq> 0"
  shows "mat33_mult (cs_math_33_inv_cramer_in_place a) a = mat33_id"
proof -
  obtain r0 r1 r2 where a: "a = [r0, r1, r2]"
    using assms(1) by (auto simp: length_Suc_conv eval_nat_numeral)
  obtain x00 x01 x02 where r0: "r0 = [x00, x01, x02]"
    using assms(2) a by (auto simp: length_Suc_conv eval_nat_numeral)
  obtain x10 x11 x12 where r1: "r1 = [x10, x11, x12]"
    using assms(2) a by (auto simp: length_Suc_conv eval_nat_numeral)
  obtain x20 x21 x22 where r2: "r2 = [x20, x21, x22]"
    using assms(2) a by (auto simp: length_Suc_conv eval_nat_numeral)
  define d where "d = x00 * (x11 * x22 - x21 * x12) + x10 * (x21 * x02 - x01 * x22)
                    + x20 * (x01 * x12 - x11 * x02)"
  define di where "di = 1 / d"
  have d: "d \<noteq> 0" using assms(3) unfolding a r0 r1 r2 mat33_det_def d_def
    by (simp add: algebra_simps)
  have di: "d * di = 1" using d by (simp add: di_def)
  have inv: "cs_math_33_inv_cramer_in_place a =
     [[(x11 * x22 - x21 * x12) * di, (x21 * x02 - x01 * x22) * di, (x01 * x12 - x11 * x02) * di],
      [(x20 * x12 - x10 * x22) * di, (x00 * x22 - x20 * x02) * di, (x10 * x02 - x00 * x12) * di],
      [(x10 * x21 - x20 * x11) * di, (x20 * x01 - x00 * x21) * di, (x00 * x11 - x10 * x01) * di]]"
    unfolding a r0 r1 r2 cs_math_33_inv_cramer_in_place_def Let_def di_def d_def by simp
  show ?thesis
    unfolding inv unfolding a r0 r1 r2 mat33_mult_def mat33_id_def
    using di unfolding d_def
    apply simp
    apply (intro conjI)
    apply (simp_all add: algebra_simps)
    done
qed

text \<open>
  Claim C7, as amended. For a packed symmetric covariance matrix with nonzero determinant,
  the matrix produced by \<^verbatim>\<open>_math_6_inv_cramer_sym_in_place\<close> multiplied by the original
  matrix is the identity; likewise for a full 3x3 matrix with nonzero determinant and the
  Cramer inversion applied by \<^verbatim>\<open>_compute_cell_cocg_it\<close>. This holds in exact arithmetic.
\<close>

theorem cocg_inversion_round_trip:
  assumes "length a = 6" "sym6_det a \<noteq> 0"
    and "length b = 3" "\<forall>r \<in> set b. length r = 3" "mat33_det b \<noteq> 0"
  shows "mat33_mult (sym6_to_33 (math_6_inv_cramer_sym_in_place a)) (sym6_to_33 a) = mat33_id
       \<and> mat33_mult (cs_math_33_inv_cramer_in_place b) b = mat33_id"
  using sym6_inv_left[OF assms(1,2)] mat33_inv_left[OF assms(3,4,5)] by simp

text \<open>The amended claim C7 at a packed matrix with off-diagonal entries and a non-symmetric
  full one.\<close>

theorem cocg_inversion_round_trip_witness:
  "mat33_mult (sym6_to_33 (math_6_inv_cramer_sym_in_place [2, 3, 4, 1, 1, 0]))
     (sym6_to_33 [2, 3, 4, 1, 1, 0]) = mat33_id
   \<and> mat33_mult (cs_math_33_inv_cramer_in_place [[2, 1, 0], [0, 1, 0], [1, 0, 1]])
     [[2, 1, 0], [0, 1, 0], [1, 0, 1]] = mat33_id"
  using cocg_inversion_round_trip[of "[2, 3, 4, 1, 1, 0]" "[[2, 1, 0], [0, 1, 0], [1, 0, 1]]"]
  by (simp add: sym6_det_def mat33_det_def)

text \<open>In double precision the statement fails for matrices of nonzero determinant whose
  cofactors overflow: for \<open>2\<^sup>6\<^sup>0\<^sup>0\<close> times the identity the cofactors and the determinant
  are infinite, the inverse of the determinant is zero, and the diagonal of the result is
  NaN.\<close>

theorem cramer_overflow_counterexample:
  "sym6_det [2 ^ 600, 2 ^ 600, 2 ^ 600, 0, 0, 0] \<noteq> 0 \<and>
   math_6_inv_cramer_sym_in_place_dbl
     [Dbl (2 ^ 600), Dbl (2 ^ 600), Dbl (2 ^ 600), Dbl 0, Dbl 0, Dbl 0]
   = [Dbl_nan, Dbl_nan, Dbl_nan, Dbl 0, Dbl 0, Dbl 0]"
proof -
  define b :: real where "b = 2 ^ 600"
  have bpos: "0 < b" unfolding b_def by (rule zero_less_power) simp
  have "b * b = 2 ^ 1200" unfolding b_def power_add[symmetric] by simp
  moreover have "(2::real) ^ 1024 \<le> 2 ^ 1200" by (rule power_increasing) simp_all
  ultimately have big: "2 ^ 1024 \<le> b * b" by simp
  have sq: "dbl_of_real (b * b) = Dbl_pinf" unfolding dbl_of_real_def using big by simp
  have z: "dbl_of_real 0 = Dbl 0" by (simp add: dbl_of_real_def)
  have d: "sym6_det [b, b, b, 0, 0, 0] \<noteq> 0"
    using bpos by (simp add: sym6_det_def)
  have r: "math_6_inv_cramer_sym_in_place_dbl [Dbl b, Dbl b, Dbl b, Dbl 0, Dbl 0, Dbl 0]
           = [Dbl_nan, Dbl_nan, Dbl_nan, Dbl 0, Dbl 0, Dbl 0]"
    using bpos
    by (simp add: math_6_inv_cramer_sym_in_place_dbl_def dbl_sub_def sq z dbl_signed_inf_def
        Let_def)
  show ?thesis using d r unfolding b_def by (rule conjI)
qed

subsection \<open>The sweep loop of the iterative scheme\<close>


lemma iter_s_sweeps_stop:
  "\<not> n0 < nswrgp \<Longrightarrow>
   iter_s_sweeps sweep res var_name nswrgp verbosity epsrgp rnorm n0 (g, r, out) = (n0, g, r, out)"
  by simp

lemma iter_s_sweeps_conv:
  "n0 < nswrgp \<Longrightarrow> sweep g = (g1, rhs) \<Longrightarrow> res rhs < epsrgp * rnorm \<Longrightarrow>
   iter_s_sweeps sweep res var_name nswrgp verbosity epsrgp rnorm n0 (g, r, out)
   = (n0, g1, res rhs,
      if verbosity \<ge> 2 then out @ [Converged_info var_name (nat n0) (res rhs / rnorm) rnorm] else out)"
  by (simp add: Let_def)

lemma iter_s_sweeps_step:
  "n0 < nswrgp \<Longrightarrow> sweep g = (g1, rhs) \<Longrightarrow> \<not> res rhs < epsrgp * rnorm \<Longrightarrow>
   iter_s_sweeps sweep res var_name nswrgp verbosity epsrgp rnorm n0 (g, r, out)
   = iter_s_sweeps sweep res var_name nswrgp verbosity epsrgp rnorm (n0 + 1) (g1, res rhs, out)"
  by (simp add: Let_def)

declare iter_s_sweeps.simps [simp del]

lemma grad_after_sweeps_Suc:
  "grad_after_sweeps sweep (Suc k) g = grad_after_sweeps sweep k (fst (sweep g))"
  unfolding grad_after_sweeps_def funpow_Suc_right by simp

lemma residual_of_sweep_Suc:
  "1 \<le> k \<Longrightarrow> residual_of_sweep sweep res (Suc k) g = residual_of_sweep sweep res k (fst (sweep g))"
  by (cases k) (simp_all add: residual_of_sweep_def grad_after_sweeps_Suc)

lemma residual_of_sweep_1:
  "residual_of_sweep sweep res (Suc 0) g = res (snd (sweep g))"
  by (simp add: residual_of_sweep_def grad_after_sweeps_def)

lemma iter_s_sweeps_char:
  fixes nswrgp n0 :: int
  assumes "d = nat (nswrgp - n0)"
  shows "\<exists>k \<le> d.
      iter_s_sweeps sweep res var_name nswrgp verbosity epsrgp rnorm n0 (g, r, out)
        = sweeps_result sweep res var_name nswrgp verbosity epsrgp rnorm n0 g r out k \<and>
      (\<forall>j. 1 \<le> j \<and> j < k \<longrightarrow> \<not> residual_of_sweep sweep res j g < epsrgp * rnorm) \<and>
      (k < d \<longrightarrow> 1 \<le> k \<and> residual_of_sweep sweep res k g < epsrgp * rnorm)"
  using assms
proof (induction d arbitrary: n0 g r out)
  case 0
  then have "\<not> n0 < nswrgp" by simp
  then show ?case
    by (simp add: iter_s_sweeps_stop sweeps_result_def grad_after_sweeps_def max_def)
next
  case (Suc d)
  then have lt: "n0 < nswrgp" by linarith
  obtain g1 rhs where sw: "sweep g = (g1, rhs)" by (cases "sweep g")
  let ?r1 = "res rhs"
  have r1: "residual_of_sweep sweep res (Suc 0) g = ?r1" by (simp add: residual_of_sweep_1 sw)
  have g1: "g1 = fst (sweep g)" by (simp add: sw)
  show ?case
  proof (cases "?r1 < epsrgp * rnorm")
    case True
    have "iter_s_sweeps sweep res var_name nswrgp verbosity epsrgp rnorm n0 (g, r, out)
          = sweeps_result sweep res var_name nswrgp verbosity epsrgp rnorm n0 g r out (Suc 0)"
      unfolding iter_s_sweeps_conv[where res=res and sweep=sweep and rhs=rhs, OF lt sw True] sweeps_result_def
      using True r1 by (simp add: grad_after_sweeps_def sw)
    then show ?thesis
      using True r1 by (intro exI[of _ "Suc 0"]) auto
  next
    case False
    have d: "d = nat (nswrgp - (n0 + 1))" using Suc.prems by linarith
    from Suc.IH[OF d, of g1 ?r1 out]
    obtain k where k: "k \<le> d" and
      IH: "iter_s_sweeps sweep res var_name nswrgp verbosity epsrgp rnorm (n0 + 1) (g1, ?r1, out)
           = sweeps_result sweep res var_name nswrgp verbosity epsrgp rnorm (n0 + 1) g1 ?r1 out k"
        "\<forall>j. 1 \<le> j \<and> j < k \<longrightarrow> \<not> residual_of_sweep sweep res j g1 < epsrgp * rnorm"
        "k < d \<longrightarrow> 1 \<le> k \<and> residual_of_sweep sweep res k g1 < epsrgp * rnorm"
      by blast
    have R: "\<And>j. 1 \<le> j \<Longrightarrow> residual_of_sweep sweep res (Suc j) g = residual_of_sweep sweep res j g1"
      unfolding g1 by (rule residual_of_sweep_Suc)
    have G: "grad_after_sweeps sweep (Suc k) g = grad_after_sweeps sweep k g1"
      unfolding g1 by (rule grad_after_sweeps_Suc)
    have prev: "\<forall>j. 1 \<le> j \<and> j < Suc k \<longrightarrow> \<not> residual_of_sweep sweep res j g < epsrgp * rnorm"
    proof (intro allI impI)
      fix j assume j: "1 \<le> j \<and> j < Suc k"
      show "\<not> residual_of_sweep sweep res j g < epsrgp * rnorm"
      proof (cases "j = 1")
        case True then show ?thesis using False r1 by simp
      next
        case False
        then obtain j' where j': "j = Suc j'" "1 \<le> j'" using j by (cases j) auto
        then show ?thesis using IH(2) R[of j'] j by auto
      qed
    qed
    have mx: "max (n0 + 1) nswrgp = max n0 nswrgp" using lt by simp
    have res_eq: "sweeps_result sweep res var_name nswrgp verbosity epsrgp rnorm (n0 + 1) g1 ?r1 out k
        = sweeps_result sweep res var_name nswrgp verbosity epsrgp rnorm n0 g r out (Suc k)"
    proof (cases "k = 0")
      case True
      then show ?thesis
        using False r1 mx G by (simp add: sweeps_result_def)
    next
      case False
      then have k1: "1 \<le> k" by simp
      have i: "n0 + 1 + int k - 1 = n0 + int (Suc k) - 1" by simp
      show ?thesis
        unfolding sweeps_result_def R[OF k1] G mx i using k1 by simp
    qed
    have eq: "iter_s_sweeps sweep res var_name nswrgp verbosity epsrgp rnorm n0 (g, r, out)
        = sweeps_result sweep res var_name nswrgp verbosity epsrgp rnorm n0 g r out (Suc k)"
      unfolding iter_s_sweeps_step[where res=res and sweep=sweep and rhs=rhs, OF lt sw False] IH(1) res_eq ..
    have early: "Suc k < Suc d \<longrightarrow> 1 \<le> Suc k \<and> residual_of_sweep sweep res (Suc k) g < epsrgp * rnorm"
      using IH(3) R[of k] by auto
    show ?thesis
      using k eq prev early by (intro exI[of _ "Suc k"]) simp
  qed
qed

subsection \<open>The iterative driver on one cell and its ghost\<close>


lemma mesh_one_cell_ghost_simps:
  "n_domains mesh_one_cell_ghost = 1" "n_cells mesh_one_cell_ghost = 1"
  "n_cells_with_ghosts mesh_one_cell_ghost = 2"
  "n_i_faces mesh_one_cell_ghost = 1" "n_b_faces mesh_one_cell_ghost = 0"
  "i_face_cells mesh_one_cell_ghost = [[0, 1]]" "b_face_cells mesh_one_cell_ghost = []"
  "cell_cells_idx mesh_one_cell_ghost = None"
  "i_face_numbering mesh_one_cell_ghost = \<lparr> n_threads = 1, n_groups = 1, group_index = [0, 1] \<rparr>"
  "b_face_numbering mesh_one_cell_ghost = \<lparr> n_threads = 1, n_groups = 1, group_index = [0, 0] \<rparr>"
  "halo mesh_one_cell_ghost = Some halo_id" "have_rotation_perio mesh_one_cell_ghost = False"
  by (simp_all add: mesh_one_cell_ghost_def)

lemma env_plain_simps:
  "cs_glob_porous_model env_plain = 0" "poro_duq env_plain = None"
  "bad_cells_regularisation env_plain = False" "bad_cells_warped_correction env_plain = False"
  "env_mpi env_plain = mpi_serial" "cs_glob_n_ranks mpi_serial = 1"
  by (simp_all add: env_plain_def mpi_serial_def)

lemma cocg_it_one_cell_ghost:
  "iter_s_get_cocg mesh_one_cell_ghost fvq_skewed None []
   = ([[[2, 0, 0], [0, 1, 0], [0, 0, 1]], [[3/2, 0, 0], [0, 1, 0], [0, 0, 1]]],
      [gradient_quantities_empty\<lparr> cocg_it :=
         Some [[[2, 0, 0], [0, 1, 0], [0, 0, 1]], [[3/2, 0, 0], [0, 1, 0], [0, 0, 1]]] \<rparr>])"
  by (simp add: iter_s_get_cocg_def gradient_quantities_get_def gradient_quantities_empty_def
      compute_cell_cocg_it_def mesh_one_cell_ghost_simps fvq_skewed_def cocg_it_i_face_def
      add_to_33_def sub_from_33_def cs_math_33_inv_cramer_in_place_def replicate_2
      upt_0_1 upt_0_Suc0 Let_def)

lemma sweep_one_cell_ghost:
  "iter_s_sweep mesh_one_cell_ghost fvq_skewed env_plain None 1 0 1 [] [] [] [0, 2] None
     [[[2, 0, 0], [0, 1, 0], [0, 0, 1]], [[3/2, 0, 0], [0, 1, 0], [0, 0, 1]]]
     [[1, 0, 0], [1, 0, 0]]
   = ([[3, 0, 0], [1, 0, 0]], [[1, 0, 0], [- 1, 0, 0]])"
  by (simp add: iter_s_sweep_def sel_cell_f_vol_def env_plain_simps c_weight_s_of_def c_weight_t_of_def
      mesh_one_cell_ghost_simps fvq_skewed_def for_i_faces_def for_b_faces_def iter_s_std_i_face_def
      face_ktpond_def add_to_def sub_from_def mul_by_def iter_s_increment_def cell_dvol_def
      sync_scalar_gradient_halo_def halo_id_simps upt_0_1 upt_0_2 upt_0_Suc0 Let_def)


lemma l2_norm_one_cell_ghost:
  "l2_norm_1 mpi_serial 3 (concat [[1, 0, 0], [1, 0, 0]]) = 1"
  "l2_norm_1 mpi_serial 3 (concat [[1, 0, 0], [- 1, 0, 0]]) = 1"
  by (simp_all add: l2_norm_1_def cs_dot_def mpi_serial_def upt_rec)

lemma epzero_lt_1: "\<not> (1::real) \<le> cs_math_epzero" "cs_math_epzero < (1::real)"
  by (simp_all add: cs_math_epzero_def)

lemma iterative_run_one_cell_ghost:
  "iterative_scalar_gradient mesh_one_cell_ghost fvq_skewed env_plain None 1 ''p'' 2 0 v 1
     (1/2) [] [] [] [0, 2] None ([[1, 0, 0], [1, 0, 0]], None, [], [])
   = ([[3, 0, 0], [1, 0, 0]], None,
      [gradient_quantities_empty\<lparr> cocg_it :=
         Some [[[2, 0, 0], [0, 1, 0], [0, 0, 1]], [[3/2, 0, 0], [0, 1, 0], [0, 0, 1]]] \<rparr>],
      if - 1 < v then [Sweep_warning ''p'' 2 1 1] else [])"
proof -
  let ?S = "iter_s_sweep mesh_one_cell_ghost fvq_skewed env_plain None 1 0 1 [] [] [] [0, 2] None
     [[[2, 0, 0], [0, 1, 0], [0, 0, 1]], [[3/2, 0, 0], [0, 1, 0], [0, 0, 1]]]"
  let ?N = "\<lambda>rhs. l2_norm_1 mpi_serial 3 (concat rhs)"
  have "iter_s_sweeps ?S ?N ''p'' 2 v (1/2) 1 1 ([[1, 0, 0], [1, 0, 0]], 0, [])
      = iter_s_sweeps ?S ?N ''p'' 2 v (1/2) 1 (1 + 1) ([[3, 0, 0], [1, 0, 0]], ?N [[1, 0, 0], [- 1, 0, 0]], [])"
  proof (rule iter_s_sweeps_step[where rhs="[[1, 0, 0], [- 1, 0, 0]]"])
    show "(1::int) < 2" by simp
    show "?S [[1, 0, 0], [1, 0, 0]] = ([[3, 0, 0], [1, 0, 0]], [[1, 0, 0], [- 1, 0, 0]])"
      by (rule sweep_one_cell_ghost)
    show "\<not> ?N [[1, 0, 0], [- 1, 0, 0]] < 1 / 2 * 1" unfolding l2_norm_one_cell_ghost by simp
  qed
  also have "\<dots> = (2, [[3, 0, 0], [1, 0, 0]], 1, [])"
    unfolding l2_norm_one_cell_ghost by (simp add: iter_s_sweeps_stop)
  finally have L: "iter_s_sweeps ?S ?N ''p'' 2 v (1/2) 1 1 ([[1, 0, 0], [1, 0, 0]], 0, [])
      = (2, [[3, 0, 0], [1, 0, 0]], 1, [])" .
  show ?thesis
    by (simp add: iterative_scalar_gradient_def cocg_it_one_cell_ghost env_plain_simps mesh_one_cell_ghost_simps
        l2_norm_one_cell_ghost[simplified] epzero_lt_1 L info_update_iter_def del: One_nat_def)
qed

subsection \<open>Sweep cap, early stop and warning\<close>

lemma compute_cell_cocg_it_accumulated:
  "fst (compute_cell_cocg_it m fvq ce gq)
   = fold (\<lambda>cell_id cocg. cocg[cell_id := cs_math_33_inv_cramer_in_place (cocg ! cell_id)])
       [0 ..< n_cells m] (cocg_it_accumulated m fvq ce)"
  by (simp add: compute_cell_cocg_it_def cocg_it_accumulated_def Let_def)

lemma cocg_it_accumulated_one_cell_ghost:
  "cocg_it_accumulated mesh_one_cell_ghost fvq_skewed None
   = [[[1/2, 0, 0], [0, 1, 0], [0, 0, 1]], [[3/2, 0, 0], [0, 1, 0], [0, 0, 1]]]"
  by (simp add: cocg_it_accumulated_def mesh_one_cell_ghost_simps fvq_skewed_def cocg_it_i_face_def
      add_to_33_def sub_from_33_def replicate_2 upt_0_1 upt_0_Suc0 Let_def)

lemma iterative_nondegenerate_one_cell_ghost:
  "iterative_nondegenerate mesh_one_cell_ghost fvq_skewed env_plain None 1 None []"
  unfolding iterative_nondegenerate_def cell_vol_nonzero_def face_weights_nonzero_def
    cocg_it_nonsingular_def cocg_it_accumulated_one_cell_ghost
  by (simp add: mesh_one_cell_ghost_simps fvq_skewed_def env_plain_simps sel_cell_f_vol_def
      face_ktpond_divisor_def c_weight_s_of_def c_weight_t_of_def mat33_det_def)



text \<open>
  Claim C2, as amended. In exact arithmetic and on non-degenerate data (no zero divisor:
  the volumes of the owned cells, the weight sums of the interior faces and, where the
  matrices of the scheme are computed, the cell volumes and determinants they divide by),
  for every call of the iterative scalar driver whose initial gradient norm exceeds
  \<open>cs_math_epzero\<close>: the driver runs \<open>k \<le> max (nswrgp - 1) 0\<close> sweeps and returns the
  gradient of the last of them; no sweep before the \<open>k\<close>-th had a residual norm below
  \<open>epsrgp\<close> times the initial norm, and it stops before the cap only at a sweep whose
  residual is strictly below that tolerance. When it does not stop at such a sweep, the
  warning line is printed if and only if \<open>nswrgp \<ge> 1\<close>, \<open>verbosity > -1\<close> and the last
  residual, which is \<open>0\<close> when no sweep was run, is at least \<open>epsrgp\<close> times the initial
  norm: with \<open>nswrgp \<le> 1\<close> and a positive tolerance nothing is printed. There is no
  failure value, the driver returns its state.
\<close>

theorem iterative_sweeps_cap_and_warning:
  fixes nswrgp verbosity :: int
  assumes rn0: "cs_math_epzero < l2_norm_1 (env_mpi env) (3 * n_cells m) (concat grad)"
    and nd: "iterative_nondegenerate m fvq env cpl w_stride c_weight gqs"
  shows
    "let sweep = iter_s_sweep m fvq env cpl w_stride hyd_p_flag inc f_ext coefap coefbp pvar
                   c_weight (fst (iter_s_get_cocg m fvq cpl gqs));
         rnorm = l2_norm_1 (env_mpi env) (3 * n_cells m) (concat grad);
         res = residual_of_sweep sweep (\<lambda>rhs. l2_norm_1 (env_mpi env) (3 * n_cells m) (concat rhs));
         result = iterative_scalar_gradient m fvq env cpl w_stride var_name nswrgp hyd_p_flag
                    verbosity inc epsrgp f_ext coefap coefbp pvar c_weight
                    (grad, gradient_info, gqs, out)
     in \<exists>k. int k \<le> max 0 (nswrgp - 1) \<and>
          fst result = grad_after_sweeps sweep k grad \<and>
          (\<forall>j. 1 \<le> j \<and> j < k \<longrightarrow> epsrgp * rnorm \<le> res j grad) \<and>
          (int k < max 0 (nswrgp - 1) \<longrightarrow> 1 \<le> k \<and> res k grad < epsrgp * rnorm) \<and>
          snd (snd (snd result)) =
            (if 1 \<le> k \<and> res k grad < epsrgp * rnorm
             then (if 2 \<le> verbosity
                   then out @ [Converged_info var_name k (res k grad / rnorm) rnorm] else out)
             else if 1 \<le> nswrgp \<and> epsrgp * rnorm \<le> (if k = 0 then 0 else res k grad) \<and>
                     - 1 < verbosity
             then out @ [Sweep_warning var_name (nat nswrgp)
                           ((if k = 0 then 0 else res k grad) / rnorm) rnorm]
             else out)"
proof -
  let ?sweep = "iter_s_sweep m fvq env cpl w_stride hyd_p_flag inc f_ext coefap coefbp pvar
                   c_weight (fst (iter_s_get_cocg m fvq cpl gqs))"
  let ?rn = "l2_norm_1 (env_mpi env) (3 * n_cells m) (concat grad)"
  let ?nrm = "\<lambda>rhs. l2_norm_1 (env_mpi env) (3 * n_cells m) (concat rhs)"
  let ?res = "residual_of_sweep ?sweep ?nrm"
  let ?result = "iterative_scalar_gradient m fvq env cpl w_stride var_name nswrgp hyd_p_flag
                    verbosity inc epsrgp f_ext coefap coefbp pvar c_weight
                    (grad, gradient_info, gqs, out)"
  have main: "\<exists>k. int k \<le> max 0 (nswrgp - 1) \<and>
          fst ?result = grad_after_sweeps ?sweep k grad \<and>
          (\<forall>j. 1 \<le> j \<and> j < k \<longrightarrow> epsrgp * ?rn \<le> ?res j grad) \<and>
          (int k < max 0 (nswrgp - 1) \<longrightarrow> 1 \<le> k \<and> ?res k grad < epsrgp * ?rn) \<and>
          snd (snd (snd ?result)) =
            (if 1 \<le> k \<and> ?res k grad < epsrgp * ?rn
             then (if 2 \<le> verbosity
                   then out @ [Converged_info var_name k (?res k grad / ?rn) ?rn] else out)
             else if 1 \<le> nswrgp \<and> epsrgp * ?rn \<le> (if k = 0 then 0 else ?res k grad) \<and>
                     - 1 < verbosity
             then out @ [Sweep_warning var_name (nat nswrgp)
                           ((if k = 0 then 0 else ?res k grad) / ?rn) ?rn]
             else out)"
  proof (cases "nswrgp < 1")
    case True
    then show ?thesis
      by (intro exI[of _ 0]) (simp add: iterative_scalar_gradient_def grad_after_sweeps_def)
  next
    case False
    obtain cocg gqs' where cg: "iter_s_get_cocg m fvq cpl gqs = (cocg, gqs')"
      by (cases "iter_s_get_cocg m fvq cpl gqs")
    have rn: "\<not> ?rn \<le> cs_math_epzero" using rn0 by simp
    from iter_s_sweeps_char[where d="nat (nswrgp - 1)" and ?n0.0=1 and nswrgp=nswrgp
        and sweep="?sweep" and res="?nrm" and var_name=var_name and verbosity=verbosity
        and epsrgp=epsrgp and rnorm="?rn" and g=grad and r=0 and out=out, OF refl]
    obtain k where k: "k \<le> nat (nswrgp - 1)"
      and run: "iter_s_sweeps ?sweep ?nrm var_name nswrgp verbosity epsrgp ?rn 1 (grad, 0, out)
                = sweeps_result ?sweep ?nrm var_name nswrgp verbosity epsrgp ?rn 1 grad 0 out k"
      and prev: "\<forall>j. 1 \<le> j \<and> j < k \<longrightarrow> \<not> ?res j grad < epsrgp * ?rn"
      and early: "k < nat (nswrgp - 1) \<longrightarrow> 1 \<le> k \<and> ?res k grad < epsrgp * ?rn"
      by blast
    have kb: "int k \<le> max 0 (nswrgp - 1)" using k False by linarith
    have early': "int k < max 0 (nswrgp - 1) \<longrightarrow> 1 \<le> k \<and> ?res k grad < epsrgp * ?rn"
      using early False by auto
    have prev': "\<forall>j. 1 \<le> j \<and> j < k \<longrightarrow> epsrgp * ?rn \<le> ?res j grad"
      using prev by (simp add: not_less)
    have mx: "max 1 nswrgp = nswrgp" using False by simp
    have unf: "?result =
      (let (n_sweeps, g, l2_residual, out1) =
             sweeps_result ?sweep ?nrm var_name nswrgp verbosity epsrgp ?rn 1 grad 0 out k;
           out2 = (if l2_residual \<ge> epsrgp * ?rn \<and> verbosity > - 1
                  then out1 @ [Sweep_warning var_name (nat n_sweeps) (l2_residual / ?rn) ?rn]
                  else out1)
       in (g, info_update_iter gradient_info n_sweeps, gqs', out2))"
      using False rn run by (simp add: iterative_scalar_gradient_def cg Let_def)
    have ns: "1 \<le> nswrgp" using False by simp
    show ?thesis
    proof (cases "1 \<le> k \<and> ?res k grad < epsrgp * ?rn")
      case True
      have eq: "?result = (grad_after_sweeps ?sweep k grad, info_update_iter gradient_info (int k), gqs',
            if 2 \<le> verbosity then out @ [Converged_info var_name k (?res k grad / ?rn) ?rn] else out)"
        unfolding unf sweeps_result_def if_P[OF True] using True by (simp add: not_le)
      have g: "fst ?result = grad_after_sweeps ?sweep k grad" unfolding eq by simp
      have o: "snd (snd (snd ?result)) =
            (if 1 \<le> k \<and> ?res k grad < epsrgp * ?rn
             then (if 2 \<le> verbosity
                   then out @ [Converged_info var_name k (?res k grad / ?rn) ?rn] else out)
             else if 1 \<le> nswrgp \<and> epsrgp * ?rn \<le> (if k = 0 then 0 else ?res k grad) \<and>
                     - 1 < verbosity
             then out @ [Sweep_warning var_name (nat nswrgp)
                           ((if k = 0 then 0 else ?res k grad) / ?rn) ?rn]
             else out)"
        unfolding if_P[OF True] eq by simp
      show ?thesis by (intro exI[of _ k] conjI kb g prev' early' o)
    next
      case F: False
      have eq: "?result = (grad_after_sweeps ?sweep k grad, info_update_iter gradient_info nswrgp, gqs',
            if epsrgp * ?rn \<le> (if k = 0 then 0 else ?res k grad) \<and> - 1 < verbosity
            then out @ [Sweep_warning var_name (nat nswrgp) ((if k = 0 then 0 else ?res k grad) / ?rn) ?rn]
            else out)"
        unfolding unf sweeps_result_def if_not_P[OF F] using mx by (simp add: Let_def)
      have g: "fst ?result = grad_after_sweeps ?sweep k grad" unfolding eq by simp
      have o: "snd (snd (snd ?result)) =
            (if 1 \<le> k \<and> ?res k grad < epsrgp * ?rn
             then (if 2 \<le> verbosity
                   then out @ [Converged_info var_name k (?res k grad / ?rn) ?rn] else out)
             else if 1 \<le> nswrgp \<and> epsrgp * ?rn \<le> (if k = 0 then 0 else ?res k grad) \<and>
                     - 1 < verbosity
             then out @ [Sweep_warning var_name (nat nswrgp)
                           ((if k = 0 then 0 else ?res k grad) / ?rn) ?rn]
             else out)"
        unfolding if_not_P[OF F] eq using ns by simp
      show ?thesis by (intro exI[of _ k] conjI kb g prev' early' o)
    qed
  qed
  show ?thesis unfolding Let_def by (rule main)
qed


text \<open>The amended claim C2 on one cell and its ghost, one sweep allowed, tolerance
  missed, default verbosity.\<close>

theorem iterative_sweeps_cap_and_warning_witness:
  "cs_math_epzero < l2_norm_1 (env_mpi env_plain) (3 * n_cells mesh_one_cell_ghost)
                      (concat [[1, 0, 0], [1, 0, 0]]) \<and>
   iterative_nondegenerate mesh_one_cell_ghost fvq_skewed env_plain None 1 None [] \<and>
   (\<exists>k. int k \<le> 1 \<and>
      fst (iterative_scalar_gradient mesh_one_cell_ghost fvq_skewed env_plain None 1 ''p'' 2 0 0 1
             (1/2) [] [] [] [0, 2] None ([[1, 0, 0], [1, 0, 0]], None, [], []))
      = grad_after_sweeps
          (iter_s_sweep mesh_one_cell_ghost fvq_skewed env_plain None 1 0 1 [] [] [] [0, 2] None
             (fst (iter_s_get_cocg mesh_one_cell_ghost fvq_skewed None [])))
          k [[1, 0, 0], [1, 0, 0]]) \<and>
   snd (snd (snd (iterative_scalar_gradient mesh_one_cell_ghost fvq_skewed env_plain None 1 ''p''
             2 0 0 1 (1/2) [] [] [] [0, 2] None ([[1, 0, 0], [1, 0, 0]], None, [], []))))
     = [Sweep_warning ''p'' 2 1 1]"
proof -
  have h: "cs_math_epzero < l2_norm_1 (env_mpi env_plain) (3 * n_cells mesh_one_cell_ghost)
                      (concat [[1, 0, 0], [1, 0, 0]])"
    by (simp add: env_plain_simps mesh_one_cell_ghost_simps l2_norm_one_cell_ghost[simplified] epzero_lt_1)
  from iterative_sweeps_cap_and_warning[OF h iterative_nondegenerate_one_cell_ghost,
      where hyd_p_flag=0 and inc=1 and f_ext="[]" and coefap="[]" and coefbp="[]" and pvar="[0, 2]"
      and var_name="''p''" and nswrgp=2 and verbosity=0
      and epsrgp="1/2" and gradient_info=None and out="[]"]
  have ex: "\<exists>k. int k \<le> 1 \<and>
      fst (iterative_scalar_gradient mesh_one_cell_ghost fvq_skewed env_plain None 1 ''p'' 2 0 0 1
             (1/2) [] [] [] [0, 2] None ([[1, 0, 0], [1, 0, 0]], None, [], []))
      = grad_after_sweeps
          (iter_s_sweep mesh_one_cell_ghost fvq_skewed env_plain None 1 0 1 [] [] [] [0, 2] None
             (fst (iter_s_get_cocg mesh_one_cell_ghost fvq_skewed None [])))
          k [[1, 0, 0], [1, 0, 0]]"
    unfolding Let_def by (elim exE conjE, intro exI conjI) simp_all
  have o: "snd (snd (snd (iterative_scalar_gradient mesh_one_cell_ghost fvq_skewed env_plain None 1 ''p''
             2 0 0 1 (1/2) [] [] [] [0, 2] None ([[1, 0, 0], [1, 0, 0]], None, [], []))))
     = [Sweep_warning ''p'' 2 1 1]"
    unfolding iterative_run_one_cell_ghost by simp
  show ?thesis by (intro conjI h iterative_nondegenerate_one_cell_ghost ex o)
qed

text \<open>The same run with \<open>verbosity = -1\<close>: the cap is reached, the residual is above the
  tolerance, and nothing is printed.\<close>

theorem iterative_sweeps_silent_counterexample:
  "1/2 * l2_norm_1 mpi_serial 3 (concat [[1, 0, 0], [1, 0, 0]])
     \<le> l2_norm_1 mpi_serial 3
         (concat (snd (iter_s_sweep mesh_one_cell_ghost fvq_skewed env_plain None 1 0 1 [] [] []
                         [0, 2] None (fst (iter_s_get_cocg mesh_one_cell_ghost fvq_skewed None []))
                         [[1, 0, 0], [1, 0, 0]]))) \<and>
   iterative_scalar_gradient mesh_one_cell_ghost fvq_skewed env_plain None 1 ''p'' 2 0 (- 1) 1
     (1/2) [] [] [] [0, 2] None ([[1, 0, 0], [1, 0, 0]], None, [], [])
   = ([[3, 0, 0], [1, 0, 0]], None,
      [gradient_quantities_empty\<lparr> cocg_it :=
         Some [[[2, 0, 0], [0, 1, 0], [0, 0, 1]], [[3/2, 0, 0], [0, 1, 0], [0, 0, 1]]] \<rparr>],
      [])"
  unfolding iterative_run_one_cell_ghost cocg_it_one_cell_ghost fst_conv sweep_one_cell_ghost snd_conv l2_norm_one_cell_ghost by simp

subsection \<open>Reuse of the boundary covariance between scalar calls\<close>


lemma statics_after_snoc:
  "statics_after (calls @ [c]) = snd (scalar_call_recompute_cocg c (statics_after calls))"
  by (simp add: statics_after_def)

lemma statics_after_name:
  "var_name_prev (statics_after calls) = take 95 (last_call_name calls)"
  by (induction calls rule: rev_induct)
     (simp_all add: statics_after_snoc last_call_name_def statics_after_def
        gradient_scalar_statics_init_def scalar_call_recompute_cocg_def
        gradient_scalar_recompute_cocg_def strncpy_str_def Let_def split: prod.splits)

lemma statics_after_count:
  "last_fvm_count (statics_after calls) = last_synced_count calls"
proof (induction calls rule: rev_induct)
  case Nil
  show ?case by (simp add: statics_after_def gradient_scalar_statics_init_def last_synced_count_def)
next
  case (snoc c calls)
  show ?case
  proof (cases "call_entry c")
    case Via_cs_gradient_scalar
    then show ?thesis using snoc
      by (simp add: statics_after_snoc last_synced_count_def scalar_call_recompute_cocg_def
          gradient_scalar_recompute_cocg_def entry_check_recompute_cocg_def Let_def)
  next
    case Via_cs_gradient_scalar_synced_input
    then show ?thesis
      by (simp add: statics_after_snoc last_synced_count_def scalar_call_recompute_cocg_def
          gradient_scalar_recompute_cocg_def entry_check_recompute_cocg_def Let_def)
  qed
qed

text \<open>
  Claim C4, as amended. After any sequence of calls of the scalar gradient, the next
  call hands \<open>recompute_cocg = false\<close> to the least-squares kernels (which then skip
  \<^verbatim>\<open>_recompute_lsq_scalar_cocg\<close>) if and only if it enters through
  \<^verbatim>\<open>cs_gradient_scalar_synced_input\<close>, its variable name agrees in its first 95 characters
  with the name given to the call just before it, \<open>inc = 0\<close>, and the mesh-quantities
  compute count equals the count seen by the last earlier call through
  \<^verbatim>\<open>cs_gradient_scalar_synced_input\<close> (\<open>0\<close> if there was none). The same call through
  \<^verbatim>\<open>cs_gradient_scalar\<close> always recomputes.
\<close>

theorem cocg_recompute_skipped_iff:
  "(\<not> fst (scalar_call_recompute_cocg c (statics_after calls))) =
     (call_entry c = Via_cs_gradient_scalar_synced_input \<and>
      take 95 (call_var_name c) = take 95 (last_call_name calls) \<and>
      call_inc c = 0 \<and>
      cs_mesh_quantities_compute_count (call_env c) = last_synced_count calls)
   \<and> fst (scalar_call_recompute_cocg (c\<lparr> call_entry := Via_cs_gradient_scalar \<rparr>)
            (statics_after calls))"
  by (cases "call_entry c")
     (auto simp add: scalar_call_recompute_cocg_def gradient_scalar_recompute_cocg_def
        entry_check_recompute_cocg_def strncmp_eq_def Let_def statics_after_name
        statics_after_count)

text \<open>The amended claim C4 at a second call through the checking entry point, same
  name, same count, \<open>inc = 0\<close>.\<close>

theorem cocg_recompute_skipped_iff_witness:
  "(\<not> fst (scalar_call_recompute_cocg
      \<lparr> call_entry = Via_cs_gradient_scalar_synced_input, call_env = env_with_count 1,
        call_var_name = ''p'', call_inc = 0 \<rparr>
      (statics_after
        [\<lparr> call_entry = Via_cs_gradient_scalar_synced_input, call_env = env_with_count 1,
           call_var_name = ''p'', call_inc = 1 \<rparr>])))
   \<and> fst (scalar_call_recompute_cocg
      \<lparr> call_entry = Via_cs_gradient_scalar, call_env = env_with_count 1,
        call_var_name = ''p'', call_inc = 0 \<rparr>
      (statics_after
        [\<lparr> call_entry = Via_cs_gradient_scalar_synced_input, call_env = env_with_count 1,
           call_var_name = ''p'', call_inc = 1 \<rparr>]))"
  using cocg_recompute_skipped_iff[of
      "\<lparr> call_entry = Via_cs_gradient_scalar_synced_input, call_env = env_with_count 1,
        call_var_name = ''p'', call_inc = 0 \<rparr>"
      "[\<lparr> call_entry = Via_cs_gradient_scalar_synced_input, call_env = env_with_count 1,
           call_var_name = ''p'', call_inc = 1 \<rparr>]"]
  by (simp add: last_call_name_def last_synced_count_def env_with_count_def)

text \<open>A call through \<^verbatim>\<open>cs_gradient_scalar\<close> in between does not record the count: the
  third call has the name of the second, \<open>inc = 0\<close> and the count of the second, and it
  recomputes.\<close>

theorem cocg_recompute_after_unchecked_call_counterexample:
  "fst (scalar_call_recompute_cocg
      \<lparr> call_entry = Via_cs_gradient_scalar_synced_input, call_env = env_with_count 2,
        call_var_name = ''p'', call_inc = 0 \<rparr>
      (statics_after
        [\<lparr> call_entry = Via_cs_gradient_scalar_synced_input, call_env = env_with_count 1,
           call_var_name = ''p'', call_inc = 1 \<rparr>,
         \<lparr> call_entry = Via_cs_gradient_scalar, call_env = env_with_count 2,
           call_var_name = ''p'', call_inc = 1 \<rparr>]))"
  by (simp add: scalar_call_recompute_cocg_def gradient_scalar_recompute_cocg_def
      entry_check_recompute_cocg_def strncmp_eq_def strncpy_str_def statics_after_def
      gradient_scalar_statics_init_def env_with_count_def Let_def)

subsection \<open>Recomputation of the least-squares covariance at the boundary\<close>


lemma fold_nth_filter:
  assumes len: "\<And>x s. length (body x s) = length s"
    and step: "\<And>x s. c < length s \<Longrightarrow> body x s ! c = (if P x then g x (s ! c) else s ! c)"
    and c: "c < length s"
  shows "fold body xs s ! c = fold g (filter P xs) (s ! c)"
  using c
proof (induction xs arbitrary: s)
  case Nil then show ?case by simp
next
  case (Cons x xs)
  have "fold body xs (body x s) ! c = fold g (filter P xs) (body x s ! c)"
    using Cons.prems by (intro Cons.IH) (simp add: len)
  then show ?case using Cons.prems by (simp add: step)
qed

lemma fold_length_inv:
  assumes "\<And>x s. length (body x s) = length s"
  shows "length (fold body xs s) = length s"
  by (induction xs arbitrary: s) (simp_all add: assms)

lemma filter_eq_nth_distinct:
  assumes "distinct (map f [0 ..< n])" "i < n"
  shows "filter (\<lambda>ii. f ii = f i) [0 ..< n] = [i]"
proof -
  have inj: "inj_on f {0 ..< n}" using assms(1) by (simp add: distinct_map)
  have "filter (\<lambda>ii. f ii = f i) [0 ..< n] = filter (\<lambda>ii. ii = i) [0 ..< n]"
    by (rule filter_cong[OF refl]) (use inj assms(2) in \<open>auto dest: inj_onD\<close>)
  also have "\<dots> = [i]" using assms(2)
    by (induction n) (auto simp: less_Suc_eq)
  finally show ?thesis .
qed

lemma filter_none:
  "(\<And>x. x \<in> set xs \<Longrightarrow> \<not> P x) \<Longrightarrow> filter P xs = []"
  by (induction xs) auto

lemma cocg_lsq_add_length: "length (cocg_lsq_add c d k cocg) = length cocg"
  by (simp add: cocg_lsq_add_def)

lemma cocg_lsq_add_nth:
  "c' < length cocg \<Longrightarrow>
   cocg_lsq_add c d k cocg ! c' = (if c = c' then cocg_6_add d k (cocg ! c') else cocg ! c')"
  by (simp add: cocg_lsq_add_def)

lemma recompute_lsq_b_face_length:
  "length (recompute_lsq_b_face m fvq cpl coefbp f_id cocg) = length cocg"
  by (simp add: recompute_lsq_b_face_def cocg_lsq_add_length Let_def)

lemma recompute_lsq_b_face_nth:
  "c < length cocg \<Longrightarrow>
   recompute_lsq_b_face m fvq cpl coefbp f_id cocg ! c
   = (if \<not> is_coupled_face cpl f_id \<and> b_face_cells m ! f_id = c
      then cocg_6_add (recompute_lsq_dddij fvq coefbp f_id) 1 (cocg ! c) else cocg ! c)"
  by (simp add: recompute_lsq_b_face_def cocg_lsq_add_nth Let_def)

lemma recompute_lsq_restore_length: "length (recompute_lsq_restore m cocgb cocg) = length cocg"
  unfolding recompute_lsq_restore_def by (rule fold_length_inv) (simp add: Let_def)

lemma recompute_lsq_restore_nth:
  assumes "c < length cocg"
  shows "recompute_lsq_restore m cocgb cocg ! c
         = fold (\<lambda>ii a. map (\<lambda>ll. cocgb ! ii ! ll) [0 ..< 6])
             (filter (\<lambda>ii. b_cells m ! ii = c) [0 ..< n_b_cells m]) (cocg ! c)"
  unfolding recompute_lsq_restore_def
  by (rule fold_nth_filter) (use assms in \<open>auto simp: Let_def nth_list_update\<close>)

lemma recompute_lsq_invert_length: "length (recompute_lsq_invert m cocg) = length cocg"
  unfolding recompute_lsq_invert_def by (rule fold_length_inv) (simp add: Let_def)

lemma recompute_lsq_invert_nth:
  assumes "c < length cocg"
  shows "recompute_lsq_invert m cocg ! c
         = fold (\<lambda>ii a. math_6_inv_cramer_sym_in_place a)
             (filter (\<lambda>ii. b_cells m ! ii = c) [0 ..< n_b_cells m]) (cocg ! c)"
  unfolding recompute_lsq_invert_def
  by (rule fold_nth_filter) (use assms in \<open>auto simp: Let_def nth_list_update\<close>)

lemma recompute_faces_nth:
  assumes "c < length cocg"
  shows "for_b_faces (b_face_numbering m) (recompute_lsq_b_face m fvq cpl coefbp) cocg ! c
         = fold (\<lambda>f_id. cocg_6_add (recompute_lsq_dddij fvq coefbp f_id) 1)
             (b_faces_of_cell m cpl c) (cocg ! c)"
  unfolding for_b_faces_fold b_faces_of_cell_def
  by (rule fold_nth_filter) (use assms in \<open>auto simp: recompute_lsq_b_face_length recompute_lsq_b_face_nth\<close>)

lemma for_b_faces_length:
  "length (for_b_faces (b_face_numbering m) (recompute_lsq_b_face m fvq cpl coefbp) cocg) = length cocg"
  unfolding for_b_faces_fold by (rule fold_length_inv) (simp add: recompute_lsq_b_face_length)

lemma not_b_cell_filter:
  "c \<notin> set (b_cell_ids m) \<Longrightarrow> filter (\<lambda>ii. b_cells m ! ii = c) [0 ..< n_b_cells m] = []"
  by (rule filter_none) (auto simp: b_cell_ids_def)

lemma b_cell_filter:
  assumes "distinct (b_cell_ids m)" "ii < n_b_cells m"
  shows "filter (\<lambda>i. b_cells m ! i = b_cells m ! ii) [0 ..< n_b_cells m] = [ii]"
  using filter_eq_nth_distinct[of "\<lambda>i. b_cells m ! i" "n_b_cells m" ii] assms
  by (simp add: b_cell_ids_def)

lemma not_b_cell_no_faces:
  assumes "b_cells_consistent m" "c \<notin> set (b_cell_ids m)"
  shows "b_faces_of_cell m cpl c = []"
  unfolding b_faces_of_cell_def
  by (rule filter_none) (use assms in \<open>auto simp: b_cells_consistent_def list_all_iff\<close>)

lemma coupled_cocg_length:
  "coupling_on_b_cells m cpl \<Longrightarrow> length (coupled_cocg cpl cocg) = length cocg"
  by (cases cpl) (auto simp: coupled_cocg_def coupling_on_b_cells_def)

lemma coupled_cocg_frame:
  "coupling_on_b_cells m cpl \<Longrightarrow> c \<notin> set (b_cell_ids m) \<Longrightarrow> coupled_cocg cpl cocg ! c = cocg ! c"
  by (cases cpl) (auto simp: coupled_cocg_def coupling_on_b_cells_def)

lemma recompute_unfold:
  "recompute_lsq_scalar_cocg m fvq cpl coefbp cocgb cocg
   = recompute_lsq_invert m
       (for_b_faces (b_face_numbering m) (recompute_lsq_b_face m fvq cpl coefbp)
          (coupled_cocg cpl (recompute_lsq_restore m cocgb cocg)))"
  by (simp add: recompute_lsq_scalar_cocg_def coupled_cocg_def Let_def)

lemma recompute_frame:
  assumes "b_cells_consistent m" "coupling_on_b_cells m cpl" "c < length cocg"
    "c \<notin> set (b_cell_ids m)"
  shows "recompute_lsq_scalar_cocg m fvq cpl coefbp cocgb cocg ! c = cocg ! c"
  using assms
  by (simp add: recompute_unfold recompute_lsq_invert_nth for_b_faces_length coupled_cocg_length
      recompute_lsq_restore_length not_b_cell_filter recompute_faces_nth not_b_cell_no_faces
      coupled_cocg_frame recompute_lsq_restore_nth)

lemma recompute_rebuild:
  assumes "b_cells_consistent m" "coupling_on_b_cells m cpl" "ii < n_b_cells m"
    "b_cells m ! ii < length cocg"
  shows "recompute_lsq_scalar_cocg m fvq cpl coefbp cocgb cocg ! (b_cells m ! ii)
         = math_6_inv_cramer_sym_in_place
             (fold (\<lambda>f_id. cocg_6_add (recompute_lsq_dddij fvq coefbp f_id) 1)
                (b_faces_of_cell m cpl (b_cells m ! ii))
                (coupled_cocg cpl (recompute_lsq_restore m cocgb cocg) ! (b_cells m ! ii)))"
  using assms
  by (simp add: recompute_unfold recompute_lsq_invert_nth for_b_faces_length coupled_cocg_length
      recompute_lsq_restore_length b_cell_filter b_cells_consistent_def recompute_faces_nth)

lemma restore_value:
  assumes "distinct (b_cell_ids m)" "ii < n_b_cells m" "b_cells m ! ii < length cocg"
  shows "recompute_lsq_restore m cocgb cocg ! (b_cells m ! ii) = map (\<lambda>ll. cocgb ! ii ! ll) [0 ..< 6]"
  using assms by (simp add: recompute_lsq_restore_nth b_cell_filter)

text \<open>
  Claim C9. On a mesh whose boundary-cell list names each boundary cell once and names
  the cell of every boundary face (and with an internal coupling, if any, contributing
  to listed cells only), \<^verbatim>\<open>_recompute_lsq_scalar_cocg\<close> leaves the covariance of every cell
  outside the list as it was. For a listed cell it first restores the saved entry of
  \<open>cocgb\<close>, and the value it returns is the in-place inverse of that restored matrix
  (after the coupling step) plus the contributions of the cell's boundary faces that are
  not coupled. The entries \<^verbatim>\<open>_compute_cell_cocg_lsq\<close> saves in \<open>cocgb\<close> are the covariance
  of the boundary cells before any boundary face is added.
\<close>

theorem recompute_lsq_cocg_boundary_only:
  assumes "b_cells_consistent m" and "coupling_on_b_cells m cpl" and "c < length cocg"
  shows "(c \<notin> set (b_cell_ids m) \<longrightarrow>
            recompute_lsq_scalar_cocg m fvq cpl coefbp cocgb cocg ! c = cocg ! c) \<and>
         (\<forall>ii < n_b_cells m. b_cells m ! ii = c \<longrightarrow>
            recompute_lsq_restore m cocgb cocg ! c = map (\<lambda>ll. cocgb ! ii ! ll) [0 ..< 6] \<and>
            recompute_lsq_scalar_cocg m fvq cpl coefbp cocgb cocg ! c
            = math_6_inv_cramer_sym_in_place
                (fold (\<lambda>f_id. cocg_6_add (recompute_lsq_dddij fvq coefbp f_id) 1)
                   (b_faces_of_cell m cpl c)
                   (coupled_cocg cpl (recompute_lsq_restore m cocgb cocg) ! c))) \<and>
         (if extended then cocgb_s_lsq_ext else cocgb_s_lsq)
            (compute_cell_cocg_lsq m extended fvq None gq)
         = Some (map (\<lambda>ii. map (\<lambda>ll. cocg_lsq_interior m extended fvq None ! (b_cells m ! ii) ! ll)
                              [0 ..< 6]) [0 ..< n_b_cells m])"
proof (intro conjI impI allI)
  assume "c \<notin> set (b_cell_ids m)"
  then show "recompute_lsq_scalar_cocg m fvq cpl coefbp cocgb cocg ! c = cocg ! c"
    using assms by (intro recompute_frame)
next
  fix ii assume ii: "ii < n_b_cells m" "b_cells m ! ii = c"
  have d: "distinct (b_cell_ids m)" using assms(1) by (simp add: b_cells_consistent_def)
  show "recompute_lsq_restore m cocgb cocg ! c = map (\<lambda>ll. cocgb ! ii ! ll) [0 ..< 6]"
    using restore_value[OF d ii(1), of cocg cocgb] assms(3) ii(2) by simp
  show "recompute_lsq_scalar_cocg m fvq cpl coefbp cocgb cocg ! c
        = math_6_inv_cramer_sym_in_place
            (fold (\<lambda>f_id. cocg_6_add (recompute_lsq_dddij fvq coefbp f_id) 1)
               (b_faces_of_cell m cpl c)
               (coupled_cocg cpl (recompute_lsq_restore m cocgb cocg) ! c))"
    using recompute_rebuild[OF assms(1,2) ii(1), of cocg fvq coefbp cocgb] assms(3) ii(2) by simp
next
  show "(if extended then cocgb_s_lsq_ext else cocgb_s_lsq)
            (compute_cell_cocg_lsq m extended fvq None gq)
         = Some (map (\<lambda>ii. map (\<lambda>ll. cocg_lsq_interior m extended fvq None ! (b_cells m ! ii) ! ll)
                              [0 ..< 6]) [0 ..< n_b_cells m])"
    by (simp add: compute_cell_cocg_lsq_def Let_def)
qed

lemma mesh_one_b_cell_simps:
  "n_cells mesh_one_b_cell = 2" "n_cells_with_ghosts mesh_one_b_cell = 2"
  "n_i_faces mesh_one_b_cell = 1" "n_b_faces mesh_one_b_cell = 1" "n_b_cells mesh_one_b_cell = 1"
  "i_face_cells mesh_one_b_cell = [[0, 1]]" "b_face_cells mesh_one_b_cell = [1]"
  "b_cells mesh_one_b_cell = [1]" "cell_cells_idx mesh_one_b_cell = None"
  "i_face_numbering mesh_one_b_cell = \<lparr> n_threads = 1, n_groups = 1, group_index = [0, 1] \<rparr>"
  "b_face_numbering mesh_one_b_cell = \<lparr> n_threads = 1, n_groups = 1, group_index = [0, 1] \<rparr>"
  "halo mesh_one_b_cell = None"
  by (simp_all add: mesh_one_b_cell_def)

lemma mesh_one_b_cell_consistent: "b_cells_consistent mesh_one_b_cell"
  by (simp add: b_cells_consistent_def b_cell_ids_def b_face_ids_def mesh_one_b_cell_simps upt_0_1)

text \<open>Claim C9 on two cells, the second one on the boundary.\<close>

theorem recompute_lsq_cocg_boundary_only_witness:
  "b_cells_consistent mesh_one_b_cell \<and> coupling_on_b_cells mesh_one_b_cell None \<and>
   recompute_lsq_scalar_cocg mesh_one_b_cell fvq_one_b_cell None [1] [[1, 1, 1, 0, 0, 0]]
     [[3, 4, 5, 0, 0, 0], [7, 7, 7, 7, 7, 7]] ! 0 = [3, 4, 5, 0, 0, 0] \<and>
   recompute_lsq_scalar_cocg mesh_one_b_cell fvq_one_b_cell None [1] [[1, 1, 1, 0, 0, 0]]
     [[3, 4, 5, 0, 0, 0], [7, 7, 7, 7, 7, 7]] ! 1 = [1/2, 1, 1, 0, 0, 0]"
proof -
  have cpl: "coupling_on_b_cells mesh_one_b_cell None" by (simp add: coupling_on_b_cells_def)
  have ids: "b_cell_ids mesh_one_b_cell = [1]"
    by (simp add: b_cell_ids_def mesh_one_b_cell_simps upt_0_1)
  have faces: "b_faces_of_cell mesh_one_b_cell None 1 = [0]"
    by (simp add: b_faces_of_cell_def b_face_ids_def is_coupled_face_def mesh_one_b_cell_simps upt_0_1)
  have d: "recompute_lsq_dddij fvq_one_b_cell [1] 0 = [1, 0, 0]"
    by (simp add: recompute_lsq_dddij_def fvq_one_b_cell_def)
  note T = recompute_lsq_cocg_boundary_only[OF mesh_one_b_cell_consistent cpl,
      where cocg="[[3, 4, 5, 0, 0, 0], [7, 7, 7, 7, 7, 7]]" and cocgb="[[1, 1, 1, 0, 0, 0]]"
        and fvq=fvq_one_b_cell and coefbp="[1]"]
  have c0: "recompute_lsq_scalar_cocg mesh_one_b_cell fvq_one_b_cell None [1] [[1, 1, 1, 0, 0, 0]]
     [[3, 4, 5, 0, 0, 0], [7, 7, 7, 7, 7, 7]] ! 0 = [3, 4, 5, 0, 0, 0]"
    using T[of 0] by (simp add: ids)
  have T1: "recompute_lsq_restore mesh_one_b_cell [[1, 1, 1, 0, 0, 0]]
       [[3, 4, 5, 0, 0, 0], [7, 7, 7, 7, 7, 7]] ! 1 = map (\<lambda>ll. [[1, 1, 1, 0, 0, 0]] ! 0 ! ll) [0 ..< 6] \<and>
     recompute_lsq_scalar_cocg mesh_one_b_cell fvq_one_b_cell None [1] [[1, 1, 1, 0, 0, 0]]
       [[3, 4, 5, 0, 0, 0], [7, 7, 7, 7, 7, 7]] ! 1
     = math_6_inv_cramer_sym_in_place
         (fold (\<lambda>f_id. cocg_6_add (recompute_lsq_dddij fvq_one_b_cell [1] f_id) 1)
            (b_faces_of_cell mesh_one_b_cell None 1)
            (coupled_cocg None (recompute_lsq_restore mesh_one_b_cell [[1, 1, 1, 0, 0, 0]]
               [[3, 4, 5, 0, 0, 0], [7, 7, 7, 7, 7, 7]]) ! 1))"
    using T[of 1] by (simp add: mesh_one_b_cell_simps del: One_nat_def)
  have r1: "recompute_lsq_restore mesh_one_b_cell [[1, 1, 1, 0, 0, 0]]
     [[3, 4, 5, 0, 0, 0], [7, 7, 7, 7, 7, 7]] ! 1 = [1, 1, 1, 0, 0, 0]"
    using T1 by (simp add: upt_rec)
  have c1: "recompute_lsq_scalar_cocg mesh_one_b_cell fvq_one_b_cell None [1] [[1, 1, 1, 0, 0, 0]]
     [[3, 4, 5, 0, 0, 0], [7, 7, 7, 7, 7, 7]] ! 1 = [1/2, 1, 1, 0, 0, 0]"
    unfolding conjunct2[OF T1] faces coupled_cocg_def option.case r1
    by (simp add: d cocg_6_add_def math_6_inv_cramer_sym_in_place_def)
  show ?thesis by (intro conjI mesh_one_b_cell_consistent cpl c0 c1)
qed

subsection \<open>Crout factorisation and solution of dense symmetric systems\<close>


lemma quad_from_split:
  assumes "k < d"
  shows "quad_from k d M x =
           M k k * x k * x k
         + 2 * x k * (\<Sum>i = Suc k ..< d. M i k * x i)
         + (\<Sum>i = Suc k ..< d. \<Sum>j = Suc k ..< d. sym_of M i j * x i * x j)"
proof -
  have row_k: "(\<Sum>j = k ..< d. sym_of M k j * x k * x j)
        = M k k * x k * x k + x k * (\<Sum>j = Suc k ..< d. M j k * x j)"
  proof -
    have "(\<Sum>j = Suc k ..< d. sym_of M k j * x k * x j) = (\<Sum>j = Suc k ..< d. x k * (M j k * x j))"
      by (rule sum.cong) (auto simp: sym_of_def)
    then show ?thesis using assms
      by (simp add: sum.atLeast_Suc_lessThan sym_of_def sum_distrib_left)
  qed
  have rows: "(\<Sum>i = Suc k ..< d. \<Sum>j = k ..< d. sym_of M i j * x i * x j)
        = x k * (\<Sum>i = Suc k ..< d. M i k * x i)
          + (\<Sum>i = Suc k ..< d. \<Sum>j = Suc k ..< d. sym_of M i j * x i * x j)"
  proof -
    have "(\<Sum>i = Suc k ..< d. \<Sum>j = k ..< d. sym_of M i j * x i * x j)
        = (\<Sum>i = Suc k ..< d. x k * (M i k * x i) + (\<Sum>j = Suc k ..< d. sym_of M i j * x i * x j))"
      by (rule sum.cong) (use assms in \<open>auto simp: sum.atLeast_Suc_lessThan sym_of_def\<close>)
    then show ?thesis by (simp add: sum.distrib sum_distrib_left)
  qed
  have "quad_from k d M x = (\<Sum>j = k ..< d. sym_of M k j * x k * x j)
        + (\<Sum>i = Suc k ..< d. \<Sum>j = k ..< d. sym_of M i j * x i * x j)"
    unfolding quad_from_def using assms by (simp add: sum.atLeast_Suc_lessThan)
  then show ?thesis unfolding row_k rows by simp
qed

lemma pivot_pos:
  assumes "pos_def_from k d M" "k < d"
  shows "0 < M k k"
proof -
  let ?x = "\<lambda>i. if i = k then 1 else (0::real)"
  have "0 < quad_from k d M ?x"
    using assms unfolding pos_def_from_def by (auto intro!: exI[of _ k])
  moreover have "quad_from k d M ?x = M k k"
    unfolding quad_from_split[OF assms(2)] by simp
  ultimately show ?thesis by simp
qed

lemma quad_from_stage:
  assumes "M k k \<noteq> 0"
  shows "quad_from (Suc k) d (crout_stage k M) x
         = (\<Sum>i = Suc k ..< d. \<Sum>j = Suc k ..< d. sym_of M i j * x i * x j)
           - (\<Sum>i = Suc k ..< d. M i k * x i)\<^sup>2 / M k k"
proof -
  let ?s = "\<Sum>i = Suc k ..< d. M i k * x i"
  have "quad_from (Suc k) d (crout_stage k M) x
      = (\<Sum>i = Suc k ..< d. \<Sum>j = Suc k ..< d.
            sym_of M i j * x i * x j - (M i k * x i) * (M j k * x j) / M k k)"
    unfolding quad_from_def
    by (intro sum.cong refl) (auto simp: sym_of_def crout_stage_def algebra_simps diff_divide_distrib)
  also have "\<dots> = (\<Sum>i = Suc k ..< d. \<Sum>j = Suc k ..< d. sym_of M i j * x i * x j)
                  - (\<Sum>i = Suc k ..< d. \<Sum>j = Suc k ..< d. (M i k * x i) * (M j k * x j)) / M k k"
    by (simp add: sum_subtractf sum_divide_distrib)
  also have "(\<Sum>i = Suc k ..< d. \<Sum>j = Suc k ..< d. (M i k * x i) * (M j k * x j)) = ?s\<^sup>2"
    by (simp add: power2_eq_square sum_product)
  finally show ?thesis .
qed

lemma stage_pos_def:
  assumes pd: "pos_def_from k d M" and k: "k < d"
  shows "pos_def_from (Suc k) d (crout_stage k M)"
  unfolding pos_def_from_def
proof (intro allI impI)
  fix x :: "nat \<Rightarrow> real"
  assume ex: "\<exists>i. Suc k \<le> i \<and> i < d \<and> x i \<noteq> 0"
  have p: "0 < M k k" using pivot_pos[OF pd k] .
  define s where "s = (\<Sum>i = Suc k ..< d. M i k * x i)"
  define c where "c = s / M k k"
  define x' where "x' = x(k := - c)"
  have ex': "\<exists>i. k \<le> i \<and> i < d \<and> x' i \<noteq> 0"
    using ex unfolding x'_def by (auto intro: Suc_leD)
  have pos: "0 < quad_from k d M x'" using pd ex' unfolding pos_def_from_def by blast
  have s': "(\<Sum>i = Suc k ..< d. M i k * x' i) = s"
    unfolding s_def x'_def by (rule sum.cong) auto
  have t': "(\<Sum>i = Suc k ..< d. \<Sum>j = Suc k ..< d. sym_of M i j * x' i * x' j)
          = (\<Sum>i = Suc k ..< d. \<Sum>j = Suc k ..< d. sym_of M i j * x i * x j)"
    unfolding x'_def by (intro sum.cong refl) auto
  have "quad_from k d M x'
        = M k k * c * c - 2 * c * s
          + (\<Sum>i = Suc k ..< d. \<Sum>j = Suc k ..< d. sym_of M i j * x i * x j)"
    unfolding quad_from_split[OF k] s' t' by (simp add: x'_def)
  also have "M k k * c * c - 2 * c * s = - (s\<^sup>2 / M k k)"
    using p unfolding c_def by (simp add: power2_eq_square field_simps)
  finally have "quad_from k d M x' = quad_from (Suc k) d (crout_stage k M) x"
    using p by (simp add: quad_from_stage s_def)
  then show "0 < quad_from (Suc k) d (crout_stage k M) x" using pos by simp
qed



lemma crout_stage_before:
  "m < k \<Longrightarrow> crout_stage k M i m = M i m"
  by (simp add: crout_stage_def)

lemma crout_stage_diag_le:
  "j \<le> k \<Longrightarrow> crout_stage k M j j = M j j"
  by (simp add: crout_stage_def)

lemma ldl_rec_stage:
  assumes p: "M k k \<noteq> 0" and ji: "j \<le> i"
  shows "ldl_rec (Suc k) (crout_stage k M) i j = ldl_rec k M i j"
proof -
  consider "j < k" | "j = k" | "k < j" by linarith
  then show ?thesis
  proof cases
    case 1
    then have "min (Suc k) j = j" "min k j = j" by simp_all
    moreover have "(\<Sum>m < j. crout_stage k M i m * crout_stage k M m m * crout_stage k M j m)
        = (\<Sum>m < j. M i m * M m m * M j m)"
      by (rule sum.cong) (use 1 in \<open>auto simp: crout_stage_before\<close>)
    ultimately show ?thesis using 1 by (simp add: ldl_rec_def crout_stage_before)
  next
    case 2
    have "(\<Sum>m < k. crout_stage k M i m * crout_stage k M m m * crout_stage k M k m)
        = (\<Sum>m < k. M i m * M m m * M k m)"
      by (rule sum.cong) (auto simp: crout_stage_before)
    then show ?thesis using 2 p ji
      by (auto simp: ldl_rec_def crout_stage_def)
  next
    case 3
    then have mn: "min (Suc k) j = Suc k" "min k j = k" by simp_all
    have "(\<Sum>m < k. crout_stage k M i m * crout_stage k M m m * crout_stage k M j m)
        = (\<Sum>m < k. M i m * M m m * M j m)"
      by (rule sum.cong) (auto simp: crout_stage_before)
    then show ?thesis using 3 p ji
      by (simp add: ldl_rec_def mn crout_stage_def field_simps)
  qed
qed

lemma crout_inv_stage:
  assumes "crout_inv d A k M" "k < d"
  shows "crout_inv d A (Suc k) (crout_stage k M)"
proof -
  have pd: "pos_def_from k d M" and diag: "\<forall>j < k. 0 < M j j"
    and rec: "\<forall>i < d. \<forall>j \<le> i. ldl_rec k M i j = A i j"
    using assms(1) by (auto simp: crout_inv_def)
  have p: "0 < M k k" by (rule pivot_pos[OF pd assms(2)])
  have 1: "pos_def_from (Suc k) d (crout_stage k M)" by (rule stage_pos_def[OF pd assms(2)])
  have 2: "\<forall>j < Suc k. 0 < crout_stage k M j j"
    using diag p by (auto simp: crout_stage_diag_le less_Suc_eq)
  have 3: "\<forall>i < d. \<forall>j \<le> i. ldl_rec (Suc k) (crout_stage k M) i j = A i j"
    using rec p by (simp add: ldl_rec_stage)
  show ?thesis unfolding crout_inv_def using 1 2 3 by blast
qed

lemma crout_inv_init: "pos_def_from 0 d A \<Longrightarrow> crout_inv d A 0 A"
  by (simp add: crout_inv_def ldl_rec_def)

lemma quad_from_cong:
  assumes "tri_eq d M N"
  shows "quad_from k d M x = quad_from k d N x"
  unfolding quad_from_def
  by (intro sum.cong refl) (use assms in \<open>auto simp: tri_eq_def sym_of_def\<close>)

lemma ldl_rec_cong:
  assumes "tri_eq d M N" "i < d" "j \<le> i"
  shows "ldl_rec k M i j = ldl_rec k N i j"
proof -
  have "(\<Sum>m < min k j. M i m * M m m * M j m) = (\<Sum>m < min k j. N i m * N m m * N j m)"
    by (rule sum.cong) (use assms in \<open>auto simp: tri_eq_def\<close>)
  moreover have "M j j = N j j" "M i j = N i j" using assms by (auto simp: tri_eq_def)
  ultimately show ?thesis by (simp add: ldl_rec_def)
qed

lemma crout_inv_cong:
  assumes "tri_eq d M N" "crout_inv d A k M" "k \<le> d"
  shows "crout_inv d A k N"
proof -
  have 1: "pos_def_from k d N"
    using assms(2) quad_from_cong[OF assms(1)] by (simp add: crout_inv_def pos_def_from_def)
  have 2: "\<forall>j < k. 0 < N j j" using assms by (auto simp: crout_inv_def tri_eq_def)
  have 3: "\<forall>i < d. \<forall>j \<le> i. ldl_rec k N i j = A i j"
    using assms(2) ldl_rec_cong[OF assms(1)] by (simp add: crout_inv_def)
  show ?thesis unfolding crout_inv_def using 1 2 3 by blast
qed

lemma crout_inv_final:
  assumes "crout_inv d A (d - 1) M"
  shows "(\<forall>j < d. 0 < M j j) \<and>
         (\<forall>i < d. \<forall>j \<le> i. A i j = (\<Sum>m < j. M i m * M m m * M j m)
                                   + (if i = j then M j j else M i j * M j j))"
proof (intro conjI allI impI)
  fix j assume j: "j < d"
  show "0 < M j j"
  proof (cases "j < d - 1")
    case True then show ?thesis using assms by (simp add: crout_inv_def)
  next
    case False
    then have "j = d - 1" using j by simp
    moreover have "pos_def_from (d - 1) d M" using assms by (simp add: crout_inv_def)
    ultimately show ?thesis using pivot_pos[of "d - 1" d M] j by simp
  qed
next
  fix i j assume i: "i < d" and j: "j \<le> i"
  have "A i j = ldl_rec (d - 1) M i j" using assms i j by (simp add: crout_inv_def)
  also have "\<dots> = (\<Sum>m < j. M i m * M m m * M j m) + (if i = j then M j j else M i j * M j j)"
  proof (cases "j < d - 1")
    case True then show ?thesis by (simp add: ldl_rec_def min_def)
  next
    case False
    then have "j = d - 1" "i = d - 1" using i j by simp_all
    then show ?thesis by (simp add: ldl_rec_def)
  qed
  finally show "A i j = (\<Sum>m < j. M i m * M m m * M j m) + (if i = j then M j j else M i j * M j j)" .
qed



lemma tri_Suc: "(Suc i) * (Suc i + 1) div 2 = i * (i + 1) div 2 + i + (1::nat)"
proof -
  have "(Suc i) * (Suc i + 1) = i * (i + 1) + 2 * (i + 1)" by simp
  then show ?thesis by (metis add.assoc div_mult_self4 add.commute zero_neq_numeral)
qed

lemma tri_less: "i < i' \<Longrightarrow> i * (i + 1) div 2 + i < i' * (i' + 1) div (2::nat)"
proof (induction i')
  case 0 then show ?case by simp
next
  case (Suc n)
  show ?case
  proof (cases "i = n")
    case True then show ?thesis unfolding tri_Suc by simp
  next
    case False
    then have "i * (i + 1) div 2 + i < n * (n + 1) div 2" using Suc by simp
    then show ?thesis unfolding tri_Suc by simp
  qed
qed

lemma tri_inj:
  assumes "j \<le> i" "j' \<le> i'" "i * (i + 1) div 2 + j = i' * (i' + 1) div 2 + (j'::nat)"
  shows "i = i' \<and> j = j'"
proof -
  have "\<not> i < i'" using tri_less[of i i'] assms by linarith
  moreover have "\<not> i' < i" using tri_less[of i' i] assms by linarith
  ultimately have "i = i'" by simp
  then show ?thesis using assms by simp
qed

lemma tri_in_range:
  assumes "i < d" "j \<le> i"
  shows "i * (i + 1) div 2 + j < d * (d + 1) div (2::nat)"
  using tri_less[OF assms(1)] assms(2) by linarith

lemma packed_at_update:
  assumes "j \<le> i" "j' \<le> i'" "i' * (i' + 1) div 2 + j' < length ad"
  shows "packed_at (ad[i' * (i' + 1) div 2 + j' := v]) i j
         = (if i = i' \<and> j = j' then v else packed_at ad i j)"
proof (cases "i = i' \<and> j = j'")
  case True then show ?thesis using assms by (simp add: packed_at_def)
next
  case False
  then have "i * (i + 1) div 2 + j \<noteq> i' * (i' + 1) div 2 + j'"
    using tri_inj[OF assms(1,2)] by blast
  then show ?thesis using False by (auto simp: packed_at_def)
qed

lemma fact_crout_jj_fold:
  assumes "kk < ii" "ii < d" "length ad = d * (d + 1) div 2" "n \<le> ii + 1"
  shows "length (fold (fact_crout_jj (ii * (ii + 1) div 2) kk aux) [kk + 1 ..< n] ad) = length ad \<and>
         (\<forall>i j. j \<le> i \<longrightarrow>
            packed_at (fold (fact_crout_jj (ii * (ii + 1) div 2) kk aux) [kk + 1 ..< n] ad) i j
            = (if i = ii \<and> kk < j \<and> j < n
               then packed_at ad ii j - packed_at ad ii kk * aux ! j
               else packed_at ad i j))"
  using assms(4)
proof (induction n)
  case 0 then show ?case by simp
next
  case (Suc n)
  show ?case
  proof (cases "kk + 1 \<le> n")
    case False
    then have "[kk + 1 ..< Suc n] = []" by simp
    moreover have "\<And>j. \<not> (kk < j \<and> j < Suc n)" using False by auto
    ultimately show ?thesis by auto
  next
    case True
    let ?r = "fold (fact_crout_jj (ii * (ii + 1) div 2) kk aux) [kk + 1 ..< n] ad"
    have IH: "length ?r = length ad"
      "\<And>i j. j \<le> i \<Longrightarrow> packed_at ?r i j
            = (if i = ii \<and> kk < j \<and> j < n
               then packed_at ad ii j - packed_at ad ii kk * aux ! j
               else packed_at ad i j)"
      using Suc by simp_all
    have n: "n \<le> ii" using Suc.prems by simp
    have rng: "ii * (ii + 1) div 2 + n < length ?r"
      using tri_in_range[OF assms(2) n] assms(3) IH(1) by simp
    have upt: "[kk + 1 ..< Suc n] = [kk + 1 ..< n] @ [n]" using True by simp
    have step: "fold (fact_crout_jj (ii * (ii + 1) div 2) kk aux) [kk + 1 ..< Suc n] ad
        = ?r[ii * (ii + 1) div 2 + n := packed_at ?r ii n - packed_at ?r ii kk * aux ! n]"
      unfolding upt by (simp add: fact_crout_jj_def packed_at_def)
    have v: "packed_at ?r ii n = packed_at ad ii n" "packed_at ?r ii kk = packed_at ad ii kk"
      using IH(2)[of n ii] IH(2)[of kk ii] n assms(1) by simp_all
    show ?thesis
    proof (intro conjI allI impI)
      show "length (fold (fact_crout_jj (ii * (ii + 1) div 2) kk aux) [kk + 1 ..< Suc n] ad) = length ad"
        unfolding step using IH(1) by simp
    next
      fix i j :: nat assume ji: "j \<le> i"
      show "packed_at (fold (fact_crout_jj (ii * (ii + 1) div 2) kk aux) [kk + 1 ..< Suc n] ad) i j
            = (if i = ii \<and> kk < j \<and> j < Suc n
               then packed_at ad ii j - packed_at ad ii kk * aux ! j
               else packed_at ad i j)"
        unfolding step packed_at_update[OF ji n rng] v
        using IH(2)[OF ji] True by (auto simp: less_Suc_eq)
    qed
  qed
qed

lemma fact_crout_ii_row:
  assumes "kk < ii" "ii < d" "length ad = d * (d + 1) div 2"
  shows "length (fst (fact_crout_ii kk (kk * (kk + 1) div 2) ii (ad, aux))) = length ad \<and>
         snd (fact_crout_ii kk (kk * (kk + 1) div 2) ii (ad, aux)) = aux[ii := packed_at ad ii kk] \<and>
         (\<forall>i j. j \<le> i \<longrightarrow>
            packed_at (fst (fact_crout_ii kk (kk * (kk + 1) div 2) ii (ad, aux))) i j
            = (if i = ii \<and> j = kk then packed_at ad ii kk / packed_at ad kk kk
               else if i = ii \<and> kk < j
               then packed_at ad ii j
                    - (packed_at ad ii kk / packed_at ad kk kk) * (aux[ii := packed_at ad ii kk]) ! j
               else packed_at ad i j))"
proof -
  let ?aux = "aux[ii := packed_at ad ii kk]"
  let ?ad1 = "ad[ii * (ii + 1) div 2 + kk := packed_at ad ii kk / packed_at ad kk kk]"
  have kki: "kk \<le> ii" using assms(1) by simp
  have rng: "ii * (ii + 1) div 2 + kk < length ad"
    using tri_in_range[OF assms(2) kki] assms(3) by simp
  have len1: "length ?ad1 = d * (d + 1) div 2" using assms(3) by simp
  have ad1: "\<And>i j. j \<le> i \<Longrightarrow> packed_at ?ad1 i j
      = (if i = ii \<and> j = kk then packed_at ad ii kk / packed_at ad kk kk else packed_at ad i j)"
    by (rule packed_at_update[OF _ kki rng])
  have unf: "fact_crout_ii kk (kk * (kk + 1) div 2) ii (ad, aux)
      = (fold (fact_crout_jj (ii * (ii + 1) div 2) kk ?aux) [kk + 1 ..< ii + 1] ?ad1, ?aux)"
    by (simp add: fact_crout_ii_def Let_def packed_at_def)
  define r where "r = fold (fact_crout_jj (ii * (ii + 1) div 2) kk ?aux) [kk + 1 ..< ii + 1] ?ad1"
  have unf': "fact_crout_ii kk (kk * (kk + 1) div 2) ii (ad, aux) = (r, ?aux)"
    unfolding unf r_def ..
  have F: "length r = length ?ad1"
    "\<And>i j. j \<le> i \<Longrightarrow> packed_at r i j
        = (if i = ii \<and> kk < j \<and> j < ii + 1
           then packed_at ?ad1 ii j - packed_at ?ad1 ii kk * ?aux ! j
           else packed_at ?ad1 i j)"
    using fact_crout_jj_fold[OF assms(1,2) len1 order_refl, of ?aux] unfolding r_def by blast+
  show ?thesis
  proof (intro conjI allI impI)
    show "length (fst (fact_crout_ii kk (kk * (kk + 1) div 2) ii (ad, aux))) = length ad"
      unfolding unf' using F(1) by simp
    show "snd (fact_crout_ii kk (kk * (kk + 1) div 2) ii (ad, aux)) = ?aux"
      unfolding unf' by simp
  next
    fix i j :: nat assume ji: "j \<le> i"
    have a: "packed_at ?ad1 ii kk = packed_at ad ii kk / packed_at ad kk kk"
      using ad1[OF kki] by simp
    show "packed_at (fst (fact_crout_ii kk (kk * (kk + 1) div 2) ii (ad, aux))) i j
            = (if i = ii \<and> j = kk then packed_at ad ii kk / packed_at ad kk kk
               else if i = ii \<and> kk < j
               then packed_at ad ii j - (packed_at ad ii kk / packed_at ad kk kk) * ?aux ! j
               else packed_at ad i j)"
    proof (cases "i = ii \<and> kk < j")
      case True
      then have "packed_at r i j = packed_at ?ad1 ii j - packed_at ?ad1 ii kk * ?aux ! j"
        using F(2)[OF ji] ji by simp
      moreover have "packed_at ?ad1 ii j = packed_at ad ii j" using ad1[of j ii] True ji by simp
      ultimately show ?thesis unfolding unf' fst_conv a using True by simp
    next
      case False
      then have "packed_at r i j = packed_at ?ad1 i j" using F(2)[OF ji] by auto
      then show ?thesis unfolding unf' fst_conv using False ad1[OF ji] by auto
    qed
  qed
qed



lemma fact_crout_rows:
  assumes "kk < d" "length ad = d * (d + 1) div 2" "n \<le> d" "length aux = d"
  shows "length (fst (fold (fact_crout_ii kk (kk * (kk + 1) div 2)) [kk + 1 ..< n] (ad, aux)))
           = length ad \<and>
         length (snd (fold (fact_crout_ii kk (kk * (kk + 1) div 2)) [kk + 1 ..< n] (ad, aux)))
           = length aux \<and>
         (\<forall>r. kk < r \<and> r < n \<and> r < length aux \<longrightarrow>
            snd (fold (fact_crout_ii kk (kk * (kk + 1) div 2)) [kk + 1 ..< n] (ad, aux)) ! r
            = packed_at ad r kk) \<and>
         (\<forall>i j. j \<le> i \<longrightarrow>
            packed_at (fst (fold (fact_crout_ii kk (kk * (kk + 1) div 2)) [kk + 1 ..< n] (ad, aux))) i j
            = (if kk < i \<and> i < n then crout_stage kk (packed_at ad) i j else packed_at ad i j))"
  using assms(3)
proof (induction n)
  case 0 then show ?case by simp
next
  case (Suc n)
  show ?case
  proof (cases "kk + 1 \<le> n")
    case False
    then have "[kk + 1 ..< Suc n] = []" by simp
    moreover have "\<And>i. \<not> (kk < i \<and> i < Suc n)" using False by auto
    ultimately show ?thesis by auto
  next
    case True
    define s where "s = fold (fact_crout_ii kk (kk * (kk + 1) div 2)) [kk + 1 ..< n] (ad, aux)"
    obtain cur auxc where s: "s = (cur, auxc)" by (cases s)
    have IH: "length cur = length ad" "length auxc = length aux"
      "\<And>r. kk < r \<Longrightarrow> r < n \<Longrightarrow> r < length aux \<Longrightarrow> auxc ! r = packed_at ad r kk"
      "\<And>i j. j \<le> i \<Longrightarrow> packed_at cur i j
          = (if kk < i \<and> i < n then crout_stage kk (packed_at ad) i j else packed_at ad i j)"
      using Suc unfolding s_def[symmetric] s by simp_all
    have kn: "kk < n" "n < d" using True Suc.prems by simp_all
    have lencur: "length cur = d * (d + 1) div 2" using IH(1) assms(2) by simp
    have upt: "[kk + 1 ..< Suc n] = [kk + 1 ..< n] @ [n]" using True by simp
    have step: "fold (fact_crout_ii kk (kk * (kk + 1) div 2)) [kk + 1 ..< Suc n] (ad, aux)
        = fact_crout_ii kk (kk * (kk + 1) div 2) n (cur, auxc)"
      unfolding upt fold_append comp_def fold.simps id_def s_def[symmetric] s ..
    note R = fact_crout_ii_row[OF kn lencur, of auxc]
    have R1: "length (fst (fact_crout_ii kk (kk * (kk + 1) div 2) n (cur, auxc))) = length cur"
      and R2: "snd (fact_crout_ii kk (kk * (kk + 1) div 2) n (cur, auxc)) = auxc[n := packed_at cur n kk]"
      and R3: "\<And>i j. j \<le> i \<Longrightarrow>
            packed_at (fst (fact_crout_ii kk (kk * (kk + 1) div 2) n (cur, auxc))) i j
            = (if i = n \<and> j = kk then packed_at cur n kk / packed_at cur kk kk
               else if i = n \<and> kk < j
               then packed_at cur n j
                    - (packed_at cur n kk / packed_at cur kk kk) * (auxc[n := packed_at cur n kk]) ! j
               else packed_at cur i j)"
      using R by blast+
    have c_nk: "packed_at cur n kk = packed_at ad n kk" using IH(4)[of kk n] kn by simp
    have c_kk: "packed_at cur kk kk = packed_at ad kk kk" using IH(4)[of kk kk] by simp
    show ?thesis
    proof (intro conjI allI impI)
      show "length (fst (fold (fact_crout_ii kk (kk * (kk + 1) div 2)) [kk + 1 ..< Suc n] (ad, aux)))
           = length ad"
        unfolding step R1 IH(1) ..
      show "length (snd (fold (fact_crout_ii kk (kk * (kk + 1) div 2)) [kk + 1 ..< Suc n] (ad, aux)))
           = length aux"
        unfolding step R2 using IH(2) by simp
    next
      fix r assume r: "kk < r \<and> r < Suc n \<and> r < length aux"
      show "snd (fold (fact_crout_ii kk (kk * (kk + 1) div 2)) [kk + 1 ..< Suc n] (ad, aux)) ! r
            = packed_at ad r kk"
        unfolding step R2 using r IH(2) IH(3)[of r] c_nk
        by (cases "r = n") (auto simp: less_Suc_eq)
    next
      fix i j :: nat assume ji: "j \<le> i"
      show "packed_at (fst (fold (fact_crout_ii kk (kk * (kk + 1) div 2)) [kk + 1 ..< Suc n] (ad, aux))) i j
            = (if kk < i \<and> i < Suc n then crout_stage kk (packed_at ad) i j else packed_at ad i j)"
      proof (cases "i = n")
        case False
        then show ?thesis unfolding step R3[OF ji] using IH(4)[OF ji] by (auto simp: less_Suc_eq)
      next
        case True
        show ?thesis
        proof (cases "j = kk")
          case jk: True
          show ?thesis unfolding step R3[OF ji] using True jk kn c_nk c_kk
            by (simp add: crout_stage_def)
        next
          case jk: False
          show ?thesis
          proof (cases "kk < j")
            case lt: True
            have jn: "j \<le> n" using ji True by simp
            have cnj: "packed_at cur n j = packed_at ad n j" using IH(4)[of j n] jn by simp
            have n_aux: "n < length auxc" using IH(2) assms(4) kn by simp
            have aj: "(auxc[n := packed_at cur n kk]) ! j = packed_at ad j kk"
            proof (cases "j = n")
              case True then show ?thesis using n_aux c_nk by simp
            next
              case False
              then have "j < n" using jn by simp
              then show ?thesis using False IH(3)[of j] lt assms(4) kn by simp
            qed
            show ?thesis unfolding step R3[OF ji] aj using True lt jk kn cnj c_nk c_kk ji
              by (simp add: crout_stage_def)
          next
            case lt: False
            then have "j < kk" using jk by simp
            then show ?thesis unfolding step R3[OF ji] using True kn IH(4)[OF ji] jk
              by (simp add: crout_stage_def)
          qed
        qed
      qed
    qed
  qed
qed



lemma tri_eq_sym: "tri_eq d M N \<Longrightarrow> tri_eq d N M"
  by (simp add: tri_eq_def)

lemma fact_crout_kk_stage:
  assumes "kk < d" "length ad = d * (d + 1) div 2" "length aux = d"
  shows "length (fst (fact_crout_kk d kk (ad, aux))) = length ad \<and>
         length (snd (fact_crout_kk d kk (ad, aux))) = d \<and>
         tri_eq d (crout_stage kk (packed_at ad)) (packed_at (fst (fact_crout_kk d kk (ad, aux))))"
proof -
  note R = fact_crout_rows[OF assms(1,2) order_refl assms(3)]
  have unf: "fact_crout_kk d kk (ad, aux)
      = fold (fact_crout_ii kk (kk * (kk + 1) div 2)) [kk + 1 ..< d] (ad, aux)"
    by (simp add: fact_crout_kk_def Let_def)
  have "\<And>i j. i < d \<Longrightarrow> j \<le> i \<Longrightarrow>
      packed_at (fst (fact_crout_kk d kk (ad, aux))) i j = crout_stage kk (packed_at ad) i j"
  proof -
    fix i j :: nat assume i: "i < d" and j: "j \<le> i"
    have "packed_at (fst (fact_crout_kk d kk (ad, aux))) i j
        = (if kk < i \<and> i < d then crout_stage kk (packed_at ad) i j else packed_at ad i j)"
      unfolding unf using R j by blast
    moreover have "\<not> kk < i \<Longrightarrow> crout_stage kk (packed_at ad) i j = packed_at ad i j"
      using j by (simp add: crout_stage_def)
    ultimately show "packed_at (fst (fact_crout_kk d kk (ad, aux))) i j
        = crout_stage kk (packed_at ad) i j"
      using i by auto
  qed
  then have "tri_eq d (crout_stage kk (packed_at ad)) (packed_at (fst (fact_crout_kk d kk (ad, aux))))"
    by (simp add: tri_eq_def)
  moreover have "length (fst (fact_crout_kk d kk (ad, aux))) = length ad"
    "length (snd (fact_crout_kk d kk (ad, aux))) = d"
    unfolding unf using R assms(3) by simp_all
  ultimately show ?thesis by blast
qed

lemma fact_crout_stages_inv:
  assumes "sym_pos_def d ad" "length ad = d * (d + 1) div 2" "length aux = d" "n \<le> d - 1"
  shows "length (fst (fold (fact_crout_kk d) [0 ..< n] (ad, aux))) = length ad \<and>
         length (snd (fold (fact_crout_kk d) [0 ..< n] (ad, aux))) = d \<and>
         crout_inv d (packed_at ad) n (packed_at (fst (fold (fact_crout_kk d) [0 ..< n] (ad, aux))))"
  using assms(4)
proof (induction n)
  case 0
  show ?case using assms(1,3) by (simp add: crout_inv_init sym_pos_def_def)
next
  case (Suc n)
  define s where "s = fold (fact_crout_kk d) [0 ..< n] (ad, aux)"
  obtain cur auxc where s: "s = (cur, auxc)" by (cases s)
  have IH: "length cur = length ad" "length auxc = d" "crout_inv d (packed_at ad) n (packed_at cur)"
    using Suc unfolding s_def[symmetric] s by simp_all
  have n: "n < d" using Suc.prems by simp
  have step: "fold (fact_crout_kk d) [0 ..< Suc n] (ad, aux) = fact_crout_kk d n (cur, auxc)"
    unfolding upt_Suc_append[OF le0] fold_append comp_def fold.simps id_def s_def[symmetric] s ..
  have lencur: "length cur = d * (d + 1) div 2" using IH(1) assms(2) by simp
  note K = fact_crout_kk_stage[OF n lencur IH(2)]
  have a: "crout_inv d (packed_at ad) (Suc n) (crout_stage n (packed_at cur))"
    by (rule crout_inv_stage[OF IH(3) n])
  have b: "tri_eq d (crout_stage n (packed_at cur)) (packed_at (fst (fact_crout_kk d n (cur, auxc))))"
    using K by blast
  have c: "Suc n \<le> d" using n by simp
  have "crout_inv d (packed_at ad) (Suc n) (packed_at (fst (fact_crout_kk d n (cur, auxc))))"
    by (rule crout_inv_cong[OF b a c])
  moreover have "length (fst (fact_crout_kk d n (cur, auxc))) = length ad"
    "length (snd (fact_crout_kk d n (cur, auxc))) = d"
    using K IH(1) by simp_all
  ultimately show ?case unfolding step by blast
qed

lemma fact_crout_pp_factorises:
  assumes "sym_pos_def d ad" "length ad = d * (d + 1) div 2" "length aux = d"
  shows "length (fact_crout_pp d aux ad) = length ad \<and>
         (\<forall>j < d. 0 < packed_at (fact_crout_pp d aux ad) j j) \<and>
         (\<forall>i < d. \<forall>j \<le> i. packed_at ad i j
            = (\<Sum>m < j. packed_at (fact_crout_pp d aux ad) i m * packed_at (fact_crout_pp d aux ad) m m
                        * packed_at (fact_crout_pp d aux ad) j m)
              + (if i = j then packed_at (fact_crout_pp d aux ad) j j
                 else packed_at (fact_crout_pp d aux ad) i j * packed_at (fact_crout_pp d aux ad) j j))"
proof -
  note S = fact_crout_stages_inv[OF assms order_refl]
  have inv: "crout_inv d (packed_at ad) (d - 1) (packed_at (fact_crout_pp d aux ad))"
    unfolding fact_crout_pp_def using S by blast
  have len: "length (fact_crout_pp d aux ad) = length ad"
    unfolding fact_crout_pp_def using S by blast
  show ?thesis by (rule conjI[OF len crout_inv_final[OF inv]])
qed



lemma sum_upto_split:
  fixes g :: "nat \<Rightarrow> real"
  assumes "j < d" "\<And>m. j < m \<Longrightarrow> m < d \<Longrightarrow> g m = 0"
  shows "(\<Sum>m < d. g m) = (\<Sum>m < j. g m) + g j"
proof -
  have "(\<Sum>m < d. g m) = (\<Sum>m < Suc j. g m)"
    by (rule sum.mono_neutral_right) (use assms in \<open>auto simp: not_less_eq\<close>)
  then show ?thesis by simp
qed

lemma sum_from_split:
  fixes g :: "nat \<Rightarrow> real"
  assumes "m < d" "\<And>j. j < m \<Longrightarrow> g j = 0"
  shows "(\<Sum>j < d. g j) = g m + (\<Sum>j = Suc m ..< d. g j)"
proof -
  have "(\<Sum>j < d. g j) = (\<Sum>j = m ..< d. g j)"
    by (rule sum.mono_neutral_right) (use assms in \<open>auto simp: not_le\<close>)
  then show ?thesis using assms(1) by (simp add: sum.atLeast_Suc_lessThan)
qed

lemma ldl_full_lower:
  assumes A: "\<forall>i < d. \<forall>j \<le> i. A i j = (\<Sum>m < j. M i m * M m m * M j m)
                                   + (if i = j then M j j else M i j * M j j)"
    and "i < d" "j \<le> i"
  shows "A i j = (\<Sum>m < d. unit_lower M i m * M m m * unit_lower M j m)"
proof -
  have j: "j < d" using assms by simp
  have "(\<Sum>m < d. unit_lower M i m * M m m * unit_lower M j m)
      = (\<Sum>m < j. unit_lower M i m * M m m * unit_lower M j m)
        + unit_lower M i j * M j j * unit_lower M j j"
    by (rule sum_upto_split[OF j]) (simp add: unit_lower_def)
  also have "(\<Sum>m < j. unit_lower M i m * M m m * unit_lower M j m)
      = (\<Sum>m < j. M i m * M m m * M j m)"
    by (rule sum.cong) (use assms(3) in \<open>auto simp: unit_lower_def\<close>)
  also have "unit_lower M i j * M j j * unit_lower M j j
      = (if i = j then M j j else M i j * M j j)"
    using assms(3) by (auto simp: unit_lower_def)
  finally show ?thesis using A assms(2,3) by simp
qed

lemma ldl_full:
  assumes A: "\<forall>i < d. \<forall>j \<le> i. A i j = (\<Sum>m < j. M i m * M m m * M j m)
                                   + (if i = j then M j j else M i j * M j j)"
    and "i < d" "j < d"
  shows "sym_of A i j = (\<Sum>m < d. unit_lower M i m * M m m * unit_lower M j m)"
proof (cases "j \<le> i")
  case True
  then show ?thesis using ldl_full_lower[OF A assms(2) True] by (simp add: sym_of_def)
next
  case False
  then have ij: "i \<le> j" by simp
  have "A j i = (\<Sum>m < d. unit_lower M j m * M m m * unit_lower M i m)"
    by (rule ldl_full_lower[OF A assms(3) ij])
  also have "\<dots> = (\<Sum>m < d. unit_lower M i m * M m m * unit_lower M j m)"
    by (rule sum.cong) (simp_all add: mult_ac)
  finally show ?thesis using False by (simp add: sym_of_def)
qed

lemma ldl_solve_abstract:
  fixes f y x b :: "nat \<Rightarrow> real"
  assumes A: "\<forall>i < d. \<forall>j \<le> i. A i j = (\<Sum>m < j. M i m * M m m * M j m)
                                   + (if i = j then M j j else M i j * M j j)"
    and D: "\<forall>j < d. M j j \<noteq> 0"
    and F: "\<forall>i < d. f i = b i - (\<Sum>j < i. f j * M i j)"
    and Y: "\<forall>i < d. y i = f i / M i i"
    and B: "\<forall>i < d. x i = y i - (\<Sum>j = Suc i ..< d. x j * M j i)"
    and i: "i < d"
  shows "(\<Sum>j < d. sym_of A i j * x j) = b i"
proof -
  have B': "(\<Sum>j < d. unit_lower M j m * x j) = y m" if m: "m < d" for m
  proof -
    have "(\<Sum>j < d. unit_lower M j m * x j)
        = unit_lower M m m * x m + (\<Sum>j = Suc m ..< d. unit_lower M j m * x j)"
      by (rule sum_from_split[OF m]) (simp add: unit_lower_def)
    also have "(\<Sum>j = Suc m ..< d. unit_lower M j m * x j) = (\<Sum>j = Suc m ..< d. x j * M j m)"
      by (rule sum.cong) (auto simp: unit_lower_def)
    finally show ?thesis using B m by (simp add: unit_lower_def)
  qed
  have F': "(\<Sum>m < d. unit_lower M i m * f m) = b i"
  proof -
    have "(\<Sum>m < d. unit_lower M i m * f m)
        = (\<Sum>m < i. unit_lower M i m * f m) + unit_lower M i i * f i"
      by (rule sum_upto_split[OF i]) (simp add: unit_lower_def)
    also have "(\<Sum>m < i. unit_lower M i m * f m) = (\<Sum>m < i. f m * M i m)"
      by (rule sum.cong) (auto simp: unit_lower_def)
    finally show ?thesis using F i by (simp add: unit_lower_def)
  qed
  have "(\<Sum>j < d. sym_of A i j * x j)
      = (\<Sum>j < d. (\<Sum>m < d. unit_lower M i m * M m m * unit_lower M j m) * x j)"
    by (rule sum.cong) (use ldl_full[OF A i] in auto)
  also have "\<dots> = (\<Sum>j < d. \<Sum>m < d. unit_lower M i m * M m m * (unit_lower M j m * x j))"
    by (simp add: sum_distrib_right mult.assoc)
  also have "\<dots> = (\<Sum>m < d. \<Sum>j < d. unit_lower M i m * M m m * (unit_lower M j m * x j))"
    by (rule sum.swap)
  also have "\<dots> = (\<Sum>m < d. unit_lower M i m * M m m * (\<Sum>j < d. unit_lower M j m * x j))"
    by (simp add: sum_distrib_left)
  also have "\<dots> = (\<Sum>m < d. unit_lower M i m * f m)"
    by (rule sum.cong) (use B' Y D in auto)
  finally show ?thesis using F' by simp
qed



lemma fold_sub_at:
  fixes c :: "nat \<Rightarrow> real"
  assumes "ii \<notin> set js" "ii < length a"
  shows "fold (\<lambda>jj a. a[ii := a ! ii - a ! jj * c jj]) js a
         = a[ii := a ! ii - sum_list (map (\<lambda>j. a ! j * c j) js)]"
  using assms
proof (induction js arbitrary: a)
  case Nil then show ?case by simp
next
  case (Cons j js)
  let ?a1 = "a[ii := a ! ii - a ! j * c j]"
  have neq: "j \<noteq> ii" using Cons.prems by auto
  have other: "\<And>j'. j' \<in> set js \<Longrightarrow> ?a1 ! j' = a ! j'"
    using Cons.prems by (intro nth_list_update_neq) auto
  have same: "map (\<lambda>j'. ?a1 ! j' * c j') js = map (\<lambda>j'. a ! j' * c j') js"
    by (rule map_cong) (simp_all add: other)
  have "fold (\<lambda>jj a. a[ii := a ! ii - a ! jj * c jj]) js ?a1
      = ?a1[ii := ?a1 ! ii - sum_list (map (\<lambda>j'. ?a1 ! j' * c j') js)]"
    using Cons.prems by (intro Cons.IH) auto
  then show ?case using Cons.prems unfolding same by (simp add: algebra_simps)
qed

lemma fw_ldtl_ii_eq:
  assumes "ii < length a"
  shows "fw_ldtl_ii mat b ii a
         = a[ii := b ! ii - (\<Sum>j < ii. a ! j * packed_at mat ii j)]"
proof -
  let ?a1 = "a[ii := b ! ii]"
  have "fw_ldtl_ii mat b ii a
      = fold (\<lambda>jj a. a[ii := a ! ii - a ! jj * packed_at mat ii jj]) [0 ..< ii] ?a1"
    by (simp add: fw_ldtl_ii_def Let_def packed_at_def)
  also have "\<dots> = ?a1[ii := ?a1 ! ii - sum_list (map (\<lambda>j. ?a1 ! j * packed_at mat ii j) [0 ..< ii])]"
    by (rule fold_sub_at) (use assms in auto)
  also have "map (\<lambda>j. ?a1 ! j * packed_at mat ii j) [0 ..< ii]
      = map (\<lambda>j. a ! j * packed_at mat ii j) [0 ..< ii]"
    by (rule map_cong) auto
  also have "sum_list (map (\<lambda>j. a ! j * packed_at mat ii j) [0 ..< ii])
      = (\<Sum>j < ii. a ! j * packed_at mat ii j)"
    by (simp add: interv_sum_list_conv_sum_set_nat atLeast0LessThan)
  finally show ?thesis using assms by simp
qed

lemma fw_loop:
  assumes "n \<le> length a"
  shows "length (fold (fw_ldtl_ii mat b) [0 ..< n] a) = length a \<and>
         (\<forall>i < n. fold (fw_ldtl_ii mat b) [0 ..< n] a ! i
            = b ! i - (\<Sum>j < i. fold (fw_ldtl_ii mat b) [0 ..< n] a ! j * packed_at mat i j))"
  using assms
proof (induction n)
  case 0 then show ?case by simp
next
  case (Suc n)
  define r where "r = fold (fw_ldtl_ii mat b) [0 ..< n] a"
  have IH: "length r = length a"
    "\<And>i. i < n \<Longrightarrow> r ! i = b ! i - (\<Sum>j < i. r ! j * packed_at mat i j)"
    using Suc unfolding r_def by simp_all
  have n: "n < length r" using Suc.prems IH(1) by simp
  have step: "fold (fw_ldtl_ii mat b) [0 ..< Suc n] a
      = r[n := b ! n - (\<Sum>j < n. r ! j * packed_at mat n j)]"
    unfolding upt_Suc_append[OF le0] fold_append comp_def fold.simps id_def r_def[symmetric]
      fw_ldtl_ii_eq[OF n] ..
  show ?case unfolding step
  proof (intro conjI allI impI)
    show "length (r[n := b ! n - (\<Sum>j < n. r ! j * packed_at mat n j)]) = length a"
      using IH(1) by simp
  next
    fix i assume i: "i < Suc n"
    let ?r' = "r[n := b ! n - (\<Sum>j < n. r ! j * packed_at mat n j)]"
    have same: "(\<Sum>j < i. ?r' ! j * packed_at mat i j) = (\<Sum>j < i. r ! j * packed_at mat i j)"
      by (rule sum.cong) (use i in auto)
    show "?r' ! i = b ! i - (\<Sum>j < i. ?r' ! j * packed_at mat i j)"
      unfolding same using i n IH(2)[of i] by (cases "i = n") (auto simp: less_Suc_eq)
  qed
qed

lemma diag_loop:
  assumes "n \<le> length a"
  shows "length (fold (diag_ldtl_ii mat) [0 ..< n] a) = length a \<and>
         (\<forall>i < length a. fold (diag_ldtl_ii mat) [0 ..< n] a ! i
            = (if i < n then a ! i / packed_at mat i i else a ! i))"
  using assms
proof (induction n)
  case 0 then show ?case by simp
next
  case (Suc n)
  define r where "r = fold (diag_ldtl_ii mat) [0 ..< n] a"
  have IH: "length r = length a"
    "\<And>i. i < length a \<Longrightarrow> r ! i = (if i < n then a ! i / packed_at mat i i else a ! i)"
    using Suc unfolding r_def by simp_all
  have step: "fold (diag_ldtl_ii mat) [0 ..< Suc n] a = r[n := r ! n / packed_at mat n n]"
    unfolding upt_Suc_append[OF le0] fold_append comp_def fold.simps id_def r_def[symmetric]
    by (simp add: diag_ldtl_ii_def Let_def packed_at_def)
  show ?case unfolding step using IH Suc.prems
    by (auto simp: nth_list_update less_Suc_eq)
qed

lemma bw_ldtl_ii_eq:
  assumes "ii < length x"
  shows "bw_ldtl_ii mat d y ii x
         = x[ii := y ! ii - (\<Sum>j = Suc ii ..< d. x ! j * packed_at mat j ii)]"
proof -
  let ?x1 = "x[ii := y ! ii]"
  have "bw_ldtl_ii mat d y ii x
      = fold (\<lambda>jj x. x[ii := x ! ii - x ! jj * packed_at mat jj ii]) (rev [ii + 1 ..< d]) ?x1"
    by (simp add: bw_ldtl_ii_def Let_def packed_at_def)
  also have "\<dots> = ?x1[ii := ?x1 ! ii
                       - sum_list (map (\<lambda>j. ?x1 ! j * packed_at mat j ii) (rev [ii + 1 ..< d]))]"
    by (rule fold_sub_at) (use assms in auto)
  also have "map (\<lambda>j. ?x1 ! j * packed_at mat j ii) (rev [ii + 1 ..< d])
      = map (\<lambda>j. x ! j * packed_at mat j ii) (rev [ii + 1 ..< d])"
    by (rule map_cong) auto
  also have "sum_list (map (\<lambda>j. x ! j * packed_at mat j ii) (rev [ii + 1 ..< d]))
      = (\<Sum>j = Suc ii ..< d. x ! j * packed_at mat j ii)"
    by (simp add: rev_map[symmetric] interv_sum_list_conv_sum_set_nat)
  finally show ?thesis using assms by simp
qed

lemma bw_loop:
  assumes "length x = d" "n \<le> d"
  shows "length (fold (bw_ldtl_ii mat d y) (rev [d - n ..< d]) x) = d \<and>
         (\<forall>i. d - n \<le> i \<and> i < d \<longrightarrow>
            fold (bw_ldtl_ii mat d y) (rev [d - n ..< d]) x ! i
            = y ! i - (\<Sum>j = Suc i ..< d.
                        fold (bw_ldtl_ii mat d y) (rev [d - n ..< d]) x ! j * packed_at mat j i))"
  using assms(2)
proof (induction n)
  case 0 then show ?case using assms(1) by simp
next
  case (Suc n)
  define r where "r = fold (bw_ldtl_ii mat d y) (rev [d - n ..< d]) x"
  have IH: "length r = d"
    "\<And>i. d - n \<le> i \<Longrightarrow> i < d \<Longrightarrow> r ! i = y ! i - (\<Sum>j = Suc i ..< d. r ! j * packed_at mat j i)"
    using Suc unfolding r_def by simp_all
  define k where "k = d - Suc n"
  have k: "k < d" "Suc k = d - n" using Suc.prems unfolding k_def by simp_all
  have upt: "[k ..< d] = k # [d - n ..< d]" using k by (simp add: upt_conv_Cons)
  have step: "fold (bw_ldtl_ii mat d y) (rev [k ..< d]) x
      = r[k := y ! k - (\<Sum>j = Suc k ..< d. r ! j * packed_at mat j k)]"
    unfolding upt rev.simps fold_append comp_def fold.simps id_def r_def[symmetric]
    using bw_ldtl_ii_eq[of k r mat d y] k IH(1) by simp
  show ?case unfolding k_def[symmetric] unfolding step
  proof (intro conjI allI impI)
    show "length (r[k := y ! k - (\<Sum>j = Suc k ..< d. r ! j * packed_at mat j k)]) = d"
      using IH(1) by simp
  next
    fix i assume i: "k \<le> i \<and> i < d"
    let ?r' = "r[k := y ! k - (\<Sum>j = Suc k ..< d. r ! j * packed_at mat j k)]"
    have same: "(\<Sum>j = Suc i ..< d. ?r' ! j * packed_at mat j i)
              = (\<Sum>j = Suc i ..< d. r ! j * packed_at mat j i)"
      by (rule sum.cong) (use i in auto)
    show "?r' ! i = y ! i - (\<Sum>j = Suc i ..< d. ?r' ! j * packed_at mat j i)"
    proof (cases "i = k")
      case True then show ?thesis unfolding same using k IH(1) by simp
    next
      case False
      then have "d - n \<le> i" using i k by simp
      then show ?thesis unfolding same using False IH(2)[of i] i by simp
    qed
  qed
qed



text \<open>
  Claim C8. For every symmetric positive-definite matrix of size \<open>d\<close> given as its
  packed lower triangle \<open>ad\<close> and every right-hand side \<open>b\<close> of length \<open>d\<close>,
  \<^verbatim>\<open>_fact_crout_pp\<close> followed by \<^verbatim>\<open>_fw_and_bw_ldtl_pp\<close> returns a vector \<open>x\<close> with
  \<open>A x = b\<close> in exact arithmetic, whatever the initial content of the local arrays and of
  the output array.
\<close>

theorem crout_ldlt_solves:
  assumes "sym_pos_def d ad" and "length ad = d * (d + 1) div 2" and "length b = d"
    and "length aux = d" and "length aux' = d" and "length x = d"
  shows "packed_mult d ad (fw_and_bw_ldtl_pp (fact_crout_pp d aux ad) d aux' x b) = b"
proof -
  define mat where "mat = fact_crout_pp d aux ad"
  define f where "f = fold (fw_ldtl_ii mat b) [0 ..< d] aux'"
  define y where "y = fold (diag_ldtl_ii mat) [0 ..< d] f"
  define r where "r = fold (bw_ldtl_ii mat d y) (rev [0 ..< d]) x"
  have res: "fw_and_bw_ldtl_pp (fact_crout_pp d aux ad) d aux' x b = r"
    by (simp add: fw_and_bw_ldtl_pp_def Let_def mat_def f_def y_def r_def)
  note fac = fact_crout_pp_factorises[OF assms(1,2,4), folded mat_def]
  have D: "\<forall>j < d. packed_at mat j j \<noteq> 0" using fac by fastforce
  have A: "\<forall>i < d. \<forall>j \<le> i. packed_at ad i j
            = (\<Sum>m < j. packed_at mat i m * packed_at mat m m * packed_at mat j m)
              + (if i = j then packed_at mat j j else packed_at mat i j * packed_at mat j j)"
    using fac by blast
  have lf: "length f = d" and F: "\<forall>i < d. f ! i = b ! i - (\<Sum>j < i. f ! j * packed_at mat i j)"
    using fw_loop[of d aux' mat b] assms(5) unfolding f_def by simp_all
  have Y: "\<forall>i < d. y ! i = f ! i / packed_at mat i i"
    using diag_loop[of d f mat] lf unfolding y_def by simp
  have lr: "length r = d"
    and B: "\<forall>i < d. r ! i = y ! i - (\<Sum>j = Suc i ..< d. r ! j * packed_at mat j i)"
    using bw_loop[OF assms(6) order_refl, of mat y] unfolding r_def by simp_all
  have row: "(\<Sum>j < d. sym_of (packed_at ad) i j * r ! j) = b ! i" if "i < d" for i
    by (rule ldl_solve_abstract[where M="packed_at mat" and f="\<lambda>i. f ! i" and y="\<lambda>i. y ! i",
          OF A D F Y B that])
  show ?thesis unfolding res
  proof (rule nth_equalityI)
    show "length (packed_mult d ad r) = length b" using assms(3) by (simp add: packed_mult_def)
  next
    fix i assume "i < length (packed_mult d ad r)"
    then have i: "i < d" by (simp add: packed_mult_def)
    have "packed_mult d ad r ! i = (\<Sum>j < d. sym_of (packed_at ad) i j * r ! j)"
      using i by (simp add: packed_mult_def interv_sum_list_conv_sum_set_nat atLeast0LessThan)
    then show "packed_mult d ad r ! i = b ! i" using row[OF i] by simp
  qed
qed

lemma sym_pos_def_example: "sym_pos_def 2 [2, 1, 2]"
  unfolding sym_pos_def_def pos_def_from_def
proof (intro allI impI)
  fix x :: "nat \<Rightarrow> real"
  assume "\<exists>i. 0 \<le> i \<and> i < 2 \<and> x i \<noteq> 0"
  then have nz: "x 0 \<noteq> 0 \<or> x 1 \<noteq> 0" by (auto simp: less_2_cases_iff)
  have q: "quad_from 0 2 (packed_at [2, 1, 2]) x = (x 0)\<^sup>2 + (x 1)\<^sup>2 + (x 0 + x 1)\<^sup>2"
    by (simp add: quad_from_def sym_of_def packed_at_def numeral_2_eq_2 power2_eq_square algebra_simps)
  have "0 < (x 0)\<^sup>2 + (x 1)\<^sup>2" using nz by (simp add: sum_power2_gt_zero_iff)
  moreover have "0 \<le> (x 0 + x 1)\<^sup>2" by simp
  ultimately show "0 < quad_from 0 2 (packed_at [2, 1, 2]) x" unfolding q by linarith
qed

text \<open>Claim C8 on the matrix \<open>((2, 1), (1, 2))\<close> and the right-hand side \<open>(3, 3)\<close>.\<close>

theorem crout_ldlt_solves_witness:
  "sym_pos_def 2 [2, 1, 2] \<and>
   packed_mult 2 [2, 1, 2]
     (fw_and_bw_ldtl_pp (fact_crout_pp 2 [0, 0] [2, 1, 2]) 2 [0, 0] [0, 0] [3, 3]) = [3, 3] \<and>
   fw_and_bw_ldtl_pp (fact_crout_pp 2 [0, 0] [2, 1, 2]) 2 [0, 0] [0, 0] [3, 3] = [1, 1]"
proof (intro conjI)
  show "sym_pos_def 2 [2, 1, 2]" by (rule sym_pos_def_example)
  show "packed_mult 2 [2, 1, 2]
     (fw_and_bw_ldtl_pp (fact_crout_pp 2 [0, 0] [2, 1, 2]) 2 [0, 0] [0, 0] [3, 3]) = [3, 3]"
    by (rule crout_ldlt_solves[OF sym_pos_def_example]) simp_all
  show "fw_and_bw_ldtl_pp (fact_crout_pp 2 [0, 0] [2, 1, 2]) 2 [0, 0] [0, 0] [3, 3] = [1, 1]"
    by code_simp
qed

subsection \<open>Gradient of a uniformly zero field\<close>


lemma add_to_zero: "add_to c j 0 a = a"
  by (simp add: add_to_def)

lemma sub_from_zero: "sub_from c j 0 a = a"
  by (simp add: sub_from_def)

lemma add_vec3_zero_k: "add_vec3 c 0 v a = a"
  by (simp add: add_vec3_def add_to_zero)

lemma add_vec3_zero_v: "add_vec3 c k [0, 0, 0] a = a"
  by (simp add: add_vec3_def add_to_zero)

lemma fold_id: "(\<And>x. x \<in> set xs \<Longrightarrow> f x s = s) \<Longrightarrow> fold f xs s = s"
  by (induction xs) auto

lemma for_i_faces_id:
  assumes "\<And>f. f \<in> set (i_face_ids nu) \<Longrightarrow> body f s = s"
  shows "for_i_faces nu body s = s"
  unfolding for_i_faces_fold by (rule fold_id) (rule assms)

lemma for_b_faces_id:
  assumes "\<And>f. f \<in> set (b_face_ids nu) \<Longrightarrow> body f s = s"
  shows "for_b_faces nu body s = s"
  unfolding for_b_faces_fold by (rule fold_id) (rule assms)

lemma for_ext_neighbors_id:
  assumes "\<And>ii cidx. ii < n \<Longrightarrow> cidx \<in> set [idx ! ii ..< idx ! (ii + 1)] \<Longrightarrow> body ii cidx s = s"
  shows "for_ext_neighbors n idx body s = s"
  unfolding for_ext_neighbors_def
  by (rule fold_id, rule fold_id) (use assms in auto)

lemma zero3_nth: "c < n \<Longrightarrow> zero3 n ! c = [0, 0, 0]"
  by (simp add: zero3_def)

lemma zero3_length: "length (zero3 n) = n"
  by (simp add: zero3_def)

lemma mul_by_zero3: "mul_by c j v (zero3 n) = zero3 n"
proof (cases "c < n")
  case True
  have "(zero3 n ! c)[j := zero3 n ! c ! j * v] = zero3 n ! c"
    using True by (cases "j < 3") (auto simp: zero3_nth nth_Cons' list_update_code split: nat.splits)
  then show ?thesis by (simp add: mul_by_def)
next
  case False then show ?thesis by (simp add: mul_by_def zero3_def list_update_beyond)
qed

lemma scale_by_dvol_zero3: "scale_by_dvol fvq vol c (zero3 n) = zero3 n"
  by (simp add: scale_by_dvol_def Let_def mul_by_zero3)

lemma sync_owned_zero:
  assumes "halo_zero_fill m" "length g = n_cells_with_ghosts m" "\<forall>c < n_cells m. g ! c = [0, 0, 0]"
    "n_cells m \<le> n_cells_with_ghosts m"
  shows "sync_scalar_gradient_halo m ht g = zero3 (n_cells_with_ghosts m)"
proof (cases "halo m")
  case None
  then have n: "n_cells_with_ghosts m = n_cells m" using assms(1) by (simp add: halo_zero_fill_def)
  have "g = zero3 (n_cells_with_ghosts m)"
    by (rule nth_equalityI) (use assms n in \<open>auto simp: zero3_def\<close>)
  then show ?thesis using None by (simp add: sync_scalar_gradient_halo_def)
next
  case (Some h)
  have 1: "cs_halo_sync_var_strided h ht g = zero3 (n_cells_with_ghosts m)"
    using assms Some by (simp add: halo_zero_fill_def)
  have 2: "cs_halo_perio_sync_var_vect h ht (zero3 (n_cells_with_ghosts m)) = zero3 (n_cells_with_ghosts m)"
    using assms Some by (simp add: halo_zero_fill_def)
  show ?thesis using Some 1 2 by (simp add: sync_scalar_gradient_halo_def Let_def)
qed

lemma sync_zero3:
  assumes "halo_zero_fill m" "n_cells m \<le> n_cells_with_ghosts m"
  shows "sync_scalar_gradient_halo m ht (zero3 (n_cells_with_ghosts m)) = zero3 (n_cells_with_ghosts m)"
  by (rule sync_owned_zero[OF assms(1) _ _ assms(2)]) (use assms(2) in \<open>auto simp: zero3_def\<close>)



lemma zs_i_cells:
  assumes "zero_field_setting m env var a b" "f \<in> set (i_face_ids (i_face_numbering m))"
  shows "var ! (i_face_cells m ! f ! 0) = 0" "var ! (i_face_cells m ! f ! 1) = 0"
  using assms by (auto simp: zero_field_setting_def i_faces_in_range_def)

lemma zs_b_cells:
  assumes "zero_field_setting m env var a b" "f \<in> set (b_face_ids (b_face_numbering m))"
  shows "var ! (b_face_cells m ! f) = 0" "default_bc_coeff_a m a ! f = 0"
    "default_bc_coeff_b m b ! f = 1"
  using assms by (auto simp: zero_field_setting_def b_faces_in_range_def neumann_bc_def)

lemma zs_ext_cells:
  assumes "zero_field_setting m env var a b" "cell_cells_idx m = Some idx" "ii < n_cells m"
    "cidx \<in> set [idx ! ii ..< idx ! (ii + 1)]"
  shows "var ! ii = 0" "var ! (cell_cells_lst m ! cidx) = 0"
proof -
  have "ii < n_cells_with_ghosts m" using assms(1,3) by (simp add: zero_field_setting_def)
  then show "var ! ii = 0" using assms(1) by (simp add: zero_field_setting_def)
  have "cell_cells_lst m ! cidx < n_cells_with_ghosts m"
    using assms unfolding zero_field_setting_def ext_neighbors_in_range_def by blast
  then show "var ! (cell_cells_lst m ! cidx) = 0" using assms(1) by (simp add: zero_field_setting_def)
qed

lemma init_s_std_i_face_zero:
  assumes "pvar ! (i_face_cells m ! f ! 0) = 0" "pvar ! (i_face_cells m ! f ! 1) = 0"
  shows "init_s_std_i_face m fvq cws cwt pvar f grad = grad"
  using assms by (simp add: init_s_std_i_face_def Let_def add_to_zero sub_from_zero)

lemma init_s_std_b_face_zero:
  assumes "pvar ! (b_face_cells m ! f) = 0" "coefap ! f = 0" "coefbp ! f = 1"
  shows "init_s_std_b_face m fvq None inc coefap coefbp pvar f grad = grad"
  using assms by (simp add: init_s_std_b_face_def Let_def add_to_zero)

lemma initialize_zero:
  assumes Z: "zero_field_setting m env var a b" and h: "hyd_p_flag \<noteq> 1"
  shows "initialize_scalar_gradient m fvq env None w_stride hyd_p_flag inc f_ext
           (default_bc_coeff_a m a) (default_bc_coeff_b m b) var c_weight
         = zero3 (n_cells_with_ghosts m)"
proof -
  let ?Z = "zero3 (n_cells_with_ghosts m)"
  have i: "for_i_faces (i_face_numbering m)
             (init_s_std_i_face m fvq (c_weight_s_of w_stride c_weight) (c_weight_t_of w_stride c_weight) var) ?Z = ?Z"
    by (rule for_i_faces_id) (intro init_s_std_i_face_zero zs_i_cells[OF Z])
  have b: "for_b_faces (b_face_numbering m)
             (init_s_std_b_face m fvq None inc (default_bc_coeff_a m a) (default_bc_coeff_b m b) var) ?Z = ?Z"
    by (rule for_b_faces_id) (intro init_s_std_b_face_zero zs_b_cells[OF Z])
  have s: "fold (scale_by_dvol fvq (sel_cell_f_vol env fvq)) [0 ..< n_cells m] ?Z = ?Z"
    by (rule fold_id) (simp add: scale_by_dvol_zero3)
  have y: "sync_scalar_gradient_halo m CS_HALO_EXTENDED ?Z = ?Z"
    using Z by (intro sync_zero3) (simp_all add: zero_field_setting_def)
  show ?thesis
    using h unfolding initialize_scalar_gradient_def Let_def
    by (simp add: zero3_def[symmetric] i b s y)
qed

lemma concat_zero3: "concat (zero3 n) = replicate (3 * n) 0"
  by (induction n) (simp_all add: zero3_def numeral_3_eq_3)

lemma cs_dot_zero: "n \<le> k \<Longrightarrow> cs_dot n (replicate k 0) (replicate k 0) = 0"
proof -
  assume "n \<le> k"
  then have "map (\<lambda>i. replicate k (0::real) ! i * replicate k 0 ! i) [0 ..< n] = map (\<lambda>i. 0) [0 ..< n]"
    by (intro map_cong) auto
  then have "cs_dot n (replicate k 0) (replicate k 0) = sum_list (map (\<lambda>i. 0::real) [0 ..< n])"
    unfolding cs_dot_def by (rule arg_cong)
  then show ?thesis by simp
qed

lemma l2_norm_zero:
  assumes "zero_field_setting m env var a b"
  shows "l2_norm_1 (env_mpi env) (3 * n_cells m) (concat (zero3 (n_cells_with_ghosts m))) = 0"
proof -
  have le: "3 * n_cells m \<le> 3 * n_cells_with_ghosts m"
    using assms by (simp add: zero_field_setting_def)
  have mp: "cs_glob_n_ranks (env_mpi env) > 1 \<Longrightarrow> mpi_allreduce_sum (env_mpi env) 0 = 0"
    using assms by (simp add: zero_field_setting_def)
  show ?thesis
    unfolding l2_norm_1_def concat_zero3 cs_dot_zero[OF le] Let_def using mp by simp
qed

lemma iterative_zero:
  assumes Z: "zero_field_setting m env var a b"
  shows "iterative_scalar_gradient m fvq env cpl w_stride var_name nswrgp hyd_p_flag verbosity inc
           epsrgp f_ext coefap coefbp var c_weight
           (zero3 (n_cells_with_ghosts m), gradient_info, gqs, out)
         = (zero3 (n_cells_with_ghosts m), info_update_iter gradient_info 0,
            (if nswrgp < 1 then gqs else snd (iter_s_get_cocg m fvq cpl gqs)), out)"
proof -
  have "(0::real) \<le> cs_math_epzero" by (simp add: cs_math_epzero_def)
  then show ?thesis
    unfolding iterative_scalar_gradient_def
    by (simp add: l2_norm_zero[OF Z] Let_def split: prod.splits)
qed



lemma lsq_rhsv_init_zero:
  assumes "zero_field_setting m env var a b"
  shows "lsq_rhsv_init m var = zero4 (n_cells_with_ghosts m)"
  unfolding lsq_rhsv_init_def zero4_def
  by (rule nth_equalityI) (use assms in \<open>auto simp: zero_field_setting_def\<close>)

lemma zero4_nth3: "c < n \<Longrightarrow> zero4 n ! c ! 3 = 0"
  by (simp add: zero4_def)

lemma zero4_nth: "c < n \<Longrightarrow> zero4 n ! c = [0, 0, 0, 0]"
  by (simp add: zero4_def)

lemma lsq_s_i_face_zero:
  assumes "rhsv ! (i_face_cells m ! f ! 0) ! 3 = 0" "rhsv ! (i_face_cells m ! f ! 1) ! 3 = 0"
  shows "lsq_s_i_face m fvq c_weight f rhsv = rhsv"
  using assms by (simp add: lsq_s_i_face_def Let_def add_vec3_zero_v split: option.splits)

lemma lsq_s_ext_neighbor_zero:
  assumes "rhsv ! ii ! 3 = 0" "rhsv ! (cell_cells_lst m ! cidx) ! 3 = 0"
  shows "lsq_s_ext_neighbor m fvq ii cidx rhsv = rhsv"
  using assms by (simp add: lsq_s_ext_neighbor_def Let_def add_vec3_zero_v)

lemma lsq_s_b_face_zero:
  assumes "rhsv ! (b_face_cells m ! f) ! 3 = 0" "coefap ! f = 0" "coefbp ! f = 1"
  shows "lsq_s_b_face m fvq None inc coefap coefbp f rhsv = rhsv"
  using assms by (simp add: lsq_s_b_face_def Let_def add_vec3_zero_k)

lemma zs_ranges:
  assumes "zero_field_setting m env var a b"
  shows "f \<in> set (i_face_ids (i_face_numbering m)) \<Longrightarrow> i_face_cells m ! f ! 0 < n_cells_with_ghosts m"
    "f \<in> set (i_face_ids (i_face_numbering m)) \<Longrightarrow> i_face_cells m ! f ! 1 < n_cells_with_ghosts m"
    "f \<in> set (b_face_ids (b_face_numbering m)) \<Longrightarrow> b_face_cells m ! f < n_cells_with_ghosts m"
    "n_cells m \<le> n_cells_with_ghosts m"
  using assms by (auto simp: zero_field_setting_def i_faces_in_range_def b_faces_in_range_def)

lemma zs_ext_range:
  assumes "zero_field_setting m env var a b" "cell_cells_idx m = Some idx" "ii < n_cells m"
    "cidx \<in> set [idx ! ii ..< idx ! (ii + 1)]"
  shows "cell_cells_lst m ! cidx < n_cells_with_ghosts m"
  using assms unfolding zero_field_setting_def ext_neighbors_in_range_def by blast

lemma lsq_s_cell_grad_zero:
  assumes "rhsv ! c ! 0 = 0" "rhsv ! c ! 1 = 0" "rhsv ! c ! 2 = 0"
  shows "lsq_s_cell_grad cocg rhsv c grad = grad[c := [0, 0, 0]]"
  using assms by (simp add: lsq_s_cell_grad_def)

lemma lsq_cell_grad_fold:
  assumes "n \<le> length grad" "\<forall>c < n. rhsv ! c ! 0 = 0 \<and> rhsv ! c ! 1 = 0 \<and> rhsv ! c ! 2 = 0"
  shows "length (fold (lsq_s_cell_grad cocg rhsv) [0 ..< n] grad) = length grad \<and>
         (\<forall>c < n. fold (lsq_s_cell_grad cocg rhsv) [0 ..< n] grad ! c = [0, 0, 0])"
  using assms
proof (induction n)
  case 0 then show ?case by simp
next
  case (Suc n)
  define G where "G = fold (lsq_s_cell_grad cocg rhsv) [0 ..< n] grad"
  have IH: "length G = length grad" "\<forall>c < n. G ! c = [0, 0, 0]"
    using Suc unfolding G_def by simp_all
  have r: "rhsv ! n ! 0 = 0" "rhsv ! n ! 1 = 0" "rhsv ! n ! 2 = 0" using Suc.prems by simp_all
  have step: "fold (lsq_s_cell_grad cocg rhsv) [0 ..< Suc n] grad = G[n := [0, 0, 0]]"
    unfolding upt_Suc_append[OF le0] fold_append comp_def fold.simps id_def G_def[symmetric]
    by (rule lsq_s_cell_grad_zero[OF r])
  show ?case unfolding step using IH Suc.prems(1)
    by (auto simp: nth_list_update less_Suc_eq)
qed

lemma zero4_comp: "c < n \<Longrightarrow> zero4 n ! c ! 0 = 0 \<and> zero4 n ! c ! 1 = 0 \<and> zero4 n ! c ! 2 = 0"
  by (simp add: zero4_def)

lemma lsq_rhsv_zero:
  assumes Z: "zero_field_setting m env var a b"
  shows "for_b_faces (b_face_numbering m)
           (lsq_s_b_face m fvq None inc (default_bc_coeff_a m a) (default_bc_coeff_b m b))
           (if halo_type = CS_HALO_EXTENDED
            then (case cell_cells_idx m of
                    Some idx \<Rightarrow> for_ext_neighbors (n_cells m) idx (lsq_s_ext_neighbor m fvq)
                                 (for_i_faces (i_face_numbering m) (lsq_s_i_face m fvq c_weight)
                                    (lsq_rhsv_init m var))
                  | None \<Rightarrow> for_i_faces (i_face_numbering m) (lsq_s_i_face m fvq c_weight)
                             (lsq_rhsv_init m var))
            else for_i_faces (i_face_numbering m) (lsq_s_i_face m fvq c_weight)
                   (lsq_rhsv_init m var))
         = zero4 (n_cells_with_ghosts m)"
proof -
  let ?R = "zero4 (n_cells_with_ghosts m)"
  have i: "for_i_faces (i_face_numbering m) (lsq_s_i_face m fvq c_weight) ?R = ?R"
    by (rule for_i_faces_id) (intro lsq_s_i_face_zero zero4_nth3 zs_ranges[OF Z])
  have e: "for_ext_neighbors (n_cells m) idx (lsq_s_ext_neighbor m fvq) ?R = ?R"
    if "cell_cells_idx m = Some idx" for idx
  proof (rule for_ext_neighbors_id)
    fix ii cidx assume a: "ii < n_cells m" "cidx \<in> set [idx ! ii ..< idx ! (ii + 1)]"
    have "ii < n_cells_with_ghosts m" using a(1) zs_ranges(4)[OF Z] by simp
    then show "lsq_s_ext_neighbor m fvq ii cidx ?R = ?R"
      by (intro lsq_s_ext_neighbor_zero zero4_nth3 zs_ext_range[OF Z that a])
  qed
  have b: "for_b_faces (b_face_numbering m)
           (lsq_s_b_face m fvq None inc (default_bc_coeff_a m a) (default_bc_coeff_b m b)) ?R = ?R"
    by (rule for_b_faces_id) (intro lsq_s_b_face_zero zero4_nth3 zs_ranges[OF Z] zs_b_cells[OF Z])
  show ?thesis unfolding lsq_rhsv_init_zero[OF Z]
    by (cases "cell_cells_idx m") (simp_all add: i e b)
qed

lemma lsq_grad_zero:
  assumes Z: "zero_field_setting m env var a b" and len: "length grad = n_cells_with_ghosts m"
  shows "sync_scalar_gradient_halo m ht
           (fold (lsq_s_cell_grad cocg (zero4 (n_cells_with_ghosts m))) [0 ..< n_cells m] grad)
         = zero3 (n_cells_with_ghosts m)"
proof -
  have n: "n_cells m \<le> n_cells_with_ghosts m" by (rule zs_ranges(4)[OF Z])
  have F: "length (fold (lsq_s_cell_grad cocg (zero4 (n_cells_with_ghosts m))) [0 ..< n_cells m] grad)
             = length grad \<and>
           (\<forall>c < n_cells m. fold (lsq_s_cell_grad cocg (zero4 (n_cells_with_ghosts m)))
                               [0 ..< n_cells m] grad ! c = [0, 0, 0])"
  proof (rule lsq_cell_grad_fold)
    show "n_cells m \<le> length grad" using n len by simp
    show "\<forall>c<n_cells m. zero4 (n_cells_with_ghosts m) ! c ! 0 = 0 \<and>
            zero4 (n_cells_with_ghosts m) ! c ! 1 = 0 \<and> zero4 (n_cells_with_ghosts m) ! c ! 2 = 0"
      using n by (intro allI impI zero4_comp) simp
  qed
  have hz: "halo_zero_fill m" using Z by (simp add: zero_field_setting_def)
  show ?thesis by (rule sync_owned_zero[OF hz _ _ n]) (use F len in auto)
qed

lemma lsq_scalar_gradient_zero:
  assumes Z: "zero_field_setting m env var a b" and len: "length grad = n_cells_with_ghosts m"
  shows "fst (lsq_scalar_gradient m fvq None halo_type recompute_cocg inc
                (default_bc_coeff_a m a) (default_bc_coeff_b m b) var c_weight (grad, gqs))
         = zero3 (n_cells_with_ghosts m)"
  unfolding lsq_scalar_gradient_def Let_def
  by (simp add: case_prod_beta lsq_rhsv_zero[OF Z] lsq_grad_zero[OF Z len])



lemma compute_ani_weighting_zero:
  "compute_ani_weighting wi wj 0 d a ii jj rhsv = rhsv"
  by (simp add: compute_ani_weighting_def case_prod_beta Let_def add_to_zero)

lemma lsq_ani_i_face_zero:
  assumes "snd s ! (i_face_cells m ! f ! 0) ! 3 = 0" "snd s ! (i_face_cells m ! f ! 1) ! 3 = 0"
  shows "snd (lsq_ani_i_face m fvq cw f s) = snd s"
  using assms
  by (simp add: lsq_ani_i_face_def case_prod_beta Let_def compute_ani_weighting_zero)

lemma lsq_ani_b_face_zero:
  assumes "snd s ! (b_face_cells m ! f) ! 3 = 0" "coefap ! f = 0" "coefbp ! f = 1"
  shows "snd (lsq_ani_b_face m fvq None inc coefap coefbp f s) = snd s"
  using assms by (simp add: lsq_ani_b_face_def Let_def add_vec3_zero_k)

lemma lsq_scalar_gradient_ani_zero:
  assumes Z: "zero_field_setting m env var a b" and len: "length grad = n_cells_with_ghosts m"
  shows "lsq_scalar_gradient_ani m fvq None inc (default_bc_coeff_a m a) (default_bc_coeff_b m b)
           var cw grad
         = zero3 (n_cells_with_ghosts m)"
proof -
  let ?R = "zero4 (n_cells_with_ghosts m)"
  let ?c0 = "replicate (n_cells_with_ghosts m) (replicate 6 (0::real))"
  define s1 where "s1 = for_i_faces (i_face_numbering m) (lsq_ani_i_face m fvq cw) (?c0, ?R)"
  define s2 where "s2 = for_b_faces (b_face_numbering m)
      (lsq_ani_b_face m fvq None inc (default_bc_coeff_a m a) (default_bc_coeff_b m b)) s1"
  have 1: "snd s1 = ?R"
    unfolding s1_def for_i_faces_fold
  proof (rule fold_inv[where P="\<lambda>s. snd s = ?R"])
    show "snd (?c0, ?R) = ?R" by simp
  next
    fix f and s :: "cs_cocg_6_t list \<times> real list list"
    assume f: "f \<in> set (i_face_ids (i_face_numbering m))" and s: "snd s = ?R"
    have a: "snd s ! (i_face_cells m ! f ! 0) ! 3 = 0" "snd s ! (i_face_cells m ! f ! 1) ! 3 = 0"
      unfolding s by (intro zero4_nth3 zs_ranges[OF Z] f)+
    show "snd (lsq_ani_i_face m fvq cw f s) = ?R"
      unfolding lsq_ani_i_face_zero[OF a] by (rule s)
  qed
  have 2: "snd s2 = ?R"
    unfolding s2_def for_b_faces_fold
  proof (rule fold_inv[where P="\<lambda>s. snd s = ?R"])
    show "snd s1 = ?R" by (rule 1)
  next
    fix f and s :: "cs_cocg_6_t list \<times> real list list"
    assume f: "f \<in> set (b_face_ids (b_face_numbering m))" and s: "snd s = ?R"
    have a: "snd s ! (b_face_cells m ! f) ! 3 = 0"
      unfolding s by (intro zero4_nth3 zs_ranges[OF Z] f)
    show "snd (lsq_ani_b_face m fvq None inc (default_bc_coeff_a m a) (default_bc_coeff_b m b) f s) = ?R"
      unfolding lsq_ani_b_face_zero[OF a zs_b_cells(2,3)[OF Z f]] by (rule s)
  qed
  have unf: "lsq_scalar_gradient_ani m fvq None inc (default_bc_coeff_a m a) (default_bc_coeff_b m b)
           var cw grad
      = sync_scalar_gradient_halo m CS_HALO_STANDARD
          (fold (lsq_s_cell_grad
                   (fold (\<lambda>cell_id cocg. cocg[cell_id := math_6_inv_cramer_sym_in_place (cocg ! cell_id)])
                      [0 ..< n_cells m] (fst s2))
                   (snd s2))
             [0 ..< n_cells m] grad)"
    unfolding lsq_scalar_gradient_ani_def Let_def lsq_rhsv_init_zero[OF Z] s2_def s1_def
    by (simp add: case_prod_beta)
  show ?thesis unfolding unf 2 by (rule lsq_grad_zero[OF Z len])
qed

lemma mul_by_fold3_zero3:
  "fold (\<lambda>ll grad. grad[ii := (grad ! ii)[ll := grad ! ii ! ll * k]]) [0, 1, 2] (zero3 n) = zero3 n"
  using mul_by_zero3[of ii _ k n] by (simp add: mul_by_def)

lemma clip_s_cell_apply_zero:
  "fst (clip_s_cell_apply climgp denum denom ii (zero3 n, t)) = zero3 n"
proof -
  have m: "\<And>j k. (zero3 n)[ii := (zero3 n ! ii)[j := zero3 n ! ii ! j * k]] = zero3 n"
    using mul_by_zero3[of ii _ _ n] by (simp add: mul_by_def)
  show ?thesis
    by (cases t) (simp add: clip_s_cell_apply_def Let_def m split: prod.splits)
qed

lemma clip_s_face_apply_zero:
  "fst (clip_s_face_apply clip_factor ii (zero3 n, t)) = zero3 n"
proof -
  obtain t1 t2 t3 where t: "t = (t1, t2, t3)" by (cases t)
  show ?thesis
    unfolding t clip_s_face_apply_def prod.case Let_def mul_by_fold3_zero3 by simp
qed

lemma fold_fst_inv:
  fixes f :: "'x \<Rightarrow> 'a \<times> 'b \<Rightarrow> 'a \<times> 'b"
  assumes "\<And>x t. fst (f x (z, t)) = z"
  shows "fst (fold f xs (z, t)) = z"
proof (rule fold_inv[where P="\<lambda>s. fst s = z"])
  show "fst (z, t) = z" by simp
next
  fix x and s :: "'a \<times> 'b" assume "fst s = z"
  then show "fst (f x s) = z" using assms[of x "snd s"] by (cases s) simp
qed

lemma halo_zero3:
  assumes Z: "zero_field_setting m env var a b" and h: "halo m = Some h"
  shows "cs_halo_perio_sync_var_vect h ht (cs_halo_sync_var_strided h ht (zero3 (n_cells_with_ghosts m)))
         = zero3 (n_cells_with_ghosts m)"
proof -
  have hz: "halo_zero_fill m" and n: "n_cells m \<le> n_cells_with_ghosts m"
    using Z by (simp_all add: zero_field_setting_def)
  have 1: "cs_halo_sync_var_strided h ht (zero3 (n_cells_with_ghosts m)) = zero3 (n_cells_with_ghosts m)"
    using hz h n by (simp add: halo_zero_fill_def zero3_length zero3_nth)
  show ?thesis unfolding 1 using hz h by (simp add: halo_zero_fill_def)
qed

lemma scalar_gradient_clipping_zero:
  assumes Z: "zero_field_setting m env var a b"
  shows "fst (scalar_gradient_clipping m fvq mp halo_type clip_mode verbosity climgp var_name var
                (zero3 (n_cells_with_ghosts m), out))
         = zero3 (n_cells_with_ghosts m)"
proof -
  let ?Z = "zero3 (n_cells_with_ghosts m)"
  have c: "\<And>denum denom t. fst (fold (clip_s_cell_apply climgp denum denom) [0 ..< n_cells m] (?Z, t)) = ?Z"
    by (rule fold_fst_inv) (rule clip_s_cell_apply_zero)
  have f: "\<And>cf t. fst (fold (clip_s_face_apply cf) [0 ..< n_cells m] (?Z, t)) = ?Z"
    by (rule fold_fst_inv) (rule clip_s_face_apply_zero)
  show ?thesis
  proof (cases "halo m")
    case None
    show ?thesis
      unfolding scalar_gradient_clipping_def Let_def
      by (simp add: None case_prod_beta c f)
  next
    case (Some h)
    show ?thesis
      unfolding scalar_gradient_clipping_def Let_def
      by (simp add: Some case_prod_beta c f halo_zero3[OF Z Some])
  qed
qed



lemma zero3_comp: "c < n \<Longrightarrow> zero3 n ! c ! 0 = 0 \<and> zero3 n ! c ! 1 = 0 \<and> zero3 n ! c ! 2 = 0"
  by (simp add: zero3_def)

lemma recon_s_std_i_face_zero:
  assumes "c_var ! (i_face_cells m ! f ! 0) = 0" "c_var ! (i_face_cells m ! f ! 1) = 0"
    "i_face_cells m ! f ! 0 < n" "i_face_cells m ! f ! 1 < n"
  shows "recon_s_std_i_face m fvq cws cwt c_var (zero3 n) f grad = grad"
  using assms zero3_comp[of "i_face_cells m ! f ! 0" n] zero3_comp[of "i_face_cells m ! f ! 1" n]
  by (simp add: recon_s_std_i_face_def Let_def add_to_zero sub_from_zero)

lemma recon_s_std_b_face_zero:
  assumes "c_var ! (b_face_cells m ! f) = 0" "coefap ! f = 0" "coefbp ! f = 1"
    "b_face_cells m ! f < n"
  shows "recon_s_std_b_face m fvq None inc coefap coefbp c_var (zero3 n) f grad = grad"
  using assms zero3_comp[of "b_face_cells m ! f" n]
  by (simp add: recon_s_std_b_face_def Let_def add_to_zero)

lemma set_zero_zero3: "(zero3 n)[c := (zero3 n ! c)[i := 0]] = zero3 n"
  using mul_by_zero3[of c i 0 n] by (simp add: mul_by_def)

lemma recon_s_cell_zero:
  assumes "c < n"
  shows "recon_s_cell fvq env vol c (zero3 n) = zero3 n"
proof -
  have g: "map (\<lambda>i. zero3 n ! c ! i) [0, 1, 2] = [0, 0, 0]"
    using assms by (simp add: zero3_def)
  have z: "fold (\<lambda>i grad. grad[c := (grad ! c)[i := 0]]) [0, 1, 2] (zero3 n) = zero3 n"
    by (simp add: set_zero_zero3)
  show ?thesis
    unfolding recon_s_cell_def Let_def scale_by_dvol_zero3 g z
    by (simp add: add_to_zero)
qed

lemma reconstruct_zero:
  assumes Z: "zero_field_setting m env var a b" and h: "hyd_p_flag \<noteq> 1"
  shows "reconstruct_scalar_gradient m fvq env None w_stride hyd_p_flag inc f_ext
           (default_bc_coeff_a m a) (default_bc_coeff_b m b) c_weight var
           (zero3 (n_cells_with_ghosts m))
         = zero3 (n_cells_with_ghosts m)"
proof -
  let ?Z = "zero3 (n_cells_with_ghosts m)"
  have i: "for_i_faces (i_face_numbering m)
             (recon_s_std_i_face m fvq (c_weight_s_of w_stride c_weight)
                (c_weight_t_of w_stride c_weight) var ?Z) ?Z = ?Z"
    by (rule for_i_faces_id) (intro recon_s_std_i_face_zero zs_i_cells[OF Z] zs_ranges[OF Z])
  have b: "for_b_faces (b_face_numbering m)
             (recon_s_std_b_face m fvq None inc (default_bc_coeff_a m a) (default_bc_coeff_b m b)
                var ?Z) ?Z = ?Z"
    by (rule for_b_faces_id) (intro recon_s_std_b_face_zero zs_b_cells[OF Z] zs_ranges[OF Z])
  have s: "fold (recon_s_cell fvq env (sel_cell_f_vol env fvq)) [0 ..< n_cells m] ?Z = ?Z"
  proof (rule fold_id)
    fix c assume "c \<in> set [0 ..< n_cells m]"
    then have "c < n_cells_with_ghosts m" using zs_ranges(4)[OF Z] by simp
    then show "recon_s_cell fvq env (sel_cell_f_vol env fvq) c ?Z = ?Z" by (rule recon_s_cell_zero)
  qed
  have y: "sync_scalar_gradient_halo m CS_HALO_EXTENDED ?Z = ?Z"
    using Z by (intro sync_zero3) (simp_all add: zero_field_setting_def)
  show ?thesis
    using h unfolding reconstruct_scalar_gradient_def Let_def
    by (simp add: zero3_def[symmetric] i b s y)
qed

lemma gradient_scalar_lsq_zero:
  assumes Z: "zero_field_setting m env var a b" and len: "length r_grad = n_cells_with_ghosts m"
  shows "fst (gradient_scalar_lsq lsq_hyd_p m fvq env var_name halo_type inc recompute_cocg 0
                w_stride verbosity clip_mode clip_coeff f_ext (default_bc_coeff_a m a)
                (default_bc_coeff_b m b) var c_weight None (r_grad, gqs, out))
         = zero3 (n_cells_with_ghosts m)"
proof -
  let ?Z = "zero3 (n_cells_with_ghosts m)"
  define k where "k = (case (if w_stride = 6 then c_weight else None) of
              Some cw \<Rightarrow>
                (lsq_scalar_gradient_ani m fvq None inc (default_bc_coeff_a m a)
                   (default_bc_coeff_b m b) var cw r_grad, gqs)
            | None \<Rightarrow> lsq_scalar_gradient m fvq None halo_type recompute_cocg inc
                       (default_bc_coeff_a m a) (default_bc_coeff_b m b) var c_weight (r_grad, gqs))"
  have k: "fst k = ?Z"
    unfolding k_def
    by (cases "if w_stride = 6 then c_weight else None")
       (simp_all add: lsq_scalar_gradient_ani_zero[OF Z len] lsq_scalar_gradient_zero[OF Z len])
  have unf: "gradient_scalar_lsq lsq_hyd_p m fvq env var_name halo_type inc recompute_cocg 0
                w_stride verbosity clip_mode clip_coeff f_ext (default_bc_coeff_a m a)
                (default_bc_coeff_b m b) var c_weight None (r_grad, gqs, out)
      = (fst (scalar_gradient_clipping m fvq (env_mpi env) halo_type clip_mode verbosity
                clip_coeff var_name var (fst k, out)),
         snd k,
         snd (scalar_gradient_clipping m fvq (env_mpi env) halo_type clip_mode verbosity
                clip_coeff var_name var (fst k, out)))"
    unfolding gradient_scalar_lsq_def k_def Let_def
    by (simp add: case_prod_beta split: option.splits)
  show ?thesis unfolding unf k by (simp add: scalar_gradient_clipping_zero[OF Z])
qed



lemma fold_fill_prefix:
  "k \<le> length xs \<Longrightarrow> fold (\<lambda>i a. a[i := v]) [0 ..< k] xs = replicate k v @ drop k xs"
proof (induction k)
  case 0 show ?case by simp
next
  case (Suc k)
  have k: "k < length xs" using Suc.prems by simp
  have "fold (\<lambda>i a. a[i := v]) [0 ..< Suc k] xs = (replicate k v @ drop k xs)[k := v]"
    using Suc.IH k by simp
  also have "\<dots> = replicate k v @ (drop k xs)[0 := v]"
    by (simp add: list_update_append)
  also have "(drop k xs)[0 := v] = v # drop (Suc k) xs"
    using k by (simp add: Cons_nth_drop_Suc[symmetric])
  finally show ?case by (simp add: replicate_append_same)
qed

lemma default_bc_coeff_a_None: "default_bc_coeff_a m None = replicate (n_b_faces m) 0"
  unfolding default_bc_coeff_a_def by (simp add: fold_fill_prefix)

lemma default_bc_coeff_b_None: "default_bc_coeff_b m None = replicate (n_b_faces m) 1"
  unfolding default_bc_coeff_b_def by (simp add: fold_fill_prefix)

lemma default_bc_coeff_a_Some: "default_bc_coeff_a m (Some a) = a"
  unfolding default_bc_coeff_a_def by simp

lemma default_bc_coeff_b_Some: "default_bc_coeff_b m (Some b) = b"
  unfolding default_bc_coeff_b_def by simp


text \<open>
  Claim C3, as amended. In exact arithmetic, with the hydrostatic flag off and no internal
  coupling, on a mesh whose connectivity is in range and whose geometry and weights are
  not degenerate (no divisor the call meets is zero: cell volumes and face weight sums for
  the Green-Gauss kernels; distances of cell centres, distances and surfaces of boundary
  faces, weight sums or weight tensors, and the determinants of the covariance matrices
  that are inverted, for the least-squares kernels), for a field that is zero on every
  cell (ghost cells included), boundary coefficients \<open>a = 0\<close>, \<open>b = 1\<close> (given, or built by
  default), a halo exchange that returns zeros where every owned value is zero, and a
  regularisation and a global sum that keep zero: one call of the scalar dispatcher
  returns the zero gradient on every cell, for each of the three schemes, every sweep cap
  and every clip setting. With the iterative scheme the driver returns at once, recording
  zero sweeps and printing nothing.
\<close>

theorem zero_field_zero_gradient:
  assumes Z: "zero_field_setting m env var bc_coeff_a bc_coeff_b"
    and nd: "scalar_call_nondegenerate m fvq env None gradient_type halo_type w_stride c_weight
               (real_of_int inc) (default_bc_coeff_a m bc_coeff_a)
               (default_bc_coeff_b m bc_coeff_b) var
               (fst (gradient_scalar_recompute_cocg env var_name inc check_recompute_cocg st)) gqs"
    and ty: "gradient_type \<noteq> CS_GRADIENT_GREEN_VTX"
    and len: "length grad = n_cells_with_ghosts m"
    and lenr: "length r_grad_mem = n_cells_with_ghosts m"
  shows "fst (gradient_scalar lsq_hyd_p m fvq env r_grad_mem var_name gradient_type halo_type inc
                check_recompute_cocg n_r_sweeps 0 w_stride verbosity clip_mode epsilon clip_coeff
                f_ext bc_coeff_a bc_coeff_b var c_weight None
                (grad, gradient_info, gqs, st, out))
         = zero3 (n_cells_with_ghosts m) \<and>
         (gradient_type = CS_GRADIENT_GREEN_ITER \<longrightarrow>
            fst (snd (gradient_scalar lsq_hyd_p m fvq env r_grad_mem var_name gradient_type
                        halo_type inc check_recompute_cocg n_r_sweeps 0 w_stride verbosity
                        clip_mode epsilon clip_coeff f_ext bc_coeff_a bc_coeff_b var c_weight None
                        (grad, gradient_info, gqs, st, out)))
            = info_update_iter gradient_info 0 \<and>
            snd (snd (snd (snd (gradient_scalar lsq_hyd_p m fvq env r_grad_mem var_name
                        gradient_type halo_type inc check_recompute_cocg n_r_sweeps 0 w_stride
                        verbosity clip_mode epsilon clip_coeff f_ext bc_coeff_a bc_coeff_b var
                        c_weight None (grad, gradient_info, gqs, st, out)))))
            = out)"
proof -
  let ?Z = "zero3 (n_cells_with_ghosts m)"
  have reg: "bad_cells_regularisation env \<Longrightarrow> cs_bad_cells_regularisation_vector env ?Z = ?Z"
    using Z by (simp add: zero_field_setting_def)
  note init = initialize_zero[OF Z, of 0 fvq w_stride "real_of_int inc" f_ext c_weight, simplified]
  show ?thesis
  proof (cases gradient_type)
    case CS_GRADIENT_GREEN_ITER
    show ?thesis
      unfolding gradient_scalar_def Let_def CS_GRADIENT_GREEN_ITER
      by (simp add: case_prod_beta init iterative_zero[OF Z] reg)
  next
    case CS_GRADIENT_LSQ
    show ?thesis
      unfolding gradient_scalar_def Let_def CS_GRADIENT_LSQ
      by (simp add: case_prod_beta gradient_scalar_lsq_zero[OF Z len] reg)
  next
    case CS_GRADIENT_GREEN_LSQ
    note rec = reconstruct_zero[OF Z, of 0 fvq w_stride "real_of_int inc" f_ext c_weight, simplified]
    show ?thesis
      unfolding gradient_scalar_def Let_def CS_GRADIENT_GREEN_LSQ
      by (simp add: case_prod_beta gradient_scalar_lsq_zero[OF Z lenr] rec reg)
  next
    case CS_GRADIENT_GREEN_VTX
    then show ?thesis using ty by simp
  qed
qed

lemma upt_0_6: "[0..<6] = [0, 1, 2, 3, 4, 5]" by (simp add: upt_rec)
lemma replicate_1: "replicate 1 x = [x]" by simp
lemma replicate_6: "replicate 6 x = [x, x, x, x, x, x]" by (simp add: eval_nat_numeral)
lemma update_6:
  "[a0, a1, a2, a3, a4, a5][0 := v] = [v, a1, a2, a3, a4, a5]"
  "[a0, a1, a2, a3, a4, a5][1 := v] = [a0, v, a2, a3, a4, a5]"
  "[a0, a1, a2, a3, a4, a5][Suc 0 := v] = [a0, v, a2, a3, a4, a5]"
  "[a0, a1, a2, a3, a4, a5][2 := v] = [a0, a1, v, a3, a4, a5]"
  "[a0, a1, a2, a3, a4, a5][3 := v] = [a0, a1, a2, v, a4, a5]"
  "[a0, a1, a2, a3, a4, a5][4 := v] = [a0, a1, a2, a3, v, a5]"
  "[a0, a1, a2, a3, a4, a5][5 := v] = [a0, a1, a2, a3, a4, v]"
  by (simp_all add: eval_nat_numeral)

lemma mesh_cube_simps:
  "n_cells mesh_cube = 1" "n_cells_with_ghosts mesh_cube = 1"
  "n_i_faces mesh_cube = 0" "n_b_faces mesh_cube = 6" "n_b_cells mesh_cube = 1"
  "i_face_cells mesh_cube = []" "b_face_cells mesh_cube = [0, 0, 0, 0, 0, 0]"
  "b_cells mesh_cube = [0]" "cell_cells_idx mesh_cube = None"
  "i_face_numbering mesh_cube = \<lparr> n_threads = 1, n_groups = 1, group_index = [0, 0] \<rparr>"
  "b_face_numbering mesh_cube = \<lparr> n_threads = 1, n_groups = 1, group_index = [0, 6] \<rparr>"
  "halo mesh_cube = None"
  by (simp_all add: mesh_cube_def)

lemma face_ids_cube:
  "i_face_ids (i_face_numbering mesh_cube) = []"
  "b_face_ids (b_face_numbering mesh_cube) = [0, 1, 2, 3, 4, 5]"
  by (simp_all add: i_face_ids_def b_face_ids_def mesh_cube_simps upt_0_1 upt_0_6)

lemma normalize_axes:
  "cs_math_3_normalize [1, 0, 0] = [1, 0, 0]" "cs_math_3_normalize [- 1, 0, 0] = [- 1, 0, 0]"
  "cs_math_3_normalize [0, 1, 0] = [0, 1, 0]" "cs_math_3_normalize [0, - 1, 0] = [0, - 1, 0]"
  "cs_math_3_normalize [0, 0, 1] = [0, 0, 1]" "cs_math_3_normalize [0, 0, - 1] = [0, 0, - 1]"
  by (simp_all add: cs_math_3_normalize_def cs_math_3_norm_def cs_math_zero_threshold_def Let_def)

lemma zero_setting_cube:
  "zero_field_setting mesh_cube env_plain [0] None None"
  unfolding zero_field_setting_def i_faces_in_range_def ext_neighbors_in_range_def
    b_faces_in_range_def halo_zero_fill_def neumann_bc_def face_ids_cube
    default_bc_coeff_a_None default_bc_coeff_b_None
  by (simp add: mesh_cube_simps env_plain_simps)

lemma lsq_cocg_accumulated_cube:
  "lsq_cocg_accumulated mesh_cube False fvq_cube None = [[2, 2, 2, 0, 0, 0]]"
  unfolding lsq_cocg_accumulated_def for_b_faces_fold for_i_faces_fold cocg_lsq_interior_def
    face_ids_cube
  by (simp add: mesh_cube_simps fvq_cube_def cocg_lsq_b_face_def is_coupled_face_def
      cocg_lsq_add_def cocg_6_add_def normalize_axes replicate_6 update_6 Let_def)

lemma compute_cell_cocg_lsq_accumulated:
  "compute_cell_cocg_lsq m extended fvq ce gq =
    (let cocg = fold (\<lambda>c_id cocg. cocg[c_id := math_6_inv_cramer_sym_in_place (cocg ! c_id)])
                  [0 ..< n_cells m] (lsq_cocg_accumulated m extended fvq ce);
         cocgb = map (\<lambda>ii. map (\<lambda>ll. cocg_lsq_interior m extended fvq ce ! (b_cells m ! ii) ! ll)
                               [0 ..< 6]) [0 ..< n_b_cells m]
     in if extended then gq\<lparr> cocg_lsq_ext := Some cocg, cocgb_s_lsq_ext := Some cocgb \<rparr>
        else gq\<lparr> cocg_lsq := Some cocg, cocgb_s_lsq := Some cocgb \<rparr>)"
  by (simp add: compute_cell_cocg_lsq_def lsq_cocg_accumulated_def Let_def)

lemma cocg_lsq_interior_cube:
  "cocg_lsq_interior mesh_cube False fvq_cube None = [[0, 0, 0, 0, 0, 0]]"
  unfolding cocg_lsq_interior_def for_i_faces_fold face_ids_cube
  by (simp add: mesh_cube_simps replicate_6)

lemma get_cell_cocg_lsq_cube:
  "fst (get_cell_cocg_lsq mesh_cube CS_HALO_STANDARD fvq_cube None [])
   = ([[1/2, 1/2, 1/2, 0, 0, 0]], [[0, 0, 0, 0, 0, 0]])"
  unfolding get_cell_cocg_lsq_def compute_cell_cocg_lsq_accumulated Let_def
  by (simp add: gradient_quantities_get_def gradient_quantities_empty_def lsq_extended_def
      cached_array_def mesh_cube_simps lsq_cocg_accumulated_cube cocg_lsq_interior_cube
      math_6_inv_cramer_sym_in_place_def upt_0_1 upt_0_6 update_6 Let_def)

lemma lsq_recompute_accumulated_cube:
  "lsq_recompute_accumulated mesh_cube fvq_cube None [1, 1, 1, 1, 1, 1] [[0, 0, 0, 0, 0, 0]]
     [[1/2, 1/2, 1/2, 0, 0, 0]] = [[2, 2, 2, 0, 0, 0]]"
  unfolding lsq_recompute_accumulated_def for_b_faces_fold face_ids_cube
  by (simp add: coupled_cocg_def recompute_lsq_restore_def mesh_cube_simps fvq_cube_def
      recompute_lsq_b_face_def recompute_lsq_dddij_def is_coupled_face_def cocg_lsq_add_def
      cocg_6_add_def upt_0_1 upt_0_6 update_6 Let_def)

lemma fvq_cube_simps:
  "b_dist fvq_cube = [1/2, 1/2, 1/2, 1/2, 1/2, 1/2]" "b_face_surf fvq_cube = [1, 1, 1, 1, 1, 1]"
  "cell_f_vol fvq_cube = [1]" "cell_vol fvq_cube = [1]" "has_disable_flag fvq_cube = 0"
  "c_disable_flag fvq_cube = [0]"
  by (simp_all add: fvq_cube_def)

lemma nondegenerate_cube:
  "scalar_call_nondegenerate mesh_cube fvq_cube env_plain None CS_GRADIENT_GREEN_LSQ
     CS_HALO_STANDARD 1 None 1 [0, 0, 0, 0, 0, 0] [1, 1, 1, 1, 1, 1] [0] True []"
  unfolding scalar_call_nondegenerate_def lsq_stage_nondegenerate_def lsq_geometry_nonzero_def
    b_faces_nonzero_def lsq_weights_nonzero_def lsq_cocg_nonsingular_def cell_vol_nonzero_def
    face_weights_nonzero_def face_ids_cube get_cell_cocg_lsq_cube Let_def fst_conv snd_conv
  by (simp add: lsq_extended_def gradient_quantities_get_def gradient_quantities_empty_def
      lsq_cocg_accumulated_cube lsq_recompute_accumulated_cube mesh_cube_simps fvq_cube_simps
      sel_cell_f_vol_def env_plain_simps sym6_det_def)

lemma recompute_cube:
  "fst (gradient_scalar_recompute_cocg env_plain ''p'' 1 False gradient_scalar_statics_init) = True"
  by (simp add: gradient_scalar_recompute_cocg_def Let_def)

lemma nd_cube_call:
  "scalar_call_nondegenerate mesh_cube fvq_cube env_plain None CS_GRADIENT_GREEN_LSQ
     CS_HALO_STANDARD 1 None (real_of_int 1) (default_bc_coeff_a mesh_cube None)
     (default_bc_coeff_b mesh_cube None) [0]
     (fst (gradient_scalar_recompute_cocg env_plain ''p'' 1 False gradient_scalar_statics_init)) []"
  unfolding recompute_cube default_bc_coeff_a_None default_bc_coeff_b_None
  using nondegenerate_cube by (simp add: mesh_cube_simps replicate_6)

text \<open>The amended claim C3 on one cubic cell with its six boundary faces, Green-Gauss with
  least-squares face values, cell-based clipping: the covariance matrix of the cell is
  twice the identity, at the first computation and at the recomputation.\<close>

theorem zero_field_zero_gradient_witness:
  "zero_field_setting mesh_cube env_plain [0] None None \<and>
   scalar_call_nondegenerate mesh_cube fvq_cube env_plain None CS_GRADIENT_GREEN_LSQ
     CS_HALO_STANDARD 1 None 1 [0, 0, 0, 0, 0, 0] [1, 1, 1, 1, 1, 1] [0] True [] \<and>
   fst (gradient_scalar lsq_hyd_p_unreached mesh_cube fvq_cube env_plain
          [[5, 5, 5]] ''p'' CS_GRADIENT_GREEN_LSQ CS_HALO_STANDARD 1 False 2 0 1 0
          CS_GRADIENT_LIMIT_CELL 1 1 [] None None [0] None None
          ([[7, 7, 7]], None, [], gradient_scalar_statics_init, []))
   = [[0, 0, 0]]"
proof -
  have g: "fst (gradient_scalar lsq_hyd_p_unreached mesh_cube fvq_cube env_plain
          [[5, 5, 5]] ''p'' CS_GRADIENT_GREEN_LSQ CS_HALO_STANDARD 1 False 2 0 1 0
          CS_GRADIENT_LIMIT_CELL 1 1 [] None None [0] None None
          ([[7, 7, 7]], None, [], gradient_scalar_statics_init, []))
   = [[0, 0, 0]]"
    using zero_field_zero_gradient[OF zero_setting_cube nd_cube_call,
      where grad="[[7, 7, 7]]" and r_grad_mem="[[5, 5, 5]]" and lsq_hyd_p=lsq_hyd_p_unreached
        and n_r_sweeps=2 and verbosity=0
        and clip_mode=CS_GRADIENT_LIMIT_CELL and epsilon=1 and clip_coeff=1 and f_ext="[]"
        and gradient_info=None and out="[]"]
    by (simp add: mesh_cube_simps zero3_def replicate_1 del: One_nat_def)
  show ?thesis by (intro conjI zero_setting_cube nondegenerate_cube g)
qed

lemma default_bc_one_b_cell:
  "default_bc_coeff_a mesh_one_b_cell None = [0]" "default_bc_coeff_b mesh_one_b_cell None = [1]"
  by (simp_all add: default_bc_coeff_a_def default_bc_coeff_b_def mesh_one_b_cell_simps upt_0_1)

lemma init_hyd_one_b_cell:
  "initialize_scalar_gradient mesh_one_b_cell fvq_one_b_cell env_plain None 1 1 1
     [[1, 0, 0], [1, 0, 0]] [0] [1] [0, 0] None
   = [[0, 0, 0], [1/2, 0, 0]]"
  by (simp add: initialize_scalar_gradient_def sel_cell_f_vol_def env_plain_simps c_weight_s_of_def
      c_weight_t_of_def mesh_one_b_cell_simps fvq_one_b_cell_def for_i_faces_def for_b_faces_def
      init_s_hyd_i_face_def init_s_hyd_b_face_def poro_arrays_def face_ktpond_def add_to_def
      sub_from_def mul_by_def scale_by_dvol_def cell_dvol_def sync_scalar_gradient_halo_def
      upt_0_1 upt_0_2 upt_0_Suc0 replicate_2 Let_def)

text \<open>The same mesh and zero field with the hydrostatic flag set and a unit force along
  \<open>x\<close>: the boundary cell gets the gradient \<open>(1/2, 0, 0)\<close>.\<close>

theorem zero_field_hydrostatic_counterexample:
  "fst (gradient_scalar lsq_hyd_p_unreached mesh_one_b_cell fvq_one_b_cell env_plain
          [] ''p'' CS_GRADIENT_GREEN_ITER CS_HALO_STANDARD 1 False 0 1 1 0
          CS_GRADIENT_LIMIT_NONE 1 1 [[1, 0, 0], [1, 0, 0]] None None [0, 0] None None
          ([[0, 0, 0], [0, 0, 0]], None, [], gradient_scalar_statics_init, []))
   = [[0, 0, 0], [1/2, 0, 0]]"
  unfolding gradient_scalar_def Let_def default_bc_one_b_cell
  by (simp add: case_prod_beta init_hyd_one_b_cell iterative_scalar_gradient_def env_plain_simps
      gradient_scalar_recompute_cocg_def info_update_iter_def del: One_nat_def)

subsection \<open>Null boundary coefficients\<close>

lemma default_bc_coeff_a_strided_None:
  "default_bc_coeff_a_strided d m None = homogeneous_neumann_a d (n_b_faces m)"
  unfolding default_bc_coeff_a_strided_def homogeneous_neumann_a_def
  by (simp add: map_replicate_const)

lemma identity_row:
  assumes "j < d"
  shows "(map (\<lambda>k. 0 :: real) [0 ..< d])[j := 1] = map (\<lambda>k. if j = k then 1 else 0) [0 ..< d]"
  using assms by (auto simp: list_eq_iff_nth_eq nth_list_update)

lemma default_bc_coeff_b_strided_None:
  "default_bc_coeff_b_strided d m None = homogeneous_neumann_b d (n_b_faces m)"
proof -
  have "map (\<lambda>j. (map (\<lambda>k. 0 :: real) [0 ..< d])[j := 1]) [0 ..< d] = identity_matrix d"
    unfolding identity_matrix_def by (rule map_cong[OF refl]) (simp add: identity_row)
  thus ?thesis
    unfolding default_bc_coeff_b_strided_def homogeneous_neumann_b_def
    by (simp add: map_replicate_const)
qed

lemma default_bc_coeff_a_strided_Some: "default_bc_coeff_a_strided d m (Some a) = a"
  unfolding default_bc_coeff_a_strided_def by simp

lemma default_bc_coeff_b_strided_Some: "default_bc_coeff_b_strided d m (Some b) = b"
  unfolding default_bc_coeff_b_strided_def by simp

text \<open>Claim C5, as amended. For the three dispatchers behind the mesh-wide entry points
  (\<^verbatim>\<open>_gradient_scalar\<close>, \<^verbatim>\<open>_gradient_vector\<close>, \<^verbatim>\<open>_gradient_tensor\<close>), for every scheme
  and every other argument, a call with both boundary coefficient arrays null returns what
  the call with the explicit homogeneous Neumann coefficients returns: a zero additive
  term and the identity of the rank of the field as linear term at every boundary face.\<close>

theorem null_bc_is_homogeneous_neumann:
  "gradient_scalar L mesh fvq env r_grad_mem var_name gradient_type halo_type inc
     check_recompute_cocg n_r_sweeps hyd_p_flag w_stride verbosity clip_mode epsilon clip_coeff
     f_ext None None var c_weight cpl s
   = gradient_scalar L mesh fvq env r_grad_mem var_name gradient_type halo_type inc
     check_recompute_cocg n_r_sweeps hyd_p_flag w_stride verbosity clip_mode epsilon clip_coeff
     f_ext (Some (replicate (n_b_faces mesh) 0)) (Some (replicate (n_b_faces mesh) 1))
     var c_weight cpl s
   \<and> gradient_vector K mesh fvq env r_gradv_mem var_name gradient_info gradient_type halo_type
       inc n_r_sweeps verbosity clip_mode epsilon clip_coeff None None var_v c_weight cpl s_v
     = gradient_vector K mesh fvq env r_gradv_mem var_name gradient_info gradient_type halo_type
       inc n_r_sweeps verbosity clip_mode epsilon clip_coeff
       (Some (homogeneous_neumann_a 3 (n_b_faces mesh)))
       (Some (homogeneous_neumann_b 3 (n_b_faces mesh))) var_v c_weight cpl s_v
   \<and> gradient_tensor X ndebug mesh fvq env var_name gradient_info gradient_type halo_type
       inc n_r_sweeps verbosity clip_mode epsilon clip_coeff None None var_t s_t
     = gradient_tensor X ndebug mesh fvq env var_name gradient_info gradient_type halo_type
       inc n_r_sweeps verbosity clip_mode epsilon clip_coeff
       (Some (homogeneous_neumann_a 6 (n_b_faces mesh)))
       (Some (homogeneous_neumann_b 6 (n_b_faces mesh))) var_t s_t"
  unfolding gradient_scalar_def gradient_vector_def gradient_tensor_def
    default_bc_coeff_a_None default_bc_coeff_b_None default_bc_coeff_a_Some
    default_bc_coeff_b_Some default_bc_coeff_a_strided_None default_bc_coeff_b_strided_None
    default_bc_coeff_a_strided_Some default_bc_coeff_b_strided_Some
  by (intro conjI refl)

text \<open>The theorem at a tensor field on two cells with one boundary face.\<close>

lemma tensor_null_bc_example:
  "gradient_tensor tensor_kernels_unreached False mesh_one_b_cell fvq_one_b_cell env_plain
     ''rij'' None CS_GRADIENT_GREEN_ITER CS_HALO_STANDARD 1 1 0 (- 1) 0 0 None None
     [[1, 0, 0, 0, 0, 0], [3, 0, 0, 0, 0, 0]] ([], [], [], [])
   = Inr ([[[1, 0, 0], [0, 0, 0], [0, 0, 0], [0, 0, 0], [0, 0, 0], [0, 0, 0]],
           [[1, 0, 0], [0, 0, 0], [0, 0, 0], [0, 0, 0], [0, 0, 0], [0, 0, 0]]], [], [], [])"
  by code_simp

theorem null_bc_is_homogeneous_neumann_witness:
  "gradient_tensor tensor_kernels_unreached False mesh_one_b_cell fvq_one_b_cell env_plain
     ''rij'' None CS_GRADIENT_GREEN_ITER CS_HALO_STANDARD 1 1 0 (- 1) 0 0
     (Some (homogeneous_neumann_a 6 (n_b_faces mesh_one_b_cell)))
     (Some (homogeneous_neumann_b 6 (n_b_faces mesh_one_b_cell)))
     [[1, 0, 0, 0, 0, 0], [3, 0, 0, 0, 0, 0]] ([], [], [], [])
   = Inr ([[[1, 0, 0], [0, 0, 0], [0, 0, 0], [0, 0, 0], [0, 0, 0], [0, 0, 0]],
           [[1, 0, 0], [0, 0, 0], [0, 0, 0], [0, 0, 0], [0, 0, 0], [0, 0, 0]]], [], [], [])"
  using null_bc_is_homogeneous_neumann
          [where X = tensor_kernels_unreached and ndebug = False and mesh = mesh_one_b_cell
             and fvq = fvq_one_b_cell and env = env_plain and var_name = "''rij''"
             and gradient_info = None and gradient_type = CS_GRADIENT_GREEN_ITER
             and halo_type = CS_HALO_STANDARD and inc = 1 and n_r_sweeps = 1 and verbosity = 0
             and clip_mode = "- 1" and epsilon = 0 and clip_coeff = 0
             and var_t = "[[1, 0, 0, 0, 0, 0], [3, 0, 0, 0, 0, 0]]" and s_t = "([], [], [], [])"]
        tensor_null_bc_example
  by simp

text \<open>The single-cell variant \<^verbatim>\<open>cs_gradient_scalar_cell\<close> reads null coefficients
  differently: the boundary face contributes along the direction from the cell centre to
  the face centre, not along the face normal as with explicit coefficients \<open>a = 0\<close>,
  \<open>b = 1\<close>. On a cell whose boundary face centre is off the normal the two gradients
  differ.\<close>

theorem scalar_cell_null_bc_counterexample:
  "cs_gradient_scalar_cell ma_skewed_b_face mesh_skewed_b_face fvq_skewed_b_face 0
     CS_HALO_STANDARD None None [0, 1, 1] None = [1, 1, - 1] \<and>
   cs_gradient_scalar_cell ma_skewed_b_face mesh_skewed_b_face fvq_skewed_b_face 0
     CS_HALO_STANDARD (Some (replicate 1 0)) (Some (replicate 1 1)) [0, 1, 1] None = [1, 1, 0]"
  by code_simp

subsection \<open>Schemes without a kernel\<close>
















end
